(* ===== verification/Prelude.thy ===== *)
theory Prelude
  imports Main "HOL-Library.AList" "HOL-Library.Sublist" "HOL-Library.List_Lexorder"
    "HOL-Library.Char_ord"
begin

text \<open>
  The shared vocabulary of the development: the state-and-error monad in which the Go
  methods are written, the predicate transformers the component proofs use
  (\<open>preserves\<close> for invariants of the state, \<open>ensures\<close> for results), the
  collections of rules they fill, and the few generic lemmas on strings and association
  lists that several components need.

  A Go method that returns \<open>(T, error)\<close> and may change the backend is a function
  \<open>'s \<Rightarrow> ('e + 'a) \<times> 's\<close>. \<open>bindM m f\<close> is the sequence
  \<^verbatim>\<open>x, err := m; if err != nil { return err }; f(x)\<close>: the state an aborted
  step has reached is kept, as in Go.
\<close>

section \<open>The state-and-error monad\<close>

type_synonym ('s, 'e, 'a) sem = "'s \<Rightarrow> ('e + 'a) \<times> 's"

definition returnM :: "'a \<Rightarrow> ('s, 'e, 'a) sem" where
  "returnM x = (\<lambda>w. (Inr x, w))"

definition throwM :: "'e \<Rightarrow> ('s, 'e, 'a) sem" where
  "throwM e = (\<lambda>w. (Inl e, w))"

definition bindM :: "('s, 'e, 'a) sem \<Rightarrow> ('a \<Rightarrow> ('s, 'e, 'b) sem) \<Rightarrow> ('s, 'e, 'b) sem" where
  "bindM m f = (\<lambda>w. case m w of (r, w') \<Rightarrow>
     (case r of Inl e \<Rightarrow> (Inl e, w') | Inr x \<Rightarrow> f x w'))"

definition thenM :: "('s, 'e, 'a) sem \<Rightarrow> ('s, 'e, 'b) sem \<Rightarrow> ('s, 'e, 'b) sem" where
  "thenM m k = bindM m (\<lambda>_. k)"

definition getsM :: "('s \<Rightarrow> 'a) \<Rightarrow> ('s, 'e, 'a) sem" where
  "getsM f = (\<lambda>w. (Inr (f w), w))"

definition modifyM :: "('s \<Rightarrow> 's) \<Rightarrow> ('s, 'e, unit) sem" where
  "modifyM f = (\<lambda>w. (Inr (), f w))"

text \<open>\<^verbatim>\<open>x, err := m\<close> where the code looks at \<open>err\<close> itself instead of returning it.\<close>

definition tryM :: "('s, 'e, 'a) sem \<Rightarrow> ('s, 'e, 'e + 'a) sem" where
  "tryM m = (\<lambda>w. case m w of (r, w') \<Rightarrow> (Inr r, w'))"

text \<open>A loop over a slice that threads an accumulator (the response, a flag) through the body.\<close>

fun foldM :: "('x \<Rightarrow> 'a \<Rightarrow> ('s, 'e, 'a) sem) \<Rightarrow> 'x list \<Rightarrow> 'a \<Rightarrow> ('s, 'e, 'a) sem" where
  "foldM f [] a = returnM a"
| "foldM f (x # xs) a = bindM (f x a) (foldM f xs)"

lemma returnM_apply: "returnM x w = (Inr x, w)"
  by (simp add: returnM_def)

lemma throwM_apply: "throwM e w = (Inl e, w)"
  by (simp add: throwM_def)

lemma getsM_apply: "getsM f w = (Inr (f w), w)"
  by (simp add: getsM_def)

lemma modifyM_apply: "modifyM f w = (Inr (), f w)"
  by (simp add: modifyM_def)

lemma bindM_apply: "bindM m f w = (case m w of (Inl e, w') \<Rightarrow> (Inl e, w') | (Inr x, w') \<Rightarrow> f x w')"
  by (simp add: bindM_def split: prod.split sum.split)

lemma bindM_ok [simp]: "m w = (Inr x, w') \<Longrightarrow> bindM m f w = f x w'"
  by (simp add: bindM_def)

lemma bindM_err [simp]: "m w = (Inl e, w') \<Longrightarrow> bindM m f w = (Inl e, w')"
  by (simp add: bindM_def)

lemma thenM_ok [simp]: "m w = (Inr x, w') \<Longrightarrow> thenM m k w = k w'"
  by (simp add: thenM_def)

lemma thenM_err [simp]: "m w = (Inl e, w') \<Longrightarrow> thenM m k w = (Inl e, w')"
  by (simp add: thenM_def)

lemma tryM_apply: "tryM m w = (Inr (fst (m w)), snd (m w))"
  by (simp add: tryM_def split: prod.split)

lemma returnM_bind [simp]: "bindM (returnM x) f = f x"
  by (rule ext) (simp add: returnM_apply)

lemma throwM_bind [simp]: "bindM (throwM e) f = throwM e"
  by (rule ext) (simp add: throwM_apply)

lemma bindM_return [simp]: "bindM m returnM = m"
  by (rule ext) (simp add: bindM_def returnM_apply split: prod.split sum.split)

lemmas run_simps = returnM_apply throwM_apply getsM_apply modifyM_apply tryM_apply

lemma bindM_assoc: "bindM (bindM m f) g = bindM m (\<lambda>x. bindM (f x) g)"
  by (rule ext) (simp add: bindM_def split: prod.split sum.split)

lemma foldM_append: "foldM f (xs @ ys) a = bindM (foldM f xs a) (foldM f ys)"
proof (induction xs arbitrary: a)
  case (Cons x xs)
  then have "foldM f (xs @ ys) = (\<lambda>b. bindM (foldM f xs b) (foldM f ys))" by blast
  then show ?case by (simp add: bindM_assoc)
qed simp

section \<open>Invariants of the state: preserves\<close>

text \<open>
  \<open>preserves I m\<close>: whatever \<open>m\<close> returns, a value or an error, the state it leaves
  satisfies \<open>I\<close> if the state it found did. The rules below follow the syntax of a
  method, so that the proof for a handler is one \<open>intro\<close> over \<open>preserves_rules\<close>.
\<close>

named_theorems preserves_rules \<open>introduction rules for \<open>preserves\<close>\<close>

definition preserves :: "('s \<Rightarrow> bool) \<Rightarrow> ('s, 'e, 'a) sem \<Rightarrow> bool" where
  "preserves I m \<longleftrightarrow> (\<forall>w. I w \<longrightarrow> I (snd (m w)))"

lemma preservesD: "preserves I m \<Longrightarrow> I w \<Longrightarrow> m w = (r, w') \<Longrightarrow> I w'"
  by (metis preserves_def snd_conv)

lemma preserves_snd: "preserves I m \<Longrightarrow> I w \<Longrightarrow> I (snd (m w))"
  by (simp add: preserves_def)

lemma preservesI: "(\<And>w r w'. I w \<Longrightarrow> m w = (r, w') \<Longrightarrow> I w') \<Longrightarrow> preserves I m"
  by (metis preserves_def prod.collapse)

lemma preserves_return [preserves_rules]: "preserves I (returnM x)"
  by (simp add: preserves_def returnM_def)

lemma preserves_throw [preserves_rules]: "preserves I (throwM e)"
  by (simp add: preserves_def throwM_def)

lemma preserves_gets [preserves_rules]: "preserves I (getsM f)"
  by (simp add: preserves_def getsM_def)

lemma preserves_modify: "(\<And>w. I w \<Longrightarrow> I (f w)) \<Longrightarrow> preserves I (modifyM f)"
  by (simp add: preserves_def modifyM_def)

lemma preserves_bind [preserves_rules]:
  assumes "preserves I m" and "\<And>x. preserves I (f x)"
  shows "preserves I (bindM m f)"
proof (rule preservesI)
  fix w r w' assume I: "I w" and eq: "bindM m f w = (r, w')"
  obtain q v where m: "m w = (q, v)" by fastforce
  with assms(1) I have "I v" by (rule preservesD)
  then show "I w'"
    using eq m assms(2) by (cases q) (auto simp: bindM_def dest: preservesD)
qed

lemma preserves_then [preserves_rules]:
  "preserves I m \<Longrightarrow> preserves I k \<Longrightarrow> preserves I (thenM m k)"
  unfolding thenM_def by (intro preserves_bind)

lemma preserves_try [preserves_rules]: "preserves I m \<Longrightarrow> preserves I (tryM m)"
  by (simp add: preserves_def tryM_apply)

lemma preserves_if [preserves_rules]:
  "(c \<Longrightarrow> preserves I m) \<Longrightarrow> (\<not> c \<Longrightarrow> preserves I n) \<Longrightarrow> preserves I (if c then m else n)"
  by simp

lemma preserves_option [preserves_rules]:
  "(x = None \<Longrightarrow> preserves I m) \<Longrightarrow> (\<And>y. x = Some y \<Longrightarrow> preserves I (f y)) \<Longrightarrow>
   preserves I (case x of None \<Rightarrow> m | Some y \<Rightarrow> f y)"
  by (cases x) simp_all

lemma preserves_sum [preserves_rules]:
  "(\<And>y. x = Inl y \<Longrightarrow> preserves I (f y)) \<Longrightarrow> (\<And>y. x = Inr y \<Longrightarrow> preserves I (g y)) \<Longrightarrow>
   preserves I (case x of Inl y \<Rightarrow> f y | Inr y \<Rightarrow> g y)"
  by (cases x) simp_all

lemma preserves_prod [preserves_rules]:
  "(\<And>a b. x = (a, b) \<Longrightarrow> preserves I (f a b)) \<Longrightarrow> preserves I (case x of (a, b) \<Rightarrow> f a b)"
  by (cases x) simp

lemma preserves_list [preserves_rules]:
  "(x = [] \<Longrightarrow> preserves I m) \<Longrightarrow> (\<And>y ys. x = y # ys \<Longrightarrow> preserves I (f y ys)) \<Longrightarrow>
   preserves I (case x of [] \<Rightarrow> m | y # ys \<Rightarrow> f y ys)"
  by (cases x) simp_all

lemma preserves_let [preserves_rules]:
  "(\<And>y. y = x \<Longrightarrow> preserves I (f y)) \<Longrightarrow> preserves I (let y = x in f y)"
  by simp

lemma preserves_foldM [preserves_rules]:
  assumes "\<And>x a. preserves I (f x a)"
  shows "preserves I (foldM f xs a)"
proof (induction xs arbitrary: a)
  case Nil
  show ?case unfolding foldM.simps by (rule preserves_return)
next
  case (Cons x xs)
  show ?case unfolding foldM.simps by (intro preserves_bind assms Cons.IH)
qed

lemma preserves_conj:
  "preserves I m \<Longrightarrow> preserves J m \<Longrightarrow> preserves (\<lambda>w. I w \<and> J w) m"
  by (simp add: preserves_def)

section \<open>Results: ensures\<close>

text \<open>
  \<open>ensures P m Q\<close>: from a state with \<open>P\<close>, if \<open>m\<close> returns a value then the
  value and the final state satisfy \<open>Q\<close>. Nothing is said about errors.
\<close>

named_theorems ensures_rules \<open>introduction rules for \<open>ensures\<close>\<close>

definition ensures :: "('s \<Rightarrow> bool) \<Rightarrow> ('s, 'e, 'a) sem \<Rightarrow> ('a \<Rightarrow> 's \<Rightarrow> bool) \<Rightarrow> bool" where
  "ensures P m Q \<longleftrightarrow> (\<forall>w x w'. P w \<longrightarrow> m w = (Inr x, w') \<longrightarrow> Q x w')"

lemma ensuresD: "ensures P m Q \<Longrightarrow> P w \<Longrightarrow> m w = (Inr x, w') \<Longrightarrow> Q x w'"
  by (auto simp: ensures_def)

lemma ensuresI: "(\<And>w x w'. P w \<Longrightarrow> m w = (Inr x, w') \<Longrightarrow> Q x w') \<Longrightarrow> ensures P m Q"
  by (auto simp: ensures_def)

lemma ensures_bind:
  assumes "ensures P m R" and "\<And>x. ensures (R x) (f x) Q"
  shows "ensures P (bindM m f) Q"
proof (rule ensuresI)
  fix w y w'' assume P: "P w" and eq: "bindM m f w = (Inr y, w'')"
  from eq obtain x w' where m: "m w = (Inr x, w')" and f: "f x w' = (Inr y, w'')"
    by (cases "m w") (auto simp: bindM_def split: sum.splits)
  from assms(1) P m have "R x w'" by (rule ensuresD)
  with assms(2) show "Q y w''" using f by (rule ensuresD)
qed

lemma bindM_InrE:
  assumes "bindM m f w = (Inr y, w'')"
  obtains x w' where "m w = (Inr x, w')" and "f x w' = (Inr y, w'')"
  using assms by (cases "m w") (auto simp: bindM_def split: sum.splits)

lemma thenM_InrE:
  assumes "thenM m k w = (Inr y, w'')"
  obtains x w' where "m w = (Inr x, w')" and "k w' = (Inr y, w'')"
  using assms unfolding thenM_def by (rule bindM_InrE)

section \<open>Strings and association lists\<close>

text \<open>\<^verbatim>\<open>%q\<close> of a name, which has no character that Go would escape.\<close>

definition quoted :: "string \<Rightarrow> string" where
  "quoted s = ''\"'' @ s @ ''\"''"

text \<open>\<^verbatim>\<open>%d\<close>\<close>

fun showNat :: "nat \<Rightarrow> string" where
  "showNat n = (if n < 10 then [char_of (48 + n)] else showNat (n div 10) @ [char_of (48 + n mod 10)])"

declare showNat.simps [simp del]

definition showInt :: "int \<Rightarrow> string" where
  "showInt n = (if n < 0 then ''-'' @ showNat (nat (- n)) else showNat (nat n))"

text \<open>\<^verbatim>\<open>strings.Join\<close>\<close>

fun join :: "string \<Rightarrow> string list \<Rightarrow> string" where
  "join sep [] = []"
| "join sep [x] = x"
| "join sep (x # xs) = x @ sep @ join sep xs"

lemma map_of_AList_update [simp]: "map_of (AList.update k v s) k' = (if k' = k then Some v else map_of s k')"
  by (simp add: update_conv')

lemma map_of_AList_delete [simp]: "map_of (AList.delete k s) k' = (if k' = k then None else map_of s k')"
  by (simp add: delete_conv')

lemma append_slash_inj [simp]:
  assumes "CHR ''/'' \<notin> set a" and "CHR ''/'' \<notin> set b"
  shows "a @ CHR ''/'' # x = b @ CHR ''/'' # y \<longleftrightarrow> a = b \<and> x = y"
  using assms
proof (induction a arbitrary: b)
  case Nil
  then show ?case by (cases b) auto
next
  case (Cons c a)
  then show ?case by (cases b) auto
qed

end
