(* ===== verification/Storage.thy ===== *)
theory Storage
  imports Prelude
begin

text \<open>
  The storage the backend is written against: the interface \<^verbatim>\<open>logical.Storage\<close>
  (a map from slash-separated paths to values, with a sorted, paged listing of the direct
  children of a prefix) and \<^verbatim>\<open>listPaged\<close> of \<^verbatim>\<open>backend.go\<close>, the loop through which every
  component enumerates a prefix.

  \<open>kv_storage\<close> and \<open>kv_listing\<close> are the contract the components rely on; it is
  discharged here for the plain store and in \<open>Shim\<close> for the in-memory transaction.
\<close>

section \<open>The plain store\<close>

text \<open>
  An association list; the listing follows the interface: the part of each key behind the
  prefix up to and including the first slash, without repetition, in byte order.
\<close>

type_synonym 'v store = "(string \<times> 'v) list"

definition store_get :: "'v store \<Rightarrow> string \<Rightarrow> 'v option" where
  "store_get s k = map_of s k"

definition store_put :: "'v store \<Rightarrow> string \<Rightarrow> 'v \<Rightarrow> 'v store" where
  "store_put s k v = AList.update k v s"

definition store_delete :: "'v store \<Rightarrow> string \<Rightarrow> 'v store" where
  "store_delete s k = AList.delete k s"

definition direct_child :: "string \<Rightarrow> string" where
  "direct_child r = takeWhile (\<lambda>c. c \<noteq> CHR ''/'') r @ (if CHR ''/'' \<in> set r then ''/'' else [])"

definition remainders :: "string \<Rightarrow> string list \<Rightarrow> string list" where
  "remainders p ks = map (\<lambda>k. drop (length p) k) (filter (\<lambda>k. prefix p k) ks)"

definition store_list :: "'v store \<Rightarrow> string \<Rightarrow> string list" where
  "store_list s p = sort (remdups (map direct_child (remainders p (map fst s))))"

text \<open>\<open>ListPage\<close>: the children behind \<open>after\<close>, at most \<open>limit\<close> of them if it is positive.\<close>

definition page_of :: "string list \<Rightarrow> string \<Rightarrow> int \<Rightarrow> string list" where
  "page_of cs after limit =
     (let rest = filter (\<lambda>c. after = [] \<or> after < c) cs
      in if 0 < limit then take (nat limit) rest else rest)"

definition store_list_page :: "'v store \<Rightarrow> string \<Rightarrow> string \<Rightarrow> int \<Rightarrow> string list" where
  "store_list_page s p after limit = page_of (store_list s p) after limit"

lemma store_get_put: "store_get (store_put s k v) k' = (if k' = k then Some v else store_get s k')"
  by (simp add: store_get_def store_put_def)

lemma store_get_delete: "store_get (store_delete s k) k' = (if k' = k then None else store_get s k')"
  by (simp add: store_get_def store_delete_def)

lemma store_get_empty [simp]: "store_get [] k = None"
  by (simp add: store_get_def)

lemma store_get_key: "store_get s k \<noteq> None \<longleftrightarrow> k \<in> set (map fst s)"
  by (simp add: store_get_def map_of_eq_None_iff)

lemma direct_child_plain: "CHR ''/'' \<notin> set r \<Longrightarrow> direct_child r = r"
  by (simp add: direct_child_def takeWhile_eq_all_conv) (metis takeWhile_eq_all_conv)

lemma direct_child_slash: "CHR ''/'' \<in> set (direct_child r) \<longleftrightarrow> CHR ''/'' \<in> set r"
  by (auto simp: direct_child_def dest: set_takeWhileD)

lemma direct_child_plainD: "CHR ''/'' \<notin> set (direct_child r) \<Longrightarrow> direct_child r = r"
  by (simp add: direct_child_slash direct_child_plain)

lemma set_remainders: "set (remainders p ks) = {r. p @ r \<in> set ks}"
  by (force simp: remainders_def prefix_def image_iff)

lemma store_list_child:
  "c \<in> set (store_list s p) \<longleftrightarrow> (\<exists>r. store_get s (p @ r) \<noteq> None \<and> direct_child r = c)"
proof -
  have "c \<in> set (store_list s p) \<longleftrightarrow> (\<exists>r. p @ r \<in> set (map fst s) \<and> direct_child r = c)"
    unfolding store_list_def set_sort set_remdups set_map [of direct_child] set_remainders by blast
  then show ?thesis by (simp only: store_get_key)
qed

lemma store_list_key:
  "CHR ''/'' \<notin> set c \<Longrightarrow> c \<in> set (store_list s p) \<longleftrightarrow> store_get s (p @ c) \<noteq> None"
  unfolding store_list_child by (metis direct_child_plain direct_child_plainD)

lemma sorted_distinct_strict: "sorted xs \<Longrightarrow> distinct xs \<Longrightarrow> sorted_wrt (<) xs"
  for xs :: "'a :: linorder list"
  by (simp add: strict_sorted_iff)

lemma store_list_sorted: "sorted_wrt (<) (store_list s p)"
  by (simp add: store_list_def strict_sorted_iff)

section \<open>The storage contract\<close>

locale kv_storage =
  fixes get :: "'s \<Rightarrow> string \<Rightarrow> 'v option"
    and put :: "'s \<Rightarrow> string \<Rightarrow> 'v \<Rightarrow> 's"
    and del :: "'s \<Rightarrow> string \<Rightarrow> 's"
  assumes get_put: "get (put s k v) k' = (if k' = k then Some v else get s k')"
    and get_del: "get (del s k) k' = (if k' = k then None else get s k')"
begin

lemma get_put_same: "get (put s k v) k = Some v"
  by (simp add: get_put)

lemma get_put_other: "k' \<noteq> k \<Longrightarrow> get (put s k v) k' = get s k'"
  by (simp add: get_put)

lemma get_fold_del: "get (fold (\<lambda>k s. del s k) ks s) k' = (if k' \<in> set ks then None else get s k')"
  by (induction ks arbitrary: s) (simp_all add: get_del)

lemma get_fold_put:
  "get (fold (\<lambda>(k, v) s. put s k v) kvs s) k' =
     (case map_of (rev kvs) k' of Some v \<Rightarrow> Some v | None \<Rightarrow> get s k')"
  by (induction kvs arbitrary: s)
     (auto simp: get_put map_add_def split: option.split)

end

text \<open>
  With a listing. The law is stated for keys directly below the prefix (no further slash),
  which is all the components list; what is reported for deeper keys is left to the provider.
\<close>

locale kv_listing = kv_storage get put del
  for get :: "'s \<Rightarrow> string \<Rightarrow> 'v option"
    and put :: "'s \<Rightarrow> string \<Rightarrow> 'v \<Rightarrow> 's"
    and del :: "'s \<Rightarrow> string \<Rightarrow> 's" +
  fixes list :: "'s \<Rightarrow> string \<Rightarrow> string list"
  assumes list_sorted: "sorted_wrt (<) (list s p)"
    and list_key: "c \<noteq> [] \<Longrightarrow> CHR ''/'' \<notin> set c \<Longrightarrow> c \<in> set (list s p) \<longleftrightarrow> get s (p @ c) \<noteq> None"
begin

lemma list_distinct: "distinct (list s p)"
  using list_sorted [of s p] by (simp add: strict_sorted_iff)

text \<open>Deleting every listed child leaves no key directly below the prefix.\<close>

lemma delete_listed:
  assumes "c \<noteq> []" and "CHR ''/'' \<notin> set c"
  shows "get (fold (\<lambda>k s. del s k) (map (\<lambda>c. p @ c) (list s p)) s) (p @ c) = None"
  using list_key [OF assms, of s p] by (auto simp: get_fold_del)

lemma delete_listed_frame:
  assumes "\<not> prefix p k"
  shows "get (fold (\<lambda>k s. del s k) (map (\<lambda>c. p @ c) (list s p)) s) k = get s k"
  using assms by (auto simp: get_fold_del prefix_def)

end

interpretation base: kv_listing store_get store_put store_delete store_list
  by unfold_locales
     (simp_all add: store_get_put store_get_delete store_list_sorted store_list_key)

section \<open>listPaged\<close>

text \<open>
  The generator of \<^verbatim>\<open>backend.go\<close>: ask for a page behind the last name seen until a page
  is empty. \<open>lp\<close> is the \<open>ListPage\<close> of the storage for a fixed prefix. The loop has no
  bound in the code; the model spends one unit of fuel for each page.
\<close>

fun listPaged :: "nat \<Rightarrow> (string \<Rightarrow> int \<Rightarrow> string list) \<Rightarrow> int \<Rightarrow> string \<Rightarrow> string list option" where
  "listPaged 0 lp psize after = None"
| "listPaged (Suc n) lp psize after =
     (let paths = lp after psize
      in if paths = [] then Some []
         else map_option (\<lambda>rest. paths @ rest) (listPaged n lp psize (last paths)))"

lemma filter_above_last:
  fixes xs :: "'a :: linorder list"
  assumes "sorted_wrt (<) xs" and "xs \<noteq> []" and "0 < n"
  shows "filter (\<lambda>c. last (take n xs) < c) xs = drop n xs"
proof -
  let ?l = "last (take n xs)"
  have ne: "take n xs \<noteq> []" using assms(2,3) by simp
  have sw: "sorted_wrt (<) (take n xs @ drop n xs)" using assms(1) by simp
  have "\<forall>x \<in> set (drop n xs). ?l < x"
    using sw ne unfolding sorted_wrt_append by (metis last_in_set)
  moreover have "\<forall>x \<in> set (take n xs). \<not> ?l < x"
  proof
    fix x assume x: "x \<in> set (take n xs)"
    have "sorted (take n xs)"
      using sw unfolding sorted_wrt_append by (simp add: strict_sorted_iff)
    then have "x \<le> ?l" using x ne
      by (metis in_set_conv_nth last_conv_nth length_greater_0_conv less_Suc_eq_le
          Suc_pred' diff_less sorted_nth_mono zero_less_one)
    then show "\<not> ?l < x" by simp
  qed
  ultimately have "filter (\<lambda>c. ?l < c) (take n xs) = []" "filter (\<lambda>c. ?l < c) (drop n xs) = drop n xs"
    by (auto simp: filter_empty_conv filter_id_conv)
  then have "filter (\<lambda>c. ?l < c) (take n xs @ drop n xs) = drop n xs"
    by (simp only: filter_append append_Nil)
  then show ?thesis by simp
qed

lemma filter_above_filter:
  fixes cs :: "'a :: linorder list"
  assumes "b \<in> set (filter (\<lambda>c. a < c) cs)"
  shows "filter (\<lambda>c. b < c) cs = filter (\<lambda>c. b < c) (filter (\<lambda>c. a < c) cs)"
  using assms by (auto intro!: filter_cong)

text \<open>
  A provider of pages: every page is the wanted slice of one sorted listing. Then
  \<open>listPaged\<close> returns the whole listing, whatever the page size, unless the listing holds
  the empty name (a key equal to the prefix): \<open>after = ""\<close> starts the enumeration afresh.
\<close>

locale page_source =
  fixes lp :: "string \<Rightarrow> int \<Rightarrow> string list" and cs :: "string list"
  assumes page: "lp after limit = page_of cs after limit"
    and sorted: "sorted_wrt (<) cs"
begin

lemma page_rest:
  "0 < psize \<Longrightarrow> lp after psize = take (nat psize) (filter (\<lambda>c. after = [] \<or> after < c) cs)"
  by (simp add: page page_of_def)

lemma listPaged_from:
  assumes "0 < psize" and no_empty: "[] \<notin> set cs"
    and "after \<noteq> []" and "length (filter (\<lambda>c. after < c) cs) < fuel"
  shows "listPaged fuel lp psize after = Some (filter (\<lambda>c. after < c) cs)"
  using assms(3,4)
proof (induction fuel arbitrary: after)
  case (Suc fuel)
  let ?rest = "filter (\<lambda>c. after < c) cs"
  have lp: "lp after psize = take (nat psize) ?rest" using assms(1) Suc.prems(1) by (simp add: page_rest)
  show ?case
  proof (cases "?rest = []")
    case True
    then show ?thesis by (simp add: lp Let_def)
  next
    case False
    let ?l = "last (take (nat psize) ?rest)"
    have ne: "take (nat psize) ?rest \<noteq> []" using False assms(1) by simp
    then have l: "?l \<in> set ?rest" by (meson in_set_takeD last_in_set)
    have sw: "sorted_wrt (<) ?rest" using sorted by (rule sorted_wrt_filter)
    have nxt: "filter (\<lambda>c. ?l < c) cs = drop (nat psize) ?rest"
      using filter_above_last [OF sw False, of "nat psize"] filter_above_filter [OF l] assms(1) by simp
    have "length (drop (nat psize) ?rest) < length ?rest" using False assms(1) by simp
    then have "length (filter (\<lambda>c. ?l < c) cs) < fuel" using Suc.prems(2) nxt by simp
    moreover have "?l \<noteq> []" using l no_empty by (metis filter_is_subset subsetD)
    ultimately have "listPaged fuel lp psize ?l = Some (drop (nat psize) ?rest)"
      using Suc.IH nxt by simp
    then show ?thesis using ne by (simp add: lp Let_def)
  qed
qed simp

lemma listPaged_all:
  assumes "0 < psize" and no_empty: "[] \<notin> set cs" and "length cs < fuel"
  shows "listPaged fuel lp psize [] = Some cs"
proof (cases "cs = []")
  case True
  with assms show ?thesis by (cases fuel) (simp_all add: page_rest Let_def)
next
  case False
  let ?l = "last (take (nat psize) cs)"
  have lp: "lp [] psize = take (nat psize) cs" using assms(1) by (simp add: page_rest)
  have ne: "take (nat psize) cs \<noteq> []" using False assms(1) by simp
  have nxt: "filter (\<lambda>c. ?l < c) cs = drop (nat psize) cs"
    using filter_above_last [OF sorted False, of "nat psize"] assms(1) by simp
  obtain n where fuel: "fuel = Suc n" using assms(3) by (cases fuel) simp_all
  have "0 < length cs" and "0 < nat psize" using False assms(1) by simp_all
  then have "length (drop (nat psize) cs) < n" using assms(3) fuel
    unfolding length_drop by linarith
  moreover have "?l \<noteq> []" using ne no_empty by (metis in_set_takeD last_in_set)
  ultimately have "listPaged n lp psize ?l = Some (drop (nat psize) cs)"
    using listPaged_from [of psize ?l n] assms(1,2) nxt by simp
  then show ?thesis using ne by (simp add: fuel lp Let_def)
qed

text \<open>The excluded case: a key equal to the prefix, and nothing else below it, is listed for ever.\<close>

lemma listPaged_only_empty:
  assumes "0 < psize" and "cs = [[]]"
  shows "listPaged fuel lp psize [] = None"
proof (induction fuel)
  case (Suc fuel)
  have "lp [] psize = [[]]" using assms by (simp add: page_rest)
  with Suc.IH show ?case by (simp add: Let_def)
qed simp

end

interpretation store_pages: page_source "store_list_page s p" "store_list s p" for s p
  by unfold_locales (simp_all add: store_list_page_def store_list_sorted)

end
