(* ===== verification/Paths.thy ===== *)
theory Paths
  imports Storage
begin

text \<open>
  Names and storage paths: the identifiers of \<^verbatim>\<open>path_operators.go\<close>, \<^verbatim>\<open>path_accounts.go\<close>,
  \<^verbatim>\<open>path_keys.go\<close>, \<^verbatim>\<open>path_users.go\<close>, \<^verbatim>\<open>path_ephemeral_users.go\<close>, \<^verbatim>\<open>path_revocations.go\<close>,
  \<^verbatim>\<open>path_account_imports.go\<close> and \<^verbatim>\<open>path_account_servers.go\<close> and the paths each identifier
  stands for (\<^verbatim>\<open>configPath\<close>, \<^verbatim>\<open>nkeyPath\<close>, \<^verbatim>\<open>jwtPath\<close>, the listing prefixes).

  \<open>path_family\<close> is the interface \<^verbatim>\<open>configPather\<close>/\<^verbatim>\<open>nkeyPather\<close>/\<^verbatim>\<open>jwtPather\<close>: different
  identifiers have different paths. \<open>keyed_store\<close> is what a component gets from it and the
  storage contract: its entries do not overwrite each other.
\<close>

section \<open>Prefixes\<close>

named_theorems path_defs \<open>definitions of the paths, unfolded to compare two of them\<close>

definition operatorsPathPrefix :: string where [path_defs]: "operatorsPathPrefix = ''operators/''"
definition accountServersPathPrefix :: string where [path_defs]: "accountServersPathPrefix = ''account-servers/''"
definition operatorKeysPathPrefix :: string where [path_defs]: "operatorKeysPathPrefix = ''operator-keys/''"
definition operatorSigningKeysPathPrefix :: string where [path_defs]: "operatorSigningKeysPathPrefix = ''operator-signing-keys/''"
definition operatorJwtsPathPrefix :: string where [path_defs]: "operatorJwtsPathPrefix = ''operator-jwts/''"
definition accountsPathPrefix :: string where [path_defs]: "accountsPathPrefix = ''accounts/''"
definition accountImportsPathPrefix :: string where [path_defs]: "accountImportsPathPrefix = ''account-imports/''"
definition accountKeysPathPrefix :: string where [path_defs]: "accountKeysPathPrefix = ''account-keys/''"
definition accountSigningKeysPathPrefix :: string where [path_defs]: "accountSigningKeysPathPrefix = ''account-signing-keys/''"
definition accountJwtsPathPrefix :: string where [path_defs]: "accountJwtsPathPrefix = ''account-jwts/''"
definition revocationsPathPrefix :: string where [path_defs]: "revocationsPathPrefix = ''revocations/''"
definition usersPathPrefix :: string where [path_defs]: "usersPathPrefix = ''users/''"
definition userKeysPathPrefix :: string where [path_defs]: "userKeysPathPrefix = ''user-keys/''"
definition ephemeralUsersPathPrefix :: string where [path_defs]: "ephemeralUsersPathPrefix = ''ephemeral-users/''"
definition backendConfigPath :: string where [path_defs]: "backendConfigPath = ''config''"

section \<open>Identifiers\<close>

datatype operatorId = OperatorId (oi_op: string)
datatype accountServerId = AccountServerId (asi_op: string)
datatype operatorSigningKeyId = OperatorSigningKeyId (oski_op: string) (oski_name: string)
datatype accountId = AccountId (ai_op: string) (ai_acc: string)
datatype accountSigningKeyId = AccountSigningKeyId (aski_op: string) (aski_acc: string) (aski_name: string)
datatype userId = UserId (ui_op: string) (ui_acc: string) (ui_user: string)
datatype ephemeralUserId = EphemeralUserId (eui_op: string) (eui_acc: string) (eui_user: string)
datatype accountRevocationId = AccountRevocationId (ari_op: string) (ari_acc: string) (ari_sub: string)
datatype accountImportId = AccountImportId (aii_op: string) (aii_acc: string) (aii_name: string)

text \<open>Conversions between identifiers.\<close>

definition operatorId_accountServerId :: "operatorId \<Rightarrow> accountServerId" where [path_defs]:
  "operatorId_accountServerId i = AccountServerId (oi_op i)"

definition operatorId_accountId :: "operatorId \<Rightarrow> string \<Rightarrow> accountId" where [path_defs]:
  "operatorId_accountId i n = AccountId (oi_op i) n"

definition operatorId_signingKeyId :: "operatorId \<Rightarrow> string \<Rightarrow> operatorSigningKeyId" where [path_defs]:
  "operatorId_signingKeyId i n = OperatorSigningKeyId (oi_op i) n"

definition accountServerId_operatorId :: "accountServerId \<Rightarrow> operatorId" where [path_defs]:
  "accountServerId_operatorId i = OperatorId (asi_op i)"

definition operatorSigningKeyId_operatorId :: "operatorSigningKeyId \<Rightarrow> operatorId" where [path_defs]:
  "operatorSigningKeyId_operatorId i = OperatorId (oski_op i)"

definition accountId_operatorId :: "accountId \<Rightarrow> operatorId" where [path_defs]:
  "accountId_operatorId i = OperatorId (ai_op i)"

definition accountId_userId :: "accountId \<Rightarrow> string \<Rightarrow> userId" where [path_defs]:
  "accountId_userId i n = UserId (ai_op i) (ai_acc i) n"

definition accountId_ephemeralUserId :: "accountId \<Rightarrow> string \<Rightarrow> ephemeralUserId" where [path_defs]:
  "accountId_ephemeralUserId i n = EphemeralUserId (ai_op i) (ai_acc i) n"

definition accountId_revocationId :: "accountId \<Rightarrow> string \<Rightarrow> accountRevocationId" where [path_defs]:
  "accountId_revocationId i n = AccountRevocationId (ai_op i) (ai_acc i) n"

definition accountId_importId :: "accountId \<Rightarrow> string \<Rightarrow> accountImportId" where [path_defs]:
  "accountId_importId i n = AccountImportId (ai_op i) (ai_acc i) n"

definition accountId_signingKeyId :: "accountId \<Rightarrow> string \<Rightarrow> accountSigningKeyId" where [path_defs]:
  "accountId_signingKeyId i n = AccountSigningKeyId (ai_op i) (ai_acc i) n"

definition accountSigningKeyId_accountId :: "accountSigningKeyId \<Rightarrow> accountId" where [path_defs]:
  "accountSigningKeyId_accountId i = AccountId (aski_op i) (aski_acc i)"

definition userId_accountId :: "userId \<Rightarrow> accountId" where [path_defs]:
  "userId_accountId i = AccountId (ui_op i) (ui_acc i)"

definition ephemeralUserId_accountId :: "ephemeralUserId \<Rightarrow> accountId" where [path_defs]:
  "ephemeralUserId_accountId i = AccountId (eui_op i) (eui_acc i)"

definition accountRevocationId_accountId :: "accountRevocationId \<Rightarrow> accountId" where [path_defs]:
  "accountRevocationId_accountId i = AccountId (ari_op i) (ari_acc i)"

definition accountImportId_accountId :: "accountImportId \<Rightarrow> accountId" where [path_defs]:
  "accountImportId_accountId i = AccountId (aii_op i) (aii_acc i)"

section \<open>Paths\<close>

definition operator_configPath :: "operatorId \<Rightarrow> string" where [path_defs]:
  "operator_configPath i = operatorsPathPrefix @ oi_op i"

definition operator_nkeyPath :: "operatorId \<Rightarrow> string" where [path_defs]:
  "operator_nkeyPath i = operatorKeysPathPrefix @ oi_op i"

definition operator_jwtPath :: "operatorId \<Rightarrow> string" where [path_defs]:
  "operator_jwtPath i = operatorJwtsPathPrefix @ oi_op i"

definition operator_signingKeyPrefix :: "operatorId \<Rightarrow> string" where [path_defs]:
  "operator_signingKeyPrefix i = operatorSigningKeysPathPrefix @ oi_op i @ ''/''"

definition operator_accountsConfigPrefix :: "operatorId \<Rightarrow> string" where [path_defs]:
  "operator_accountsConfigPrefix i = accountsPathPrefix @ oi_op i @ ''/''"

definition operator_accountsJwtPrefix :: "operatorId \<Rightarrow> string" where [path_defs]:
  "operator_accountsJwtPrefix i = accountJwtsPathPrefix @ oi_op i @ ''/''"

definition accountServer_configPath :: "accountServerId \<Rightarrow> string" where [path_defs]:
  "accountServer_configPath i = accountServersPathPrefix @ asi_op i"

definition operatorSigningKey_nkeyPath :: "operatorSigningKeyId \<Rightarrow> string" where [path_defs]:
  "operatorSigningKey_nkeyPath i = operatorSigningKeysPathPrefix @ oski_op i @ ''/'' @ oski_name i"

definition account_configPath :: "accountId \<Rightarrow> string" where [path_defs]:
  "account_configPath i = accountsPathPrefix @ ai_op i @ ''/'' @ ai_acc i"

definition account_jwtPath :: "accountId \<Rightarrow> string" where [path_defs]:
  "account_jwtPath i = accountJwtsPathPrefix @ ai_op i @ ''/'' @ ai_acc i"

definition account_nkeyPath :: "accountId \<Rightarrow> string" where [path_defs]:
  "account_nkeyPath i = accountKeysPathPrefix @ ai_op i @ ''/'' @ ai_acc i"

definition account_revocationPrefix :: "accountId \<Rightarrow> string" where [path_defs]:
  "account_revocationPrefix i = revocationsPathPrefix @ ai_op i @ ''/'' @ ai_acc i @ ''/''"

definition account_userNkeyPrefix :: "accountId \<Rightarrow> string" where [path_defs]:
  "account_userNkeyPrefix i = userKeysPathPrefix @ ai_op i @ ''/'' @ ai_acc i @ ''/''"

definition account_userConfigPrefix :: "accountId \<Rightarrow> string" where [path_defs]:
  "account_userConfigPrefix i = usersPathPrefix @ ai_op i @ ''/'' @ ai_acc i @ ''/''"

definition account_ephemeralUserConfigPrefix :: "accountId \<Rightarrow> string" where [path_defs]:
  "account_ephemeralUserConfigPrefix i = ephemeralUsersPathPrefix @ ai_op i @ ''/'' @ ai_acc i @ ''/''"

definition account_importPrefix :: "accountId \<Rightarrow> string" where [path_defs]:
  "account_importPrefix i = accountImportsPathPrefix @ ai_op i @ ''/'' @ ai_acc i @ ''/''"

definition account_signingKeyPrefix :: "accountId \<Rightarrow> string" where [path_defs]:
  "account_signingKeyPrefix i = accountSigningKeysPathPrefix @ ai_op i @ ''/'' @ ai_acc i @ ''/''"

definition accountSigningKey_nkeyPath :: "accountSigningKeyId \<Rightarrow> string" where [path_defs]:
  "accountSigningKey_nkeyPath i = accountSigningKeysPathPrefix @ aski_op i @ ''/'' @ aski_acc i @ ''/'' @ aski_name i"

definition user_configPath :: "userId \<Rightarrow> string" where [path_defs]:
  "user_configPath i = usersPathPrefix @ ui_op i @ ''/'' @ ui_acc i @ ''/'' @ ui_user i"

definition user_nkeyPath :: "userId \<Rightarrow> string" where [path_defs]:
  "user_nkeyPath i = userKeysPathPrefix @ ui_op i @ ''/'' @ ui_acc i @ ''/'' @ ui_user i"

definition ephemeralUser_configPath :: "ephemeralUserId \<Rightarrow> string" where [path_defs]:
  "ephemeralUser_configPath i = ephemeralUsersPathPrefix @ eui_op i @ ''/'' @ eui_acc i @ ''/'' @ eui_user i"

definition accountRevocation_configPath :: "accountRevocationId \<Rightarrow> string" where [path_defs]:
  "accountRevocation_configPath i = revocationsPathPrefix @ ari_op i @ ''/'' @ ari_acc i @ ''/'' @ ari_sub i"

definition accountImport_configPath :: "accountImportId \<Rightarrow> string" where [path_defs]:
  "accountImport_configPath i = accountImportsPathPrefix @ aii_op i @ ''/'' @ aii_acc i @ ''/'' @ aii_name i"

section \<open>Names\<close>

text \<open>
  \<^verbatim>\<open>framework.GenericNameRegex\<close>, which every path pattern puts on its names: letters, digits
  and underscores, with dots and dashes inside.
\<close>

definition word_char :: "char \<Rightarrow> bool" where
  "word_char c \<longleftrightarrow> (CHR ''0'' \<le> c \<and> c \<le> CHR ''9'') \<or> (CHR ''A'' \<le> c \<and> c \<le> CHR ''Z'')
     \<or> (CHR ''a'' \<le> c \<and> c \<le> CHR ''z'') \<or> c = CHR ''_''"

definition generic_name :: "string \<Rightarrow> bool" where
  "generic_name s \<longleftrightarrow> s \<noteq> [] \<and> word_char (hd s) \<and> word_char (last s) \<and>
     list_all (\<lambda>c. word_char c \<or> c = CHR ''-'' \<or> c = CHR ''.'') s"

abbreviation no_slash :: "string \<Rightarrow> bool" where
  "no_slash s \<equiv> CHR ''/'' \<notin> set s"

lemma generic_name_no_slash: "generic_name s \<Longrightarrow> no_slash s"
proof
  assume g: "generic_name s" and "CHR ''/'' \<in> set s"
  then have "word_char (CHR ''/'') \<or> CHR ''/'' = CHR ''-'' \<or> CHR ''/'' = CHR ''.''"
    by (auto simp: generic_name_def list_all_iff)
  then show False by (simp add: word_char_def less_eq_char_def)
qed

lemma generic_name_nonempty: "generic_name s \<Longrightarrow> s \<noteq> []"
  by (simp add: generic_name_def)

section \<open>Different identifiers, different paths\<close>

locale path_family =
  fixes path :: "'id \<Rightarrow> string" and wf :: "'id \<Rightarrow> bool"
  assumes path_inj: "wf a \<Longrightarrow> wf b \<Longrightarrow> path a = path b \<Longrightarrow> a = b"

locale keyed_store = kv_storage get put del + path_family path wf
  for get :: "'s \<Rightarrow> string \<Rightarrow> 'v option" and put :: "'s \<Rightarrow> string \<Rightarrow> 'v \<Rightarrow> 's"
    and del :: "'s \<Rightarrow> string \<Rightarrow> 's" and path :: "'id \<Rightarrow> string" and wf :: "'id \<Rightarrow> bool"
begin

lemma put_entry: "get (put s (path a) v) (path a) = Some v"
  by (rule get_put_same)

lemma put_frame: "wf a \<Longrightarrow> wf b \<Longrightarrow> a \<noteq> b \<Longrightarrow> get (put s (path a) v) (path b) = get s (path b)"
  using path_inj by (auto simp: get_put)

lemma del_frame: "wf a \<Longrightarrow> wf b \<Longrightarrow> a \<noteq> b \<Longrightarrow> get (del s (path a)) (path b) = get s (path b)"
  using path_inj by (auto simp: get_del)

end

definition operator_wf :: "operatorId \<Rightarrow> bool" where
  "operator_wf i \<longleftrightarrow> True"

definition accountServer_wf :: "accountServerId \<Rightarrow> bool" where
  "accountServer_wf i \<longleftrightarrow> True"

definition operatorSigningKey_wf :: "operatorSigningKeyId \<Rightarrow> bool" where
  "operatorSigningKey_wf i \<longleftrightarrow> no_slash (oski_op i)"

definition account_wf :: "accountId \<Rightarrow> bool" where
  "account_wf i \<longleftrightarrow> no_slash (ai_op i)"

definition accountSigningKey_wf :: "accountSigningKeyId \<Rightarrow> bool" where
  "accountSigningKey_wf i \<longleftrightarrow> no_slash (aski_op i) \<and> no_slash (aski_acc i)"

definition user_wf :: "userId \<Rightarrow> bool" where
  "user_wf i \<longleftrightarrow> no_slash (ui_op i) \<and> no_slash (ui_acc i)"

definition ephemeralUser_wf :: "ephemeralUserId \<Rightarrow> bool" where
  "ephemeralUser_wf i \<longleftrightarrow> no_slash (eui_op i) \<and> no_slash (eui_acc i)"

definition accountRevocation_wf :: "accountRevocationId \<Rightarrow> bool" where
  "accountRevocation_wf i \<longleftrightarrow> no_slash (ari_op i) \<and> no_slash (ari_acc i)"

definition accountImport_wf :: "accountImportId \<Rightarrow> bool" where
  "accountImport_wf i \<longleftrightarrow> no_slash (aii_op i) \<and> no_slash (aii_acc i)"

lemmas wf_defs = operator_wf_def accountServer_wf_def operatorSigningKey_wf_def account_wf_def accountSigningKey_wf_def user_wf_def ephemeralUser_wf_def accountRevocation_wf_def accountImport_wf_def

interpretation kv_operator_configPath: keyed_store store_get store_put store_delete operator_configPath operator_wf
  by unfold_locales (auto simp: path_defs wf_defs operatorId.expand)

interpretation kv_operator_nkeyPath: keyed_store store_get store_put store_delete operator_nkeyPath operator_wf
  by unfold_locales (auto simp: path_defs wf_defs operatorId.expand)

interpretation kv_operator_jwtPath: keyed_store store_get store_put store_delete operator_jwtPath operator_wf
  by unfold_locales (auto simp: path_defs wf_defs operatorId.expand)

interpretation kv_accountServer_configPath: keyed_store store_get store_put store_delete accountServer_configPath accountServer_wf
  by unfold_locales (auto simp: path_defs wf_defs accountServerId.expand)

interpretation kv_operatorSigningKey_nkeyPath: keyed_store store_get store_put store_delete operatorSigningKey_nkeyPath operatorSigningKey_wf
  by unfold_locales (auto simp: path_defs wf_defs operatorSigningKeyId.expand)

interpretation kv_account_configPath: keyed_store store_get store_put store_delete account_configPath account_wf
  by unfold_locales (auto simp: path_defs wf_defs accountId.expand)

interpretation kv_account_jwtPath: keyed_store store_get store_put store_delete account_jwtPath account_wf
  by unfold_locales (auto simp: path_defs wf_defs accountId.expand)

interpretation kv_account_nkeyPath: keyed_store store_get store_put store_delete account_nkeyPath account_wf
  by unfold_locales (auto simp: path_defs wf_defs accountId.expand)

interpretation kv_accountSigningKey_nkeyPath: keyed_store store_get store_put store_delete accountSigningKey_nkeyPath accountSigningKey_wf
  by unfold_locales (auto simp: path_defs wf_defs accountSigningKeyId.expand)

interpretation kv_user_configPath: keyed_store store_get store_put store_delete user_configPath user_wf
  by unfold_locales (auto simp: path_defs wf_defs userId.expand)

interpretation kv_user_nkeyPath: keyed_store store_get store_put store_delete user_nkeyPath user_wf
  by unfold_locales (auto simp: path_defs wf_defs userId.expand)

interpretation kv_ephemeralUser_configPath: keyed_store store_get store_put store_delete ephemeralUser_configPath ephemeralUser_wf
  by unfold_locales (auto simp: path_defs wf_defs ephemeralUserId.expand)

interpretation kv_accountRevocation_configPath: keyed_store store_get store_put store_delete accountRevocation_configPath accountRevocation_wf
  by unfold_locales (auto simp: path_defs wf_defs accountRevocationId.expand)

interpretation kv_accountImport_configPath: keyed_store store_get store_put store_delete accountImport_configPath accountImport_wf
  by unfold_locales (auto simp: path_defs wf_defs accountImportId.expand)

end
