(* ===== verification/Shim.thy ===== *)
theory Shim
  imports Storage
begin

text \<open>
  \<^verbatim>\<open>pkg/shimtx\<close>: the transaction that is emulated in memory when the storage backend has
  no transactions of its own. It keeps the list of pending puts and deletes, answers
  \<open>Get\<close> from it, weaves it into \<open>List\<close> and \<open>ListPage\<close>, and writes it out on \<open>Commit\<close>.

  Proved here: the transaction's view is the committed store (\<open>tx_get_commit\<close>), the
  storage contract for \<open>List\<close> (interpretation \<open>shim\<close>), paging when the transaction has
  deleted but not added names, and how \<open>ListPage\<close> deviates when it has added two.
\<close>

section \<open>The transaction\<close>

datatype 'v storageAction = ActPut string 'v | ActDelete string

fun action_key :: "'v storageAction \<Rightarrow> string" where
  "action_key (ActPut k v) = k"
| "action_key (ActDelete k) = k"

fun action_is_put :: "'v storageAction \<Rightarrow> bool" where
  "action_is_put (ActPut k v) = True"
| "action_is_put (ActDelete k) = False"

record 'v inmemTransaction =
  tx_s :: "'v store"
  tx_actions :: "'v storageAction list"

definition NewInmemTransaction :: "'v store \<Rightarrow> 'v inmemTransaction" where
  "NewInmemTransaction s = \<lparr>tx_s = s, tx_actions = []\<rparr>"

text \<open>\<^verbatim>\<open>Get\<close> walks the actions backward; the newest action on the path decides.\<close>

fun get_backward :: "'v storageAction list \<Rightarrow> string \<Rightarrow> 'v option option" where
  "get_backward [] k = None"
| "get_backward (a # as) k =
     (if action_key a = k
      then (case a of ActDelete _ \<Rightarrow> Some None | ActPut _ v \<Rightarrow> Some (Some v))
      else get_backward as k)"

definition tx_get :: "'v inmemTransaction \<Rightarrow> string \<Rightarrow> 'v option" where
  "tx_get t k = (case get_backward (rev (tx_actions t)) k of
     Some r \<Rightarrow> r | None \<Rightarrow> store_get (tx_s t) k)"

definition tx_put :: "'v inmemTransaction \<Rightarrow> string \<Rightarrow> 'v \<Rightarrow> 'v inmemTransaction" where
  "tx_put t k v = t\<lparr>tx_actions := tx_actions t @ [ActPut k v]\<rparr>"

definition tx_delete :: "'v inmemTransaction \<Rightarrow> string \<Rightarrow> 'v inmemTransaction" where
  "tx_delete t k = t\<lparr>tx_actions := tx_actions t @ [ActDelete k]\<rparr>"

definition tx_rollback :: "'v inmemTransaction \<Rightarrow> 'v inmemTransaction" where
  "tx_rollback t = t\<lparr>tx_actions := []\<rparr>"

text \<open>
  \<^verbatim>\<open>Commit\<close> replays the actions in order. The storage below may refuse one of them:
  \<open>fails a\<close> says so, and then the rest is not written and the error is returned.
\<close>

fun apply_action :: "'v storageAction \<Rightarrow> 'v store \<Rightarrow> 'v store" where
  "apply_action (ActPut k v) s = store_put s k v"
| "apply_action (ActDelete k) s = store_delete s k"

fun commit_actions :: "('v storageAction \<Rightarrow> 'e option) \<Rightarrow> 'v storageAction list \<Rightarrow> 'v store \<Rightarrow> 'e option \<times> 'v store" where
  "commit_actions fails [] s = (None, s)"
| "commit_actions fails (a # as) s =
     (case fails a of Some e \<Rightarrow> (Some e, s) | None \<Rightarrow> commit_actions fails as (apply_action a s))"

definition apply_actions :: "'v storageAction list \<Rightarrow> 'v store \<Rightarrow> 'v store" where
  "apply_actions as s = fold apply_action as s"

definition tx_commit :: "('v storageAction \<Rightarrow> 'e option) \<Rightarrow> 'v inmemTransaction \<Rightarrow> 'e option \<times> 'v inmemTransaction" where
  "tx_commit fails t =
     (case commit_actions fails (tx_actions t) (tx_s t) of
        (Some e, s) \<Rightarrow> (Some e, t\<lparr>tx_s := s\<rparr>)
      | (None, s) \<Rightarrow> (None, \<lparr>tx_s = s, tx_actions = []\<rparr>))"

section \<open>Listing\<close>

text \<open>
  \<^verbatim>\<open>buildActionMap\<close>: for each name below \<open>path\<close> and behind \<open>after\<close> that an action
  touches, whether it ends up deleted. A deletion below a deeper prefix says nothing about
  the directory it is in, so it is not recorded.
\<close>

definition action_map_step :: "string \<Rightarrow> string \<Rightarrow> 'v storageAction \<Rightarrow> (string \<times> bool) list \<Rightarrow> (string \<times> bool) list" where
  "action_map_step path after a deletes =
     (if \<not> prefix path (action_key a) then deletes
      else let remaining = drop (length path) (action_key a);
               directChildKey = direct_child remaining
           in if directChildKey \<le> after then deletes
              else if \<not> action_is_put a \<and> CHR ''/'' \<notin> set remaining
                   then AList.update directChildKey True deletes
              else if action_is_put a then AList.update directChildKey False deletes
              else deletes)"

definition buildActionMap :: "string \<Rightarrow> 'v storageAction list \<Rightarrow> string \<Rightarrow> (string \<times> bool) list" where
  "buildActionMap path as after = fold (action_map_step path after) as []"

definition new_entries :: "(string \<times> bool) list \<Rightarrow> string list" where
  "new_entries mods = sort (map fst (filter (\<lambda>(k, v). \<not> v) mods))"

definition del_count :: "(string \<times> bool) list \<Rightarrow> int" where
  "del_count mods = int (length (filter snd mods))"

text \<open>The inner loop of \<^verbatim>\<open>List\<close>: the new names that come before \<open>entry\<close>, and the rest.\<close>

fun take_new :: "string \<Rightarrow> string list \<Rightarrow> string list \<times> string list" where
  "take_new entry [] = ([], [])"
| "take_new entry (new # ns) =
     (if new = entry then take_new entry ns
      else if entry < new then ([], new # ns)
      else (let (em, rest) = take_new entry ns in (new # em, rest)))"

fun weave :: "(string \<times> bool) list \<Rightarrow> string list \<Rightarrow> string list \<Rightarrow> string list" where
  "weave mods [] ns = ns"
| "weave mods (entry # es) ns =
     (let (em, rest) = take_new entry ns
      in em @ (if map_of mods entry = Some True then [] else [entry]) @ weave mods es rest)"

definition tx_list :: "'v inmemTransaction \<Rightarrow> string \<Rightarrow> string list" where
  "tx_list t path =
     (if tx_actions t = [] then store_list (tx_s t) path
      else let mods = buildActionMap path (tx_actions t) []
           in if mods = [] then store_list (tx_s t) path
              else weave mods (store_list (tx_s t) path) (new_entries mods))"

text \<open>
  \<^verbatim>\<open>ListPage\<close>. Its inner loop compares the next new name with \<open>tempAfter\<close>, which starts
  as the entry but becomes the new name just emitted.
\<close>

fun take_new_page :: "string \<Rightarrow> string \<Rightarrow> string list \<Rightarrow> string list \<times> string list" where
  "take_new_page entry tempAfter [] = ([], [])"
| "take_new_page entry tempAfter (new # ns) =
     (if new = entry then take_new_page entry tempAfter ns
      else if tempAfter < new then ([], new # ns)
      else (let (em, rest) = take_new_page entry new ns in (new # em, rest)))"

text \<open>One page of the storage below: state \<open>(result, newEntries[c:], delCount)\<close>.\<close>

fun scan_page :: "(string \<times> bool) list \<Rightarrow> string list \<Rightarrow> string list \<times> string list \<times> int \<Rightarrow> string list \<times> string list \<times> int" where
  "scan_page mods [] st = st"
| "scan_page mods (entry # es) (result, ns, dc) =
     (let (em, rest) = take_new_page entry entry ns
      in if map_of mods entry = Some True
         then scan_page mods es (result @ em, rest, dc - 1)
         else scan_page mods es (result @ em @ [entry], rest, dc))"

text \<open>
  The outer loop; \<open>lp\<close> is the \<open>ListPage\<close> of the storage below for the prefix. It returns
  the result and the new names not yet emitted, or \<open>None\<close> when the fuel is used up.
\<close>

fun page_loop :: "nat \<Rightarrow> (string \<Rightarrow> int \<Rightarrow> string list) \<Rightarrow> (string \<times> bool) list \<Rightarrow> int \<Rightarrow> string
    \<Rightarrow> string list \<times> string list \<times> int \<Rightarrow> (string list \<times> string list) option" where
  "page_loop 0 lp mods limit currentAfter st = None"
| "page_loop (Suc n) lp mods limit currentAfter (result, ns, dc) =
     (let remaining = (if 0 < limit then limit - int (length result) + dc else limit);
          page = lp currentAfter remaining
      in if page = [] then Some (result, ns)
         else if ns = [] \<and> dc \<le> 0 then Some (result @ page, ns)
         else (let (result', ns', dc') = scan_page mods page (result, ns, dc)
               in if 0 < limit \<and> limit \<le> int (length result') then Some (result', ns')
                  else page_loop n lp mods limit (last page) (result', ns', dc')))"

text \<open>
  \<^verbatim>\<open>make([]string, 0, limit)\<close> panics for a negative limit; \<open>MakeSlicePanic\<close> is that panic.
\<close>

datatype list_fault = MakeSlicePanic | OutOfFuel

definition tx_list_page :: "'v inmemTransaction \<Rightarrow> string \<Rightarrow> string \<Rightarrow> int \<Rightarrow> list_fault + string list" where
  "tx_list_page t path after limit =
     (let lp = store_list_page (tx_s t) path in
      if tx_actions t = [] then Inr (lp after limit)
      else let mods = buildActionMap path (tx_actions t) after
           in if mods = [] then Inr (lp after limit)
              else if limit < 0 then Inl MakeSlicePanic
              else (case page_loop (Suc (length (store_list (tx_s t) path))) lp mods limit after
                           ([], new_entries mods, del_count mods) of
                      None \<Rightarrow> Inl OutOfFuel
                    | Some (result, ns) \<Rightarrow>
                        (let r = result @ ns
                         in Inr (if 0 < limit \<and> limit < int (length r) then take (nat limit) r else r))))"

section \<open>The view of the transaction\<close>

lemma apply_actions_append [simp]: "apply_actions (as @ bs) s = apply_actions bs (apply_actions as s)"
  by (simp add: apply_actions_def)

lemma apply_actions_simps [simp]:
  "apply_actions [] s = s" "apply_actions (a # as) s = apply_actions as (apply_action a s)"
  by (simp_all add: apply_actions_def)

lemma get_backward_commit:
  "store_get (apply_actions as s) k =
     (case get_backward (rev as) k of Some r \<Rightarrow> r | None \<Rightarrow> store_get s k)"
proof (induction as rule: rev_induct)
  case (snoc a as)
  then show ?case by (cases a) (simp_all add: store_get_put store_get_delete)
qed simp

lemma tx_get_commit: "tx_get t k = store_get (apply_actions (tx_actions t) (tx_s t)) k"
  by (simp add: tx_get_def get_backward_commit)

lemma commit_actions_ok: "(\<And>a. a \<in> set as \<Longrightarrow> fails a = None) \<Longrightarrow> commit_actions fails as s = (None, apply_actions as s)"
  by (induction as arbitrary: s) simp_all

lemma commit_actions_prefix:
  "\<exists>bs cs. as = bs @ cs \<and> snd (commit_actions fails as s) = apply_actions bs s"
proof (induction as arbitrary: s)
  case (Cons a as)
  show ?case
  proof (cases "fails a")
    case None
    obtain bs cs where "as = bs @ cs" "snd (commit_actions fails as (apply_action a s)) = apply_actions bs (apply_action a s)"
      using Cons.IH by blast
    with None show ?thesis by (intro exI [of _ "a # bs"] exI [of _ cs]) simp
  qed (auto intro: exI [of _ "[]"])
qed simp

lemma commit_actions_err:
  "commit_actions fails as s = (Some e, s') \<Longrightarrow>
   \<exists>pre a post. as = pre @ a # post \<and> fails a = Some e \<and> s' = apply_actions pre s"
proof (induction as arbitrary: s)
  case (Cons a as)
  show ?case
  proof (cases "fails a")
    case None
    with Cons.prems have "commit_actions fails as (apply_action a s) = (Some e, s')" by simp
    from Cons.IH [OF this] obtain pre b post
      where "as = pre @ b # post" "fails b = Some e" "s' = apply_actions pre (apply_action a s)" by blast
    then have "a # as = (a # pre) @ b # post \<and> fails b = Some e \<and> s' = apply_actions (a # pre) s" by simp
    then show ?thesis by blast
  next
    case (Some x)
    with Cons.prems show ?thesis by (auto intro!: exI [of _ "[]"])
  qed
qed simp

interpretation shim_kv: kv_storage tx_get tx_put tx_delete
  by unfold_locales (simp_all add: tx_get_commit tx_put_def tx_delete_def store_get_put store_get_delete)

section \<open>The action map\<close>

lemma buildActionMap_snoc:
  "buildActionMap path (as @ [a]) after = action_map_step path after a (buildActionMap path as after)"
  by (simp add: buildActionMap_def)

lemma buildActionMap_distinct: "distinct (map fst (buildActionMap path as after))"
  by (induction as rule: rev_induct)
     (auto simp: buildActionMap_snoc action_map_step_def Let_def distinct_update, simp add: buildActionMap_def)

lemma buildActionMap_after: "map_of (buildActionMap path as after) c = Some b \<Longrightarrow> after < c"
proof (induction as arbitrary: b rule: rev_induct)
  case Nil
  then show ?case by (simp add: buildActionMap_def)
next
  case (snoc a as)
  then show ?case by (auto simp: buildActionMap_snoc action_map_step_def Let_def split: if_splits)
qed

lemma buildActionMap_plain:
  assumes "CHR ''/'' \<notin> set c" and "after < c"
  shows "map_of (buildActionMap path as after) c =
    map_option (\<lambda>r. r = None) (get_backward (rev as) (path @ c))"
proof (induction as rule: rev_induct)
  case Nil
  show ?case by (simp add: buildActionMap_def)
next
  case (snoc a as)
  show ?case
  proof (cases "action_key a = path @ c")
    case True
    then show ?thesis using assms
      by (cases a) (auto simp: buildActionMap_snoc action_map_step_def Let_def direct_child_plain)
  next
    case False
    have "direct_child (drop (length path) (action_key a)) \<noteq> c" if "prefix path (action_key a)"
      using that False assms(1) by (metis append_eq_conv_conj direct_child_plainD prefix_def)
    then show ?thesis using False snoc.IH
      by (auto simp: buildActionMap_snoc action_map_step_def Let_def)
  qed
qed

lemma new_entries_set:
  "distinct (map fst mods) \<Longrightarrow> c \<in> set (new_entries mods) \<longleftrightarrow> map_of mods c = Some False"
  by (force simp: new_entries_def map_of_eq_Some_iff)

lemma new_entries_sorted: "distinct (map fst mods) \<Longrightarrow> sorted_wrt (<) (new_entries mods)"
  by (simp add: new_entries_def strict_sorted_iff distinct_map_filter)

section \<open>List\<close>

lemma take_new_eq:
  "sorted_wrt (<) ns \<Longrightarrow> take_new e ns = (takeWhile (\<lambda>n. n < e) ns, dropWhile (\<lambda>n. n \<le> e) ns)"
proof (induction ns)
  case (Cons n ns)
  then show ?case
  proof (cases "n = e")
    case True
    with Cons have "takeWhile (\<lambda>n. n < e) ns = []" by (cases ns) auto
    with Cons True show ?thesis by simp
  qed (auto simp: not_less_iff_gr_or_eq)
qed simp

lemma weave_spec:
  assumes "sorted_wrt (<) es" and "sorted_wrt (<) ns" and "\<And>n. n \<in> set ns \<Longrightarrow> map_of mods n \<noteq> Some True"
  shows "set (weave mods es ns) = {e \<in> set es. map_of mods e \<noteq> Some True} \<union> set ns \<and>
         sorted_wrt (<) (weave mods es ns)"
  using assms
proof (induction es arbitrary: ns)
  case Nil
  then show ?case by simp
next
  case (Cons e es)
  let ?em = "takeWhile (\<lambda>n. n < e) ns" and ?rest = "dropWhile (\<lambda>n. n \<le> e) ns"
  have em: "\<forall>x \<in> set ?em. x < e" by (auto dest: set_takeWhileD)
  have em_sorted: "sorted_wrt (<) ?em" using Cons.prems(2) by (rule sorted_wrt_takeWhile)
  have rest_sorted: "sorted_wrt (<) ?rest" using Cons.prems(2) by (rule sorted_wrt_dropWhile)
  have rest_set: "set ?rest = {n \<in> set ns. e < n}"
    using Cons.prems(2) by (induction ns) (auto simp: not_less_iff_gr_or_eq)
  have em_set: "set ?em = {n \<in> set ns. n < e}"
    using Cons.prems(2) by (induction ns) (auto dest: order.strict_trans)
  have "set (weave mods es ?rest) = {x \<in> set es. map_of mods x \<noteq> Some True} \<union> set ?rest \<and>
        sorted_wrt (<) (weave mods es ?rest)"
    using Cons.prems rest_sorted rest_set by (intro Cons.IH) auto
  moreover have "\<forall>x \<in> set es. e < x" using Cons.prems(1) by simp
  ultimately show ?case
    using em em_sorted rest_set em_set Cons.prems(3)
    by (auto simp: take_new_eq [OF Cons.prems(2)] sorted_wrt_append dest: order.strict_trans)
qed

lemma tx_list_spec:
  defines "mods \<equiv> \<lambda>t p. buildActionMap p (tx_actions t) []"
  shows "set (tx_list t p) = {e \<in> set (store_list (tx_s t) p). map_of (mods t p) e \<noteq> Some True}
           \<union> {c. map_of (mods t p) c = Some False} \<and> sorted_wrt (<) (tx_list t p)"
proof -
  let ?m = "buildActionMap p (tx_actions t) []"
  have d: "distinct (map fst ?m)" by (rule buildActionMap_distinct)
  have w: "set (weave ?m (store_list (tx_s t) p) (new_entries ?m)) =
      {e \<in> set (store_list (tx_s t) p). map_of ?m e \<noteq> Some True} \<union> set (new_entries ?m) \<and>
      sorted_wrt (<) (weave ?m (store_list (tx_s t) p) (new_entries ?m))"
    by (rule weave_spec) (simp_all add: store_list_sorted new_entries_sorted [OF d] new_entries_set [OF d])
  have ns: "set (new_entries ?m) = {c. map_of ?m c = Some False}"
    using new_entries_set [OF d] by blast
  show ?thesis
  proof (cases "?m = []")
    case True
    then show ?thesis by (simp add: tx_list_def mods_def store_list_sorted)
  next
    case False
    then have "tx_actions t \<noteq> []" by (auto simp: buildActionMap_def)
    with False w ns show ?thesis by (simp add: tx_list_def mods_def Let_def)
  qed
qed

lemma tx_list_key:
  assumes "c \<noteq> []" and "CHR ''/'' \<notin> set c"
  shows "c \<in> set (tx_list t p) \<longleftrightarrow> tx_get t (p @ c) \<noteq> None"
proof -
  have "[] < c" using assms(1) by (cases c) simp_all
  then have m: "map_of (buildActionMap p (tx_actions t) []) c =
      map_option (\<lambda>r. r = None) (get_backward (rev (tx_actions t)) (p @ c))"
    using assms(2) by (rule buildActionMap_plain [rotated])
  show ?thesis
    by (auto simp: tx_list_spec tx_get_def m store_list_key [OF assms(2)] split: option.split)
qed

interpretation shim: kv_listing tx_get tx_put tx_delete tx_list
  by unfold_locales (rule tx_list_spec [THEN conjunct2], rule tx_list_key)

section \<open>ListPage over deletions\<close>

text \<open>
  When the transaction has added no name behind \<open>after\<close>, \<open>ListPage\<close> is the page of the
  listing without the deleted names. This is the situation of the loops that delete what they
  enumerate.
\<close>

definition alive :: "(string \<times> bool) list \<Rightarrow> string list \<Rightarrow> string list" where
  "alive mods cs = filter (\<lambda>c. map_of mods c \<noteq> Some True) cs"

definition dead :: "(string \<times> bool) list \<Rightarrow> string list \<Rightarrow> string list" where
  "dead mods cs = filter (\<lambda>c. map_of mods c = Some True) cs"

lemma alive_append [simp]: "alive mods (xs @ ys) = alive mods xs @ alive mods ys"
  by (simp add: alive_def)

lemma dead_append [simp]: "dead mods (xs @ ys) = dead mods xs @ dead mods ys"
  by (simp add: dead_def)

lemma alive_no_dead: "dead mods cs = [] \<Longrightarrow> alive mods cs = cs"
  by (simp add: alive_def dead_def filter_empty_conv filter_id_conv)

lemma scan_page_no_new:
  "scan_page mods page (result, [], dc) =
     (result @ alive mods page, [], dc - int (length (dead mods page)))"
  by (induction page arbitrary: result dc) (auto simp: alive_def dead_def)

context page_source
begin

lemma page_loop_no_new:
  assumes "[] \<notin> set cs" and "0 \<le> limit"
    and "length (filter (\<lambda>c. after = [] \<or> after < c) cs) < fuel"
    and "int (length (dead mods (filter (\<lambda>c. after = [] \<or> after < c) cs))) \<le> dc"
    and "0 < limit \<Longrightarrow> int (length result) < limit"
  shows "\<exists>X. page_loop fuel lp mods limit after (result, [], dc) = Some (result @ X, []) \<and>
    (if 0 < limit
     then take (nat limit - length result) X =
          take (nat limit - length result) (alive mods (filter (\<lambda>c. after = [] \<or> after < c) cs))
     else X = alive mods (filter (\<lambda>c. after = [] \<or> after < c) cs))"
  using assms(3,4,5)
proof (induction fuel arbitrary: after result dc)
  case 0
  then show ?case by simp
next
  case (Suc fuel)
  let ?R = "filter (\<lambda>c. after = [] \<or> after < c) cs"
  let ?m = "if 0 < limit then limit - int (length result) + dc else limit"
  let ?page = "lp after ?m"
  have dc: "0 \<le> dc" using Suc.prems(2) by linarith
  have m: "0 < limit \<Longrightarrow> 0 < ?m" using Suc.prems(3) dc by simp
  have page_eq: "?page = (if 0 < limit then take (nat ?m) ?R else ?R)"
    using m assms(2) by (auto simp: page page_of_def)
  show ?case
  proof (cases "?page = []")
    case True
    then have "?R = []" using page_eq m by (auto split: if_splits)
    with True show ?thesis by (auto simp: Let_def alive_def)
  next
    case ne: False
    then have Rne: "?R \<noteq> []" using page_eq by (auto split: if_splits)
    show ?thesis
    proof (cases "dc \<le> 0")
      case True
      then have "length (dead mods ?R) = 0" using Suc.prems(2) by linarith
      then have "dead mods ?R = []" unfolding length_0_conv .
      then have "alive mods ?R = ?R" by (rule alive_no_dead)
      moreover have "?m = limit - int (length result) \<or> \<not> 0 < limit" using True dc by simp
      ultimately show ?thesis using ne True page_eq
        by (auto simp: Let_def nat_diff_distrib min_def)
    next
      case del: False
      let ?dc' = "dc - int (length (dead mods ?page))"
      define rest where "rest = (if 0 < limit then drop (nat ?m) ?R else [])"
      have split: "?R = ?page @ rest" using page_eq by (simp add: rest_def)
      have aR: "alive mods ?R = alive mods ?page @ alive mods rest" by (subst split) simp
      have step: "page_loop (Suc fuel) lp mods limit after (result, [], dc) =
          (if 0 < limit \<and> limit \<le> int (length (result @ alive mods ?page))
           then Some (result @ alive mods ?page, [])
           else page_loop fuel lp mods limit (last ?page) (result @ alive mods ?page, [], ?dc'))"
        using ne del by (simp add: Let_def scan_page_no_new)
      show ?thesis
      proof (cases "0 < limit \<and> limit \<le> int (length (result @ alive mods ?page))")
        case True
        then have "nat limit - length result \<le> length (alive mods ?page)"
          unfolding length_append by arith
        then have "take (nat limit - length result) (alive mods ?page @ alive mods rest) =
                   take (nat limit - length result) (alive mods ?page)" by simp
        moreover have "page_loop (Suc fuel) lp mods limit after (result, [], dc) =
            Some (result @ alive mods ?page, [])" unfolding step by (rule if_P [OF True])
        ultimately show ?thesis using True unfolding aR
          by (intro exI [of _ "alive mods ?page"]) (simp only: if_True simp_thms)
      next
        case False
        let ?l = "last ?page"
        have l_in: "?l \<in> set ?R" using ne split by (metis Un_iff last_in_set set_append)
        have l_ne: "?l \<noteq> []" using l_in assms(1) by auto
        have sw: "sorted_wrt (<) ?R" using sorted by (rule sorted_wrt_filter)
        have R': "filter (\<lambda>c. ?l = [] \<or> ?l < c) cs = rest"
        proof -
          have "filter (\<lambda>c. ?l < c) cs = filter (\<lambda>c. ?l < c) ?R"
            using l_in by (auto intro!: filter_cong)
          also have "\<dots> = rest"
          proof (cases "0 < limit")
            case True
            then show ?thesis using filter_above_last [OF sw Rne, of "nat ?m"] m page_eq
              by (simp add: rest_def)
          next
            case nl: False
            have "filter (\<lambda>c. last (take (length ?R) ?R) < c) ?R = drop (length ?R) ?R"
              using Rne by (intro filter_above_last [OF sw Rne]) simp
            then show ?thesis using nl page_eq by (simp add: rest_def)
          qed
          finally show ?thesis using l_ne by simp
        qed
        have len: "length rest < fuel"
        proof -
          have "length ?R = length ?page + length rest" by (subst split) simp
          moreover have "0 < length ?page" using ne by simp
          ultimately show ?thesis using Suc.prems(1) by linarith
        qed
        have dead: "int (length (dead mods rest)) \<le> ?dc'"
        proof -
          have "length (dead mods ?R) = length (dead mods ?page) + length (dead mods rest)"
            by (subst split) simp
          then show ?thesis using Suc.prems(2) by linarith
        qed
        obtain X where X: "page_loop fuel lp mods limit ?l (result @ alive mods ?page, [], ?dc') =
            Some ((result @ alive mods ?page) @ X, [])"
          and Xt: "if 0 < limit
            then take (nat limit - length (result @ alive mods ?page)) X =
                 take (nat limit - length (result @ alive mods ?page)) (alive mods rest)
            else X = alive mods rest"
          using Suc.IH [of ?l ?dc' "result @ alive mods ?page"] False len dead R' by auto
        have "page_loop (Suc fuel) lp mods limit after (result, [], dc) =
            Some (result @ (alive mods ?page @ X), [])"
          unfolding step using X by (simp only: if_not_P [OF False] append_assoc)
        moreover have "if 0 < limit
           then take (nat limit - length result) (alive mods ?page @ X) =
                take (nat limit - length result) (alive mods ?R)
           else alive mods ?page @ X = alive mods ?R"
          using Xt unfolding aR by (simp add: take_append diff_diff_left split: if_splits)
        ultimately show ?thesis by blast
      qed
    qed
  qed
qed

end

lemma new_entries_del_count:
  assumes "new_entries mods = []" and "distinct (map fst mods)" and "distinct cs"
  shows "int (length (dead mods cs)) \<le> del_count mods"
proof -
  have "set (dead mods cs) \<subseteq> set (map fst (filter snd mods))"
    by (force simp: dead_def dest: map_of_SomeD)
  moreover have "distinct (dead mods cs)" using assms(3) by (simp add: dead_def)
  ultimately have "length (dead mods cs) \<le> length (map fst (filter snd mods))"
    by (metis card_length card_mono distinct_card finite_set le_trans)
  then show ?thesis by (simp add: del_count_def)
qed

lemma tx_list_page_no_new:
  assumes "[] \<notin> set (store_list (tx_s t) p)" and "0 \<le> limit"
    and "new_entries (buildActionMap p (tx_actions t) after) = []"
  shows "tx_list_page t p after limit =
    Inr (page_of (alive (buildActionMap p (tx_actions t) after) (store_list (tx_s t) p)) after limit)"
proof -
  let ?m = "buildActionMap p (tx_actions t) after" and ?cs = "store_list (tx_s t) p"
  let ?R = "filter (\<lambda>c. after = [] \<or> after < c) ?cs"
  have swap: "filter (\<lambda>c. after = [] \<or> after < c) (alive ?m ?cs) = alive ?m ?R"
    by (simp add: alive_def conj_commute)
  show ?thesis
  proof (cases "?m = []")
    case True
    then have "alive ?m ?cs = ?cs" by (simp add: alive_def)
    with True show ?thesis by (simp add: tx_list_page_def store_list_page_def Let_def)
  next
    case False
    then have acts: "tx_actions t \<noteq> []" by (auto simp: buildActionMap_def)
    have dist: "distinct ?R" using store_list_sorted [of "tx_s t" p] by (simp add: strict_sorted_iff)
    have dc: "int (length (dead ?m ?R)) \<le> del_count ?m"
      by (rule new_entries_del_count [OF assms(3) buildActionMap_distinct dist])
    have "length ?R < Suc (length ?cs)" by (simp add: less_Suc_eq_le)
    then have "\<exists>X. page_loop (Suc (length ?cs)) (store_list_page (tx_s t) p) ?m limit after
          ([], [], del_count ?m) = Some ([] @ X, []) \<and>
        (if 0 < limit then take (nat limit - length ([] :: string list)) X =
            take (nat limit - length ([] :: string list)) (alive ?m ?R) else X = alive ?m ?R)"
      by (rule store_pages.page_loop_no_new [OF assms(1,2) _ dc]) simp
    then obtain X where loop: "page_loop (Suc (length ?cs)) (store_list_page (tx_s t) p) ?m limit after
          ([], [], del_count ?m) = Some (X, [])"
      and X: "if 0 < limit then take (nat limit) X = take (nat limit) (alive ?m ?R) else X = alive ?m ?R"
      unfolding append_Nil list.size(3) diff_zero by blast
    have "(if 0 < limit \<and> limit < int (length X) then take (nat limit) X else X) =
          page_of (alive ?m ?cs) after limit"
    proof (cases "0 < limit \<and> limit < int (length X)")
      case True
      with X show ?thesis by (simp add: page_of_def swap)
    next
      case nt: False
      show ?thesis
      proof (cases "0 < limit")
        case True
        with nt have "take (nat limit) X = X" by simp
        with X True nt show ?thesis by (simp add: page_of_def swap)
      next
        case nl: False
        with X show ?thesis by (simp add: page_of_def swap)
      qed
    qed
    then show ?thesis using False acts assms(2,3) loop
      by (simp add: tx_list_page_def Let_def del: page_loop.simps split del: if_split cong: if_cong)
  qed
qed

lemma buildActionMap_deletions:
  "(\<And>a. a \<in> set as \<Longrightarrow> action_is_put a \<Longrightarrow> \<not> prefix p (action_key a)) \<Longrightarrow> map_of (buildActionMap p as after) c \<noteq> Some False"
proof (induction as rule: rev_induct)
  case Nil
  then show ?case by (simp add: buildActionMap_def)
next
  case (snoc a as)
  then show ?case by (auto simp: buildActionMap_snoc action_map_step_def Let_def split: if_splits)
qed

lemma buildActionMap_deleted_plain: "map_of (buildActionMap p as after) c = Some True \<Longrightarrow> CHR ''/'' \<notin> set c"
proof (induction as rule: rev_induct)
  case Nil
  then show ?case by (simp add: buildActionMap_def)
next
  case (snoc a as)
  then show ?case
    by (auto simp: buildActionMap_snoc action_map_step_def Let_def direct_child_slash split: if_splits)
qed

section \<open>Properties\<close>

text \<open>C23. The transaction reads what its commit would write: \<open>Get\<close> returns for every path the value a
  successful \<open>Commit\<close> leaves in the storage below, and that commit succeeds and empties the list of
  pending actions when the storage accepts every action.\<close>

theorem shim_reads_what_commit_writes:
  "tx_get t k = store_get (tx_s (snd (tx_commit (\<lambda>a. None :: 'e option) t))) k
   \<and> fst (tx_commit (\<lambda>a. None :: 'e option) t) = None
   \<and> tx_actions (snd (tx_commit (\<lambda>a. None :: 'e option) t)) = []"
  by (simp add: tx_get_commit tx_commit_def commit_actions_ok)

text \<open>C24. A commit of the emulated transaction is not atomic: when the storage refuses an action, exactly
  the actions before it have been written, the error is that of the refused action, and the list of
  pending actions is kept.\<close>

theorem shim_commit_stops_at_failure:
  assumes "tx_commit fails t = (Some e, t')"
  shows "\<exists>pre a post. tx_actions t = pre @ a # post \<and> fails a = Some e
    \<and> tx_s t' = apply_actions pre (tx_s t) \<and> tx_actions t' = tx_actions t"
proof -
  from assms have "commit_actions fails (tx_actions t) (tx_s t) = (Some e, tx_s t')" and "tx_actions t' = tx_actions t"
    by (auto simp: tx_commit_def split: prod.splits option.splits)
  then show ?thesis using commit_actions_err by metis
qed

lemma shim_commit_stops_at_failure_witness:
  "let t = \<lparr>tx_s = [], tx_actions = [ActPut ''a'' True, ActPut ''b'' True]\<rparr>;
       t' = \<lparr>tx_s = [(''a'', True)], tx_actions = [ActPut ''a'' True, ActPut ''b'' True]\<rparr>
   in \<exists>pre a post. tx_actions t = pre @ a # post \<and> a = ActPut ''b'' True \<and> tx_s t' = apply_actions pre (tx_s t)"
proof -
  let ?fails = "\<lambda>a :: bool storageAction. if action_key a = ''b'' then Some ''full'' else None"
  have "tx_commit ?fails \<lparr>tx_s = [], tx_actions = [ActPut ''a'' True, ActPut ''b'' True]\<rparr> =
      (Some ''full'', \<lparr>tx_s = [(''a'', True)], tx_actions = [ActPut ''a'' True, ActPut ''b'' True]\<rparr>)"
    by (simp add: tx_commit_def store_put_def)
  from shim_commit_stops_at_failure [OF this] show ?thesis
    by (auto simp: Let_def Cons_eq_append_conv split: if_splits)
qed

text \<open>C22. \<open>List\<close> of the emulated transaction agrees with its \<open>Get\<close>: a name without a slash is listed
  exactly if the path it stands for has a value, and the listing is sorted without repetition.\<close>

theorem shim_list_of_view:
  assumes "c \<noteq> []" and "CHR ''/'' \<notin> set c"
  shows "(c \<in> set (tx_list t p) \<longleftrightarrow> tx_get t (p @ c) \<noteq> None) \<and> distinct (tx_list t p) \<and> sorted (tx_list t p)"
  using shim.list_key [OF assms] shim.list_distinct shim.list_sorted [of t p]
  by (simp add: strict_sorted_iff)

lemma shim_list_of_view_witness:
  "let t = \<lparr>tx_s = [(''u/a'', 1 :: int), (''u/z'', 2)], tx_actions = [ActDelete ''u/a'', ActPut ''u/m'' 3]\<rparr>
   in (''m'' \<in> set (tx_list t ''u/'') \<longleftrightarrow> tx_get t ''u/m'' \<noteq> None) \<and> tx_list t ''u/'' = [''m'', ''z'']"
  using shim_list_of_view [of "''m''" "\<lparr>tx_s = [(''u/a'', 1 :: int), (''u/z'', 2)], tx_actions = [ActDelete ''u/a'', ActPut ''u/m'' 3]\<rparr>" "''u/''"]
  unfolding Let_def by (intro conjI, simp, code_simp)

text \<open>
  C40. A transaction that has put nothing below the prefix (it may have deleted there, and put elsewhere):
  for every start and every limit that is not negative, \<open>ListPage\<close> returns the page of the names that
  still have a value, in order; directories below the prefix are always reported. So each page is
  filled up behind the deleted names, over as many pages of the storage below as it takes.
\<close>

theorem tx_list_page_deletions:
  assumes "store_get (tx_s t) p = None" and "0 \<le> limit"
    and "\<And>a. a \<in> set (tx_actions t) \<Longrightarrow> action_is_put a \<Longrightarrow> \<not> prefix p (action_key a)"
  shows "tx_list_page t p after limit = Inr (page_of
    (filter (\<lambda>c. CHR ''/'' \<in> set c \<or> tx_get t (p @ c) \<noteq> None) (store_list (tx_s t) p)) after limit)"
proof -
  let ?m = "buildActionMap p (tx_actions t) after" and ?cs = "store_list (tx_s t) p"
  let ?ok = "\<lambda>c. CHR ''/'' \<in> set c \<or> tx_get t (p @ c) \<noteq> None"
  have empty: "[] \<notin> set ?cs"
    using store_list_key [of "[]" "tx_s t" p] assms(1) by simp
  have no_False: "map_of ?m c \<noteq> Some False" for c
    using assms(3) by (rule buildActionMap_deletions)
  then have "new_entries ?m = []"
    using new_entries_set [OF buildActionMap_distinct, of _ p "tx_actions t" after] by (metis last_in_set)
  note page = tx_list_page_no_new [OF empty assms(2) this]
  have ok: "map_of ?m c \<noteq> Some True \<longleftrightarrow> ?ok c" if "c \<in> set ?cs" "after = [] \<or> after < c" for c
  proof (cases "CHR ''/'' \<in> set c")
    case True
    then show ?thesis using buildActionMap_deleted_plain by blast
  next
    case False
    have "c \<noteq> []" using empty that(1) by metis
    then have "after < c" using that(2) by (cases c) auto
    then have m: "map_of ?m c = map_option (\<lambda>r. r = None) (get_backward (rev (tx_actions t)) (p @ c))"
      by (rule buildActionMap_plain [OF False])
    have "store_get (tx_s t) (p @ c) \<noteq> None" using that(1) False by (simp add: store_list_key)
    then show ?thesis using m no_False [of c] False
      by (auto simp: tx_get_def split: option.splits)
  qed
  have "filter (\<lambda>c. after = [] \<or> after < c) (alive ?m ?cs) = filter (\<lambda>c. after = [] \<or> after < c) (filter ?ok ?cs)"
    unfolding alive_def filter_filter using ok by (intro filter_cong) auto
  then show ?thesis by (simp add: page page_of_def)
qed

lemma tx_list_page_deletions_witness:
  "tx_list_page \<lparr>tx_s = [(''u/a'', 1 :: int), (''u/b'', 2), (''u/d/x'', 3), (''u/z'', 4)], tx_actions = [ActDelete ''u/b'', ActPut ''v/c'' 5]\<rparr>
     ''u/'' ''a'' 2 = Inr [''d/'', ''z'']"
proof -
  let ?t = "\<lparr>tx_s = [(''u/a'', 1 :: int), (''u/b'', 2), (''u/d/x'', 3), (''u/z'', 4)], tx_actions = [ActDelete ''u/b'', ActPut ''v/c'' 5]\<rparr>"
  have "tx_list_page ?t ''u/'' ''a'' 2 = Inr (page_of
      (filter (\<lambda>c. CHR ''/'' \<in> set c \<or> tx_get ?t (''u/'' @ c) \<noteq> None) (store_list (tx_s ?t) ''u/'')) ''a'' 2)"
    by (rule tx_list_page_deletions) (auto simp: store_get_def)
  also have "\<dots> = Inr [''d/'', ''z'']" by code_simp
  finally show ?thesis .
qed

text \<open>
  On a negative limit, which the storage takes for no limit, \<open>ListPage\<close> panics exactly if the action map
  is not empty: if some action below the prefix and behind the start is a put, or a deletion of a name without a slash.
\<close>

lemma buildActionMap_empty:
  "buildActionMap p as after = [] \<longleftrightarrow> (\<forall>a \<in> set as. prefix p (action_key a) \<longrightarrow>
     after < direct_child (drop (length p) (action_key a)) \<longrightarrow>
     \<not> action_is_put a \<and> CHR ''/'' \<in> set (drop (length p) (action_key a)))"
proof (induction as rule: rev_induct)
  case Nil
  show ?case by (simp add: buildActionMap_def)
next
  case (snoc a as)
  have "AList.update k v xs \<noteq> []" for k :: string and v :: bool and xs by (cases xs) auto
  then show ?case using snoc.IH by (auto simp: buildActionMap_snoc action_map_step_def Let_def not_le)
qed

lemma shim_list_page_panics:
  "limit < 0 \<Longrightarrow> tx_list_page t p after limit = (if \<exists>a \<in> set (tx_actions t). prefix p (action_key a)
       \<and> after < direct_child (drop (length p) (action_key a))
       \<and> (action_is_put a \<or> CHR ''/'' \<notin> set (drop (length p) (action_key a)))
     then Inl MakeSlicePanic else Inr (store_list_page (tx_s t) p after limit))"
  using buildActionMap_empty [of p "tx_actions t" after] by (auto simp: tx_list_page_def Let_def)

text \<open>Two new names that both come before an existing one: \<open>ListPage\<close> returns them out of order, and
  the generator that asks for page after page then reports the existing name twice. \<open>List\<close> is right.\<close>

lemma shim_list_page_disorder:
  "let t = \<lparr>tx_s = [(''u/z'', 0 :: int)], tx_actions = [ActPut ''u/a'' 1, ActPut ''u/b'' 2]\<rparr>;
       lp = (\<lambda>after limit. case tx_list_page t ''u/'' after limit of Inl _ \<Rightarrow> [] | Inr page \<Rightarrow> page)
   in tx_list t ''u/'' = [''a'', ''b'', ''z'']
    \<and> tx_list_page t ''u/'' [] 100 = Inr [''a'', ''z'', ''b'']
    \<and> listPaged 9 lp 100 [] = Some [''a'', ''z'', ''b'', ''z'']
    \<and> listPaged 9 (store_list_page (tx_s (snd (tx_commit (\<lambda>a. None :: int option) t))) ''u/'') 100 []
        = Some [''a'', ''b'', ''z'']"
  by code_simp

end
