(* ===== verification/Events.thy ===== *)
theory Events
  imports Prelude "HOL-Library.Word"
begin

unbundle bit_operations_syntax

text \<open>
  \<^verbatim>\<open>pkg/accountserver/events.go\<close>: what the servers of a NATS cluster answer to a claim update.
\<close>

type_synonym ServerCapability = "64 word"

definition JetStreamEnabled :: ServerCapability where "JetStreamEnabled = push_bit 0 1"
definition BinaryStreamSnapshot :: ServerCapability where "BinaryStreamSnapshot = push_bit 1 1"
definition AccountNRG :: ServerCapability where "AccountNRG = push_bit 2 1"

text \<open>A time is in nanoseconds, \<open>None\<close> the zero time; a slice or map may be nil.\<close>

record ServerInfo =
  si_Name :: string
  si_Host :: string
  si_ID :: string
  si_Cluster :: string
  si_Domain :: string
  si_Version :: string
  si_Tags :: "string list option"
  si_Metadata :: "(string \<times> string) list option"
  si_JetStream :: bool
  si_Flags :: ServerCapability
  si_Seq :: "64 word"
  si_Time :: "int option"

record ClaimUpdateError =
  cue_Account :: string
  cue_Code :: int
  cue_Description :: string

record ClaimUpdateStatus =
  cus_Account :: string
  cus_Code :: int
  cus_Message :: string

record ServerAPIClaimUpdateResponse =
  resp_Server :: "ServerInfo option"
  resp_Data :: "ClaimUpdateStatus option"
  resp_Error :: "ClaimUpdateError option"

definition ClaimUpdateError_Error :: "ClaimUpdateError \<Rightarrow> string" where
  "ClaimUpdateError_Error e = ''claim update error for account '' @ quoted (cue_Account e) @ '': ''
     @ showInt (cue_Code e) @ '' '' @ cue_Description e"

end
