(* ===== verification/Model.thy ===== *)
theory Model
  imports Paths Shim Events
begin

text \<open>
  The data model of the backend: JSON values, the claims structures the code touches, the
  entries kept in storage, the responses, the environment a request runs in and the state of
  the plugin (\<open>world\<close>). The fields keep the names of the Go structs, with a short prefix where
  two structs share one.
\<close>

section \<open>JSON\<close>

text \<open>
  \<^verbatim>\<open>json.RawMessage\<close> and \<^verbatim>\<open>map[string]any\<close> values. A raw message is represented by the value
  it spells; marshalling a Go map writes its keys in order. \<open>JSeconds d\<close> is the number
  \<^verbatim>\<open>d.Seconds()\<close> of a duration of \<open>d\<close> nanoseconds, a float that need not be whole.
\<close>

datatype json = JNull | JBool bool | JNum int | JSeconds int | JStr string | JList "json list"
  | JObj "(string \<times> json) list"

fun json_marshal :: "json \<Rightarrow> json" where
  "json_marshal (JList vs) = JList (map json_marshal vs)"
| "json_marshal (JObj kvs) = JObj (sort_key fst (map (\<lambda>(k, v). (k, json_marshal v)) kvs))"
| "json_marshal v = v"

text \<open>Unmarshalling into a map: an object, or \<^verbatim>\<open>null\<close> for the nil map; anything else is an error.\<close>

fun json_object :: "json \<Rightarrow> (string \<times> json) list option" where
  "json_object (JObj kvs) = Some kvs"
| "json_object JNull = Some []"
| "json_object _ = None"

section \<open>Claims\<close>

text \<open>
  The parts of \<^verbatim>\<open>jwt.OperatorClaims\<close>, \<^verbatim>\<open>jwt.AccountClaims\<close> and \<^verbatim>\<open>jwt.UserClaims\<close> the code
  reads or writes; the fields it only passes through are one opaque value \<open>Other\<close>.
  A Go slice or map that may be nil is an option.
\<close>

datatype exportType = UnknownExport | StreamExport | ServiceExport

record jwt_import =
  imp_Name :: string
  imp_Subject :: string
  imp_Account :: string
  imp_Token :: string
  imp_LocalSubject :: string
  imp_Type :: exportType
  imp_Share :: bool
  imp_AllowTrace :: bool

record jwt_operator =
  jo_SigningKeys :: "string list option"
  jo_SystemAccount :: string
  jo_Other :: json

record operator_claims =
  oc_Subject :: string
  oc_Name :: string
  oc_Expires :: int
  oc_NotBefore :: int
  oc_Operator :: jwt_operator

text \<open>\<^verbatim>\<open>jwt.UserPermissionLimits\<close>\<close>

record permission_limits =
  pl_Subs :: int
  pl_Data :: int
  pl_Payload :: int
  pl_Src :: "string list option"
  pl_Other :: json

record user_scope_claim =
  sc_Key :: string
  sc_Role :: string
  sc_Description :: string
  sc_Template :: permission_limits

record operator_limits =
  ol_Subs :: int
  ol_Data :: int
  ol_Payload :: int
  ol_Imports :: int
  ol_Exports :: int
  ol_WildcardExports :: bool
  ol_Conn :: int
  ol_LeafNodeConn :: int
  ol_Other :: json

record jwt_account =
  ja_Limits :: operator_limits
  ja_SigningKeys :: "(string \<times> user_scope_claim option) list option"
  ja_Mappings :: "json option"
  ja_Imports :: "jwt_import list"
  ja_Revocations :: "(string \<times> int) list"
  ja_Other :: json

record account_claims =
  ac_Subject :: string
  ac_Name :: string
  ac_Expires :: int
  ac_NotBefore :: int
  ac_Account :: jwt_account

record jwt_user =
  ju_Limits :: permission_limits
  ju_IssuerAccount :: string
  ju_Tags :: "string list option"
  ju_Other :: json

record user_claims =
  uc_Subject :: string
  uc_Name :: string
  uc_Expires :: int
  uc_NotBefore :: int
  uc_User :: jwt_user

section \<open>Stored entries\<close>

text \<open>The identifiers embedded in the Go structs are not exported, so they are not stored.\<close>

record operatorEntry =
  op_CreateSystemAccount :: bool
  op_SysAccountName :: string
  op_RawClaims :: "json option"
  op_DefaultSigningKey :: string

text \<open>Times are Unix times in nanoseconds; \<open>None\<close> is the zero \<^verbatim>\<open>time.Time\<close>.\<close>

record syncStatus =
  ss_Synced :: bool
  ss_LastError :: string
  ss_LastSuccessfulSync :: "int option"

record accountStatus =
  st_IsSystemAccount :: bool
  st_IsManaged :: bool
  st_Sync :: "syncStatus option"

record accountEntry =
  acc_RawClaims :: "json option"
  acc_SigningKey :: string
  acc_DefaultSigningKey :: string
  acc_Status :: accountStatus

record nkeyEntry =
  nk_Seed :: string
  nk_Scoped :: bool
  nk_Template :: "json option"
  nk_Description :: string

record jwtEntry =
  jwt_Token :: string
  jwt_Issuer :: string

record userEntry =
  us_RevokeOnDelete :: bool
  us_CredsDefaultTtl :: int
  us_CredsMaxTtl :: int
  us_DefaultSigningKey :: string
  us_RawClaims :: "json option"

record ephemeralUserEntry =
  eu_CredsDefaultTtl :: int
  eu_CredsMaxTtl :: int
  eu_DefaultSigningKey :: string
  eu_RawClaims :: "json option"

record accountRevocationEntry =
  rev_CreationTime :: "int option"
  rev_Ttl :: int

record accountImportEntry =
  ai_Imports :: "jwt_import list"

datatype serverStatus = StatusCreated | StatusActive | StatusSuspended | StatusError

record accountServerStatus =
  ast_LastStatusChange :: "int option"
  ast_Status :: serverStatus
  ast_Error :: string

record accountServerEntry =
  ase_Suspend :: bool
  ase_Servers :: "string list"
  ase_ConnectTimeout :: int
  ase_MaxReconnects :: int
  ase_ReconnectWait :: int
  ase_ClientName :: string
  ase_DisableAccountLookup :: bool
  ase_DisableAccountUpdate :: bool
  ase_DisableAccountDelete :: bool
  ase_Status :: accountServerStatus

record backendConfigEntry =
  cfg_ImplicitRevocationsEnabled :: bool

datatype entry =
    EOperator (the_operator: operatorEntry)
  | EAccount (the_account: accountEntry)
  | ENkey (the_nkey: nkeyEntry)
  | EJwt (the_jwt: jwtEntry)
  | EUser (the_user: userEntry)
  | EEphemeralUser (the_ephemeral: ephemeralUserEntry)
  | ERevocation (the_revocation: accountRevocationEntry)
  | EImport (the_import: accountImportEntry)
  | EAccountServer (the_server: accountServerEntry)
  | EConfig (the_config: backendConfigEntry)

section \<open>Responses and errors\<close>

record secret =
  sec_TTL :: int
  sec_MaxTTL :: int
  sec_Renewable :: bool
  sec_InternalData :: "(string \<times> json) list"

record response =
  r_Error :: "string option"
  r_Warnings :: "string list"
  r_Data :: "(string \<times> json) list"
  r_Secret :: "secret option"

definition emptyResponse :: response where
  "emptyResponse = \<lparr>r_Error = None, r_Warnings = [], r_Data = [], r_Secret = None\<rparr>"

definition ErrorResponse :: "string \<Rightarrow> response" where
  "ErrorResponse msg = emptyResponse\<lparr>r_Error := Some msg\<rparr>"

definition dataResponse :: "(string \<times> json) list \<Rightarrow> response" where
  "dataResponse kvs = emptyResponse\<lparr>r_Data := kvs\<rparr>"

definition AddWarning :: "string \<Rightarrow> response \<Rightarrow> response" where
  "AddWarning msg r = r\<lparr>r_Warnings := r_Warnings r @ [msg]\<rparr>"

definition AddWarnings :: "string list \<Rightarrow> response \<Rightarrow> response" where
  "AddWarnings msgs r = r\<lparr>r_Warnings := r_Warnings r @ msgs\<rparr>"

text \<open>
  How a method can end other than by returning a value: a Go error, a nil dereference or
  another run-time panic, a wait for a lock that nobody will release, a loop cut off by the
  fuel of the model, and an early \<^verbatim>\<open>return resp, nil\<close> from inside a block, which the handler
  turns back into its result.
\<close>

datatype err = Fail string | NilPointer | RuntimePanic | Deadlock | Diverge | EarlyReturn "response option"

section \<open>The environment of a request\<close>

text \<open>
  Everything the code calls but does not define: the storage's failures, the clock, the
  system's lease limits, the \<^verbatim>\<open>nkeys\<close> and \<^verbatim>\<open>jwt\<close> libraries and the NATS cluster. A key pair
  is represented by its seed. \<open>e_Connect\<close> gets the URL of the servers, what the authentication
  callback answers (an error or a user JWT) and what it signs a nonce with; \<open>e_Replies\<close> are what the
  library returns from its receives until the deadline of a request, errors or messages;
  \<open>e_UnmarshalResponse\<close> is \<^verbatim>\<open>json.Unmarshal\<close> of the data of such a message.
\<close>

datatype storageOp = OpGet | OpPut | OpDelete | OpList | OpBeginTx | OpCommit

datatype prefixByte = PrefixOperator | PrefixAccount | PrefixUser | PrefixOther

text \<open>\<^verbatim>\<open>nats.Msg\<close>\<close>

record natsMsg =
  nm_Subject :: string
  nm_Reply :: string
  nm_Header :: "(string \<times> string list) list"
  nm_Data :: string

record env =
  e_storageFails :: "storageOp \<Rightarrow> string \<Rightarrow> string option"
  e_native :: bool
  e_now :: int
  e_DefaultLeaseTTL :: int
  e_MaxLeaseTTL :: int
  e_CreatePair :: "prefixByte \<Rightarrow> nat \<Rightarrow> string option"
  e_DecodeSeed :: "string \<Rightarrow> prefixByte option"
  e_FromSeed :: "string \<Rightarrow> bool"
  e_PublicKey :: "string \<Rightarrow> string option"
  e_PrivateKey :: "string \<Rightarrow> string option"
  e_Sign :: "string \<Rightarrow> string \<Rightarrow> string option"
  e_IsValidPublicUserKey :: "string \<Rightarrow> bool"
  e_UnmarshalOperator :: "json \<Rightarrow> jwt_operator option"
  e_UnmarshalAccount :: "json \<Rightarrow> jwt_account option"
  e_UnmarshalUser :: "json \<Rightarrow> jwt_user option"
  e_UnmarshalLimits :: "json \<Rightarrow> permission_limits option"
  e_ValidateOperator :: "operator_claims \<Rightarrow> string list \<times> string list"
  e_ValidateAccount :: "account_claims \<Rightarrow> string list \<times> string list"
  e_ValidateUserClaims :: "user_claims \<Rightarrow> string list \<times> string list"
  e_ValidateUser :: "jwt_user \<Rightarrow> string list \<times> string list"
  e_ValidateImports :: "string \<Rightarrow> jwt_import list \<Rightarrow> string list \<times> string list"
  e_EncodeOperator :: "string \<Rightarrow> operator_claims \<Rightarrow> string option"
  e_EncodeAccount :: "string \<Rightarrow> account_claims \<Rightarrow> string option"
  e_EncodeUser :: "string \<Rightarrow> user_claims \<Rightarrow> string option"
  e_EncodeDelete :: "string \<Rightarrow> string \<Rightarrow> string option"
  e_DecodeIssuer :: "string \<Rightarrow> string option"
  e_FormatUserConfig :: "string \<Rightarrow> string \<Rightarrow> string option"
  e_NormTag :: "string \<Rightarrow> string"
  e_Connect :: "string \<Rightarrow> string + string \<Rightarrow> (string \<Rightarrow> string + string) \<Rightarrow> string option"
  e_Subscribe :: "string \<Rightarrow> string option"
  e_SubscribeSync :: "string option"
  e_PublishFails :: "string \<Rightarrow> string option"
  e_NewInbox :: string
  e_Replies :: "string \<Rightarrow> string \<Rightarrow> (string + natsMsg) list"
  e_UnmarshalResponse :: "string \<Rightarrow> ServerAPIClaimUpdateResponse option"

section \<open>The state of the plugin\<close>

text \<open>\<^verbatim>\<open>accountserver.AccountServer\<close>: its configuration and the number of its connection.\<close>

record accountServer =
  as_Operator :: string
  as_EnableAccountLookups :: bool
  as_EnableAccountUpdates :: bool
  as_EnableAccountDeletes :: bool
  as_conn :: nat

text \<open>
  \<open>w_disk\<close> is the mounted storage \<^verbatim>\<open>b.s\<close>; \<open>w_tx\<close> the pending actions of the request's
  transaction, if one is open; \<open>w_entropy\<close> counts the keys generated so far. The rest is the
  \<^verbatim>\<open>backend\<close> struct: the cached account servers, the cache of account public keys with the
  number of readers holding its lock and whether a writer waits for it, and what was sent on which NATS connection.
\<close>

record world =
  w_disk :: "entry store"
  w_tx :: "entry storageAction list option"
  w_entropy :: nat
  w_accServerCache :: "(string \<times> accountServer) list"
  w_accNkeyCache :: "(string \<times> (string \<times> string) list) list"
  w_accCacheReaders :: nat
  w_accCacheWriter :: bool
  w_nextConn :: nat
  w_subscriptions :: "(nat \<times> string) list"
  w_closed :: "nat list"
  w_published :: "(nat \<times> string \<times> string) list"

type_synonym 'a m = "(world, err, 'a) sem"

definition empty_world :: world where
  "empty_world = \<lparr>w_disk = [], w_tx = None, w_entropy = 0, w_accServerCache = [],
     w_accNkeyCache = [], w_accCacheReaders = 0, w_accCacheWriter = False, w_nextConn = 0, w_subscriptions = [],
     w_closed = [], w_published = []\<rparr>"

text \<open>\<^verbatim>\<open>if err != nil { return err }\<close> on a call of a library that reports failure as \<open>None\<close>.\<close>

definition liftOption :: "string \<Rightarrow> 'a option \<Rightarrow> 'a m" where
  "liftOption msg x = (case x of None \<Rightarrow> throwM (Fail msg) | Some y \<Rightarrow> returnM y)"

text \<open>\<^verbatim>\<open>return logical.ErrorResponse(...), nil\<close>\<close>

definition returnError :: "string \<Rightarrow> 'a m" where
  "returnError msg = throwM (EarlyReturn (Some (ErrorResponse msg)))"

text \<open>\<^verbatim>\<open>return nil, nil\<close>\<close>

definition returnNil :: "'a m" where
  "returnNil = throwM (EarlyReturn None)"

text \<open>The result of a handler body, with its early returns resolved.\<close>

definition handler :: "response option m \<Rightarrow> response option m" where
  "handler body = (\<lambda>w. case body w of
     (Inl (EarlyReturn r), w') \<Rightarrow> (Inr r, w') | x \<Rightarrow> x)"

lemma preserves_liftOption [preserves_rules]: "preserves I (liftOption msg x)"
  unfolding liftOption_def by (intro preserves_rules)

lemma preserves_returnError [preserves_rules]: "preserves I (returnError msg)"
  unfolding returnError_def by (intro preserves_rules)

lemma preserves_returnNil [preserves_rules]: "preserves I returnNil"
  unfolding returnNil_def by (intro preserves_rules)

lemma snd_handler [simp]: "snd (handler m w) = snd (m w)"
  by (auto simp: handler_def split: prod.splits sum.splits err.splits)

lemma preserves_handler [preserves_rules]: "preserves I m \<Longrightarrow> preserves I (handler m)"
  by (simp add: preserves_def)

text \<open>
  \<open>catchFail\<close>: the code looks at the Go error a call returned; a panic is not a Go error
  and passes through. \<open>wrapErr\<close> is \<^verbatim>\<open>return nil, fmt.Errorf("...: %w", err)\<close>,
  \<open>respondErr\<close> is \<^verbatim>\<open>return logical.ErrorResponse("...: %s", err.Error()), nil\<close>.
\<close>

definition catchFail :: "'a m \<Rightarrow> (string + 'a) m" where
  "catchFail m = (\<lambda>w. case m w of
     (Inl (Fail e), w') \<Rightarrow> (Inr (Inl e), w')
   | (Inl x, w') \<Rightarrow> (Inl x, w')
   | (Inr x, w') \<Rightarrow> (Inr (Inr x), w'))"

definition wrapErr :: "string \<Rightarrow> 'a m \<Rightarrow> 'a m" where
  "wrapErr msg m = bindM (catchFail m) (\<lambda>r. case r of
     Inl e \<Rightarrow> throwM (Fail (msg @ e)) | Inr x \<Rightarrow> returnM x)"

definition respondErr :: "string \<Rightarrow> 'a m \<Rightarrow> 'a m" where
  "respondErr msg m = bindM (catchFail m) (\<lambda>r. case r of
     Inl e \<Rightarrow> returnError (msg @ e) | Inr x \<Rightarrow> returnM x)"

text \<open>A method call or field access through a pointer that may be nil.\<close>

definition deref :: "'a option \<Rightarrow> 'a m" where
  "deref x = (case x of None \<Rightarrow> throwM NilPointer | Some y \<Rightarrow> returnM y)"

lemma snd_catchFail [simp]: "snd (catchFail m w) = snd (m w)"
  by (auto simp: catchFail_def split: prod.splits sum.splits err.splits)

lemma preserves_catchFail [preserves_rules]: "preserves I m \<Longrightarrow> preserves I (catchFail m)"
  by (simp add: preserves_def)

lemma preserves_wrapErr [preserves_rules]: "preserves I m \<Longrightarrow> preserves I (wrapErr msg m)"
  unfolding wrapErr_def by (intro preserves_rules)

lemma preserves_respondErr [preserves_rules]: "preserves I m \<Longrightarrow> preserves I (respondErr msg m)"
  unfolding respondErr_def by (intro preserves_rules)

lemma preserves_deref [preserves_rules]: "preserves I (deref x)"
  unfolding deref_def by (intro preserves_rules)

lemma catchFail_ok [simp]: "m w = (Inr x, w') \<Longrightarrow> catchFail m w = (Inr (Inr x), w')"
  by (simp add: catchFail_def)

lemma catchFail_Fail [simp]: "m w = (Inl (Fail e), w') \<Longrightarrow> catchFail m w = (Inr (Inl e), w')"
  by (simp add: catchFail_def)

lemma wrapErr_ok [simp]: "m w = (Inr x, w') \<Longrightarrow> wrapErr msg m w = (Inr x, w')"
  by (simp add: wrapErr_def returnM_apply)

lemma wrapErr_Fail [simp]: "m w = (Inl (Fail e), w') \<Longrightarrow> wrapErr msg m w = (Inl (Fail (msg @ e)), w')"
  by (simp add: wrapErr_def throwM_apply)

lemma respondErr_ok [simp]: "m w = (Inr x, w') \<Longrightarrow> respondErr msg m w = (Inr x, w')"
  by (simp add: respondErr_def returnM_apply)

lemma respondErr_Fail [simp]:
  "m w = (Inl (Fail e), w') \<Longrightarrow> respondErr msg m w = (Inl (EarlyReturn (Some (ErrorResponse (msg @ e)))), w')"
  by (simp add: respondErr_def returnError_def throwM_apply)

lemma deref_simps [simp]: "deref (Some x) w = (Inr x, w)" "deref None w = (Inl NilPointer, w)"
  by (simp_all add: deref_def returnM_apply throwM_apply)

lemma liftOption_simps [simp]: "liftOption msg (Some x) w = (Inr x, w)" "liftOption msg None w = (Inl (Fail msg), w)"
  by (simp_all add: liftOption_def returnM_apply throwM_apply)

end
