(* ===== verification/Txn.thy ===== *)
theory Txn
  imports Model
begin

text \<open>
  Storage as the handlers see it: \<^verbatim>\<open>req.Storage\<close>, which is the transaction while one is open,
  and \<^verbatim>\<open>b.s\<close>, which is always the mounted storage; the helpers \<^verbatim>\<open>get\<close>, \<^verbatim>\<open>storeInStorage\<close>
  and \<^verbatim>\<open>listPaged\<close> of \<^verbatim>\<open>backend.go\<close>; and the bracket \<^verbatim>\<open>StartTxStorageWithShim\<close> / deferred
  rollback / \<^verbatim>\<open>EndTxStorage\<close> around a handler.

  Every call of the storage can fail as the environment says. A transaction of the backend
  (\<open>e_native\<close>) applies its writes at commit, all or none, and lists its own view; the
  emulated one of \<open>Shim\<close> replays them one by one and lists as \<^verbatim>\<open>pkg/shimtx\<close> does. Both read
  through their pending writes.
\<close>

datatype sref = Req | Base

definition pending :: "sref \<Rightarrow> world \<Rightarrow> entry storageAction list option" where
  "pending s w = (case s of Base \<Rightarrow> None | Req \<Rightarrow> w_tx w)"

text \<open>What a read of the path returns when the storage does not fail.\<close>

definition view :: "sref \<Rightarrow> world \<Rightarrow> string \<Rightarrow> entry option" where
  "view s w k = (case pending s w of
     None \<Rightarrow> store_get (w_disk w) k
   | Some as \<Rightarrow> tx_get \<lparr>tx_s = w_disk w, tx_actions = as\<rparr> k)"

definition readFails :: "env \<Rightarrow> sref \<Rightarrow> world \<Rightarrow> string \<Rightarrow> string option" where
  "readFails E s w k = (case pending s w of
     Some as \<Rightarrow> if \<not> e_native E \<and> get_backward (rev as) k \<noteq> None then None
                 else e_storageFails E OpGet k
   | None \<Rightarrow> e_storageFails E OpGet k)"

definition sGet :: "env \<Rightarrow> sref \<Rightarrow> string \<Rightarrow> entry option m" where
  "sGet E s k = (\<lambda>w. case readFails E s w k of
     Some e \<Rightarrow> (Inl (Fail e), w) | None \<Rightarrow> (Inr (view s w k), w))"

definition sWrite :: "env \<Rightarrow> sref \<Rightarrow> storageOp \<Rightarrow> entry storageAction \<Rightarrow> unit m" where
  "sWrite E s opn a = (\<lambda>w. case pending s w of
     None \<Rightarrow> (case e_storageFails E opn (action_key a) of
        Some e \<Rightarrow> (Inl (Fail e), w)
      | None \<Rightarrow> (Inr (), w\<lparr>w_disk := apply_action a (w_disk w)\<rparr>))
   | Some as \<Rightarrow> (case (if e_native E then e_storageFails E opn (action_key a) else None) of
        Some e \<Rightarrow> (Inl (Fail e), w)
      | None \<Rightarrow> (Inr (), w\<lparr>w_tx := Some (as @ [a])\<rparr>)))"

definition sDelete :: "env \<Rightarrow> sref \<Rightarrow> string \<Rightarrow> unit m" where
  "sDelete E s k = sWrite E s OpDelete (ActDelete k)"

definition storeInStorage :: "env \<Rightarrow> sref \<Rightarrow> string \<Rightarrow> entry \<Rightarrow> unit m" where
  "storeInStorage E s k t = sWrite E s OpPut (ActPut k t)"

text \<open>\<^verbatim>\<open>get\<close>: absent, decoded, or the JSON of another struct, which is reported as an error.\<close>

definition get :: "env \<Rightarrow> sref \<Rightarrow> string \<Rightarrow> (entry \<Rightarrow> 'a option) \<Rightarrow> 'a option m" where
  "get E s k decode = bindM (sGet E s k) (\<lambda>e.
     case e of None \<Rightarrow> returnM None
     | Some v \<Rightarrow> (case decode v of None \<Rightarrow> throwM (Fail ''failed to decode entry'')
                  | Some d \<Rightarrow> returnM (Some d)))"

definition listFailure :: "list_fault \<Rightarrow> err" where
  "listFailure f = (case f of MakeSlicePanic \<Rightarrow> RuntimePanic | OutOfFuel \<Rightarrow> Diverge)"

definition sListPage :: "env \<Rightarrow> sref \<Rightarrow> string \<Rightarrow> string \<Rightarrow> int \<Rightarrow> string list m" where
  "sListPage E s p after limit = (\<lambda>w. case e_storageFails E OpList p of
     Some e \<Rightarrow> (Inl (Fail e), w)
   | None \<Rightarrow> (case pending s w of
       None \<Rightarrow> (Inr (store_list_page (w_disk w) p after limit), w)
     | Some as \<Rightarrow>
         if e_native E then (Inr (store_list_page (apply_actions as (w_disk w)) p after limit), w)
         else (case tx_list_page \<lparr>tx_s = w_disk w, tx_actions = as\<rparr> p after limit of
                 Inl f \<Rightarrow> (Inl (listFailure f), w) | Inr r \<Rightarrow> (Inr r, w))))"

section \<open>for ... range listPaged\<close>

definition DefaultPagingSize :: int where
  "DefaultPagingSize = 100"

text \<open>
  The loop fetches the next page when the bodies for the last one are done, so it sees what
  they changed. The model stops after as many pages as the storage and the transaction have
  keys; \<open>Progress\<close> shows that no request needs more.
\<close>

fun for_pages :: "nat \<Rightarrow> env \<Rightarrow> sref \<Rightarrow> string \<Rightarrow> (string \<Rightarrow> 'a \<Rightarrow> 'a m) \<Rightarrow> string \<Rightarrow> 'a \<Rightarrow> 'a m" where
  "for_pages 0 E s p body after a = throwM Diverge"
| "for_pages (Suc n) E s p body after a =
     bindM (sListPage E s p after DefaultPagingSize) (\<lambda>paths.
       if paths = [] then returnM a
       else bindM (foldM body paths a) (for_pages n E s p body (last paths)))"

definition paging_fuel :: "world \<Rightarrow> nat" where
  "paging_fuel w = Suc (length (w_disk w) + (case w_tx w of None \<Rightarrow> 0 | Some as \<Rightarrow> length as))"

definition for_listPaged :: "env \<Rightarrow> sref \<Rightarrow> string \<Rightarrow> (string \<Rightarrow> 'a \<Rightarrow> 'a m) \<Rightarrow> 'a \<Rightarrow> 'a m" where
  "for_listPaged E s p body a = (\<lambda>w. for_pages (paging_fuel w) E s p body [] a w)"

text \<open>
  \<open>listAccounts\<close>, \<open>listOperatorSigningKeys\<close> and the other typed generators: list, read each
  entry, skip what is gone, hand the rest to the body.
\<close>

definition for_entries :: "env \<Rightarrow> sref \<Rightarrow> string \<Rightarrow> (string \<Rightarrow> 'b option m)
    \<Rightarrow> (string \<Rightarrow> 'b \<Rightarrow> 'a \<Rightarrow> 'a m) \<Rightarrow> 'a \<Rightarrow> 'a m" where
  "for_entries E s p read body a = for_listPaged E s p (\<lambda>n a.
     bindM (read n) (\<lambda>e. case e of None \<Rightarrow> returnM a | Some x \<Rightarrow> body n x a)) a"

section \<open>Transactions\<close>

definition StartTxStorageWithShim :: "env \<Rightarrow> unit m" where
  "StartTxStorageWithShim E = (\<lambda>w.
     case (if e_native E then e_storageFails E OpBeginTx [] else None) of
       Some e \<Rightarrow> (Inl (Fail e), w) | None \<Rightarrow> (Inr (), w\<lparr>w_tx := Some []\<rparr>))"

definition actionFails :: "env \<Rightarrow> entry storageAction \<Rightarrow> string option" where
  "actionFails E a = e_storageFails E (if action_is_put a then OpPut else OpDelete) (action_key a)"

definition EndTxStorage :: "env \<Rightarrow> unit m" where
  "EndTxStorage E = (\<lambda>w. case w_tx w of
     None \<Rightarrow> (Inr (), w)
   | Some as \<Rightarrow>
       if e_native E
       then (case e_storageFails E OpCommit [] of
               Some e \<Rightarrow> (Inl (Fail e), w)
             | None \<Rightarrow> (Inr (), w\<lparr>w_disk := apply_actions as (w_disk w), w_tx := None\<rparr>))
       else (case commit_actions (actionFails E) as (w_disk w) of
               (Some e, d) \<Rightarrow> (Inl (Fail e), w\<lparr>w_disk := d\<rparr>)
             | (None, d) \<Rightarrow> (Inr (), w\<lparr>w_disk := d, w_tx := None\<rparr>)))"

text \<open>The handler frame: start, run the body, roll back whatever is still pending.\<close>

definition withTx :: "env \<Rightarrow> response option m \<Rightarrow> response option m" where
  "withTx E body = handler (\<lambda>w. case StartTxStorageWithShim E w of
     (Inl e, w1) \<Rightarrow> (Inl e, w1)
   | (Inr _, w1) \<Rightarrow> (case body w1 of (r, w2) \<Rightarrow> (r, w2\<lparr>w_tx := None\<rparr>)))"

section \<open>Reads and writes\<close>

lemma view_Base: "view Base w k = store_get (w_disk w) k"
  by (simp add: view_def pending_def)

lemma view_no_tx: "w_tx w = None \<Longrightarrow> view s w k = store_get (w_disk w) k"
  by (cases s) (simp_all add: view_def pending_def)

lemma view_tx: "w_tx w = Some as \<Longrightarrow> view Req w k = store_get (apply_actions as (w_disk w)) k"
  by (simp add: view_def pending_def tx_get_commit)

lemma view_disk: "view s w k = store_get
    (case pending s w of None \<Rightarrow> w_disk w | Some as \<Rightarrow> apply_actions as (w_disk w)) k"
  by (simp add: view_def tx_get_commit split: option.split)

text \<open>The effect of a write on the state, and on what either reference reads.\<close>

definition written :: "sref \<Rightarrow> entry storageAction \<Rightarrow> world \<Rightarrow> world" where
  "written s a w = (case pending s w of
     None \<Rightarrow> w\<lparr>w_disk := apply_action a (w_disk w)\<rparr>
   | Some as \<Rightarrow> w\<lparr>w_tx := Some (as @ [a])\<rparr>)"

lemma sWrite_result: "sWrite E s opn a w = (Inr (), written s a w) \<or> (\<exists>e. sWrite E s opn a w = (Inl (Fail e), w))"
  by (auto simp: sWrite_def written_def split: option.splits)

lemma view_written_put: "view s (written s (ActPut k v) w) k' = (if k' = k then Some v else view s w k')"
  by (cases s) (auto simp: view_disk written_def pending_def store_get_put split: option.splits)

lemma view_written_delete: "view s (written s (ActDelete k) w) k' = (if k' = k then None else view s w k')"
  by (cases s) (auto simp: view_disk written_def pending_def store_get_delete split: option.splits)

text \<open>The handlers' storage meets the storage contract, whether a transaction is open or not.\<close>

interpretation req_storage: kv_storage "view Req" "\<lambda>w k v. written Req (ActPut k v) w"
    "\<lambda>w k. written Req (ActDelete k) w"
  by unfold_locales (simp_all add: view_written_put view_written_delete)

interpretation base_storage: kv_storage "view Base" "\<lambda>w k v. written Base (ActPut k v) w"
    "\<lambda>w k. written Base (ActDelete k) w"
  by unfold_locales (simp_all add: view_written_put view_written_delete)

section \<open>Storage that does not fail\<close>

definition storage_ok :: "env \<Rightarrow> bool" where
  "storage_ok E \<longleftrightarrow> (\<forall>opn k. e_storageFails E opn k = None)"

named_theorems run \<open>results of the storage calls when the storage does not fail\<close>

lemma sGet_ok [run]: "storage_ok E \<Longrightarrow> sGet E s k w = (Inr (view s w k), w)"
  by (simp add: sGet_def readFails_def storage_ok_def split: option.split)

lemma sWrite_ok [run]: "storage_ok E \<Longrightarrow> sWrite E s opn a w = (Inr (), written s a w)"
  by (simp add: sWrite_def storage_ok_def written_def split: option.split)

lemma storeInStorage_ok [run]: "storage_ok E \<Longrightarrow> storeInStorage E s k v w = (Inr (), written s (ActPut k v) w)"
  by (simp add: storeInStorage_def sWrite_ok)

lemma sDelete_ok [run]: "storage_ok E \<Longrightarrow> sDelete E s k w = (Inr (), written s (ActDelete k) w)"
  by (simp add: sDelete_def sWrite_ok)

lemma get_ok [run]:
  "storage_ok E \<Longrightarrow> get E s k decode w =
     (case view s w k of None \<Rightarrow> (Inr None, w)
      | Some v \<Rightarrow> (case decode v of None \<Rightarrow> (Inl (Fail ''failed to decode entry''), w)
                   | Some d \<Rightarrow> (Inr (Some d), w)))"
  by (simp add: get_def sGet_ok returnM_apply throwM_apply split: option.split)

lemma StartTx_ok [run]: "storage_ok E \<Longrightarrow> StartTxStorageWithShim E w = (Inr (), w\<lparr>w_tx := Some []\<rparr>)"
  by (simp add: StartTxStorageWithShim_def storage_ok_def)

definition committed :: "world \<Rightarrow> world" where
  "committed w = (case w_tx w of None \<Rightarrow> w
     | Some as \<Rightarrow> w\<lparr>w_disk := apply_actions as (w_disk w), w_tx := None\<rparr>)"

lemma EndTx_ok [run]: "storage_ok E \<Longrightarrow> EndTxStorage E w = (Inr (), committed w)"
  by (auto simp: EndTxStorage_def committed_def storage_ok_def actionFails_def commit_actions_ok
      split: option.split)

lemma view_committed [simp]: "view s (committed w) k = view Req w k"
  by (cases s) (auto simp: committed_def view_disk pending_def split: option.split)

section \<open>What a method may write\<close>

text \<open>
  \<open>writes P d\<close>: the mounted storage is \<open>d\<close> after some writes that all satisfy \<open>P\<close>, and
  every pending write satisfies \<open>P\<close>. Each component proves once which writes its methods
  make (\<open>allowed\<close>); the typing of the storage and the isolation of the operators from one another
  both follow.
\<close>

definition writes :: "(entry storageAction \<Rightarrow> bool) \<Rightarrow> entry store \<Rightarrow> world \<Rightarrow> bool" where
  "writes P d w \<longleftrightarrow> (\<exists>as. list_all P as \<and> w_disk w = apply_actions as d) \<and>
     (case w_tx w of None \<Rightarrow> True | Some as \<Rightarrow> list_all P as)"

lemma writes_disk:
  "list_all P bs \<Longrightarrow> writes P d w \<Longrightarrow> w_disk w' = apply_actions bs (w_disk w) \<Longrightarrow>
   (w_tx w' = None \<or> w_tx w' = w_tx w) \<Longrightarrow> writes P d w'"
  unfolding writes_def by (metis apply_actions_append list_all_append option.simps(4))

lemma writes_written: "P a \<Longrightarrow> writes P d w \<Longrightarrow> writes P d (written s a w)"
proof (cases "pending s w")
  case None
  assume "P a" "writes P d w"
  moreover have "apply_action a (w_disk w) = apply_actions [a] (w_disk w)"
    by (simp add: apply_actions_def)
  ultimately show ?thesis
    using None by - (rule writes_disk [where bs = "[a]" and w = w], simp_all add: written_def)
next
  case (Some as)
  assume "P a" "writes P d w"
  then show ?thesis using Some by (auto simp: writes_def written_def pending_def split: sref.splits)
qed

lemma writes_sWrite: "P a \<Longrightarrow> preserves (writes P d) (sWrite E s opn a)"
  by (rule preservesI) (metis Pair_inject sWrite_result writes_written)

lemma writes_store: "P (ActPut k v) \<Longrightarrow> preserves (writes P d) (storeInStorage E s k v)"
  unfolding storeInStorage_def by (rule writes_sWrite)

lemma writes_sDelete: "P (ActDelete k) \<Longrightarrow> preserves (writes P d) (sDelete E s k)"
  unfolding sDelete_def by (rule writes_sWrite)

lemma snd_sGet [simp]: "snd (sGet E s k w) = w"
  by (simp add: sGet_def split: option.split)

lemma preserves_sGet [preserves_rules]: "preserves I (sGet E s k)"
  by (simp add: preserves_def)

lemma preserves_get [preserves_rules]: "preserves I (get E s k decode)"
  unfolding get_def by (intro preserves_rules)

lemma snd_sListPage [simp]: "snd (sListPage E s p after limit w) = w"
  by (simp add: sListPage_def split: option.split sum.split)

lemma preserves_sListPage [preserves_rules]: "preserves I (sListPage E s p after limit)"
  by (simp add: preserves_def)

lemma preserves_for_pages:
  assumes "\<And>x a. preserves I (body x a)"
  shows "preserves I (for_pages n E s p body after a)"
proof (induction n arbitrary: after a)
  case 0
  show ?case by (simp add: preserves_throw)
next
  case (Suc n)
  show ?case unfolding for_pages.simps by (intro preserves_rules assms Suc.IH)
qed

lemma preserves_for_listPaged [preserves_rules]:
  "(\<And>x a. preserves I (body x a)) \<Longrightarrow> preserves I (for_listPaged E s p body a)"
  unfolding for_listPaged_def by (rule preservesI) (metis preservesD preserves_for_pages)

lemma preserves_for_entries [preserves_rules]:
  "(\<And>n. preserves I (read n)) \<Longrightarrow> (\<And>n x a. preserves I (body n x a)) \<Longrightarrow>
   preserves I (for_entries E s p read body a)"
  unfolding for_entries_def by (intro preserves_rules)

lemma writes_StartTx [preserves_rules]: "preserves (writes P d) (StartTxStorageWithShim E)"
  by (auto simp: preserves_def StartTxStorageWithShim_def writes_def split: option.split)

lemma writes_rollback: "writes P d w \<Longrightarrow> writes P d (w\<lparr>w_tx := None\<rparr>)"
  by (auto simp: writes_def)

lemma writes_EndTx [preserves_rules]: "preserves (writes P d) (EndTxStorage E)"
proof (rule preservesI)
  fix w r w' assume W: "writes P d w" and r: "EndTxStorage E w = (r, w')"
  show "writes P d w'"
  proof (cases "w_tx w")
    case None
    with r W show ?thesis by (simp add: EndTxStorage_def)
  next
    case (Some as)
    with W have P: "list_all P as" by (simp add: writes_def)
    have "\<exists>bs. list_all P bs \<and> w_disk w' = apply_actions bs (w_disk w) \<and> (w_tx w' = None \<or> w_tx w' = w_tx w)"
    proof (cases "e_native E")
      case True
      then show ?thesis using r Some P
        by (intro exI [of _ "if e_storageFails E OpCommit [] = None then as else []"])
           (auto simp: EndTxStorage_def split: option.splits)
    next
      case False
      obtain bs cs where bs: "as = bs @ cs" "snd (commit_actions (actionFails E) as (w_disk w)) = apply_actions bs (w_disk w)"
        using commit_actions_prefix by blast
      then show ?thesis using r Some P False
        by (intro exI [of _ bs])
           (auto simp: EndTxStorage_def split: prod.splits option.splits)
    qed
    with W show ?thesis by (metis writes_disk)
  qed
qed

lemma writes_withTx [preserves_rules]:
  assumes "preserves (writes P d) body"
  shows "preserves (writes P d) (withTx E body)"
  unfolding withTx_def
proof (rule preserves_handler, rule preservesI)
  fix w r w'
  assume W: "writes P d w" and r: "(case StartTxStorageWithShim E w of (Inl e, w1) \<Rightarrow> (Inl e, w1)
     | (Inr _, w1) \<Rightarrow> (case body w1 of (r, w2) \<Rightarrow> (r, w2\<lparr>w_tx := None\<rparr>))) = (r, w')"
  obtain q w1 where q: "StartTxStorageWithShim E w = (q, w1)" by fastforce
  then have W1: "writes P d w1" using writes_StartTx W by (metis preservesD)
  then show "writes P d w'"
    using r q preserves_snd [OF assms W1]
    by (cases q) (auto split: prod.splits intro: writes_rollback)
qed

end
