(* ===== verification/Typing.thy ===== *)
theory Typing
  imports Txn
begin

text \<open>
  Which entry belongs under which path, and to which operator. Every path of the backend is
  \<^verbatim>\<open><kind>/<operator>[/...]\<close>. \<open>fits\<close> says that an entry has the struct its kind of path
  is read as, \<open>allowed Ops\<close> that a write is typed and stays within the operators \<open>Ops\<close>.
  \<open>well_typed\<close> is the invariant of the storage: then no read fails to decode its entry.
\<close>

definition path_kind :: "string \<Rightarrow> string" where
  "path_kind k = takeWhile (\<lambda>c. c \<noteq> CHR ''/'') k"

definition path_op :: "string \<Rightarrow> string" where
  "path_op k = takeWhile (\<lambda>c. c \<noteq> CHR ''/'') (drop (Suc (length (path_kind k))) k)"

definition entry_kinds :: "entry \<Rightarrow> string list" where
  "entry_kinds v = (case v of
     EOperator _ \<Rightarrow> [''operators'']
   | EAccount _ \<Rightarrow> [''accounts'']
   | ENkey _ \<Rightarrow> [''operator-keys'', ''operator-signing-keys'', ''account-keys'', ''account-signing-keys'', ''user-keys'']
   | EJwt _ \<Rightarrow> [''operator-jwts'', ''account-jwts'']
   | EUser _ \<Rightarrow> [''users'']
   | EEphemeralUser _ \<Rightarrow> [''ephemeral-users'']
   | ERevocation _ \<Rightarrow> [''revocations'']
   | EImport _ \<Rightarrow> [''account-imports'']
   | EAccountServer _ \<Rightarrow> [''account-servers'']
   | EConfig _ \<Rightarrow> [''config''])"

definition fits :: "string \<Rightarrow> entry \<Rightarrow> bool" where
  "fits k v \<longleftrightarrow> path_kind k \<in> set (entry_kinds v)"

definition allowed :: "string set \<Rightarrow> entry storageAction \<Rightarrow> bool" where
  "allowed Ops a \<longleftrightarrow> path_op (action_key a) \<in> Ops \<and>
     (case a of ActPut k v \<Rightarrow> fits k v | ActDelete k \<Rightarrow> True)"

text \<open>
  \<open>owns Ops op\<close>: the writes of a method for the operator \<open>op\<close> stay within \<open>Ops\<close>. Operator names have
  no slash; without that, a path says nothing about its operator, and \<open>Ops\<close> must be everything.
\<close>

definition owns :: "string set \<Rightarrow> string \<Rightarrow> bool" where
  "owns Ops op \<longleftrightarrow> Ops = UNIV \<or> (no_slash op \<and> op \<in> Ops)"

lemma allowed_put: "allowed Ops (ActPut k v) \<longleftrightarrow> path_op k \<in> Ops \<and> fits k v"
  by (simp add: allowed_def)

lemma allowed_delete: "allowed Ops (ActDelete k) \<longleftrightarrow> path_op k \<in> Ops"
  by (simp add: allowed_def)

lemma takeWhile_no_slash [simp]: "no_slash s \<Longrightarrow> takeWhile (\<lambda>c. c \<noteq> CHR ''/'') s = s"
  by (auto simp: takeWhile_eq_all_conv)

lemma takeWhile_slash [simp]: "no_slash s \<Longrightarrow> takeWhile (\<lambda>c. c \<noteq> CHR ''/'') (s @ CHR ''/'' # x) = s"
  by (simp add: takeWhile_tail)

text \<open>The kind and the operator of every path.\<close>

named_theorems path_simps \<open>kind and operator of the paths\<close>

lemma path_kinds [path_simps]:
  "path_kind (operator_configPath i) = ''operators''"
  "path_kind (operator_nkeyPath i) = ''operator-keys''"
  "path_kind (operator_jwtPath i) = ''operator-jwts''"
  "path_kind (accountServer_configPath si) = ''account-servers''"
  "path_kind (operatorSigningKey_nkeyPath oi) = ''operator-signing-keys''"
  "path_kind (account_configPath ai) = ''accounts''"
  "path_kind (account_jwtPath ai) = ''account-jwts''"
  "path_kind (account_nkeyPath ai) = ''account-keys''"
  "path_kind (accountSigningKey_nkeyPath ki) = ''account-signing-keys''"
  "path_kind (user_configPath ui) = ''users''"
  "path_kind (user_nkeyPath ui) = ''user-keys''"
  "path_kind (ephemeralUser_configPath ei) = ''ephemeral-users''"
  "path_kind (accountRevocation_configPath ri) = ''revocations''"
  "path_kind (accountImport_configPath ii) = ''account-imports''"
  "path_kind backendConfigPath = ''config''"
  by (simp_all add: path_kind_def path_defs)

lemma path_ops [path_simps]:
  "owns Ops (oi_op i) \<Longrightarrow> path_op (operator_configPath i) \<in> Ops"
  "owns Ops (oi_op i) \<Longrightarrow> path_op (operator_nkeyPath i) \<in> Ops"
  "owns Ops (oi_op i) \<Longrightarrow> path_op (operator_jwtPath i) \<in> Ops"
  "owns Ops (asi_op si) \<Longrightarrow> path_op (accountServer_configPath si) \<in> Ops"
  "owns Ops (oski_op oi) \<Longrightarrow> path_op (operatorSigningKey_nkeyPath oi) \<in> Ops"
  "owns Ops (ai_op ai) \<Longrightarrow> path_op (account_configPath ai) \<in> Ops"
  "owns Ops (ai_op ai) \<Longrightarrow> path_op (account_jwtPath ai) \<in> Ops"
  "owns Ops (ai_op ai) \<Longrightarrow> path_op (account_nkeyPath ai) \<in> Ops"
  "owns Ops (aski_op ki) \<Longrightarrow> path_op (accountSigningKey_nkeyPath ki) \<in> Ops"
  "owns Ops (ui_op ui) \<Longrightarrow> path_op (user_configPath ui) \<in> Ops"
  "owns Ops (ui_op ui) \<Longrightarrow> path_op (user_nkeyPath ui) \<in> Ops"
  "owns Ops (eui_op ei) \<Longrightarrow> path_op (ephemeralUser_configPath ei) \<in> Ops"
  "owns Ops (ari_op ri) \<Longrightarrow> path_op (accountRevocation_configPath ri) \<in> Ops"
  "owns Ops (aii_op ii) \<Longrightarrow> path_op (accountImport_configPath ii) \<in> Ops"
  "path_op backendConfigPath = []"
  by (auto simp: owns_def path_op_def path_kind_def path_defs)

lemmas allowed_simps = allowed_put allowed_delete fits_def entry_kinds_def path_simps

section \<open>The typing invariant and isolation\<close>

definition well_typed :: "world \<Rightarrow> bool" where
  "well_typed w \<longleftrightarrow> (\<forall>k v. store_get (w_disk w) k = Some v \<longrightarrow> fits k v)"

lemma apply_actions_typed:
  "list_all (allowed Ops) as \<Longrightarrow> \<forall>k v. store_get d k = Some v \<longrightarrow> fits k v \<Longrightarrow>
   store_get (apply_actions as d) k = Some v \<Longrightarrow> fits k v"
proof (induction as arbitrary: d)
  case (Cons a as)
  have "\<forall>k v. store_get (apply_action a d) k = Some v \<longrightarrow> fits k v"
    using Cons.prems(1,2)
    by (cases a) (auto simp: allowed_def store_get_put store_get_delete)
  with Cons show ?case by simp
qed simp

lemma apply_actions_frame:
  "list_all (allowed Ops) as \<Longrightarrow> path_op k \<notin> Ops \<Longrightarrow> store_get (apply_actions as d) k = store_get d k"
proof (induction as arbitrary: d)
  case (Cons a as)
  then have "store_get (apply_action a d) k = store_get d k"
    by (cases a) (auto simp: allowed_def store_get_put store_get_delete)
  with Cons show ?case by simp
qed simp

lemma writes_typed: "preserves (writes (allowed Ops) (w_disk w)) m \<Longrightarrow> w_tx w = None \<Longrightarrow> well_typed w \<Longrightarrow> well_typed (snd (m w))"
proof -
  assume m: "preserves (writes (allowed Ops) (w_disk w)) m" and tx: "w_tx w = None" and wt: "well_typed w"
  have "writes (allowed Ops) (w_disk w) w"
    using tx by (auto simp: writes_def intro!: exI [of _ "[]"])
  with m have "writes (allowed Ops) (w_disk w) (snd (m w))" by (rule preserves_snd)
  then obtain as where "list_all (allowed Ops) as" "w_disk (snd (m w)) = apply_actions as (w_disk w)"
    by (auto simp: writes_def)
  with wt show ?thesis unfolding well_typed_def by (metis apply_actions_typed)
qed

lemma writes_isolated:
  "preserves (writes (allowed Ops) (w_disk w)) m \<Longrightarrow> w_tx w = None \<Longrightarrow> path_op k \<notin> Ops \<Longrightarrow>
   store_get (w_disk (snd (m w))) k = store_get (w_disk w) k"
proof -
  assume m: "preserves (writes (allowed Ops) (w_disk w)) m" and tx: "w_tx w = None" and k: "path_op k \<notin> Ops"
  have "writes (allowed Ops) (w_disk w) w"
    using tx by (auto simp: writes_def intro!: exI [of _ "[]"])
  with m have "writes (allowed Ops) (w_disk w) (snd (m w))" by (rule preserves_snd)
  then obtain as where "list_all (allowed Ops) as" "w_disk (snd (m w)) = apply_actions as (w_disk w)"
    by (auto simp: writes_def)
  with k show ?thesis by (simp add: apply_actions_frame)
qed

section \<open>Tidy keys\<close>

text \<open>
  Operators have a name without a slash; accounts, and their keys and JWTs, have a name below that
  of their operator, which for a system account may have a slash; all other keys end in a name.
\<close>

definition tidyKey :: "string \<Rightarrow> bool" where
  "tidyKey k \<longleftrightarrow> (let r = drop (Suc (length (path_kind k))) k in
     if path_kind k \<in> {''accounts'', ''account-keys'', ''account-jwts''} then Suc (length (path_op k)) < length r
     else if path_kind k = ''operators'' then no_slash r \<and> r \<noteq> []
     else k \<noteq> [] \<and> last k \<noteq> CHR ''/'')"

definition word :: "string \<Rightarrow> bool" where
  "word s \<longleftrightarrow> s \<noteq> [] \<and> no_slash s"

lemma word_simps [simp]: "word s \<Longrightarrow> no_slash s" "word s \<Longrightarrow> s \<noteq> []"
  by (auto simp: word_def)

lemma word_last [simp]: "word s \<Longrightarrow> last s \<noteq> CHR ''/''"
  unfolding word_def by (metis last_in_set)

named_theorems tidy_simps \<open>which paths are tidy\<close>

lemma tidy_accountPaths [tidy_simps]:
  assumes "no_slash (ai_op i)"
  shows "tidyKey (account_configPath i) \<longleftrightarrow> ai_acc i \<noteq> []" "tidyKey (account_jwtPath i) \<longleftrightarrow> ai_acc i \<noteq> []"
    "tidyKey (account_nkeyPath i) \<longleftrightarrow> ai_acc i \<noteq> []"
  using assms by (auto simp: tidyKey_def path_kind_def path_op_def path_defs)

lemma tidy_names [tidy_simps]:
  "word (oi_op oi) \<Longrightarrow> tidyKey (operator_configPath oi)"
  "word (oi_op oi) \<Longrightarrow> tidyKey (operator_nkeyPath oi)" "word (oi_op oi) \<Longrightarrow> tidyKey (operator_jwtPath oi)"
  "word (asi_op si) \<Longrightarrow> tidyKey (accountServer_configPath si)"
  "word (oski_name ki) \<Longrightarrow> tidyKey (operatorSigningKey_nkeyPath ki)"
  "word (aski_name xi) \<Longrightarrow> tidyKey (accountSigningKey_nkeyPath xi)"
  "word (ui_user ui) \<Longrightarrow> tidyKey (user_configPath ui)" "word (ui_user ui) \<Longrightarrow> tidyKey (user_nkeyPath ui)"
  "word (eui_user ei) \<Longrightarrow> tidyKey (ephemeralUser_configPath ei)"
  "word (ari_sub ri) \<Longrightarrow> tidyKey (accountRevocation_configPath ri)"
  "word (aii_name ii) \<Longrightarrow> tidyKey (accountImport_configPath ii)"
  "tidyKey backendConfigPath"
  by (simp_all add: tidyKey_def path_kind_def path_defs)

lemma untidy_prefixes [tidy_simps]:
  "\<not> tidyKey operatorsPathPrefix" "\<not> tidyKey accountServersPathPrefix"
  "\<not> tidyKey (operator_signingKeyPrefix oi)"
  "no_slash (oi_op oi) \<Longrightarrow> \<not> tidyKey (operator_accountsConfigPrefix oi)"
  "no_slash (oi_op oi) \<Longrightarrow> \<not> tidyKey (operator_accountsJwtPrefix oi)"
  "\<not> tidyKey (account_signingKeyPrefix ai)" "\<not> tidyKey (account_importPrefix ai)"
  "\<not> tidyKey (account_revocationPrefix ai)" "\<not> tidyKey (account_userConfigPrefix ai)"
  "\<not> tidyKey (account_ephemeralUserConfigPrefix ai)"
  by (auto simp: tidyKey_def path_kind_def path_op_def path_defs)

text \<open>Below a prefix of three parts, a tidy key does not end in a slash.\<close>

lemma untidy_slash [tidy_simps]:
  "\<not> tidyKey (account_signingKeyPrefix ai @ x @ ''/'')" "\<not> tidyKey (account_importPrefix ai @ x @ ''/'')"
  "\<not> tidyKey (account_revocationPrefix ai @ x @ ''/'')" "\<not> tidyKey (account_userConfigPrefix ai @ x @ ''/'')"
  "\<not> tidyKey (account_userNkeyPrefix ai @ x @ ''/'')" "\<not> tidyKey (account_ephemeralUserConfigPrefix ai @ x @ ''/'')"
  by (auto simp: tidyKey_def path_kind_def path_op_def path_defs)

definition tidy :: "sref \<Rightarrow> world \<Rightarrow> bool" where
  "tidy s w \<longleftrightarrow> (\<forall>k. view s w k \<noteq> None \<longrightarrow> tidyKey k)"

lemma tidy_prefixes:
  assumes "tidy s w"
  shows "view s w (account_revocationPrefix ai) = None" "view s w (account_signingKeyPrefix ai) = None"
    "view s w (account_importPrefix ai) = None" "view s w (operator_signingKeyPrefix oi) = None"
    "view s w (account_userConfigPrefix ai) = None" "view s w (account_ephemeralUserConfigPrefix ai) = None"
    "view s w operatorsPathPrefix = None"
  using assms untidy_prefixes unfolding tidy_def by blast+

end
