(* ===== verification/Entities.thy ===== *)
theory Entities
  imports Typing
begin

text \<open>
  The entries of the backend: reading each kind (\<^verbatim>\<open>Operator\<close>, \<^verbatim>\<open>Account\<close>, \<^verbatim>\<open>Nkey\<close>,
  \<^verbatim>\<open>Jwt\<close>, ...), the constructors of fresh entries, the generators that walk a prefix
  (\<^verbatim>\<open>listAccounts\<close>, \<^verbatim>\<open>listOperatorSigningKeys\<close>, ...), key pairs (\<^verbatim>\<open>path_keys.go\<close>), and
  the handlers that only read or list.
\<close>

section \<open>Reading entries\<close>

definition Operator :: "env \<Rightarrow> sref \<Rightarrow> operatorId \<Rightarrow> operatorEntry option m" where
  "Operator E s i = get E s (operator_configPath i) (\<lambda>e. case e of EOperator x \<Rightarrow> Some x | _ \<Rightarrow> None)"

definition Account :: "env \<Rightarrow> sref \<Rightarrow> accountId \<Rightarrow> accountEntry option m" where
  "Account E s i = get E s (account_configPath i) (\<lambda>e. case e of EAccount x \<Rightarrow> Some x | _ \<Rightarrow> None)"

text \<open>\<^verbatim>\<open>Nkey\<close> takes any identifier with an \<^verbatim>\<open>nkeyPath\<close>, \<^verbatim>\<open>Jwt\<close> any with a \<^verbatim>\<open>jwtPath\<close>: here the path.\<close>

definition Nkey :: "env \<Rightarrow> sref \<Rightarrow> string \<Rightarrow> nkeyEntry option m" where
  "Nkey E s p = get E s p (\<lambda>e. case e of ENkey x \<Rightarrow> Some x | _ \<Rightarrow> None)"

definition Jwt :: "env \<Rightarrow> sref \<Rightarrow> string \<Rightarrow> jwtEntry option m" where
  "Jwt E s p = get E s p (\<lambda>e. case e of EJwt x \<Rightarrow> Some x | _ \<Rightarrow> None)"

definition User :: "env \<Rightarrow> sref \<Rightarrow> userId \<Rightarrow> userEntry option m" where
  "User E s i = get E s (user_configPath i) (\<lambda>e. case e of EUser x \<Rightarrow> Some x | _ \<Rightarrow> None)"

definition EphemeralUser :: "env \<Rightarrow> sref \<Rightarrow> ephemeralUserId \<Rightarrow> ephemeralUserEntry option m" where
  "EphemeralUser E s i = get E s (ephemeralUser_configPath i)
     (\<lambda>e. case e of EEphemeralUser x \<Rightarrow> Some x | _ \<Rightarrow> None)"

definition AccountRevocation :: "env \<Rightarrow> sref \<Rightarrow> accountRevocationId \<Rightarrow> accountRevocationEntry option m" where
  "AccountRevocation E s i = get E s (accountRevocation_configPath i)
     (\<lambda>e. case e of ERevocation x \<Rightarrow> Some x | _ \<Rightarrow> None)"

definition AccountImport :: "env \<Rightarrow> sref \<Rightarrow> accountImportId \<Rightarrow> accountImportEntry option m" where
  "AccountImport E s i = get E s (accountImport_configPath i)
     (\<lambda>e. case e of EImport x \<Rightarrow> Some x | _ \<Rightarrow> None)"

definition AccountServer :: "env \<Rightarrow> sref \<Rightarrow> accountServerId \<Rightarrow> accountServerEntry option m" where
  "AccountServer E s i = get E s (accountServer_configPath i)
     (\<lambda>e. case e of EAccountServer x \<Rightarrow> Some x | _ \<Rightarrow> None)"

definition operatorExists :: "env \<Rightarrow> sref \<Rightarrow> operatorId \<Rightarrow> bool m" where
  "operatorExists E s i = bindM (sGet E s (operator_configPath i)) (\<lambda>e. returnM (e \<noteq> None))"

definition accountExists :: "env \<Rightarrow> sref \<Rightarrow> accountId \<Rightarrow> bool m" where
  "accountExists E s i = bindM (sGet E s (account_configPath i)) (\<lambda>e. returnM (e \<noteq> None))"

lemmas reader_defs = Operator_def Account_def Nkey_def Jwt_def User_def EphemeralUser_def
  AccountRevocation_def AccountImport_def AccountServer_def

lemma preserves_readers [preserves_rules]:
  "preserves I (Operator E s oid)" "preserves I (Account E s aid)" "preserves I (Nkey E s p)"
  "preserves I (Jwt E s p)" "preserves I (User E s uid)" "preserves I (EphemeralUser E s eid)"
  "preserves I (AccountRevocation E s rid)" "preserves I (AccountImport E s iid)"
  "preserves I (AccountServer E s sid)" "preserves I (operatorExists E s oid)"
  "preserves I (accountExists E s aid)"
  unfolding reader_defs operatorExists_def accountExists_def by (intro preserves_rules)+

section \<open>Fresh entries\<close>

definition NewAccount :: accountEntry where
  "NewAccount = \<lparr>acc_RawClaims = None, acc_SigningKey = [], acc_DefaultSigningKey = [],
     acc_Status = \<lparr>st_IsSystemAccount = False, st_IsManaged = False, st_Sync = None\<rparr>\<rparr>"

definition NewAccountWithParams :: "json \<Rightarrow> accountEntry" where
  "NewAccountWithParams claims = \<lparr>acc_RawClaims = Some claims, acc_SigningKey = [], acc_DefaultSigningKey = [],
     acc_Status = \<lparr>st_IsSystemAccount = False, st_IsManaged = False, st_Sync = None\<rparr>\<rparr>"

definition NewUser :: userEntry where
  "NewUser = \<lparr>us_RevokeOnDelete = False, us_CredsDefaultTtl = 0, us_CredsMaxTtl = 0,
     us_DefaultSigningKey = [], us_RawClaims = None\<rparr>"

definition NewEphemeralUser :: ephemeralUserEntry where
  "NewEphemeralUser = \<lparr>eu_CredsDefaultTtl = 0, eu_CredsMaxTtl = 0,
     eu_DefaultSigningKey = [], eu_RawClaims = None\<rparr>"

definition NewAccountRevocation :: accountRevocationEntry where
  "NewAccountRevocation = \<lparr>rev_CreationTime = None, rev_Ttl = 0\<rparr>"

definition NewAccountRevocationWithParams :: "int \<Rightarrow> int \<Rightarrow> accountRevocationEntry" where
  "NewAccountRevocationWithParams creationTime ttl = \<lparr>rev_CreationTime = Some creationTime, rev_Ttl = ttl\<rparr>"

definition NewAccountImport :: accountImportEntry where
  "NewAccountImport = \<lparr>ai_Imports = []\<rparr>"

definition NewAccountServerEntry :: accountServerEntry where
  "NewAccountServerEntry = \<lparr>ase_Suspend = False, ase_Servers = [], ase_ConnectTimeout = 0,
     ase_MaxReconnects = 0, ase_ReconnectWait = 0, ase_ClientName = [],
     ase_DisableAccountLookup = False, ase_DisableAccountUpdate = False,
     ase_DisableAccountDelete = False,
     ase_Status = \<lparr>ast_LastStatusChange = None, ast_Status = StatusCreated, ast_Error = []\<rparr>\<rparr>"

definition NewJwt :: "string \<Rightarrow> string \<Rightarrow> jwtEntry" where
  "NewJwt token issuer = \<lparr>jwt_Token = token, jwt_Issuer = issuer\<rparr>"

text \<open>Durations and times are in nanoseconds; \<^verbatim>\<open>Unix()\<close> is in seconds, also of the zero time.\<close>

definition Second :: int where
  "Second = 1000000000"

definition Unix :: "int option \<Rightarrow> int" where
  "Unix t = (case t of None \<Rightarrow> -62135596800 | Some n \<Rightarrow> n div Second)"

section \<open>Generators\<close>

definition for_Accounts :: "env \<Rightarrow> sref \<Rightarrow> operatorId \<Rightarrow> (string \<Rightarrow> accountEntry \<Rightarrow> 'a \<Rightarrow> 'a m) \<Rightarrow> 'a \<Rightarrow> 'a m" where
  "for_Accounts E s i = for_entries E s (operator_accountsConfigPrefix i)
     (\<lambda>n. Account E s (operatorId_accountId i n))"

definition for_OperatorSigningKeys :: "env \<Rightarrow> sref \<Rightarrow> operatorId \<Rightarrow> (string \<Rightarrow> nkeyEntry \<Rightarrow> 'a \<Rightarrow> 'a m) \<Rightarrow> 'a \<Rightarrow> 'a m" where
  "for_OperatorSigningKeys E s i = for_entries E s (operator_signingKeyPrefix i)
     (\<lambda>n. Nkey E s (operatorSigningKey_nkeyPath (operatorId_signingKeyId i n)))"

definition for_AccountIdentityKeys :: "env \<Rightarrow> sref \<Rightarrow> operatorId \<Rightarrow> (string \<Rightarrow> nkeyEntry \<Rightarrow> 'a \<Rightarrow> 'a m) \<Rightarrow> 'a \<Rightarrow> 'a m" where
  "for_AccountIdentityKeys E s i = for_entries E s (operator_accountsConfigPrefix i)
     (\<lambda>n. Nkey E s (account_nkeyPath (operatorId_accountId i n)))"

definition for_AccountSigningKeys :: "env \<Rightarrow> sref \<Rightarrow> accountId \<Rightarrow> (string \<Rightarrow> nkeyEntry \<Rightarrow> 'a \<Rightarrow> 'a m) \<Rightarrow> 'a \<Rightarrow> 'a m" where
  "for_AccountSigningKeys E s i = for_entries E s (account_signingKeyPrefix i)
     (\<lambda>n. Nkey E s (accountSigningKey_nkeyPath (accountId_signingKeyId i n)))"

definition for_AccountRevocations :: "env \<Rightarrow> sref \<Rightarrow> accountId \<Rightarrow> (string \<Rightarrow> accountRevocationEntry \<Rightarrow> 'a \<Rightarrow> 'a m) \<Rightarrow> 'a \<Rightarrow> 'a m" where
  "for_AccountRevocations E s i = for_entries E s (account_revocationPrefix i)
     (\<lambda>n. AccountRevocation E s (accountId_revocationId i n))"

definition for_AccountImports :: "env \<Rightarrow> sref \<Rightarrow> accountId \<Rightarrow> (string \<Rightarrow> accountImportEntry \<Rightarrow> 'a \<Rightarrow> 'a m) \<Rightarrow> 'a \<Rightarrow> 'a m" where
  "for_AccountImports E s i = for_entries E s (account_importPrefix i)
     (\<lambda>n. AccountImport E s (accountId_importId i n))"

lemma preserves_generators [preserves_rules]:
  "(\<And>n x a. preserves I (accBody n x a)) \<Longrightarrow> preserves I (for_Accounts E s oid accBody a0)"
  "(\<And>n x a. preserves I (keyBody n x a)) \<Longrightarrow> preserves I (for_OperatorSigningKeys E s oid keyBody a0)"
  "(\<And>n x a. preserves I (keyBody n x a)) \<Longrightarrow> preserves I (for_AccountIdentityKeys E s oid keyBody a0)"
  "(\<And>n x a. preserves I (keyBody n x a)) \<Longrightarrow> preserves I (for_AccountSigningKeys E s aid keyBody a0)"
  "(\<And>n x a. preserves I (revBody n x a)) \<Longrightarrow> preserves I (for_AccountRevocations E s aid revBody a0)"
  "(\<And>n x a. preserves I (impBody n x a)) \<Longrightarrow> preserves I (for_AccountImports E s aid impBody a0)"
  unfolding for_Accounts_def for_OperatorSigningKeys_def for_AccountIdentityKeys_def
    for_AccountSigningKeys_def for_AccountRevocations_def for_AccountImports_def
  by (intro preserves_rules; assumption?)+

end
