(* ===== verification/Nkeys.thy ===== *)
theory Nkeys
  imports Entities
begin

text \<open>
  \<^verbatim>\<open>path_keys.go\<close>: key pairs, the generation of identity and signing keys, the responses
  that show a key; and the handlers of \<^verbatim>\<open>path_keys.go\<close>, \<^verbatim>\<open>path_jwts.go\<close> that read or list
  without changing anything. A key pair is represented by its seed.
\<close>

section \<open>Key pairs\<close>

definition keyPair :: "env \<Rightarrow> nkeyEntry \<Rightarrow> string m" where
  "keyPair E n = (if e_FromSeed E (nk_Seed n) then returnM (nk_Seed n) else throwM (Fail ''nkeys.FromSeed''))"

definition PublicKey :: "env \<Rightarrow> string \<Rightarrow> string m" where
  "PublicKey E kp = liftOption ''nkeys.PublicKey'' (e_PublicKey E kp)"

definition PrivateKey :: "env \<Rightarrow> string \<Rightarrow> string m" where
  "PrivateKey E kp = liftOption ''nkeys.PrivateKey'' (e_PrivateKey E kp)"

definition publicKey :: "env \<Rightarrow> nkeyEntry \<Rightarrow> string m" where
  "publicKey E n = bindM (keyPair E n) (PublicKey E)"

text \<open>The library draws a fresh key pair each time; the model numbers the draws.\<close>

definition createSeed :: "env \<Rightarrow> prefixByte \<Rightarrow> string m" where
  "createSeed E p = (\<lambda>w. case e_CreatePair E p (w_entropy w) of
     None \<Rightarrow> (Inl (Fail ''nkeys.CreatePair''), w)
   | Some seed \<Rightarrow> (Inr seed, w\<lparr>w_entropy := Suc (w_entropy w)\<rparr>))"

definition validateSeed :: "env \<Rightarrow> string \<Rightarrow> prefixByte \<Rightarrow> unit m" where
  "validateSeed E seed expected = bindM (liftOption ''nkeys.DecodeSeed'' (e_DecodeSeed E seed)) (\<lambda>p.
     if p \<noteq> expected then throwM (Fail ''wrong seed type'') else returnM ())"

definition nkeyOfSeed :: "string \<Rightarrow> nkeyEntry" where
  "nkeyOfSeed seed = \<lparr>nk_Seed = seed, nk_Scoped = False, nk_Template = None, nk_Description = []\<rparr>"

definition NewOperatorNKey :: "env \<Rightarrow> nkeyEntry m" where
  "NewOperatorNKey E = bindM (createSeed E PrefixOperator) (\<lambda>seed.
     thenM (validateSeed E seed PrefixOperator) (returnM (nkeyOfSeed seed)))"

definition NewAccountNKey :: "env \<Rightarrow> nkeyEntry m" where
  "NewAccountNKey E = bindM (createSeed E PrefixAccount) (\<lambda>seed.
     thenM (validateSeed E seed PrefixAccount) (returnM (nkeyOfSeed seed)))"

definition NewUserNKey :: "env \<Rightarrow> nkeyEntry m" where
  "NewUserNKey E = bindM (createSeed E PrefixUser) (\<lambda>seed.
     thenM (validateSeed E seed PrefixUser) (returnM (nkeyOfSeed seed)))"

definition NewOperatorNKeyWithSeed :: "env \<Rightarrow> string \<Rightarrow> nkeyEntry m" where
  "NewOperatorNKeyWithSeed E seed = thenM (validateSeed E seed PrefixOperator) (returnM (nkeyOfSeed seed))"

definition NewAccountNKeyWithSeed :: "env \<Rightarrow> string \<Rightarrow> nkeyEntry m" where
  "NewAccountNKeyWithSeed E seed = thenM (validateSeed E seed PrefixAccount) (returnM (nkeyOfSeed seed))"

definition NewUserNKeyWithSeed :: "env \<Rightarrow> string \<Rightarrow> nkeyEntry m" where
  "NewUserNKeyWithSeed E seed = thenM (validateSeed E seed PrefixUser) (returnM (nkeyOfSeed seed))"

text \<open>
  The rotations overwrite the error of \<^verbatim>\<open>New...NKey\<close> with that of the store, so a failed
  generation leaves a nil entry whose \<^verbatim>\<open>nkeyPath\<close> is then called.
\<close>

definition orNilNkey :: "nkeyEntry m \<Rightarrow> nkeyEntry m" where
  "orNilNkey m = bindM (catchFail m) (\<lambda>r. case r of Inl _ \<Rightarrow> throwM NilPointer | Inr n \<Rightarrow> returnM n)"

definition createNkeyResponse :: "env \<Rightarrow> nkeyEntry \<Rightarrow> response m" where
  "createNkeyResponse E n = bindM (keyPair E n) (\<lambda>kp. bindM (PublicKey E kp) (\<lambda>pub.
     bindM (PrivateKey E kp) (\<lambda>private. returnM (dataResponse
       [(''public_key'', JStr pub), (''private_key'', JStr private), (''seed'', JStr (nk_Seed n))]))))"

lemma preserves_keys [preserves_rules]:
  "preserves I (keyPair E n)" "preserves I (PublicKey E kp)" "preserves I (PrivateKey E kp)"
  "preserves I (publicKey E n)" "preserves I (validateSeed E seed px)" "preserves I (createNkeyResponse E n)"
  unfolding keyPair_def PublicKey_def PrivateKey_def publicKey_def validateSeed_def createNkeyResponse_def
  by (intro preserves_rules)+

lemma writes_same: "w_disk w' = w_disk w \<Longrightarrow> w_tx w' = w_tx w \<Longrightarrow> writes P d w \<Longrightarrow> writes P d w'"
  by (simp add: writes_def)

lemma writes_createSeed [preserves_rules]: "preserves (writes P d) (createSeed E px)"
  by (auto simp: preserves_def createSeed_def split: option.splits intro: writes_same [rotated 2])

lemma writes_NewNKeys [preserves_rules]:
  "preserves (writes P d) (NewOperatorNKey E)" "preserves (writes P d) (NewAccountNKey E)"
  "preserves (writes P d) (NewUserNKey E)"
  unfolding NewOperatorNKey_def NewAccountNKey_def NewUserNKey_def by (intro preserves_rules)+

lemma preserves_orNilNkey [preserves_rules]: "preserves I m \<Longrightarrow> preserves I (orNilNkey m)"
  unfolding orNilNkey_def by (intro preserves_rules)

text \<open>A new key has a seed of the kind it was made for.\<close>

lemma validateSeed_Inr: "validateSeed E seed p w = (Inr u, w') \<longleftrightarrow> e_DecodeSeed E seed = Some p \<and> w' = w"
  by (auto simp: validateSeed_def liftOption_def run_simps bindM_apply split: option.splits)

lemma NewNKey_kind:
  "NewOperatorNKey E w = (Inr n, w') \<Longrightarrow> e_DecodeSeed E (nk_Seed n) = Some PrefixOperator"
  "NewAccountNKey E w = (Inr n, w') \<Longrightarrow> e_DecodeSeed E (nk_Seed n) = Some PrefixAccount"
  "NewUserNKey E w = (Inr n, w') \<Longrightarrow> e_DecodeSeed E (nk_Seed n) = Some PrefixUser"
  unfolding NewOperatorNKey_def NewAccountNKey_def NewUserNKey_def
  by (auto elim!: bindM_InrE thenM_InrE simp: validateSeed_Inr nkeyOfSeed_def returnM_apply)

section \<open>Reading and listing\<close>

definition readNkey :: "env \<Rightarrow> string \<Rightarrow> response option m" where
  "readNkey E p = bindM (Nkey E Req p) (\<lambda>n. case n of
     None \<Rightarrow> returnM None | Some nk \<Rightarrow> bindM (createNkeyResponse E nk) (\<lambda>r. returnM (Some r)))"

definition pathOperatorNkeyRead :: "env \<Rightarrow> operatorId \<Rightarrow> response option m" where
  "pathOperatorNkeyRead E i = readNkey E (operator_nkeyPath i)"

definition pathOperatorSigningNkeyRead :: "env \<Rightarrow> operatorSigningKeyId \<Rightarrow> response option m" where
  "pathOperatorSigningNkeyRead E i = readNkey E (operatorSigningKey_nkeyPath i)"

definition pathAccountNkeyRead :: "env \<Rightarrow> accountId \<Rightarrow> response option m" where
  "pathAccountNkeyRead E i = readNkey E (account_nkeyPath i)"

definition pathUserNkeyRead :: "env \<Rightarrow> userId \<Rightarrow> response option m" where
  "pathUserNkeyRead E i = readNkey E (user_nkeyPath i)"

definition addData :: "(string \<times> json) list \<Rightarrow> response \<Rightarrow> response" where
  "addData kvs r = r\<lparr>r_Data := r_Data r @ kvs\<rparr>"

definition pathAccountSigningNkeyRead :: "env \<Rightarrow> accountSigningKeyId \<Rightarrow> response option m" where
  "pathAccountSigningNkeyRead E i = bindM (Nkey E Req (accountSigningKey_nkeyPath i)) (\<lambda>n. case n of
     None \<Rightarrow> returnM None
   | Some nk \<Rightarrow> bindM (createNkeyResponse E nk) (\<lambda>r. returnM (Some (
       if nk_Scoped nk then addData ([(''scoped'', JBool True)]
         @ (case nk_Template nk of None \<Rightarrow> [] | Some t \<Rightarrow> [(''permission_template'', t)])
         @ (if nk_Description nk = [] then []
            else [(''description'', case nk_Template nk of None \<Rightarrow> JNull | Some t \<Rightarrow> t)])) r
       else r))))"

definition pathOperatorSigningNkeyExistenceCheck :: "env \<Rightarrow> operatorSigningKeyId \<Rightarrow> bool m" where
  "pathOperatorSigningNkeyExistenceCheck E i =
     bindM (Nkey E Req (operatorSigningKey_nkeyPath i)) (\<lambda>n. returnM (n \<noteq> None))"

definition pathAccountSigningNkeyExistenceCheck :: "env \<Rightarrow> accountSigningKeyId \<Rightarrow> bool m" where
  "pathAccountSigningNkeyExistenceCheck E i =
     bindM (Nkey E Req (accountSigningKey_nkeyPath i)) (\<lambda>n. returnM (n \<noteq> None))"

text \<open>All listing handlers treat a limit that is not positive as no limit.\<close>

definition ListResponse :: "string list \<Rightarrow> response" where
  "ListResponse keys = dataResponse (if keys = [] then [] else [(''keys'', JList (map JStr keys))])"

definition listPath :: "env \<Rightarrow> string \<Rightarrow> string \<Rightarrow> int \<Rightarrow> response option m" where
  "listPath E p after limit = bindM (sListPage E Req p after (if limit \<le> 0 then -1 else limit)) (\<lambda>entries.
     returnM (Some (ListResponse entries)))"

definition pathOperatorSigningNkeyList :: "env \<Rightarrow> operatorId \<Rightarrow> string \<Rightarrow> int \<Rightarrow> response option m" where
  "pathOperatorSigningNkeyList E i = listPath E (operator_signingKeyPrefix i)"

definition pathAccountSigningNkeyList :: "env \<Rightarrow> accountId \<Rightarrow> string \<Rightarrow> int \<Rightarrow> response option m" where
  "pathAccountSigningNkeyList E i = listPath E (account_signingKeyPrefix i)"

definition readJwt :: "env \<Rightarrow> string \<Rightarrow> response option m" where
  "readJwt E p = bindM (Jwt E Req p) (\<lambda>j. returnM (case j of
     None \<Rightarrow> None | Some t \<Rightarrow> Some (dataResponse [(''jwt'', JStr (jwt_Token t))])))"

definition pathOperatorJwtRead :: "env \<Rightarrow> operatorId \<Rightarrow> response option m" where
  "pathOperatorJwtRead E i = readJwt E (operator_jwtPath i)"

definition pathReadAccountJWT :: "env \<Rightarrow> accountId \<Rightarrow> response option m" where
  "pathReadAccountJWT E i = readJwt E (account_jwtPath i)"

definition pathAccountJWTExistenceCheck :: "env \<Rightarrow> accountId \<Rightarrow> bool m" where
  "pathAccountJWTExistenceCheck E i = bindM (Jwt E Req (account_jwtPath i)) (\<lambda>j. returnM (j \<noteq> None))"

lemma preserves_reads [preserves_rules]:
  "preserves I (readNkey E p)" "preserves I (listPath E p after limit)" "preserves I (readJwt E p)"
  unfolding readNkey_def listPath_def readJwt_def by (intro preserves_rules)+

end
