(* ===== verification/Jwts.thy ===== *)
theory Jwts
  imports Nkeys "HOL-Library.Word"
begin

unbundle bit_operations_syntax

text \<open>
  \<^verbatim>\<open>path_jwts.go\<close>: how the JWTs of operators, accounts and users are put together. The
  operator's and the account's JWT are issued from what the storage holds (custom claims, key
  pairs, signing keys, imports, revocations) and stored; a user's JWT is only returned.

  Encoding, validation and the decoding of claims are the \<^verbatim>\<open>jwt\<close> library's. Its validators
  return the warnings and the errors they find, in that order.
\<close>

section \<open>Results\<close>

record jwtResult =
  jr_warnings :: "string list"
  jr_errors :: "string list"
  jr_jwt :: string
  jr_issuer :: string
  jr_expiresAt :: "int option"

definition NewJwtResult :: jwtResult where
  "NewJwtResult = \<lparr>jr_warnings = [], jr_errors = [], jr_jwt = [], jr_issuer = [], jr_expiresAt = None\<rparr>"

definition jwtResult_Error :: "jwtResult \<Rightarrow> string" where
  "jwtResult_Error r = join '', '' (jr_errors r)"

text \<open>The tail all three encoders share: validate, then encode unless there are errors.\<close>

definition encodeJwt :: "string list \<times> string list \<Rightarrow> string option \<Rightarrow> int option \<Rightarrow> jwtResult" where
  "encodeJwt vr encoded expiresAt = (let res = NewJwtResult\<lparr>jr_warnings := fst vr, jr_errors := snd vr\<rparr> in
     if snd vr \<noteq> [] then res
     else case encoded of
       None \<Rightarrow> res\<lparr>jr_errors := [''failed to encode jwt'']\<rparr>
     | Some token \<Rightarrow> res\<lparr>jr_jwt := token, jr_expiresAt := expiresAt\<rparr>)"

definition encodeOperatorJwt :: "env \<Rightarrow> string \<Rightarrow> operator_claims \<Rightarrow> jwtResult" where
  "encodeOperatorJwt E kp claims = encodeJwt (e_ValidateOperator E claims) (e_EncodeOperator E kp claims) None"

definition encodeAccountJwt :: "env \<Rightarrow> string \<Rightarrow> account_claims \<Rightarrow> jwtResult" where
  "encodeAccountJwt E kp claims = encodeJwt (e_ValidateAccount E claims) (e_EncodeAccount E kp claims) None"

definition encodeUserJWT :: "env \<Rightarrow> string \<Rightarrow> user_claims \<Rightarrow> int \<Rightarrow> jwtResult" where
  "encodeUserJWT E kp claims ttl = (
     let expiresAt = (if 0 < ttl then Some (e_now E + ttl) else None);
         claims = claims\<lparr>uc_Expires := (if 0 < ttl then Unix expiresAt else 0)\<rparr>
     in encodeJwt (e_ValidateUserClaims E claims) (e_EncodeUser E kp claims) expiresAt)"

text \<open>Claims in the old style wrap the inner object in a field \<^verbatim>\<open>nats\<close>.\<close>

definition innerClaims :: "json \<Rightarrow> json m" where
  "innerClaims raw = bindM (liftOption ''json: cannot unmarshal claims'' (json_object raw)) (\<lambda>kvs.
     returnM (case map_of kvs ''nats'' of Some inner \<Rightarrow> inner | None \<Rightarrow> raw))"

section \<open>The operator's JWT\<close>

definition NewOperatorClaims :: "string \<Rightarrow> operator_claims" where
  "NewOperatorClaims sub = \<lparr>oc_Subject = sub, oc_Name = [], oc_Expires = 0, oc_NotBefore = 0,
     oc_Operator = \<lparr>jo_SigningKeys = None, jo_SystemAccount = [], jo_Other = JObj []\<rparr>\<rparr>"

text \<open>\<^verbatim>\<open>StringList.Add\<close>: no duplicates, no empty strings.\<close>

definition stringListAdd :: "string \<Rightarrow> string list \<Rightarrow> string list" where
  "stringListAdd v u = (if v \<notin> set u \<and> v \<noteq> [] then u @ [v] else u)"

text \<open>
  \<^verbatim>\<open>copy\<close> copies as many elements as the destination is long. The destination made for the
  custom signing keys has length 0 and their number as its capacity.
\<close>

definition go_copy :: "'a list \<Rightarrow> 'a list \<Rightarrow> 'a list" where
  "go_copy dst src = take (min (length dst) (length src)) src @ drop (min (length dst) (length src)) dst"

definition enrichOperatorClaims :: "env \<Rightarrow> sref \<Rightarrow> operatorId \<Rightarrow> string \<Rightarrow> operator_claims
    \<Rightarrow> (operator_claims \<times> string list) m" where
  "enrichOperatorClaims E s i sysAccountName claims = (
     let claims = claims\<lparr>oc_Name := oi_op i, oc_Expires := 0, oc_NotBefore := 0\<rparr> in
     bindM (if sysAccountName = [] then returnM (claims, [])
            else bindM (Nkey E s (account_nkeyPath (operatorId_accountId i sysAccountName))) (\<lambda>n. case n of
              Some nk \<Rightarrow> bindM (publicKey E nk) (\<lambda>sub.
                returnM (claims\<lparr>oc_Operator := (oc_Operator claims)\<lparr>jo_SystemAccount := sub\<rparr>\<rparr>, []))
            | None \<Rightarrow> returnM (claims, [''system account '' @ quoted sysAccountName
                @ '' does not exist, so it was not added to the claims'']))) (\<lambda>(claims, warnings).
     let signingKeys = (case jo_SigningKeys (oc_Operator claims) of
           Some user \<Rightarrow> go_copy [] user | None \<Rightarrow> [])
     in bindM (for_OperatorSigningKeys E s i (\<lambda>n nk keys.
          bindM (publicKey E nk) (\<lambda>pub. returnM (stringListAdd pub keys))) signingKeys) (\<lambda>signingKeys.
        returnM (if signingKeys \<noteq> []
                 then claims\<lparr>oc_Operator := (oc_Operator claims)\<lparr>jo_SigningKeys := Some signingKeys\<rparr>\<rparr>
                 else claims, warnings))))"

definition operatorClaims :: "env \<Rightarrow> operatorEntry \<Rightarrow> string \<Rightarrow> operator_claims m" where
  "operatorClaims E op sub = (case op_RawClaims op of
     None \<Rightarrow> returnM (NewOperatorClaims sub)
   | Some raw \<Rightarrow> bindM (innerClaims raw) (\<lambda>raw.
       bindM (liftOption ''json: cannot unmarshal operator'' (e_UnmarshalOperator E raw)) (\<lambda>opClaims.
       returnM ((NewOperatorClaims sub)\<lparr>oc_Operator := opClaims\<rparr>))))"

definition issueAndSaveOperatorJWT :: "env \<Rightarrow> sref \<Rightarrow> operatorId \<Rightarrow> string list m" where
  "issueAndSaveOperatorJWT E s i = bindM (Nkey E s (operator_nkeyPath i)) (\<lambda>n. case n of
     None \<Rightarrow> throwM (Fail ''id key does not exist'')
   | Some idNkey \<Rightarrow> bindM (keyPair E idNkey) (\<lambda>idKey.
       bindM (Operator E s i) (\<lambda>o'. case o' of
         None \<Rightarrow> throwM (Fail ''operator does not exist'')
       | Some op \<Rightarrow> bindM (wrapErr ''failed to decode public key: '' (PublicKey E idKey)) (\<lambda>sub.
           bindM (operatorClaims E op sub) (\<lambda>claims.
           bindM (enrichOperatorClaims E s i (op_SysAccountName op) claims) (\<lambda>(claims, warnings).
           let result = encodeOperatorJwt E idKey claims in
           if jr_errors result \<noteq> [] then throwM (Fail (jwtResult_Error result))
           else thenM (storeInStorage E s (operator_jwtPath i) (EJwt (NewJwt (jr_jwt result) (jr_issuer result))))
                  (returnM (warnings @ jr_warnings result))))))))"

section \<open>The account's JWT\<close>

text \<open>An \<^verbatim>\<open>AccountReader\<close> is an identifier, read from storage, or an entry that was read before.\<close>

datatype accountReader = ReadAccount accountId | LoadedAccount accountId accountEntry

definition reader_Account :: "env \<Rightarrow> sref \<Rightarrow> accountReader \<Rightarrow> accountEntry option m" where
  "reader_Account E s r = (case r of ReadAccount i \<Rightarrow> Account E s i | LoadedAccount i a \<Rightarrow> returnM (Some a))"

definition reader_AccountId :: "accountReader \<Rightarrow> accountId" where
  "reader_AccountId r = (case r of ReadAccount i \<Rightarrow> i | LoadedAccount i a \<Rightarrow> i)"

definition keyPairAt :: "env \<Rightarrow> sref \<Rightarrow> string \<Rightarrow> string option m" where
  "keyPairAt E s p = bindM (Nkey E s p) (\<lambda>n. case n of
     None \<Rightarrow> returnM None | Some nk \<Rightarrow> bindM (keyPair E nk) (\<lambda>kp. returnM (Some kp)))"

definition fromAccount :: "string \<Rightarrow> string" where
  "fromAccount n = quoted n @ '' (from account definition)''"

definition fromOperator :: "string \<Rightarrow> string" where
  "fromOperator n = quoted n @ '' (from operator default)''"

text \<open>The key pair that signs, with a description of the key wanted and of the key found.\<close>

definition namedKey :: "env \<Rightarrow> sref \<Rightarrow> operatorId \<Rightarrow> string \<Rightarrow> string option m" where
  "namedKey E s opId n = (if n = [] then returnM None
     else keyPairAt E s (operatorSigningKey_nkeyPath (operatorId_signingKeyId opId n)))"

definition operatorKey :: "env \<Rightarrow> sref \<Rightarrow> operatorId \<Rightarrow> string \<Rightarrow> string \<Rightarrow> (string \<times> string \<times> string) m" where
  "operatorKey E s opId desired dflt = (
     let desired = (if desired = [] \<and> dflt \<noteq> [] then fromOperator dflt else desired) in
     bindM (namedKey E s opId dflt) (\<lambda>k2. case k2 of
       Some kp \<Rightarrow> returnM (kp, desired, fromOperator dflt)
     | None \<Rightarrow> bindM (keyPairAt E s (operator_nkeyPath opId)) (\<lambda>k3. case k3 of
         None \<Rightarrow> throwM (Fail ''operator identity key does not exist'')
       | Some kp \<Rightarrow> returnM (kp, desired, ''operator identity key''))))"

definition selectSigningKey :: "env \<Rightarrow> sref \<Rightarrow> operatorId \<Rightarrow> accountEntry \<Rightarrow> (string \<times> string \<times> string) m" where
  "selectSigningKey E s opId account = (
     let own = acc_SigningKey account; desired = (if own = [] then [] else fromAccount own) in
     bindM (namedKey E s opId own) (\<lambda>k1. case k1 of
       Some kp \<Rightarrow> returnM (kp, desired, fromAccount own)
     | None \<Rightarrow> bindM (Operator E s opId) (\<lambda>operator.
         operatorKey E s opId desired (case operator of None \<Rightarrow> [] | Some op \<Rightarrow> op_DefaultSigningKey op))))"

definition signingKeyWarnings :: "string \<Rightarrow> string \<Rightarrow> string list" where
  "signingKeyWarnings desired selected = (if desired \<noteq> [] \<and> desired \<noteq> selected
     then [''could not use signing key '' @ desired @ '' as it does not exist; defaulting to '' @ selected] else [])"

definition NoLimit :: int where
  "NoLimit = -1"

definition NewAccountClaims :: "string \<Rightarrow> account_claims" where
  "NewAccountClaims sub = \<lparr>ac_Subject = sub, ac_Name = [], ac_Expires = 0, ac_NotBefore = 0,
     ac_Account = \<lparr>ja_Limits = \<lparr>ol_Subs = NoLimit, ol_Data = NoLimit, ol_Payload = NoLimit,
         ol_Imports = NoLimit, ol_Exports = NoLimit, ol_WildcardExports = True, ol_Conn = NoLimit,
         ol_LeafNodeConn = NoLimit, ol_Other = JObj []\<rparr>,
       ja_SigningKeys = Some [], ja_Mappings = Some (JObj []), ja_Imports = [], ja_Revocations = [],
       ja_Other = JObj []\<rparr>\<rparr>"

text \<open>
  The limits of custom claims: what the JSON does not mention is unlimited, not 0. The keys
  are looked up in the raw object, since the decoded struct cannot tell 0 from missing.
\<close>

definition limitOr :: "(string \<times> json) list \<Rightarrow> string \<Rightarrow> 'a \<Rightarrow> 'a \<Rightarrow> 'a" where
  "limitOr limits k given missing = (if map_of limits k = None then missing else given)"

definition defaultLimits :: "(string \<times> json) list \<Rightarrow> operator_limits \<Rightarrow> operator_limits" where
  "defaultLimits limits l = l\<lparr>
     ol_Subs := limitOr limits ''subs'' (ol_Subs l) NoLimit,
     ol_Data := limitOr limits ''data'' (ol_Data l) NoLimit,
     ol_Payload := limitOr limits ''payload'' (ol_Payload l) NoLimit,
     ol_Imports := limitOr limits ''imports'' (ol_Imports l) NoLimit,
     ol_Exports := limitOr limits ''exports'' (ol_Exports l) NoLimit,
     ol_WildcardExports := limitOr limits ''wildcards'' (ol_WildcardExports l) True,
     ol_Conn := limitOr limits ''conn'' (ol_Conn l) NoLimit,
     ol_LeafNodeConn := limitOr limits ''leaf'' (ol_LeafNodeConn l) NoLimit\<rparr>"

definition mergeLimits :: "json \<Rightarrow> operator_limits \<Rightarrow> operator_limits \<Rightarrow> operator_limits" where
  "mergeLimits raw unlimited l = (case json_object raw of
     None \<Rightarrow> l
   | Some nats \<Rightarrow> (case map_of nats ''limits'' of
       Some (JObj limits) \<Rightarrow> defaultLimits limits l
     | _ \<Rightarrow> unlimited))"

definition accountClaims :: "env \<Rightarrow> accountEntry \<Rightarrow> string \<Rightarrow> account_claims m" where
  "accountClaims E account sub = (let claims = NewAccountClaims sub in
     case acc_RawClaims account of
       None \<Rightarrow> returnM claims
     | Some raw \<Rightarrow> bindM (innerClaims raw) (\<lambda>raw.
         bindM (liftOption ''json: cannot unmarshal account'' (e_UnmarshalAccount E raw)) (\<lambda>accClaims.
         returnM (claims\<lparr>ac_Account := accClaims\<lparr>
           ja_SigningKeys := (case ja_SigningKeys accClaims of None \<Rightarrow> Some [] | keys \<Rightarrow> keys),
           ja_Mappings := (case ja_Mappings accClaims of None \<Rightarrow> Some (JObj []) | maps \<Rightarrow> maps),
           ja_Limits := mergeLimits raw (ja_Limits (ac_Account claims)) (ja_Limits accClaims)\<rparr>\<rparr>))))"

text \<open>\<^verbatim>\<open>jwt.NewUserScope\<close>: no limits until a template is given.\<close>

definition NewUserScope :: user_scope_claim where
  "NewUserScope = \<lparr>sc_Key = [], sc_Role = [], sc_Description = [],
     sc_Template = \<lparr>pl_Subs = NoLimit, pl_Data = NoLimit, pl_Payload = NoLimit, pl_Src = None, pl_Other = JObj []\<rparr>\<rparr>"

definition addAccountSigningKey :: "env \<Rightarrow> string \<Rightarrow> nkeyEntry \<Rightarrow> (string \<times> user_scope_claim option) list
    \<Rightarrow> (string \<times> user_scope_claim option) list m" where
  "addAccountSigningKey E n nk keys = bindM (publicKey E nk) (\<lambda>pub.
     if nk_Scoped nk then
       let scope = NewUserScope\<lparr>sc_Key := pub, sc_Role := n, sc_Description := nk_Description nk\<rparr> in
       bindM (case nk_Template nk of
           None \<Rightarrow> returnM scope
         | Some t \<Rightarrow> bindM (liftOption ''json: cannot unmarshal permission template'' (e_UnmarshalLimits E t))
             (\<lambda>l. returnM (scope\<lparr>sc_Template := l\<rparr>)))
         (\<lambda>scope. returnM (AList.update (sc_Key scope) (Some scope) keys))
     else returnM (AList.update pub None keys))"

definition enrichAccountClaims :: "env \<Rightarrow> sref \<Rightarrow> accountId \<Rightarrow> account_claims \<Rightarrow> account_claims m" where
  "enrichAccountClaims E s i claims =
     bindM (Nkey E s (account_nkeyPath i)) (\<lambda>n. case n of
       None \<Rightarrow> throwM (Fail ''account nkey does not exist'')
     | Some nk \<Rightarrow> bindM (publicKey E nk) (\<lambda>sub.
     bindM (for_AccountImports E s i (\<lambda>n imp imports. returnM (imports @ ai_Imports imp)) []) (\<lambda>imports.
     bindM (for_AccountRevocations E s i (\<lambda>n rev revs.
         returnM (AList.update n (Unix (rev_CreationTime rev)) revs)) []) (\<lambda>revocations.
     bindM (for_AccountSigningKeys E s i (addAccountSigningKey E)
         (case ja_SigningKeys (ac_Account claims) of Some keys \<Rightarrow> keys | None \<Rightarrow> [])) (\<lambda>signingKeys.
     let acc = ac_Account claims in
     returnM (claims\<lparr>ac_Name := ai_acc i, ac_Expires := 0, ac_NotBefore := 0, ac_Subject := sub,
       ac_Account := acc\<lparr>
         ja_Imports := (if imports \<noteq> [] then imports else ja_Imports acc),
         ja_Revocations := (if revocations \<noteq> [] then revocations else ja_Revocations acc),
         ja_SigningKeys := (if signingKeys \<noteq> [] then Some signingKeys else ja_SigningKeys acc)\<rparr>\<rparr>))))))"

definition storeAccountJWT :: "env \<Rightarrow> sref \<Rightarrow> accountId \<Rightarrow> string \<Rightarrow> string list \<Rightarrow> account_claims \<Rightarrow> string list m" where
  "storeAccountJWT E s i signingKey warnings claims = (let result = encodeAccountJwt E signingKey claims in
     if jr_errors result \<noteq> [] then throwM (Fail (jwtResult_Error result))
     else thenM (storeInStorage E s (account_jwtPath i) (EJwt (NewJwt (jr_jwt result) (jr_issuer result))))
            (returnM (warnings @ jr_warnings result)))"

definition issueAndSaveAccountJWT :: "env \<Rightarrow> sref \<Rightarrow> accountReader \<Rightarrow> string list m" where
  "issueAndSaveAccountJWT E s reader = (let i = reader_AccountId reader; opId = accountId_operatorId i in
     bindM (reader_Account E s reader) (\<lambda>a. case a of
       None \<Rightarrow> returnM []
     | Some account \<Rightarrow>
     bindM (selectSigningKey E s opId account) (\<lambda>(signingKey, desired, selected).
     bindM (Nkey E s (account_nkeyPath i)) (\<lambda>n. case n of
       None \<Rightarrow> throwM (Fail ''account nkey does not exist'')
     | Some idNkey \<Rightarrow> bindM (keyPair E idNkey) (\<lambda>idKey.
     bindM (wrapErr ''failed to decode public key: '' (PublicKey E idKey)) (\<lambda>sub.
     bindM (accountClaims E account sub) (\<lambda>claims.
     bindM (enrichAccountClaims E s i claims) (\<lambda>claims.
     storeAccountJWT E s i signingKey (signingKeyWarnings desired selected) claims))))))))"

section \<open>The user's JWT\<close>

type_synonym limitFlags = "8 word"

definition LimitFlagsSubs :: limitFlags where "LimitFlagsSubs = 1"
definition LimitFlagsData :: limitFlags where "LimitFlagsData = push_bit 1 1"
definition LimitFlagsPayload :: limitFlags where "LimitFlagsPayload = push_bit 2 1"
definition LimitFlagsSrc :: limitFlags where "LimitFlagsSrc = push_bit 3 1"
definition LimitFlagsOther :: limitFlags where "LimitFlagsOther = push_bit 4 1"

definition LimitFlagsHasLimits :: limitFlags where
  "LimitFlagsHasLimits = LimitFlagsSubs OR LimitFlagsData OR LimitFlagsPayload OR LimitFlagsSrc OR LimitFlagsOther"

text \<open>Which flag a key of the raw user claims sets.\<close>

definition limitFlagOf :: "string \<Rightarrow> limitFlags" where
  "limitFlagOf k = (if k \<in> set [''pub'', ''sub'', ''resp'', ''times'', ''times_location'',
       ''bearer_token'', ''proxy_required'', ''allowed_connection_types''] then LimitFlagsOther
     else if k = ''src'' then LimitFlagsSrc
     else if k = ''subs'' then LimitFlagsSubs
     else if k = ''data'' then LimitFlagsData
     else if k = ''payload'' then LimitFlagsPayload
     else 0)"

definition readLimitFlags :: "json \<Rightarrow> limitFlags m" where
  "readLimitFlags raw = bindM (liftOption ''json: cannot unmarshal user'' (json_object raw)) (\<lambda>nats.
     returnM (fold (\<lambda>(k, v) flags. flags OR limitFlagOf k) nats 0))"

record enrichUserParams =
  eup_op :: string
  eup_acc :: string
  eup_user :: string
  eup_session :: string
  eup_claims :: user_claims
  eup_signingKey :: string
  eup_tags :: "string list"
  eup_limitFlags :: limitFlags
  eup_nbf :: int

definition NewUserClaims :: "string \<Rightarrow> user_claims" where
  "NewUserClaims sub = \<lparr>uc_Subject = sub, uc_Name = [], uc_Expires = 0, uc_NotBefore = 0,
     uc_User = \<lparr>ju_Limits = \<lparr>pl_Subs = NoLimit, pl_Data = NoLimit, pl_Payload = NoLimit,
         pl_Src = Some [], pl_Other = JObj []\<rparr>,
       ju_IssuerAccount = [], ju_Tags = None, ju_Other = JObj []\<rparr>\<rparr>"

text \<open>The zero \<^verbatim>\<open>jwt.UserPermissionLimits{}\<close> of a user under a scoped key.\<close>

definition zeroLimits :: permission_limits where
  "zeroLimits = \<lparr>pl_Subs = 0, pl_Data = 0, pl_Payload = 0, pl_Src = None, pl_Other = JObj []\<rparr>"

text \<open>What is not in the raw claims gets the default of \<^verbatim>\<open>jwt.NewUserClaims\<close>.\<close>

definition userDefaultLimits :: "limitFlags \<Rightarrow> permission_limits \<Rightarrow> permission_limits" where
  "userDefaultLimits flags l = l\<lparr>
     pl_Src := (if flags AND LimitFlagsSrc = 0 then (case pl_Src l of None \<Rightarrow> Some [] | src \<Rightarrow> src) else pl_Src l),
     pl_Subs := (if flags AND LimitFlagsSubs = 0 then -1 else pl_Subs l),
     pl_Data := (if flags AND LimitFlagsData = 0 then -1 else pl_Data l),
     pl_Payload := (if flags AND LimitFlagsPayload = 0 then -1 else pl_Payload l)\<rparr>"

text \<open>\<^verbatim>\<open>TagList.Add\<close>: tags are normalised, without duplicates or empty tags.\<close>

definition tagListAdd :: "env \<Rightarrow> string \<Rightarrow> string list \<Rightarrow> string list" where
  "tagListAdd E v u = stringListAdd (e_NormTag E v) u"

definition mergeTags :: "env \<Rightarrow> string list option \<Rightarrow> string list \<Rightarrow> string list" where
  "mergeTags E claimed given = fold (tagListAdd E) ((case claimed of None \<Rightarrow> [] | Some ts \<Rightarrow> ts) @ given) []"

text \<open>
  The key that signs a user's JWT and the claims to sign. A named signing key is another key
  pair than the account's identity key, so the JWT then names the account as the issuer.
\<close>

definition enrichUserClaims :: "env \<Rightarrow> sref \<Rightarrow> enrichUserParams \<Rightarrow> (string \<times> string list \<times> user_claims) m" where
  "enrichUserClaims E s p = (let accId = AccountId (eup_op p) (eup_acc p) in
     bindM (Nkey E s (account_nkeyPath accId)) (\<lambda>a. case a of
       None \<Rightarrow> throwM (Fail (''unable to sign creds; account '' @ quoted (ai_acc accId) @ '' nkey is missing''))
     | Some accountNkey \<Rightarrow> bindM (keyPair E accountNkey) (\<lambda>issuerKey.
     bindM (if eup_signingKey p = [] then returnM None
            else bindM (Nkey E s (accountSigningKey_nkeyPath (accountId_signingKeyId accId (eup_signingKey p)))) (\<lambda>n. case n of
              None \<Rightarrow> throwM (Fail (''invalid signing key '' @ quoted (eup_signingKey p) @ '' specified''))
            | Some nk \<Rightarrow> bindM (keyPair E nk) (\<lambda>sk. returnM (Some (sk, nk_Scoped nk))))) (\<lambda>named.
     let claims = eup_claims p;
         scoped = (case named of Some (sk, sc) \<Rightarrow> sc | None \<Rightarrow> False);
         warnings = (if scoped \<and> eup_limitFlags p AND LimitFlagsHasLimits \<noteq> 0
                     then [''ignoring limits in user claims due to scope''] else []);
         limits = (if scoped then zeroLimits
                   else userDefaultLimits (eup_limitFlags p) (ju_Limits (uc_User claims)));
         claims = claims\<lparr>
           uc_Name := (if eup_session p \<noteq> [] then eup_session p else eup_user p),
           uc_NotBefore := (if 0 < eup_nbf p then eup_nbf p else uc_NotBefore claims),
           uc_User := (uc_User claims)\<lparr>ju_Limits := limits,
             ju_Tags := Some (mergeTags E (ju_Tags (uc_User claims)) (eup_tags p))\<rparr>\<rparr>
     in case named of
          None \<Rightarrow> returnM (issuerKey, warnings, claims\<lparr>uc_User := (uc_User claims)\<lparr>ju_IssuerAccount := []\<rparr>\<rparr>)
        | Some (sk, sc) \<Rightarrow> bindM (wrapErr ''failed to decode issuer key: '' (PublicKey E issuerKey)) (\<lambda>accountId.
            returnM (sk, warnings, claims\<lparr>uc_User := (uc_User claims)\<lparr>ju_IssuerAccount := accountId\<rparr>\<rparr>))))))"

section \<open>What the methods write\<close>

lemma preserves_claims [preserves_rules]:
  "preserves I (innerClaims raw)" "preserves I (operatorClaims E op sub)" "preserves I (accountClaims E acc sub)"
  "preserves I (enrichOperatorClaims E s oid n oc)" "preserves I (reader_Account E s rd)"
  "preserves I (keyPairAt E s px)" "preserves I (selectSigningKey E s oid acc)"
  "preserves I (addAccountSigningKey E n nk keys)" "preserves I (enrichAccountClaims E s aid ac)"
  "preserves I (readLimitFlags raw)" "preserves I (enrichUserClaims E s eup)"
proof -
  show A: "preserves I (innerClaims raw)" for raw unfolding innerClaims_def by (intro preserves_rules)
  show "preserves I (operatorClaims E op sub)" unfolding operatorClaims_def by (intro preserves_rules A)
  show "preserves I (accountClaims E acc sub)" unfolding accountClaims_def by (intro preserves_rules A)
  show "preserves I (enrichOperatorClaims E s oid n oc)" unfolding enrichOperatorClaims_def by (intro preserves_rules)
  show "preserves I (reader_Account E s rd)" unfolding reader_Account_def by (cases rd) (auto intro: preserves_rules)
  show B: "preserves I (keyPairAt E s px)" for px unfolding keyPairAt_def by (intro preserves_rules)
  show "preserves I (selectSigningKey E s oid acc)" unfolding selectSigningKey_def operatorKey_def namedKey_def by (intro preserves_rules B)
  show C: "preserves I (addAccountSigningKey E n nk keys)" for n nk keys unfolding addAccountSigningKey_def by (intro preserves_rules)
  show "preserves I (enrichAccountClaims E s aid ac)" unfolding enrichAccountClaims_def by (intro preserves_rules C)
  show "preserves I (readLimitFlags raw)" unfolding readLimitFlags_def by (intro preserves_rules)
  show "preserves I (enrichUserClaims E s eup)" unfolding enrichUserClaims_def by (intro preserves_rules)
qed

lemma reader_AccountId_simps [simp]:
  "reader_AccountId (ReadAccount i) = i" "reader_AccountId (LoadedAccount i a) = i"
  by (simp_all add: reader_AccountId_def)

lemma writes_issueAndSaveOperatorJWT [preserves_rules]:
  assumes "owns Ops (oi_op i)"
  shows "preserves (writes (allowed Ops) d) (issueAndSaveOperatorJWT E s i)"
  unfolding issueAndSaveOperatorJWT_def
  by (intro preserves_rules writes_store) (simp add: allowed_simps assms)

lemma writes_issueAndSaveAccountJWT [preserves_rules]:
  assumes "owns Ops (ai_op (reader_AccountId rd))"
  shows "preserves (writes (allowed Ops) d) (issueAndSaveAccountJWT E s rd)"
  unfolding issueAndSaveAccountJWT_def storeAccountJWT_def
  by (intro preserves_rules writes_store) (simp add: allowed_simps assms)

end
