(* ===== verification/NatsConn.thy ===== *)
theory NatsConn
  imports Txn
begin

text \<open>
  \<^verbatim>\<open>pkg/abstractnats\<close>: the connection, subscription and message types the plugin puts around those
  of the NATS client library. A connection of the library is a number; what was subscribed and
  published on it and whether it was drained is kept in the state. A pointer to a \<^verbatim>\<open>natsConn\<close> is an
  option: every method of it reads its field \<^verbatim>\<open>c\<close>, so that a call on nil is a nil dereference.
\<close>

section \<open>Connections\<close>

record natsSub =
  sub_nc :: "nat option"
  sub_s :: "nat \<times> string"

text \<open>
  \<^verbatim>\<open>NewNatsConnection\<close>: the library connects, asking for the JWT and signing the nonce of the server
  with the callbacks it is given.
\<close>

definition NewNatsConnection :: "env \<Rightarrow> string list \<Rightarrow> string + string \<Rightarrow> (string \<Rightarrow> string + string) \<Rightarrow> nat m" where
  "NewNatsConnection E servers creds sign = (\<lambda>w. case e_Connect E (join '','' servers) creds sign of
     Some e \<Rightarrow> (Inl (Fail e), w)
   | None \<Rightarrow> (Inr (w_nextConn w), w\<lparr>w_nextConn := Suc (w_nextConn w)\<rparr>))"

definition natsConn_Drain :: "nat option \<Rightarrow> unit m" where
  "natsConn_Drain c = bindM (deref c) (\<lambda>nc. modifyM (\<lambda>w. w\<lparr>w_closed := w_closed w @ [nc]\<rparr>))"

text \<open>Neither kind of subscription is given the connection it was made on.\<close>

definition natsConn_SubscribeSync :: "env \<Rightarrow> nat option \<Rightarrow> string \<Rightarrow> natsSub m" where
  "natsConn_SubscribeSync E c subj = bindM (deref c) (\<lambda>nc. case e_SubscribeSync E of
     Some e \<Rightarrow> throwM (Fail e)
   | None \<Rightarrow> returnM \<lparr>sub_nc = None, sub_s = (nc, subj)\<rparr>)"

definition natsConn_Subscribe :: "env \<Rightarrow> nat option \<Rightarrow> string \<Rightarrow> natsSub m" where
  "natsConn_Subscribe E c subj = bindM (deref c) (\<lambda>nc. case e_Subscribe E subj of
     Some e \<Rightarrow> throwM (Fail e)
   | None \<Rightarrow> thenM (modifyM (\<lambda>w. w\<lparr>w_subscriptions := w_subscriptions w @ [(nc, subj)]\<rparr>))
       (returnM \<lparr>sub_nc = None, sub_s = (nc, subj)\<rparr>))"

definition natsConn_Publish :: "env \<Rightarrow> nat option \<Rightarrow> string \<Rightarrow> string \<Rightarrow> unit m" where
  "natsConn_Publish E c subj data = bindM (deref c) (\<lambda>nc. case e_PublishFails E subj of
     Some e \<Rightarrow> throwM (Fail e)
   | None \<Rightarrow> modifyM (\<lambda>w. w\<lparr>w_published := w_published w @ [(nc, subj, data)]\<rparr>))"

text \<open>The inbox for the replies is the library's business; what arrives there is \<open>e_Replies\<close>.\<close>

definition natsConn_PublishRequest :: "env \<Rightarrow> nat option \<Rightarrow> string \<Rightarrow> string \<Rightarrow> string \<Rightarrow> unit m" where
  "natsConn_PublishRequest E c subj reply data = natsConn_Publish E c subj data"

section \<open>Messages\<close>

record Msg =
  msg_Subject :: string
  msg_Reply :: string
  msg_Header :: "(string \<times> string list) list"
  msg_Data :: string
  msg_Sub :: "natsSub option"

definition NewMsg :: "natsMsg \<Rightarrow> Msg" where
  "NewMsg m = \<lparr>msg_Subject = nm_Subject m, msg_Reply = nm_Reply m, msg_Header = nm_Header m,
     msg_Data = nm_Data m, msg_Sub = None\<rparr>"

text \<open>The message the callback of a subscription gets for one of the library.\<close>

definition subscribedMsg :: "nat \<times> string \<Rightarrow> natsMsg \<Rightarrow> Msg" where
  "subscribedMsg s m = (NewMsg m)\<lparr>msg_Sub := Some \<lparr>sub_nc = None, sub_s = s\<rparr>\<rparr>"

definition natsSub_Connection :: "natsSub \<Rightarrow> nat option" where
  "natsSub_Connection s = sub_nc s"

text \<open>One receive: what the library returned, an error or a message.\<close>

definition natsSub_NextMsg :: "natsSub \<Rightarrow> string + natsMsg \<Rightarrow> string + Msg" where
  "natsSub_NextMsg s r = (case r of Inl e \<Rightarrow> Inl e
     | Inr m \<Rightarrow> Inr \<lparr>msg_Subject = nm_Subject m, msg_Reply = nm_Reply m, msg_Header = nm_Header m,
         msg_Data = nm_Data m, msg_Sub = Some s\<rparr>)"

definition Msg_Respond :: "env \<Rightarrow> Msg option \<Rightarrow> string \<Rightarrow> unit m" where
  "Msg_Respond E m data = (case m of
     None \<Rightarrow> throwM (Fail ''nats: message is not bound to subscription/connection'')
   | Some msg \<Rightarrow> (case msg_Sub msg of
       None \<Rightarrow> throwM (Fail ''nats: message is not bound to subscription/connection'')
     | Some s \<Rightarrow>
         if msg_Reply msg = [] then throwM (Fail ''nats: message does not have a reply'')
         else natsConn_Publish E (natsSub_Connection s) (msg_Reply msg) data))"

section \<open>What the methods write\<close>

lemma writes_modify:
  "(\<And>w. w_disk (f w) = w_disk w \<and> w_tx (f w) = w_tx w) \<Longrightarrow> preserves (writes P d) (modifyM f)"
  by (simp add: preserves_def modifyM_apply writes_def)

lemma writes_NewNatsConnection [preserves_rules]: "preserves (writes P d) (NewNatsConnection E servers creds sign)"
  unfolding NewNatsConnection_def by (auto simp: preserves_def writes_def split: option.split)

lemma writes_natsConn [preserves_rules]:
  "preserves (writes P d) (natsConn_Drain c)" "preserves (writes P d) (natsConn_SubscribeSync E c subj)"
  "preserves (writes P d) (natsConn_Subscribe E c subj)" "preserves (writes P d) (natsConn_Publish E c subj payload)"
  "preserves (writes P d) (natsConn_PublishRequest E c subj reply payload)" "preserves (writes P d) (Msg_Respond E msg payload)"
  unfolding natsConn_Drain_def natsConn_SubscribeSync_def natsConn_Subscribe_def natsConn_PublishRequest_def
    Msg_Respond_def natsConn_Publish_def
  by (intro preserves_rules writes_modify; simp)+

end
