(* ===== verification/AccountServers.thy ===== *)
theory AccountServers
  imports Jwts NatsConn
begin

text \<open>
  The account server: \<^verbatim>\<open>pkg/accountserver\<close> (requests to the NATS cluster and lookups from
  it) and the parts of \<^verbatim>\<open>backend.go\<close> that keep one connection per operator: the cache of
  account servers, the cache of account public keys with its lock, the authentication
  callback, \<^verbatim>\<open>startAccountServer\<close> and \<^verbatim>\<open>suspendAccountServer\<close>.
\<close>

section \<open>Requests to the cluster\<close>

definition SysClaimsUpdateSubject :: string where "SysClaimsUpdateSubject = ''$SYS.REQ.CLAIMS.UPDATE''"
definition SysClaimsDeleteSubject :: string where "SysClaimsDeleteSubject = ''$SYS.REQ.CLAIMS.DELETE''"
definition SysAccountClaimsLookupSubject :: string where
  "SysAccountClaimsLookupSubject = ''$SYS.REQ.ACCOUNT.*.CLAIMS.LOOKUP''"

definition NewAccountServer :: "env \<Rightarrow> accountServer \<Rightarrow> accountServer m" where
  "NewAccountServer E srv =
     (if as_EnableAccountLookups srv
      then bindM (natsConn_Subscribe E (Some (as_conn srv)) SysAccountClaimsLookupSubject) (\<lambda>_. returnM srv)
      else returnM srv)"

definition CloseConnection :: "accountServer option \<Rightarrow> unit m" where
  "CloseConnection srv = (case srv of None \<Rightarrow> returnM () | Some r \<Rightarrow> natsConn_Drain (Some (as_conn r)))"

text \<open>
  Every answer until the deadline is looked at: the first that carries an error, and a failed
  receive, end the request with an error; the deadline ends it without one.
\<close>

fun awaitReplies :: "env \<Rightarrow> (string + Msg) list \<Rightarrow> unit m" where
  "awaitReplies E [] = returnM ()"
| "awaitReplies E (r # rs) = (case r of
     Inl e \<Rightarrow> throwM (Fail e)
   | Inr msg \<Rightarrow> (case e_UnmarshalResponse E (msg_Data msg) of
       None \<Rightarrow> awaitReplies E rs
     | Some resp \<Rightarrow> (case resp_Error resp of
         Some e \<Rightarrow> throwM (Fail (ClaimUpdateError_Error e))
       | None \<Rightarrow> awaitReplies E rs)))"

definition claimUpdateRequest :: "env \<Rightarrow> accountServer \<Rightarrow> string \<Rightarrow> string \<Rightarrow> unit m" where
  "claimUpdateRequest E r subject data = (let ib = e_NewInbox E in
     bindM (natsConn_SubscribeSync E (Some (as_conn r)) ib) (\<lambda>sub.
     thenM (natsConn_PublishRequest E (Some (as_conn r)) subject ib data)
       (awaitReplies E (map (natsSub_NextMsg sub) (e_Replies E subject data)))))"

definition DeleteAccount :: "env \<Rightarrow> accountServer \<Rightarrow> string \<Rightarrow> string \<Rightarrow> unit m" where
  "DeleteAccount E r accKey signingKey = (if \<not> as_EnableAccountDeletes r then returnM ()
     else bindM (PublicKey E signingKey) (\<lambda>subject. bindM (PublicKey E accKey) (\<lambda>accSubj.
       bindM (liftOption ''failed to encode jwt'' (e_EncodeDelete E signingKey accSubj)) (\<lambda>token.
         claimUpdateRequest E r SysClaimsDeleteSubject token))))"

definition UpdateAccount :: "env \<Rightarrow> accountServer \<Rightarrow> string \<Rightarrow> unit m" where
  "UpdateAccount E r token = (if \<not> as_EnableAccountUpdates r then returnM ()
     else claimUpdateRequest E r SysClaimsUpdateSubject token)"

section \<open>Lookups from the cluster\<close>

text \<open>
  \<^verbatim>\<open>accCacheLock\<close>, a \<^verbatim>\<open>sync.RWMutex\<close>: a writer waits for the readers, and while it waits new
  readers wait for it. A reader that returned without unlocking never lets the writer in.
\<close>

definition accCacheRLock :: "unit m" where
  "accCacheRLock = (\<lambda>w. if w_accCacheWriter w then (Inl Deadlock, w)
     else (Inr (), w\<lparr>w_accCacheReaders := Suc (w_accCacheReaders w)\<rparr>))"

definition accCacheRUnlock :: "unit m" where
  "accCacheRUnlock = modifyM (\<lambda>w. w\<lparr>w_accCacheReaders := w_accCacheReaders w - 1\<rparr>)"

definition accCacheLock :: "unit m" where
  "accCacheLock = (\<lambda>w. if w_accCacheWriter w then (Inl Deadlock, w)
     else if 0 < w_accCacheReaders w then (Inl Deadlock, w\<lparr>w_accCacheWriter := True\<rparr>)
     else (Inr (), w))"

definition cachedName :: "world \<Rightarrow> operatorId \<Rightarrow> string \<Rightarrow> string option" where
  "cachedName w i key = (case map_of (w_accNkeyCache w) (oi_op i) of
     None \<Rightarrow> None | Some opCache \<Rightarrow> map_of opCache key)"

definition writeAccountToCache :: "accountId \<Rightarrow> string \<Rightarrow> unit m" where
  "writeAccountToCache i key = thenM accCacheLock (modifyM (\<lambda>w.
     let opCache = (case map_of (w_accNkeyCache w) (ai_op i) of Some c \<Rightarrow> c | None \<Rightarrow> []) in
     w\<lparr>w_accNkeyCache := AList.update (ai_op i) (AList.update key (ai_acc i) opCache) (w_accNkeyCache w)\<rparr>))"

definition refreshNkeyCache :: "env \<Rightarrow> sref \<Rightarrow> operatorId \<Rightarrow> unit m" where
  "refreshNkeyCache E s i = for_AccountIdentityKeys E s i (\<lambda>n nk u.
     bindM (publicKey E nk) (\<lambda>key. writeAccountToCache (operatorId_accountId i n) key)) ()"

text \<open>On a hit the method returns between \<^verbatim>\<open>RLock\<close> and \<^verbatim>\<open>RUnlock\<close>.\<close>

definition accountNameFromNkey :: "env \<Rightarrow> sref \<Rightarrow> operatorId \<Rightarrow> string \<Rightarrow> string option m" where
  "accountNameFromNkey E s i key = thenM accCacheRLock (bindM (getsM (\<lambda>w. cachedName w i key)) (\<lambda>hit. case hit of
     Some acc \<Rightarrow> returnM (Some acc)
   | None \<Rightarrow> thenM accCacheRUnlock (bindM (catchFail (refreshNkeyCache E s i)) (\<lambda>r. case r of
       Inl e \<Rightarrow> returnM None
     | Inr _ \<Rightarrow> thenM accCacheRLock (bindM (getsM (\<lambda>w. cachedName w i key)) (\<lambda>hit. case hit of
         Some acc \<Rightarrow> returnM (Some acc)
       | None \<Rightarrow> thenM accCacheRUnlock (returnM None)))))))"

definition accountJwtLookupFunc :: "env \<Rightarrow> operatorId \<Rightarrow> string \<Rightarrow> string m" where
  "accountJwtLookupFunc E i key = bindM (accountNameFromNkey E Base i key) (\<lambda>acc. case acc of
     None \<Rightarrow> returnM []
   | Some n \<Rightarrow> bindM (Jwt E Base (account_jwtPath (operatorId_accountId i n))) (\<lambda>j.
       bindM (deref j) (\<lambda>t. returnM (jwt_Token t))))"

text \<open>\<^verbatim>\<open>strings.Split\<close> at a character\<close>

fun splitOn :: "char \<Rightarrow> string \<Rightarrow> string list" where
  "splitOn c [] = [[]]"
| "splitOn c (x # xs) = (if x = c then [] # splitOn c xs
     else (case splitOn c xs of [] \<Rightarrow> [[x]] | t # ts \<Rightarrow> (x # t) # ts))"

text \<open>The callback of the lookup subscription: an empty answer says that there is no JWT.\<close>

definition accountLookupRequest :: "env \<Rightarrow> accountServer \<Rightarrow> Msg \<Rightarrow> unit m" where
  "accountLookupRequest E r msg = (let tk = splitOn (CHR ''.'') (msg_Subject msg) in
     if length tk \<noteq> 6 then returnM ()
     else bindM (catchFail (accountJwtLookupFunc E (OperatorId (as_Operator r)) (tk ! 3))) (\<lambda>j.
       let jwt = (case j of Inl e \<Rightarrow> [] | Inr jwt \<Rightarrow> jwt) in
       bindM (catchFail (Msg_Respond E (Some msg) jwt)) (\<lambda>_. returnM ())))"

section \<open>The cache of account servers\<close>

definition putAccountServer :: "string \<Rightarrow> accountServer \<Rightarrow> unit m" where
  "putAccountServer n srv = modifyM (\<lambda>w. w\<lparr>w_accServerCache := AList.update n srv (w_accServerCache w)\<rparr>)"

definition popAccountServer :: "string \<Rightarrow> accountServer option m" where
  "popAccountServer n = (\<lambda>w. (Inr (map_of (w_accServerCache w) n),
     w\<lparr>w_accServerCache := AList.delete n (w_accServerCache w)\<rparr>))"

definition clearAccountServers :: "(string \<times> accountServer) list m" where
  "clearAccountServers = (\<lambda>w. (Inr (w_accServerCache w), w\<lparr>w_accServerCache := []\<rparr>))"

definition clean :: "unit m" where
  "clean = bindM clearAccountServers (\<lambda>cache. foldM (\<lambda>x u. CloseConnection (Some (snd x))) cache ())"

section \<open>Starting and suspending\<close>

text \<open>
  \<^verbatim>\<open>createAuthCallback\<close>: a user key made for this connection, with its public key, the JWT the
  callback signs for it when the connection authenticates, and its signature of the server's nonce.
\<close>

definition authPermissions :: json where
  "authPermissions = JObj [
     (''pub'', JObj [(''allow'', JList [JStr SysClaimsUpdateSubject, JStr SysClaimsDeleteSubject, JStr ''_INBOX.*''])]),
     (''sub'', JObj [(''allow'', JList [JStr SysAccountClaimsLookupSubject, JStr ''_INBOX.*''])])]"

definition Hour :: int where
  "Hour = 3600 * Second"

definition authUserClaims :: "env \<Rightarrow> string \<Rightarrow> user_claims" where
  "authUserClaims E sub = \<lparr>uc_Subject = sub, uc_Name = [], uc_Expires = Unix (Some (e_now E + Hour)),
     uc_NotBefore = 0, uc_User = \<lparr>
       ju_Limits = \<lparr>pl_Subs = -1, pl_Data = -1, pl_Payload = -1, pl_Src = None, pl_Other = authPermissions\<rparr>,
       ju_IssuerAccount = [], ju_Tags = None, ju_Other = JObj []\<rparr>\<rparr>"

definition createAuthKey :: "env \<Rightarrow> (string \<times> string) m" where
  "createAuthKey E = bindM (wrapErr ''failed to create identity key: '' (createSeed E PrefixUser)) (\<lambda>idKey.
     bindM (wrapErr ''failed to decode identity key: '' (PublicKey E idKey)) (\<lambda>sub. returnM (idKey, sub)))"

definition authUserJwt :: "env \<Rightarrow> accountServerId \<Rightarrow> string \<Rightarrow> string m" where
  "authUserJwt E i sub =
     bindM (wrapErr ''failed to read operator: '' (Operator E Base (accountServerId_operatorId i))) (\<lambda>o'. case o' of
       None \<Rightarrow> throwM (Fail ''operator does not exist: %!w(<nil>)'')
     | Some operator \<Rightarrow>
     bindM (wrapErr ''failed to read account server: '' (AccountServer E Base i)) (\<lambda>a. case a of
       None \<Rightarrow> throwM (Fail ''account server does not exist: %!w(<nil>)'')
     | Some accountServer \<Rightarrow>
     bindM (enrichUserClaims E Base \<lparr>eup_op = asi_op i, eup_acc = op_SysAccountName operator,
         eup_user = ase_ClientName accountServer, eup_session = [], eup_claims = authUserClaims E sub,
         eup_signingKey = [], eup_tags = [], eup_limitFlags = 0, eup_nbf = 0\<rparr>) (\<lambda>(signingKey, warnings, claims).
     let result = encodeUserJWT E signingKey claims Hour in
     if jr_errors result \<noteq> [] then throwM (Fail (''failed to encode user jwt: '' @ jwtResult_Error result))
     else returnM (jr_jwt result))))"

definition authSign :: "env \<Rightarrow> accountServerId \<Rightarrow> string \<Rightarrow> string \<Rightarrow> string m" where
  "authSign E i idKey nonce =
     bindM (wrapErr ''failed to read operator: '' (Operator E Base (accountServerId_operatorId i))) (\<lambda>o'. case o' of
       None \<Rightarrow> throwM (Fail ''operator does not exist: %!w(<nil>)'')
     | Some operator \<Rightarrow>
     bindM (wrapErr ''failed to read account server config: '' (AccountServer E Base i)) (\<lambda>a. case a of
       None \<Rightarrow> throwM (Fail ''account server config does not exist: %!w(<nil>)'')
     | Some accountServer \<Rightarrow> liftOption ''nkeys: signing failed'' (e_Sign E idKey nonce)))"

text \<open>
  \<^verbatim>\<open>NatsConnectionFunc\<close>: the library asks the callbacks for the JWT and for a signature, and connects
  or not. \<open>authSign\<close> only reads and ends in Go errors only.
\<close>

definition natsConnect :: "env \<Rightarrow> accountServerId \<Rightarrow> string list \<Rightarrow> string \<times> string \<Rightarrow> nat m" where
  "natsConnect E i servers key = bindM (catchFail (authUserJwt E i (snd key))) (\<lambda>creds w.
     NewNatsConnection E servers creds
       (\<lambda>nonce. case fst (catchFail (authSign E i (fst key) nonce) w) of Inr r \<Rightarrow> r | Inl _ \<Rightarrow> Inl []) w)"

definition Suspended :: "accountServerEntry \<Rightarrow> bool" where
  "Suspended e \<longleftrightarrow> ase_Suspend e \<or>
     (ase_DisableAccountLookup e \<and> ase_DisableAccountUpdate e \<and> ase_DisableAccountDelete e)"

text \<open>A new connection, put into the cache; the one it replaces is closed.\<close>

definition connectAccountServer :: "env \<Rightarrow> accountServerId \<Rightarrow> accountServerEntry \<Rightarrow> accountServer option \<Rightarrow> accountServer m" where
  "connectAccountServer E i entry srv =
     bindM (wrapErr ''failed to create auth callback: '' (createAuthKey E)) (\<lambda>key.
     bindM (wrapErr ''failed to create nats connection: '' (natsConnect E i (ase_Servers entry) key)) (\<lambda>nc.
     bindM (wrapErr ''failed to create account server: '' (NewAccountServer E
         \<lparr>as_Operator = asi_op i,
          as_EnableAccountLookups = \<not> ase_DisableAccountLookup entry,
          as_EnableAccountUpdates = \<not> ase_DisableAccountUpdate entry,
          as_EnableAccountDeletes = \<not> ase_DisableAccountDelete entry,
          as_conn = nc\<rparr>)) (\<lambda>newSrv.
     thenM (putAccountServer (asi_op i) newSrv) (thenM (CloseConnection srv) (returnM newSrv)))))"

definition serverStatusUpdate :: "env \<Rightarrow> string option \<Rightarrow> accountServerEntry \<Rightarrow> accountServerEntry" where
  "serverStatusUpdate E syncErr entry = (let st = ase_Status entry in case syncErr of
     Some e \<Rightarrow> entry\<lparr>ase_Status :=
       (if ast_Status st \<noteq> StatusError
        then st\<lparr>ast_Error := e, ast_Status := StatusError, ast_LastStatusChange := Some (e_now E)\<rparr>
        else st\<lparr>ast_Error := e\<rparr>)\<rparr>
   | None \<Rightarrow> entry\<lparr>ase_Status :=
       (if ast_Status st \<noteq> StatusActive
        then st\<lparr>ast_Error := [], ast_Status := StatusActive, ast_LastStatusChange := Some (e_now E)\<rparr>
        else st)\<rparr>)"

definition serverStatusDirty :: "string option \<Rightarrow> accountServerEntry \<Rightarrow> bool" where
  "serverStatusDirty syncErr entry = (let st = ase_Status entry in case syncErr of
     Some e \<Rightarrow> ast_Error st \<noteq> e \<or> ast_Status st \<noteq> StatusError
   | None \<Rightarrow> ast_Status st \<noteq> StatusActive)"

definition startAccountServer :: "env \<Rightarrow> accountServerId \<Rightarrow> bool \<Rightarrow> accountServer option m" where
  "startAccountServer E i reconnect = bindM (AccountServer E Base i) (\<lambda>a. case a of
     None \<Rightarrow> returnM None
   | Some entry \<Rightarrow> if Suspended entry then returnM None
     else bindM (getsM (\<lambda>w. map_of (w_accServerCache w) (asi_op i))) (\<lambda>srv.
       bindM (if reconnect \<or> srv = None then catchFail (connectAccountServer E i entry srv)
              else returnM (Inr (the srv))) (\<lambda>r.
       let syncErr = (case r of Inl e \<Rightarrow> Some e | Inr _ \<Rightarrow> None);
           srv' = (case r of Inl e \<Rightarrow> srv | Inr s \<Rightarrow> Some s) in
       thenM (if serverStatusDirty syncErr entry
              then storeInStorage E Base (accountServer_configPath i) (EAccountServer (serverStatusUpdate E syncErr entry))
              else returnM ())
         (returnM srv'))))"

text \<open>
  The connection's \<^verbatim>\<open>DisconnectErrHandler\<close> and \<^verbatim>\<open>ClosedHandler\<close>: both reconnect. The client
  library calls them for every connection it closes, also one closed by \<^verbatim>\<open>CloseConnection\<close>.
\<close>

definition onConnectionClosed :: "env \<Rightarrow> accountServerId \<Rightarrow> unit m" where
  "onConnectionClosed E i = bindM (catchFail (startAccountServer E i True)) (\<lambda>_. returnM ())"

definition suspendAccountServer :: "env \<Rightarrow> sref \<Rightarrow> accountServerId \<Rightarrow> unit m" where
  "suspendAccountServer E s i = bindM (AccountServer E s i) (\<lambda>a.
     thenM (case a of None \<Rightarrow> returnM ()
            | Some entry \<Rightarrow> storeInStorage E s (accountServer_configPath i) (EAccountServer (entry\<lparr>ase_Suspend := True\<rparr>)))
       (bindM (popAccountServer (asi_op i)) CloseConnection))"

section \<open>What the methods write\<close>

lemma writes_NewAccountServer [preserves_rules]: "preserves (writes P d) (NewAccountServer E srv)"
  unfolding NewAccountServer_def by (intro preserves_rules)

lemma writes_CloseConnection [preserves_rules]: "preserves (writes P d) (CloseConnection srv)"
  unfolding CloseConnection_def by (intro preserves_rules)

lemma preserves_awaitReplies [preserves_rules]: "preserves I (awaitReplies E rs)"
  by (induction rs) (auto intro!: preserves_rules split: sum.split option.split)

lemma writes_claimUpdateRequest [preserves_rules]: "preserves (writes P d) (claimUpdateRequest E r subject data)"
  unfolding claimUpdateRequest_def by (intro preserves_rules)

lemma writes_requests [preserves_rules]:
  "preserves (writes P d) (DeleteAccount E r k1 k2)" "preserves (writes P d) (UpdateAccount E r token)"
  unfolding DeleteAccount_def UpdateAccount_def by (intro preserves_rules)+

lemma writes_lock [preserves_rules]:
  "preserves (writes P d) accCacheRLock" "preserves (writes P d) accCacheRUnlock" "preserves (writes P d) accCacheLock"
  by (auto simp: preserves_def accCacheRLock_def accCacheRUnlock_def accCacheLock_def modifyM_apply writes_def)

lemma writes_writeAccountToCache [preserves_rules]: "preserves (writes P d) (writeAccountToCache i key)"
  unfolding writeAccountToCache_def by (intro preserves_rules writes_modify) (simp add: Let_def)

lemma writes_lookup [preserves_rules]:
  "preserves (writes P d) (refreshNkeyCache E s i)" "preserves (writes P d) (accountNameFromNkey E s i key)"
  "preserves (writes P d) (accountJwtLookupFunc E i key)" "preserves (writes P d) (accountLookupRequest E r msg)"
proof -
  show A: "preserves (writes P d) (refreshNkeyCache E s i)" for s i
    unfolding refreshNkeyCache_def by (intro preserves_rules)
  show B: "preserves (writes P d) (accountNameFromNkey E s i key)" for s i key
    unfolding accountNameFromNkey_def by (intro preserves_rules A)
  show C: "preserves (writes P d) (accountJwtLookupFunc E i key)" for i key
    unfolding accountJwtLookupFunc_def by (intro preserves_rules B)
  show "preserves (writes P d) (accountLookupRequest E r msg)"
    unfolding accountLookupRequest_def by (intro preserves_rules C)
qed

lemma writes_serverCache [preserves_rules]:
  "preserves (writes P d) (putAccountServer n srv)" "preserves (writes P d) (popAccountServer n)"
  "preserves (writes P d) clearAccountServers"
  by (auto simp: preserves_def putAccountServer_def popAccountServer_def clearAccountServers_def modifyM_apply writes_def)

lemma writes_clean [preserves_rules]: "preserves (writes P d) clean"
  unfolding clean_def by (intro preserves_rules)

lemma preserves_authUserJwt [preserves_rules]: "preserves I (authUserJwt E i sub)"
  unfolding authUserJwt_def by (intro preserves_rules)

lemma writes_natsConnect [preserves_rules]: "preserves (writes P d) (natsConnect E i servers key)"
proof -
  have "preserves (writes P d) (\<lambda>w. NewNatsConnection E servers creds (sign w) w)" for creds sign
    using writes_NewNatsConnection [of P d E servers creds] by (simp add: preserves_def)
  then show ?thesis unfolding natsConnect_def by (intro preserves_rules)
qed

lemma writes_connectAccountServer [preserves_rules]: "preserves (writes P d) (connectAccountServer E i entry srv)"
  unfolding connectAccountServer_def createAuthKey_def by (intro preserves_rules)

lemma writes_startAccountServer [preserves_rules]:
  assumes "owns Ops (asi_op i)"
  shows "preserves (writes (allowed Ops) d) (startAccountServer E i reconnect)"
  unfolding startAccountServer_def
  by (intro preserves_rules writes_store) (simp add: allowed_simps assms)

lemma writes_onConnectionClosed [preserves_rules]:
  assumes "owns Ops (asi_op i)"
  shows "preserves (writes (allowed Ops) d) (onConnectionClosed E i)"
  unfolding onConnectionClosed_def by (intro preserves_rules assms)

lemma writes_suspendAccountServer [preserves_rules]:
  assumes "owns Ops (asi_op i)"
  shows "preserves (writes (allowed Ops) d) (suspendAccountServer E s i)"
  unfolding suspendAccountServer_def
  by (intro preserves_rules writes_store) (simp add: allowed_simps assms)

end
