(* ===== verification/Sync.thy ===== *)
theory Sync
  imports AccountServers
begin

text \<open>
  Pushing account JWTs to the cluster (\<^verbatim>\<open>syncAccountUpdate\<close>, \<^verbatim>\<open>syncAccountDelete\<close>,
  \<^verbatim>\<open>syncAccountRotate\<close>, the sync status kept with the account) and the handlers of
  \<^verbatim>\<open>path_account_servers.go\<close>.
\<close>

section \<open>Request fields\<close>

text \<open>
  \<^verbatim>\<open>d.GetOk(name)\<close> is an option. A field of type map that is given as \<^verbatim>\<open>null\<close> is the
  nil map: the inner option. \<open>changed\<close> and \<open>given\<close> are the two lines every field gets:
  \<^verbatim>\<open>dirty = dirty || x != field\<close> and \<^verbatim>\<open>x = field\<close>.
\<close>

type_synonym mapField = "(string \<times> json) list option option"

definition changed :: "'a option \<Rightarrow> 'a \<Rightarrow> bool" where
  "changed v old = (case v of None \<Rightarrow> False | Some x \<Rightarrow> old \<noteq> x)"

definition given :: "'a option \<Rightarrow> 'a \<Rightarrow> 'a" where
  "given v old = (case v of None \<Rightarrow> old | Some x \<Rightarrow> x)"

text \<open>A map field as the raw JSON that is stored: marshalled, or nil.\<close>

definition rawField :: "mapField \<Rightarrow> json option option" where
  "rawField f = map_option (map_option (\<lambda>kvs. json_marshal (JObj kvs))) f"

lemma changed_simps [simp]: "changed None old = False" "changed (Some x) old = (old \<noteq> x)"
  by (simp_all add: changed_def)

lemma given_simps [simp]: "given None old = old" "given (Some x) old = x"
  by (simp_all add: given_def)

text \<open>If no field changes its value, storing the fields stores the old values.\<close>

lemma given_unchanged: "\<not> changed v old \<Longrightarrow> given v old = old"
  by (cases v) simp_all

section \<open>The sync status of an account\<close>

text \<open>
  \<^verbatim>\<open>logical.WithTransaction\<close> opens a transaction if the storage offers one, but hands the
  storage itself to the callback: the writes go to it directly, and an empty transaction is
  committed.
\<close>

definition WithTransaction :: "env \<Rightarrow> sref \<Rightarrow> unit m \<Rightarrow> unit m" where
  "WithTransaction E s callback = (\<lambda>w.
     if e_native E \<and> pending s w = None then
       (case e_storageFails E OpBeginTx [] of
          Some e \<Rightarrow> (Inl (Fail e), w)
        | None \<Rightarrow> thenM callback (\<lambda>w. case e_storageFails E OpCommit [] of
            Some e \<Rightarrow> (Inl (Fail e), w) | None \<Rightarrow> (Inr (), w)) w)
     else callback w)"

definition syncStatusUpdate :: "env \<Rightarrow> string option \<Rightarrow> syncStatus option \<Rightarrow> syncStatus" where
  "syncStatusUpdate E syncErr old = (
     let st = (case old of Some st \<Rightarrow> st
               | None \<Rightarrow> \<lparr>ss_Synced = False, ss_LastError = [], ss_LastSuccessfulSync = None\<rparr>)
     in case syncErr of
          Some e \<Rightarrow> st\<lparr>ss_Synced := False, ss_LastError := e\<rparr>
        | None \<Rightarrow> st\<lparr>ss_LastSuccessfulSync := Some (e_now E), ss_Synced := True, ss_LastError := []\<rparr>)"

definition updateAccountSyncStatus :: "env \<Rightarrow> sref \<Rightarrow> accountId \<Rightarrow> string option \<Rightarrow> unit m" where
  "updateAccountSyncStatus E s i syncErr = WithTransaction E s (
     bindM (Account E s i) (\<lambda>a. bindM (deref a) (\<lambda>account.
       let st = acc_Status account in
       storeInStorage E s (account_configPath i) (EAccount (account\<lparr>acc_Status :=
         st\<lparr>st_Sync := Some (syncStatusUpdate E syncErr (st_Sync st))\<rparr>\<rparr>)))))"

section \<open>Pushing accounts\<close>

definition serverOf :: "accountId \<Rightarrow> accountServerId" where
  "serverOf i = operatorId_accountServerId (accountId_operatorId i)"

definition finishUpdate :: "env \<Rightarrow> accountId \<Rightarrow> string option \<Rightarrow> unit m" where
  "finishUpdate E i syncErr = thenM
     (if syncErr \<noteq> None then bindM (popAccountServer (ai_op i)) CloseConnection else returnM ())
     (thenM (updateAccountSyncStatus E Base i syncErr)
       (case syncErr of None \<Rightarrow> returnM () | Some e \<Rightarrow> throwM (Fail e)))"

definition syncAccountUpdate :: "env \<Rightarrow> accountId \<Rightarrow> unit m" where
  "syncAccountUpdate E i = bindM (catchFail (startAccountServer E (serverOf i) False)) (\<lambda>r. case r of
     Inl e \<Rightarrow> finishUpdate E i (Some e)
   | Inr None \<Rightarrow> returnM ()
   | Inr (Some srv) \<Rightarrow> bindM (Jwt E Base (account_jwtPath i)) (\<lambda>j. case j of
       None \<Rightarrow> finishUpdate E i (Some ''unable to sync, account jwt does not exist'')
     | Some jwt \<Rightarrow> bindM (catchFail (UpdateAccount E srv (jwt_Token jwt))) (\<lambda>u. finishUpdate E i (case u of
         Inl e \<Rightarrow> Some (''failed to send account update: '' @ e) | Inr _ \<Rightarrow> None))))"

text \<open>An error of the server is only logged.\<close>

definition syncAccountDelete :: "env \<Rightarrow> accountId \<Rightarrow> unit m" where
  "syncAccountDelete E i = bindM (catchFail (startAccountServer E (serverOf i) False)) (\<lambda>r. case r of
     Inl e \<Rightarrow> returnM ()
   | Inr None \<Rightarrow> returnM ()
   | Inr (Some srv) \<Rightarrow> bindM (Nkey E Base (operator_nkeyPath (accountId_operatorId i))) (\<lambda>n. case n of
       None \<Rightarrow> throwM (Fail ''unable to sync, operator nkey does not exist'')
     | Some operatorNkey \<Rightarrow> bindM (keyPair E operatorNkey) (\<lambda>operatorKeyPair.
       bindM (Nkey E Base (account_nkeyPath i)) (\<lambda>a. case a of
         None \<Rightarrow> throwM (Fail ''unable to sync, account nkey does not exist'')
       | Some accNkey \<Rightarrow> bindM (keyPair E accNkey) (\<lambda>accountKeyPair.
         bindM (catchFail (DeleteAccount E srv accountKeyPair operatorKeyPair)) (\<lambda>_. returnM ()))))))"

definition syncAccountRotate :: "env \<Rightarrow> string \<Rightarrow> accountId \<Rightarrow> unit m" where
  "syncAccountRotate E oldKeyPair i = bindM (catchFail (startAccountServer E (serverOf i) False)) (\<lambda>r. case r of
     Inl e \<Rightarrow> updateAccountSyncStatus E Base i (Some e)
   | Inr None \<Rightarrow> returnM ()
   | Inr (Some srv) \<Rightarrow> bindM (Jwt E Base (account_jwtPath i)) (\<lambda>j. case j of
       None \<Rightarrow> updateAccountSyncStatus E Base i (Some ''unable to sync, account does not exist'')
     | Some jwt \<Rightarrow> bindM (catchFail (UpdateAccount E srv (jwt_Token jwt))) (\<lambda>u. case u of
         Inl e \<Rightarrow> updateAccountSyncStatus E Base i (Some e)
       | Inr _ \<Rightarrow> bindM (Nkey E Base (operator_nkeyPath (accountId_operatorId i))) (\<lambda>n. case n of
           None \<Rightarrow> updateAccountSyncStatus E Base i (Some ''unable to sync, operator nkey does not exist'')
         | Some operatorNkey \<Rightarrow> bindM (keyPair E operatorNkey) (\<lambda>operatorKeyPair.
           bindM (catchFail (DeleteAccount E srv oldKeyPair operatorKeyPair)) (\<lambda>d.
             updateAccountSyncStatus E Base i (case d of Inl e \<Rightarrow> Some e | Inr _ \<Rightarrow> None)))))))"

text \<open>Every account of an operator; the errors by account.\<close>

definition syncOperatorAccounts :: "env \<Rightarrow> sref \<Rightarrow> operatorId \<Rightarrow> (string \<times> string) list m" where
  "syncOperatorAccounts E s i = for_listPaged E s (operator_accountsConfigPrefix i) (\<lambda>acc errs.
     bindM (catchFail (syncAccountUpdate E (operatorId_accountId i acc))) (\<lambda>r.
       returnM (case r of Inl e \<Rightarrow> AList.update acc e errs | Inr _ \<Rightarrow> errs))) []"

text \<open>After a committed change: push, and turn a failure into a warning.\<close>

definition syncOrWarn :: "env \<Rightarrow> accountId \<Rightarrow> response \<Rightarrow> response m" where
  "syncOrWarn E i resp = bindM (catchFail (syncAccountUpdate E i)) (\<lambda>r. returnM (case r of
     Inl e \<Rightarrow> AddWarning (''unable to sync jwt for account '' @ quoted (ai_acc i) @ '': '' @ e) resp
   | Inr _ \<Rightarrow> resp))"

section \<open>path_account_servers.go\<close>

record accountServerFields =
  asf_suspend :: "bool option"
  asf_servers :: "string list option"
  asf_connect_timeout :: "int option"
  asf_max_reconnects :: "int option"
  asf_reconnect_wait :: "int option"
  asf_client_name :: "string option"
  asf_disable_lookups :: "bool option"
  asf_disable_updates :: "bool option"
  asf_disable_deletes :: "bool option"
  asf_sync_now :: "bool option"

definition DefaultAccountServerClientName :: string where
  "DefaultAccountServerClientName = ''openbao''"

text \<open>\<^verbatim>\<open>time.Duration(v) * time.Second\<close>\<close>

definition seconds :: "int \<Rightarrow> int" where
  "seconds n = n * Second"

definition serverFieldsDirty :: "accountServerFields \<Rightarrow> accountServerEntry \<Rightarrow> bool" where
  "serverFieldsDirty f sync \<longleftrightarrow> changed (asf_suspend f) (ase_Suspend sync)
     \<or> changed (map_option seconds (asf_connect_timeout f)) (ase_ConnectTimeout sync)
     \<or> changed (asf_max_reconnects f) (ase_MaxReconnects sync)
     \<or> changed (map_option seconds (asf_reconnect_wait f)) (ase_ReconnectWait sync)
     \<or> changed (asf_disable_lookups f) (ase_DisableAccountLookup sync)
     \<or> changed (asf_disable_updates f) (ase_DisableAccountUpdate sync)
     \<or> changed (asf_disable_deletes f) (ase_DisableAccountDelete sync)
     \<or> changed (asf_client_name f) (ase_ClientName sync)"

definition setServerFields :: "accountServerFields \<Rightarrow> accountServerEntry \<Rightarrow> accountServerEntry" where
  "setServerFields f sync = sync\<lparr>
     ase_Suspend := given (asf_suspend f) (ase_Suspend sync),
     ase_Servers := given (asf_servers f) (ase_Servers sync),
     ase_ConnectTimeout := given (map_option seconds (asf_connect_timeout f)) (ase_ConnectTimeout sync),
     ase_MaxReconnects := given (asf_max_reconnects f) (ase_MaxReconnects sync),
     ase_ReconnectWait := given (map_option seconds (asf_reconnect_wait f)) (ase_ReconnectWait sync),
     ase_DisableAccountLookup := given (asf_disable_lookups f) (ase_DisableAccountLookup sync),
     ase_DisableAccountUpdate := given (asf_disable_updates f) (ase_DisableAccountUpdate sync),
     ase_DisableAccountDelete := given (asf_disable_deletes f) (ase_DisableAccountDelete sync),
     ase_ClientName := (let n = given (asf_client_name f) (ase_ClientName sync)
                        in if n = [] then DefaultAccountServerClientName else n)\<rparr>"

definition configuredStatus :: "env \<Rightarrow> bool \<Rightarrow> bool \<Rightarrow> accountServerStatus \<Rightarrow> accountServerStatus" where
  "configuredStatus E oldSuspend newSuspend st = (
     let target = (if newSuspend \<and> oldSuspend \<noteq> newSuspend then StatusSuspended else StatusCreated) in
     if ast_Status st \<noteq> target
     then st\<lparr>ast_Error := [], ast_Status := target, ast_LastStatusChange := Some (e_now E)\<rparr> else st)"

definition accountServerStore :: "env \<Rightarrow> accountServerId \<Rightarrow> accountServerFields \<Rightarrow> (bool \<times> accountServerEntry) m" where
  "accountServerStore E i f = (let opId = accountServerId_operatorId i in
     bindM (Operator E Req opId) (\<lambda>o'. case o' of
       None \<Rightarrow> returnError (''operator '' @ quoted (asi_op i) @ '' does not exist'')
     | Some operator \<Rightarrow>
     bindM (Account E Req (operatorId_accountId opId (op_SysAccountName operator))) (\<lambda>a. case a of
       None \<Rightarrow> returnError (''a system account is required for sync: operator '' @ quoted (asi_op i)
         @ '' system account '' @ quoted (op_SysAccountName operator) @ '' does not exist'')
     | Some _ \<Rightarrow>
     bindM (AccountServer E Req i) (\<lambda>old.
     let sync0 = (case old of None \<Rightarrow> NewAccountServerEntry | Some e \<Rightarrow> e);
         syncDirty = (old = None \<or> serverFieldsDirty f sync0);
         sync1 = setServerFields f sync0 in
     if ase_Servers sync1 = [] then returnError ''must provide at least one server''
     else let sync = sync1\<lparr>ase_Status := configuredStatus E (Suspended sync0) (Suspended sync1) (ase_Status sync1)\<rparr> in
       thenM (storeInStorage E Req (accountServer_configPath i) (EAccountServer sync))
         (returnM (syncDirty, sync))))))"

definition syncErrorWarnings :: "(string \<times> string) list \<Rightarrow> string list" where
  "syncErrorWarnings errs = map (\<lambda>(acc, e). ''failed to sync account '' @ quoted acc @ '': '' @ e) (sort_key fst errs)"

definition pathAccountServerCreateUpdate :: "env \<Rightarrow> accountServerId \<Rightarrow> accountServerFields \<Rightarrow> response option m" where
  "pathAccountServerCreateUpdate E i f = withTx E (
     bindM (accountServerStore E i f) (\<lambda>(syncDirty, sync).
     thenM (EndTxStorage E)
    (thenM (startAccountServer E i syncDirty)
    (if given (asf_sync_now f) True \<and> syncDirty \<and> \<not> Suspended sync
     then bindM (catchFail (syncOperatorAccounts E Req (accountServerId_operatorId i))) (\<lambda>r. returnM (Some (case r of
        Inl e \<Rightarrow> AddWarning (''failed to sync accounts: '' @ e) emptyResponse
      | Inr errs \<Rightarrow> AddWarnings (syncErrorWarnings errs) emptyResponse)))
     else returnM (Some emptyResponse)))))"

definition serverStatusName :: "serverStatus \<Rightarrow> string" where
  "serverStatusName st = (case st of StatusCreated \<Rightarrow> ''created'' | StatusActive \<Rightarrow> ''active''
     | StatusSuspended \<Rightarrow> ''suspended'' | StatusError \<Rightarrow> ''error'')"

definition serverStatusData :: "accountServerStatus \<Rightarrow> json" where
  "serverStatusData st = JObj ([(''status'', JStr (serverStatusName (ast_Status st)))]
     @ (case ast_LastStatusChange st of None \<Rightarrow> [] | t \<Rightarrow> [(''last_status_change'', JNum (Unix t))])
     @ (if ast_Error st = [] then [] else [(''error'', JStr (ast_Error st))]))"

definition pathAccountServerRead :: "env \<Rightarrow> accountServerId \<Rightarrow> response option m" where
  "pathAccountServerRead E i = bindM (AccountServer E Req i) (\<lambda>e. returnM (case e of
     None \<Rightarrow> None
   | Some sync \<Rightarrow> Some (dataResponse (
       [(''servers'', JList (map JStr (ase_Servers sync))), (''client_name'', JStr (ase_ClientName sync)),
        (''status'', serverStatusData (ase_Status sync))]
       @ (if ase_Suspend sync then [(''suspend'', JBool True)] else [])
       @ (if 0 < ase_ConnectTimeout sync then [(''connect_timeout'', JNum (ase_ConnectTimeout sync div Second))] else [])
       @ (if 0 < ase_MaxReconnects sync then [(''max_reconnects'', JNum (ase_MaxReconnects sync))] else [])
       @ (if 0 < ase_ReconnectWait sync then [(''reconnect_wait'', JNum (ase_ReconnectWait sync div Second))] else [])
       @ (if ase_DisableAccountLookup sync then [(''disable_lookups'', JBool True)] else [])
       @ (if ase_DisableAccountUpdate sync then [(''disable_updates'', JBool True)] else [])
       @ (if ase_DisableAccountDelete sync then [(''disable_deletes'', JBool True)] else [])))))"

definition pathAccountServerExistenceCheck :: "env \<Rightarrow> accountServerId \<Rightarrow> bool m" where
  "pathAccountServerExistenceCheck E i = bindM (AccountServer E Req i) (\<lambda>e. returnM (e \<noteq> None))"

definition pathAccountServerList :: "env \<Rightarrow> string \<Rightarrow> int \<Rightarrow> response option m" where
  "pathAccountServerList E = listPath E accountServersPathPrefix"

definition pathAccountServerDelete :: "env \<Rightarrow> accountServerId \<Rightarrow> response option m" where
  "pathAccountServerDelete E i = withTx E (thenM (sDelete E Req (accountServer_configPath i))
     (thenM (EndTxStorage E) (returnM None)))"

section \<open>What the methods write\<close>

lemma preserves_WithTransaction [preserves_rules]:
  assumes "preserves I callback"
  shows "preserves I (WithTransaction E s callback)"
proof (rule preservesI)
  fix w r w' assume I: "I w" and r: "WithTransaction E s callback w = (r, w')"
  have "preserves I (thenM callback (\<lambda>w. case e_storageFails E OpCommit [] of
      Some e \<Rightarrow> (Inl (Fail e), w) | None \<Rightarrow> (Inr (), w)))"
    by (intro preserves_then assms) (simp add: preserves_def split: option.split)
  then show "I w'" using r I assms
    by (auto simp: WithTransaction_def dest: preservesD split: if_splits option.splits)
qed

lemma serverOf_op [simp]: "asi_op (serverOf i) = ai_op i"
  by (simp add: serverOf_def path_defs)

lemma id_ops [simp]:
  "ai_op (operatorId_accountId oid n) = oi_op oid" "ai_acc (operatorId_accountId oid n) = n"
  "oi_op (accountId_operatorId aid) = ai_op aid" "oi_op (accountServerId_operatorId sid) = asi_op sid"
  "asi_op (operatorId_accountServerId oid) = oi_op oid"
  "ai_op (userId_accountId uid) = ui_op uid" "ai_acc (userId_accountId uid) = ui_acc uid"
  "ai_op (ephemeralUserId_accountId eid) = eui_op eid" "ai_acc (ephemeralUserId_accountId eid) = eui_acc eid"
  "ai_op (accountSigningKeyId_accountId kid) = aski_op kid" "ai_acc (accountSigningKeyId_accountId kid) = aski_acc kid"
  "ai_op (accountRevocationId_accountId rid) = ari_op rid" "ai_acc (accountRevocationId_accountId rid) = ari_acc rid"
  "ai_op (accountImportId_accountId iid) = aii_op iid" "ai_acc (accountImportId_accountId iid) = aii_acc iid"
  "oi_op (operatorSigningKeyId_operatorId okid) = oski_op okid"
  "ui_op (accountId_userId aid u) = ai_op aid" "eui_op (accountId_ephemeralUserId aid u) = ai_op aid"
  "ari_op (accountId_revocationId aid u) = ai_op aid" "aii_op (accountId_importId aid u) = ai_op aid"
  "aski_op (accountId_signingKeyId aid u) = ai_op aid" "oski_op (operatorId_signingKeyId oid u) = oi_op oid"
  by (simp_all add: path_defs)

lemma writes_updateAccountSyncStatus [preserves_rules]:
  assumes "owns Ops (ai_op i)"
  shows "preserves (writes (allowed Ops) d) (updateAccountSyncStatus E s i syncErr)"
  unfolding updateAccountSyncStatus_def
  by (intro preserves_rules writes_store) (simp add: allowed_simps assms)

lemma writes_sync [preserves_rules]:
  assumes "owns Ops (ai_op i)"
  shows "preserves (writes (allowed Ops) d) (syncAccountUpdate E i)"
    and "preserves (writes (allowed Ops) d) (syncAccountDelete E i)"
    and "preserves (writes (allowed Ops) d) (syncAccountRotate E kp i)"
    and "preserves (writes (allowed Ops) d) (syncOrWarn E i resp)"
proof -
  have F: "preserves (writes (allowed Ops) d) (finishUpdate E i e)" for e
    unfolding finishUpdate_def by (intro preserves_rules assms)
  show U: "preserves (writes (allowed Ops) d) (syncAccountUpdate E i)"
    unfolding syncAccountUpdate_def by (intro preserves_rules F) (simp_all add: assms)
  show "preserves (writes (allowed Ops) d) (syncAccountDelete E i)"
    unfolding syncAccountDelete_def by (intro preserves_rules) (simp_all add: assms)
  show "preserves (writes (allowed Ops) d) (syncAccountRotate E kp i)"
    unfolding syncAccountRotate_def by (intro preserves_rules) (simp_all add: assms)
  show "preserves (writes (allowed Ops) d) (syncOrWarn E i resp)"
    unfolding syncOrWarn_def by (intro preserves_rules U)
qed

lemma writes_syncOperatorAccounts [preserves_rules]:
  assumes "owns Ops (oi_op i)"
  shows "preserves (writes (allowed Ops) d) (syncOperatorAccounts E s i)"
  unfolding syncOperatorAccounts_def by (intro preserves_rules) (simp_all add: assms)

lemma preserves_returns:
  "preserves I (pathAccountServerRead E i)" "preserves I (pathAccountServerList E after limit)"
  unfolding pathAccountServerRead_def pathAccountServerList_def by (intro preserves_rules)+

lemma writes_accountServers [preserves_rules]:
  assumes "owns Ops (asi_op i)"
  shows "preserves (writes (allowed Ops) d) (pathAccountServerCreateUpdate E i f)"
    and "preserves (writes (allowed Ops) d) (pathAccountServerDelete E i)"
proof -
  have A: "preserves (writes (allowed Ops) d) (accountServerStore E i f)"
    unfolding accountServerStore_def
    by (intro preserves_rules writes_store) (simp_all add: allowed_simps assms)
  show "preserves (writes (allowed Ops) d) (pathAccountServerCreateUpdate E i f)"
    unfolding pathAccountServerCreateUpdate_def by (intro preserves_rules A) (simp_all add: assms)
  show "preserves (writes (allowed Ops) d) (pathAccountServerDelete E i)"
    unfolding pathAccountServerDelete_def
    by (intro preserves_rules writes_sDelete) (simp add: allowed_simps assms)
qed

end
