(* ===== verification/Users.thy ===== *)
theory Users
  imports Sync
begin

text \<open>
  Users and ephemeral users (\<^verbatim>\<open>path_users.go\<close>, \<^verbatim>\<open>path_ephemeral_users.go\<close>) and the
  revocation a deleted or rotated user leaves behind (\<^verbatim>\<open>addUserToRevocationList\<close>).
\<close>

section \<open>Shared steps\<close>

text \<open>A call whose error the code does not look at.\<close>

definition ignoreErr :: "'a m \<Rightarrow> unit m" where
  "ignoreErr m = bindM (catchFail m) (\<lambda>_. returnM ())"

definition reissueWarnings :: "string \<Rightarrow> string list \<Rightarrow> string list" where
  "reissueWarnings acc ws = map (\<lambda>v. ''while reissuing jwt for account '' @ quoted acc @ '': '' @ v) ws"

definition sprintErrors :: "string list \<Rightarrow> string" where
  "sprintErrors errs = join ''; '' errs"

definition addUserToRevocationList :: "env \<Rightarrow> sref \<Rightarrow> accountId \<Rightarrow> userId \<Rightarrow> int \<Rightarrow> unit m" where
  "addUserToRevocationList E s accId uId ttl = bindM (Nkey E s (user_nkeyPath uId)) (\<lambda>n. case n of
     None \<Rightarrow> returnM ()
   | Some userNkey \<Rightarrow> bindM (publicKey E userNkey) (\<lambda>pub.
       storeInStorage E s (accountRevocation_configPath (accountId_revocationId accId pub))
         (ERevocation (NewAccountRevocationWithParams (e_now E) (if ttl = 0 then e_MaxLeaseTTL E else ttl)))))"

text \<open>Returns whether the user was revoked, so that the account's JWT is out of date.\<close>

definition deleteUser :: "env \<Rightarrow> sref \<Rightarrow> userId \<Rightarrow> bool \<Rightarrow> int \<Rightarrow> bool m" where
  "deleteUser E s i revoke revokeTtl =
     bindM (if revoke
            then bindM (Account E s (userId_accountId i)) (\<lambda>a. case a of
              None \<Rightarrow> returnM False
            | Some _ \<Rightarrow> thenM (addUserToRevocationList E s (userId_accountId i) i revokeTtl) (returnM True))
            else returnM False) (\<lambda>accDirty.
     thenM (sDelete E s (user_configPath i)) (thenM (sDelete E s (user_nkeyPath i)) (returnM accDirty)))"

definition validateUserClaims :: "env \<Rightarrow> json option \<Rightarrow> response m" where
  "validateUserClaims E claims = (case claims of
     None \<Rightarrow> returnM emptyResponse
   | Some raw \<Rightarrow> bindM (innerClaims raw) (\<lambda>raw.
       bindM (liftOption ''json: cannot unmarshal user'' (e_UnmarshalUser E raw)) (\<lambda>opClaims.
       let vr = e_ValidateUser E (opClaims\<lparr>ju_IssuerAccount := []\<rparr>) in
       returnM (if snd vr \<noteq> []
                then AddWarnings (fst vr) (ErrorResponse (''validation error: '' @ sprintErrors (snd vr)))
                else AddWarnings (fst vr) emptyResponse))))"

text \<open>The custom claims as they are shown.\<close>

definition claimsData :: "json option \<Rightarrow> (string \<times> json) list m" where
  "claimsData raw = (case raw of
     None \<Rightarrow> returnM []
   | Some r \<Rightarrow> bindM (liftOption ''json: cannot unmarshal claims'' (json_object r)) (\<lambda>_. returnM [(''claims'', r)]))"

section \<open>Users\<close>

record userFields =
  uf_default_signing_key :: "string option"
  uf_creds_default_ttl :: "int option"
  uf_creds_max_ttl :: "int option"
  uf_revoke_on_delete :: "bool option"
  uf_claims :: mapField

definition setUserFields :: "userFields \<Rightarrow> userEntry \<Rightarrow> userEntry" where
  "setUserFields f u = u\<lparr>
     us_DefaultSigningKey := given (uf_default_signing_key f) (us_DefaultSigningKey u),
     us_CredsDefaultTtl := given (map_option seconds (uf_creds_default_ttl f)) (us_CredsDefaultTtl u),
     us_CredsMaxTtl := given (map_option seconds (uf_creds_max_ttl f)) (us_CredsMaxTtl u),
     us_RevokeOnDelete := given (uf_revoke_on_delete f) (us_RevokeOnDelete u),
     us_RawClaims := given (rawField (uf_claims f)) (us_RawClaims u)\<rparr>"

text \<open>The response of \<^verbatim>\<open>validateUserClaims\<close> is passed on, also when it is an error response.\<close>

definition pathUserCreateUpdate :: "env \<Rightarrow> userId \<Rightarrow> userFields \<Rightarrow> response option m" where
  "pathUserCreateUpdate E i f = withTx E (
     bindM (accountExists E Req (userId_accountId i)) (\<lambda>accExists.
     if \<not> accExists then returnError (''account '' @ quoted (ui_acc i) @ '' does not exist'')
     else bindM (User E Req i) (\<lambda>old.
     let user = setUserFields f (case old of None \<Rightarrow> NewUser | Some u \<Rightarrow> u) in
     bindM (validateUserClaims E (us_RawClaims user)) (\<lambda>resp.
     thenM (storeInStorage E Req (user_configPath i) (EUser user))
    (thenM (if old = None
            then bindM (NewUserNKey E) (\<lambda>nkey. ignoreErr (storeInStorage E Req (user_nkeyPath i) (ENkey nkey)))
            else returnM ())
    (thenM (EndTxStorage E) (returnM (Some resp))))))))"

definition pathUserRead :: "env \<Rightarrow> userId \<Rightarrow> response option m" where
  "pathUserRead E i = bindM (User E Req i) (\<lambda>u. case u of
     None \<Rightarrow> returnM None
   | Some user \<Rightarrow> bindM (claimsData (us_RawClaims user)) (\<lambda>claims. returnM (Some (dataResponse (
       (if us_RevokeOnDelete user then [(''revoke_on_delete'', JBool True)] else [])
       @ (if 0 < us_CredsDefaultTtl user then [(''creds_default_ttl'', JSeconds (us_CredsDefaultTtl user))] else [])
       @ (if 0 < us_CredsMaxTtl user then [(''creds_max_ttl'', JSeconds (us_CredsMaxTtl user))] else [])
       @ (if us_DefaultSigningKey user \<noteq> [] then [(''default_signing_key'', JStr (us_DefaultSigningKey user))] else [])
       @ claims)))))"

definition pathUserExistenceCheck :: "env \<Rightarrow> userId \<Rightarrow> bool m" where
  "pathUserExistenceCheck E i = bindM (User E Req i) (\<lambda>u. returnM (u \<noteq> None))"

definition pathUserList :: "env \<Rightarrow> accountId \<Rightarrow> string \<Rightarrow> int \<Rightarrow> response option m" where
  "pathUserList E i = listPath E (account_userConfigPrefix i)"

definition pathDeleteUserIssue :: "env \<Rightarrow> userId \<Rightarrow> response option m" where
  "pathDeleteUserIssue E i = withTx E (
     bindM (User E Req i) (\<lambda>u. case u of
       None \<Rightarrow> returnNil
     | Some user \<Rightarrow> bindM (deleteUser E Req i (us_RevokeOnDelete user) (max (us_CredsMaxTtl user) (e_MaxLeaseTTL E))) (\<lambda>jwtDirty.
     thenM (EndTxStorage E)
    (if \<not> jwtDirty then returnM (Some emptyResponse)
     else bindM (catchFail (issueAndSaveAccountJWT E Req (ReadAccount (userId_accountId i)))) (\<lambda>r. case r of
       Inl e \<Rightarrow> returnM (Some (AddWarning (''failed to reissue jwt for account '' @ quoted (ui_acc i) @ '': '' @ e) emptyResponse))
     | Inr warnings \<Rightarrow> bindM (syncOrWarn E (userId_accountId i)
           (AddWarnings (reissueWarnings (ui_acc i) warnings) emptyResponse)) (\<lambda>resp. returnM (Some resp)))))))"

section \<open>Ephemeral users\<close>

record ephemeralUserFields =
  ef_default_signing_key :: "string option"
  ef_creds_default_ttl :: "int option"
  ef_creds_max_ttl :: "int option"
  ef_claims :: mapField

definition setEphemeralUserFields :: "ephemeralUserFields \<Rightarrow> ephemeralUserEntry \<Rightarrow> ephemeralUserEntry" where
  "setEphemeralUserFields f u = u\<lparr>
     eu_DefaultSigningKey := given (ef_default_signing_key f) (eu_DefaultSigningKey u),
     eu_CredsDefaultTtl := given (map_option seconds (ef_creds_default_ttl f)) (eu_CredsDefaultTtl u),
     eu_CredsMaxTtl := given (map_option seconds (ef_creds_max_ttl f)) (eu_CredsMaxTtl u),
     eu_RawClaims := given (rawField (ef_claims f)) (eu_RawClaims u)\<rparr>"

definition pathEphemeralUserCreateUpdate :: "env \<Rightarrow> ephemeralUserId \<Rightarrow> ephemeralUserFields \<Rightarrow> response option m" where
  "pathEphemeralUserCreateUpdate E i f = withTx E (
     bindM (accountExists E Req (ephemeralUserId_accountId i)) (\<lambda>accExists.
     if \<not> accExists then returnError (''account '' @ quoted (eui_acc i) @ '' does not exist'')
     else bindM (EphemeralUser E Req i) (\<lambda>old.
     let user = setEphemeralUserFields f (case old of None \<Rightarrow> NewEphemeralUser | Some u \<Rightarrow> u) in
     bindM (validateUserClaims E (eu_RawClaims user)) (\<lambda>resp.
     thenM (storeInStorage E Req (ephemeralUser_configPath i) (EEphemeralUser user))
    (thenM (EndTxStorage E) (returnM (Some resp)))))))"

definition pathEphemeralUserRead :: "env \<Rightarrow> ephemeralUserId \<Rightarrow> response option m" where
  "pathEphemeralUserRead E i = bindM (EphemeralUser E Req i) (\<lambda>u. case u of
     None \<Rightarrow> returnM None
   | Some user \<Rightarrow> bindM (claimsData (eu_RawClaims user)) (\<lambda>claims. returnM (Some (dataResponse (
       (if 0 < eu_CredsDefaultTtl user then [(''creds_default_ttl'', JSeconds (eu_CredsDefaultTtl user))] else [])
       @ (if 0 < eu_CredsMaxTtl user then [(''creds_max_ttl'', JSeconds (eu_CredsMaxTtl user))] else [])
       @ (if eu_DefaultSigningKey user \<noteq> [] then [(''default_signing_key'', JStr (eu_DefaultSigningKey user))] else [])
       @ claims)))))"

definition pathEphemeralUserExistenceCheck :: "env \<Rightarrow> ephemeralUserId \<Rightarrow> bool m" where
  "pathEphemeralUserExistenceCheck E i = bindM (EphemeralUser E Req i) (\<lambda>u. returnM (u \<noteq> None))"

definition pathEphemeralUserList :: "env \<Rightarrow> accountId \<Rightarrow> string \<Rightarrow> int \<Rightarrow> response option m" where
  "pathEphemeralUserList E i after limit = wrapErr ''failed to list users: ''
     (listPath E (account_ephemeralUserConfigPrefix i) after limit)"

definition pathEphemeralUserDelete :: "env \<Rightarrow> ephemeralUserId \<Rightarrow> response option m" where
  "pathEphemeralUserDelete E i = withTx E (
     thenM (wrapErr ''failed to delete users: '' (sDelete E Req (ephemeralUser_configPath i)))
    (thenM (EndTxStorage E) (returnM None)))"

section \<open>What the methods write\<close>

lemma preserves_ignoreErr [preserves_rules]: "preserves I m \<Longrightarrow> preserves I (ignoreErr m)"
  unfolding ignoreErr_def by (intro preserves_rules)

lemma preserves_userReads [preserves_rules]:
  "preserves I (validateUserClaims E claims)" "preserves I (claimsData raw)"
  unfolding validateUserClaims_def claimsData_def by (intro preserves_rules)+

lemma writes_addUserToRevocationList [preserves_rules]:
  assumes "owns Ops (ai_op a)"
  shows "preserves (writes (allowed Ops) d) (addUserToRevocationList E s a u ttl)"
  unfolding addUserToRevocationList_def
  by (intro preserves_rules writes_store) (simp add: allowed_simps assms)

lemma writes_deleteUser [preserves_rules]:
  assumes "owns Ops (ui_op i)"
  shows "preserves (writes (allowed Ops) d) (deleteUser E s i revoke ttl)"
  unfolding deleteUser_def
  by (intro preserves_rules writes_sDelete) (simp_all add: allowed_simps assms)

lemma writes_users [preserves_rules]:
  assumes "owns Ops (ui_op i)"
  shows "preserves (writes (allowed Ops) d) (pathUserCreateUpdate E i f)"
    and "preserves (writes (allowed Ops) d) (pathDeleteUserIssue E i)"
  unfolding pathUserCreateUpdate_def pathDeleteUserIssue_def
  by (intro preserves_rules writes_store; simp add: allowed_simps assms)+

lemma writes_ephemeralUsers [preserves_rules]:
  assumes "owns Ops (eui_op i)"
  shows "preserves (writes (allowed Ops) d) (pathEphemeralUserCreateUpdate E i f)"
    and "preserves (writes (allowed Ops) d) (pathEphemeralUserDelete E i)"
  unfolding pathEphemeralUserCreateUpdate_def pathEphemeralUserDelete_def
  by (intro preserves_rules writes_store writes_sDelete; simp add: allowed_simps assms)+

end
