(* ===== verification/Accounts.thy ===== *)
theory Accounts
  imports Users
begin

text \<open>
  Accounts (\<^verbatim>\<open>path_accounts.go\<close>) and the account signing keys (\<^verbatim>\<open>path_keys.go\<close>). An account
  has a configuration, an identity key and a JWT; what hangs on it (signing keys, imports,
  revocations, users, ephemeral users) is deleted with it.
\<close>

section \<open>Deleting an account\<close>

text \<open>The five loops of \<^verbatim>\<open>deleteAccount\<close>: delete every listed child of a prefix.\<close>

definition deleteListed :: "env \<Rightarrow> sref \<Rightarrow> string \<Rightarrow> (string \<Rightarrow> string) \<Rightarrow> unit m" where
  "deleteListed E s p path = for_listPaged E s p (\<lambda>n u. sDelete E s (path n)) ()"

definition deleteAccount :: "env \<Rightarrow> sref \<Rightarrow> accountId \<Rightarrow> unit m" where
  "deleteAccount E s i =
     thenM (deleteListed E s (account_signingKeyPrefix i) (\<lambda>n. accountSigningKey_nkeyPath (accountId_signingKeyId i n)))
    (thenM (deleteListed E s (account_importPrefix i) (\<lambda>n. accountImport_configPath (accountId_importId i n)))
    (thenM (deleteListed E s (account_revocationPrefix i) (\<lambda>n. accountRevocation_configPath (accountId_revocationId i n)))
    (thenM (for_listPaged E s (account_userConfigPrefix i) (\<lambda>u _.
              thenM (deleteUser E s (accountId_userId i u) False 0) (returnM ())) ())
    (thenM (deleteListed E s (account_ephemeralUserConfigPrefix i) (\<lambda>n. ephemeralUser_configPath (accountId_ephemeralUserId i n)))
    (thenM (sDelete E s (account_nkeyPath i))
    (thenM (sDelete E s (account_jwtPath i))
           (sDelete E s (account_configPath i))))))))"

definition createAccountNkeyAndJwt :: "env \<Rightarrow> sref \<Rightarrow> accountId \<Rightarrow> string list m" where
  "createAccountNkeyAndJwt E s i = bindM (NewAccountNKey E) (\<lambda>nkey.
     thenM (storeInStorage E s (account_nkeyPath i) (ENkey nkey))
       (issueAndSaveAccountJWT E s (ReadAccount i)))"

section \<open>Handlers\<close>

record accountFields =
  af_claims :: mapField
  af_signing_key :: "string option"
  af_default_signing_key :: "string option"

definition accountFieldsDirty :: "accountFields \<Rightarrow> accountEntry \<Rightarrow> bool" where
  "accountFieldsDirty f a \<longleftrightarrow> changed (rawField (af_claims f)) (acc_RawClaims a)
     \<or> changed (af_signing_key f) (acc_SigningKey a)
     \<or> changed (af_default_signing_key f) (acc_DefaultSigningKey a)"

definition setAccountFields :: "accountFields \<Rightarrow> accountEntry \<Rightarrow> accountEntry" where
  "setAccountFields f a = a\<lparr>
     acc_RawClaims := given (rawField (af_claims f)) (acc_RawClaims a),
     acc_SigningKey := given (af_signing_key f) (acc_SigningKey a),
     acc_DefaultSigningKey := given (af_default_signing_key f) (acc_DefaultSigningKey a)\<rparr>"

definition reissueOperatorNote :: "string \<Rightarrow> string" where
  "reissueOperatorNote op = ''this operation resulted in operator '' @ quoted op @ '' reissuing its jwt''"

definition operatorReissueWarnings :: "string \<Rightarrow> string list \<Rightarrow> string list" where
  "operatorReissueWarnings op ws = map (\<lambda>v. ''while reissuing jwt for operator '' @ quoted op @ '': '' @ v) ws"

text \<open>
  A new account gets its identity key; if the operator names it as its system account it is
  marked so, and the operator's JWT is issued anew to show its key.
\<close>

definition setupNewAccount :: "env \<Rightarrow> accountId \<Rightarrow> accountEntry \<Rightarrow> (accountEntry \<times> response) m" where
  "setupNewAccount E i account = bindM (NewAccountNKey E) (\<lambda>nkey.
     thenM (ignoreErr (storeInStorage E Req (account_nkeyPath i) (ENkey nkey)))
    (bindM (Operator E Req (accountId_operatorId i)) (\<lambda>o'. case o' of
       None \<Rightarrow> returnM (account, emptyResponse)
     | Some operator \<Rightarrow>
         if ai_acc i = op_SysAccountName operator
         then bindM (issueAndSaveOperatorJWT E Req (accountId_operatorId i)) (\<lambda>warnings.
           returnM (account\<lparr>acc_Status := (acc_Status account)\<lparr>st_IsSystemAccount := True\<rparr>\<rparr>,
             AddWarnings (operatorReissueWarnings (ai_op i) warnings)
               (AddWarning (reissueOperatorNote (ai_op i)) emptyResponse)))
         else returnM (account, emptyResponse))))"

definition accountStore :: "env \<Rightarrow> accountId \<Rightarrow> accountFields \<Rightarrow> (bool \<times> response) m" where
  "accountStore E i f =
     bindM (operatorExists E Req (accountId_operatorId i)) (\<lambda>opExists.
     if \<not> opExists then returnError (''operator '' @ quoted (ai_op i) @ '' does not exist'')
     else bindM (Account E Req i) (\<lambda>old.
     let account0 = (case old of None \<Rightarrow> NewAccount | Some a \<Rightarrow> a);
         jwtDirty = (old = None \<or> accountFieldsDirty f account0);
         account1 = setAccountFields f account0 in
     if st_IsManaged (acc_Status account0) then returnError ''cannot modify a managed system account''
     else bindM (if old = None then setupNewAccount E i account1 else returnM (account1, emptyResponse)) (\<lambda>(account, resp).
     thenM (storeInStorage E Req (account_configPath i) (EAccount account))
    (if \<not> jwtDirty then returnM (False, resp)
     else bindM (respondErr ''failed to encode account jwt: '' (issueAndSaveAccountJWT E Req (ReadAccount i)))
       (\<lambda>warnings. returnM (True, AddWarnings warnings resp))))))"

definition pathAccountCreateUpdate :: "env \<Rightarrow> accountId \<Rightarrow> accountFields \<Rightarrow> response option m" where
  "pathAccountCreateUpdate E i f = withTx E (bindM (accountStore E i f) (\<lambda>(jwtDirty, resp).
     thenM (EndTxStorage E)
    (if \<not> jwtDirty then returnM (Some resp)
     else bindM (catchFail (syncAccountUpdate E i)) (\<lambda>r. returnM (Some (case r of
       Inl e \<Rightarrow> AddWarning (''failed to push jwt update: '' @ e) resp | Inr _ \<Rightarrow> resp))))))"

definition syncData :: "syncStatus \<Rightarrow> json" where
  "syncData st = JObj ([(''synced'', JBool (ss_Synced st))]
     @ (case ss_LastSuccessfulSync st of None \<Rightarrow> [] | t \<Rightarrow> [(''last_successful_sync'', JNum (Unix t))])
     @ (if ss_LastError st = [] then [] else [(''last_error'', JStr (ss_LastError st))]))"

definition pathAccountRead :: "env \<Rightarrow> accountId \<Rightarrow> response option m" where
  "pathAccountRead E i = bindM (Account E Req i) (\<lambda>a. case a of
     None \<Rightarrow> returnM None
   | Some account \<Rightarrow> bindM (claimsData (acc_RawClaims account)) (\<lambda>claims. returnM (Some (dataResponse (
       [(''status'', JObj ([(''is_managed'', JBool (st_IsManaged (acc_Status account))),
           (''is_system_account'', JBool (st_IsSystemAccount (acc_Status account)))]
          @ (case st_Sync (acc_Status account) of None \<Rightarrow> [] | Some st \<Rightarrow> [(''sync'', syncData st)])))]
       @ (if acc_SigningKey account \<noteq> [] then [(''signing_key'', JStr (acc_SigningKey account))] else [])
       @ (if acc_DefaultSigningKey account \<noteq> []
          then [(''default_signing_key'', JStr (acc_DefaultSigningKey account))] else [])
       @ claims)))))"

definition pathAccountExistenceCheck :: "env \<Rightarrow> accountId \<Rightarrow> bool m" where
  "pathAccountExistenceCheck E i = bindM (Account E Req i) (\<lambda>a. returnM (a \<noteq> None))"

definition pathAccountList :: "env \<Rightarrow> operatorId \<Rightarrow> string \<Rightarrow> int \<Rightarrow> response option m" where
  "pathAccountList E i = listPath E (operator_accountsConfigPrefix i)"

text \<open>The operator's JWT is issued anew before the account's key is deleted.\<close>

definition pathAccountDelete :: "env \<Rightarrow> accountId \<Rightarrow> response option m" where
  "pathAccountDelete E i = withTx E (bindM (Account E Req i) (\<lambda>a. case a of
     None \<Rightarrow> returnNil
   | Some account \<Rightarrow>
     if st_IsManaged (acc_Status account) then returnError ''cannot delete a managed system account''
     else thenM (wrapErr ''failed to delete account in nats server: '' (syncAccountDelete E i))
    (bindM (if st_IsSystemAccount (acc_Status account)
            then bindM (issueAndSaveOperatorJWT E Req (accountId_operatorId i)) (\<lambda>warnings.
              returnM (AddWarnings (operatorReissueWarnings (ai_op i) warnings)
                (AddWarning (reissueOperatorNote (ai_op i)) emptyResponse)))
            else returnM emptyResponse) (\<lambda>resp.
     thenM (deleteAccount E Req i) (thenM (EndTxStorage E) (returnM (Some resp)))))))"

section \<open>Account signing keys\<close>

record signingKeyFields =
  skf_scoped :: "bool option"
  skf_description :: "string option"
  skf_permission_template :: mapField

text \<open>The description and the template only matter to the JWT of a scoped key.\<close>

definition signingKeyDirty :: "signingKeyFields \<Rightarrow> nkeyEntry \<Rightarrow> bool" where
  "signingKeyDirty f nk \<longleftrightarrow> (let scoped = given (skf_scoped f) (nk_Scoped nk) in
     changed (skf_scoped f) (nk_Scoped nk)
     \<or> (scoped \<and> changed (skf_description f) (nk_Description nk))
     \<or> (scoped \<and> changed (rawField (skf_permission_template f)) (nk_Template nk)))"

definition setSigningKeyFields :: "signingKeyFields \<Rightarrow> nkeyEntry \<Rightarrow> nkeyEntry" where
  "setSigningKeyFields f nk = nk\<lparr>
     nk_Scoped := given (skf_scoped f) (nk_Scoped nk),
     nk_Description := given (skf_description f) (nk_Description nk),
     nk_Template := given (rawField (skf_permission_template f)) (nk_Template nk)\<rparr>"

definition pathAccountSigningNkeyCreateUpdate :: "env \<Rightarrow> accountSigningKeyId \<Rightarrow> signingKeyFields \<Rightarrow> response option m" where
  "pathAccountSigningNkeyCreateUpdate E i f = (let accId = accountSigningKeyId_accountId i in withTx E (
     bindM (Nkey E Req (accountSigningKey_nkeyPath i)) (\<lambda>old.
     bindM (case old of None \<Rightarrow> NewAccountNKey E | Some nk \<Rightarrow> returnM nk) (\<lambda>nk.
     let jwtDirty = (old = None \<or> signingKeyDirty f nk) in
     thenM (storeInStorage E Req (accountSigningKey_nkeyPath i) (ENkey (setSigningKeyFields f nk)))
    (bindM (if jwtDirty then issueAndSaveAccountJWT E Req (ReadAccount accId) else returnM []) (\<lambda>warnings.
     let resp = AddWarnings (reissueWarnings (aski_acc i) warnings) emptyResponse in
     thenM (EndTxStorage E)
    (bindM (if jwtDirty then syncOrWarn E accId resp else returnM resp) (\<lambda>resp.
     returnM (Some resp)))))))))"

definition pathAccountSigningNkeyDelete :: "env \<Rightarrow> accountSigningKeyId \<Rightarrow> response option m" where
  "pathAccountSigningNkeyDelete E i = (let accId = accountSigningKeyId_accountId i in withTx E (
     bindM (Nkey E Req (accountSigningKey_nkeyPath i)) (\<lambda>nk. case nk of
       None \<Rightarrow> returnNil
     | Some _ \<Rightarrow> thenM (sDelete E Req (accountSigningKey_nkeyPath i))
      (bindM (issueAndSaveAccountJWT E Req (ReadAccount accId)) (\<lambda>warnings.
       thenM (EndTxStorage E)
         (returnM (Some (AddWarnings (reissueWarnings (aski_acc i) warnings) emptyResponse))))))))"

section \<open>What the methods write\<close>

lemma writes_deleteListed [preserves_rules]:
  "(\<And>n. path_op (path n) \<in> Ops) \<Longrightarrow> preserves (writes (allowed Ops) d) (deleteListed E s p path)"
  unfolding deleteListed_def by (intro preserves_rules writes_sDelete) (simp add: allowed_simps)

lemma writes_deleteAccount [preserves_rules]:
  assumes "owns Ops (ai_op i)"
  shows "preserves (writes (allowed Ops) d) (deleteAccount E s i)"
  unfolding deleteAccount_def
  by (intro preserves_rules writes_sDelete) (simp_all add: allowed_simps assms)

lemma writes_createAccountNkeyAndJwt [preserves_rules]:
  assumes "owns Ops (ai_op i)"
  shows "preserves (writes (allowed Ops) d) (createAccountNkeyAndJwt E s i)"
  unfolding createAccountNkeyAndJwt_def
  by (intro preserves_rules writes_store) (simp_all add: allowed_simps assms)

lemma writes_accountStore [preserves_rules]:
  assumes "owns Ops (ai_op i)"
  shows "preserves (writes (allowed Ops) d) (accountStore E i f)"
  unfolding accountStore_def setupNewAccount_def
  by (intro preserves_rules writes_store; simp add: allowed_simps assms)

lemma writes_accounts [preserves_rules]:
  assumes "owns Ops (ai_op i)"
  shows "preserves (writes (allowed Ops) d) (pathAccountCreateUpdate E i f)"
    and "preserves (writes (allowed Ops) d) (pathAccountDelete E i)"
  unfolding pathAccountCreateUpdate_def pathAccountDelete_def
  by (intro preserves_rules writes_store; simp add: allowed_simps assms)+

lemma writes_accountSigningKeys [preserves_rules]:
  assumes "owns Ops (aski_op i)"
  shows "preserves (writes (allowed Ops) d) (pathAccountSigningNkeyCreateUpdate E i f)"
    and "preserves (writes (allowed Ops) d) (pathAccountSigningNkeyDelete E i)"
  unfolding pathAccountSigningNkeyCreateUpdate_def pathAccountSigningNkeyDelete_def
  by (intro preserves_rules writes_store writes_sDelete; simp add: allowed_simps assms)+

end
