(* ===== verification/Operators.thy ===== *)
theory Operators
  imports Accounts
begin

text \<open>
  Operators (\<^verbatim>\<open>path_operators.go\<close>) and the operator signing keys (\<^verbatim>\<open>path_keys.go\<close>): the
  managed system account that follows an operator's settings, and which JWTs are issued anew
  when an operator or one of its signing keys changes.
\<close>

section \<open>Operators\<close>

definition DefaultSysAccountName :: string where
  "DefaultSysAccountName = ''SYS''"

definition DefaultSysAccountClaims :: json where
  "DefaultSysAccountClaims = JObj [(''exports'', JList [
     JObj [(''name'', JStr ''account-monitoring-services''), (''subject'', JStr ''$SYS.REQ.ACCOUNT.*.*''),
       (''type'', JStr ''service''), (''response_type'', JStr ''Stream''), (''account_token_position'', JNum 4),
       (''description'', JStr ''Request account specific monitoring services for: SUBSZ, CONNZ, LEAFZ, JSZ and INFO''),
       (''info_url'', JStr ''https://docs.nats.io/nats-server/configuration/sys_accounts'')],
     JObj [(''name'', JStr ''account-monitoring-streams''), (''subject'', JStr ''$SYS.ACCOUNT.*.>''),
       (''type'', JStr ''stream''), (''account_token_position'', JNum 3),
       (''description'', JStr ''Account specific monitoring stream''),
       (''info_url'', JStr ''https://docs.nats.io/nats-server/configuration/sys_accounts'')]])]"

record operatorFields =
  of_create_system_account :: "bool option"
  of_system_account_name :: "string option"
  of_default_signing_key :: "string option"
  of_claims :: mapField

definition newOperatorEntry :: operatorEntry where
  "newOperatorEntry = \<lparr>op_CreateSystemAccount = True, op_SysAccountName = [], op_RawClaims = None,
     op_DefaultSigningKey = []\<rparr>"

definition setOperatorFields :: "operatorFields \<Rightarrow> operatorEntry \<Rightarrow> operatorEntry" where
  "setOperatorFields f op = op\<lparr>
     op_CreateSystemAccount := given (of_create_system_account f) (op_CreateSystemAccount op),
     op_DefaultSigningKey := given (of_default_signing_key f) (op_DefaultSigningKey op),
     op_SysAccountName := (let n = given (of_system_account_name f) (op_SysAccountName op)
                           in if n = [] then DefaultSysAccountName else n),
     op_RawClaims := given (rawField (of_claims f)) (op_RawClaims op)\<rparr>"

text \<open>The previous system account: deleted if it is managed, otherwise no longer marked.\<close>

definition cleanupSystemAccount :: "env \<Rightarrow> accountId \<Rightarrow> unit m" where
  "cleanupSystemAccount E oldId = bindM (Account E Req oldId) (\<lambda>a. case a of
     None \<Rightarrow> returnM ()
   | Some oldAcc \<Rightarrow> if st_IsManaged (acc_Status oldAcc) then deleteAccount E Req oldId
     else storeInStorage E Req (account_configPath oldId)
       (EAccount (oldAcc\<lparr>acc_Status := (acc_Status oldAcc)\<lparr>st_IsSystemAccount := False\<rparr>\<rparr>)))"

definition managedSystemAccount :: accountEntry where
  "managedSystemAccount = (let a = NewAccountWithParams DefaultSysAccountClaims in
     a\<lparr>acc_Status := (acc_Status a)\<lparr>st_IsManaged := True, st_IsSystemAccount := True\<rparr>\<rparr>)"

definition setupSystemAccount :: "env \<Rightarrow> operatorId \<Rightarrow> operatorEntry \<Rightarrow> response \<Rightarrow> response m" where
  "setupSystemAccount E i operator resp = (let sysId = operatorId_accountId i (op_SysAccountName operator) in
     bindM (Account E Req sysId) (\<lambda>a.
     if op_CreateSystemAccount operator then (case a of
         Some account \<Rightarrow> if \<not> st_IsManaged (acc_Status account)
           then returnError (''managed system account name '' @ quoted (op_SysAccountName operator)
             @ '' clashes with existing account'')
           else returnM resp
       | None \<Rightarrow> thenM (storeInStorage E Req (account_configPath sysId) (EAccount managedSystemAccount))
          (thenM (createAccountNkeyAndJwt E Req sysId) (returnM resp)))
     else (case a of
         Some account \<Rightarrow> thenM (storeInStorage E Req (account_configPath sysId)
           (EAccount (account\<lparr>acc_Status := (acc_Status account)\<lparr>st_IsSystemAccount := True\<rparr>\<rparr>)))
           (returnM resp)
       | None \<Rightarrow> returnM (AddWarning (''system account '' @ quoted (op_SysAccountName operator)
           @ '' does not exist and won't be reflected in the operator jwt'') resp))))"

text \<open>The operator's JWT; an operator that existed gets its account server suspended.\<close>

definition reissueOperator :: "env \<Rightarrow> operatorId \<Rightarrow> bool \<Rightarrow> response \<Rightarrow> response m" where
  "reissueOperator E i newOperator resp =
     bindM (respondErr ''failed to encode operator jwt: '' (issueAndSaveOperatorJWT E Req i)) (\<lambda>warnings.
     let resp = AddWarnings (operatorReissueWarnings (oi_op i) warnings) resp in
     if newOperator then returnM resp
     else thenM (suspendAccountServer E Req (operatorId_accountServerId i))
            (returnM (AddWarning (reissueOperatorNote (oi_op i)) resp)))"

text \<open>The accounts that sign with the default key.\<close>

definition reissueDefaultSigned :: "env \<Rightarrow> operatorId \<Rightarrow> response \<Rightarrow> response m" where
  "reissueDefaultSigned E i = for_Accounts E Req i (\<lambda>n account resp.
     if acc_SigningKey account \<noteq> [] then returnM resp
     else bindM (respondErr (''failed to reissue account '' @ quoted n @ '' jwt: '')
         (issueAndSaveAccountJWT E Req (LoadedAccount (operatorId_accountId i n) account))) (\<lambda>warnings.
       returnM (AddWarnings warnings
         (AddWarning (''reissued jwt for account '' @ quoted n @ '' as it is signed with the default key'') resp))))"

definition operatorStore :: "env \<Rightarrow> operatorId \<Rightarrow> operatorFields \<Rightarrow> response m" where
  "operatorStore E i f = bindM (Operator E Req i) (\<lambda>old.
     let newOperator = (old = None);
         operator0 = (case old of None \<Rightarrow> newOperatorEntry | Some op \<Rightarrow> op);
         operator = setOperatorFields f operator0;
         nameChanged = (op_SysAccountName operator0 \<noteq> op_SysAccountName operator);
         managedChanged = (op_CreateSystemAccount operator0 \<noteq> op_CreateSystemAccount operator);
         jwtDirty = (newOperator \<or> changed (rawField (of_claims f)) (op_RawClaims operator0) \<or> nameChanged) in
     thenM (storeInStorage E Req (operator_configPath i) (EOperator operator))
    (thenM (if newOperator
            then bindM (NewOperatorNKey E) (\<lambda>nkey. storeInStorage E Req (operator_nkeyPath i) (ENkey nkey))
            else returnM ())
    (thenM (if \<not> newOperator \<and> (nameChanged \<or> managedChanged)
            then cleanupSystemAccount E (operatorId_accountId i (op_SysAccountName operator0)) else returnM ())
    (bindM (if newOperator \<or> nameChanged \<or> managedChanged
            then setupSystemAccount E i operator emptyResponse else returnM emptyResponse) (\<lambda>resp.
     bindM (if jwtDirty then reissueOperator E i newOperator resp else returnM resp) (\<lambda>resp.
     if op_DefaultSigningKey operator \<noteq> op_DefaultSigningKey operator0
     then reissueDefaultSigned E i resp else returnM resp))))))"

definition pathOperatorCreateUpdate :: "env \<Rightarrow> operatorId \<Rightarrow> operatorFields \<Rightarrow> response option m" where
  "pathOperatorCreateUpdate E i f = withTx E (bindM (operatorStore E i f) (\<lambda>resp.
     thenM (EndTxStorage E) (returnM (Some resp))))"

definition pathOperatorRead :: "env \<Rightarrow> operatorId \<Rightarrow> response option m" where
  "pathOperatorRead E i = bindM (Operator E Req i) (\<lambda>o'. case o' of
     None \<Rightarrow> returnM None
   | Some operator \<Rightarrow> bindM (claimsData (op_RawClaims operator)) (\<lambda>claims. returnM (Some (dataResponse (
       [(''create_system_account'', JBool (op_CreateSystemAccount operator)),
        (''system_account_name'', JStr (op_SysAccountName operator))]
       @ (if op_DefaultSigningKey operator \<noteq> []
          then [(''default_signing_key'', JStr (op_DefaultSigningKey operator))] else [])
       @ claims)))))"

definition pathOperatorExistenceCheck :: "env \<Rightarrow> operatorId \<Rightarrow> bool m" where
  "pathOperatorExistenceCheck E i = bindM (Operator E Req i) (\<lambda>o'. returnM (o' \<noteq> None))"

definition pathOperatorList :: "env \<Rightarrow> string \<Rightarrow> int \<Rightarrow> response option m" where
  "pathOperatorList E = listPath E operatorsPathPrefix"

text \<open>Neither the operator's signing keys nor the cached account server are touched.\<close>

definition pathOperatorDelete :: "env \<Rightarrow> operatorId \<Rightarrow> response option m" where
  "pathOperatorDelete E i = withTx E (bindM (Operator E Req i) (\<lambda>o'. case o' of
     None \<Rightarrow> returnNil
   | Some operator \<Rightarrow>
     thenM (sDelete E Req (operator_configPath i))
    (thenM (if op_CreateSystemAccount operator
            then deleteAccount E Req (operatorId_accountId i (op_SysAccountName operator)) else returnM ())
    (thenM (sDelete E Req (accountServer_configPath (operatorId_accountServerId i)))
    (thenM (sDelete E Req (operator_nkeyPath i))
    (thenM (sDelete E Req (operator_jwtPath i))
    (thenM (for_listPaged E Req (operator_accountsConfigPrefix i) (\<lambda>acc _.
              deleteAccount E Req (operatorId_accountId i acc)) ())
    (thenM (EndTxStorage E) (returnM None)))))))))"

section \<open>Operator signing keys\<close>

text \<open>The key an account wants to be signed with.\<close>

definition wantedSigningKey :: "operatorEntry \<Rightarrow> accountEntry \<Rightarrow> string" where
  "wantedSigningKey operator account =
     (if acc_SigningKey account \<noteq> [] then acc_SigningKey account else op_DefaultSigningKey operator)"

definition pathOperatorSigningNkeyCreateUpdate :: "env \<Rightarrow> operatorSigningKeyId \<Rightarrow> response option m" where
  "pathOperatorSigningNkeyCreateUpdate E i = (let opId = operatorSigningKeyId_operatorId i in withTx E (
     bindM (Nkey E Req (operatorSigningKey_nkeyPath i)) (\<lambda>old.
     bindM (case old of None \<Rightarrow> NewOperatorNKey E | Some nk \<Rightarrow> returnM nk) (\<lambda>nkey.
     thenM (storeInStorage E Req (operatorSigningKey_nkeyPath i) (ENkey nkey))
    (bindM (if old \<noteq> None then returnM emptyResponse
       else bindM (respondErr ''failed to encode operator jwt: '' (issueAndSaveOperatorJWT E Req opId)) (\<lambda>warnings.
         bindM (Operator E Req opId) (\<lambda>operator.
         for_Accounts E Req opId (\<lambda>n account resp. bindM (deref operator) (\<lambda>op.
           if wantedSigningKey op account \<noteq> oski_name i then returnM resp
           else bindM (respondErr (''failed to reissue account '' @ quoted n @ '' jwt: '')
               (issueAndSaveAccountJWT E Req (LoadedAccount (operatorId_accountId opId n) account))) (\<lambda>warnings.
             returnM (AddWarnings warnings (AddWarning (''reissued jwt for account '' @ quoted n
               @ '' as it wants to be signed with signing key '' @ quoted (oski_name i)) resp)))))
           (AddWarnings warnings emptyResponse)))) (\<lambda>resp.
     thenM (EndTxStorage E) (returnM (Some resp))))))))"

text \<open>The accounts whose JWT was signed with the key, issued anew; their names and the warnings.\<close>

definition reissueSignedWith :: "env \<Rightarrow> operatorId \<Rightarrow> string \<Rightarrow> operatorEntry option \<Rightarrow> (string list \<times> response) m" where
  "reissueSignedWith E opId key operator = for_Accounts E Req opId (\<lambda>n account (updated, resp).
     bindM (deref operator) (\<lambda>op.
       if wantedSigningKey op account \<noteq> key then returnM (updated, resp)
       else bindM (issueAndSaveAccountJWT E Req (ReadAccount (operatorId_accountId opId n))) (\<lambda>warnings.
         returnM (updated @ [n],
           AddWarnings (reissueWarnings n warnings) (AddWarning (''reissued jwt for account '' @ quoted n
             @ '' as it was signed with signing key '' @ quoted key) resp)))))
     ([], emptyResponse)"

definition pathOperatorSigningNkeyDelete :: "env \<Rightarrow> operatorSigningKeyId \<Rightarrow> response option m" where
  "pathOperatorSigningNkeyDelete E i = (let opId = operatorSigningKeyId_operatorId i in withTx E (
     bindM (Nkey E Req (operatorSigningKey_nkeyPath i)) (\<lambda>nk. case nk of
       None \<Rightarrow> returnNil
     | Some _ \<Rightarrow> thenM (sDelete E Req (operatorSigningKey_nkeyPath i))
      (bindM (Operator E Req opId) (\<lambda>operator.
       bindM (reissueSignedWith E opId (oski_name i) operator) (\<lambda>(updated, resp).
       bindM (issueAndSaveOperatorJWT E Req opId) (\<lambda>warnings.
       thenM (EndTxStorage E)
      (bindM (foldM (\<lambda>n. syncOrWarn E (operatorId_accountId opId n)) updated (AddWarnings warnings resp)) (\<lambda>resp.
       returnM (Some resp))))))))))"

section \<open>What the methods write\<close>

lemma writes_operatorSteps [preserves_rules]:
  assumes "owns Ops (oi_op i)"
  shows "preserves (writes (allowed Ops) d) (setupSystemAccount E i op resp)"
    and "preserves (writes (allowed Ops) d) (reissueOperator E i new resp)"
    and "preserves (writes (allowed Ops) d) (reissueDefaultSigned E i resp)"
  unfolding setupSystemAccount_def reissueOperator_def reissueDefaultSigned_def
  by (intro preserves_rules writes_store; simp add: allowed_simps assms)+

lemma writes_cleanupSystemAccount [preserves_rules]:
  assumes "owns Ops (ai_op i)"
  shows "preserves (writes (allowed Ops) d) (cleanupSystemAccount E i)"
  unfolding cleanupSystemAccount_def
  by (intro preserves_rules writes_store; simp add: allowed_simps assms)

lemma writes_operators [preserves_rules]:
  assumes "owns Ops (oi_op i)"
  shows "preserves (writes (allowed Ops) d) (pathOperatorCreateUpdate E i f)"
    and "preserves (writes (allowed Ops) d) (pathOperatorDelete E i)"
  unfolding pathOperatorCreateUpdate_def operatorStore_def pathOperatorDelete_def
  by (intro preserves_rules writes_store writes_sDelete; simp add: allowed_simps assms)+

lemma writes_operatorSigningKeys [preserves_rules]:
  assumes "owns Ops (oski_op i)"
  shows "preserves (writes (allowed Ops) d) (pathOperatorSigningNkeyCreateUpdate E i)"
    and "preserves (writes (allowed Ops) d) (pathOperatorSigningNkeyDelete E i)"
  unfolding pathOperatorSigningNkeyCreateUpdate_def pathOperatorSigningNkeyDelete_def reissueSignedWith_def
  by (intro preserves_rules writes_store writes_sDelete; simp add: allowed_simps assms)+

end
