(* ===== verification/Grants.thy ===== *)
theory Grants
  imports Operators
begin

text \<open>
  What an account's JWT is extended by from outside the account's own claims: revocations
  (\<^verbatim>\<open>path_revocations.go\<close>) and imports (\<^verbatim>\<open>path_account_imports.go\<close>). Also the backend's
  configuration (\<^verbatim>\<open>path_config.go\<close>).
\<close>

section \<open>Revocations\<close>

text \<open>The revocation is committed first; the account's JWT is then issued outside the transaction.\<close>

definition pathAccountRevocationCreateUpdate :: "env \<Rightarrow> accountRevocationId \<Rightarrow> int option \<Rightarrow> response option m" where
  "pathAccountRevocationCreateUpdate E i ttl = (let accId = accountRevocationId_accountId i in withTx E (
     if \<not> e_IsValidPublicUserKey E (ari_sub i) then returnError ''subject must be a valid user public key''
     else bindM (AccountRevocation E Req i) (\<lambda>old.
     let old_rev = (case old of None \<Rightarrow> NewAccountRevocation | Some r \<Rightarrow> r) in
     bindM (Account E Req accId) (\<lambda>a. if a = None
       then returnError (''account '' @ quoted (ari_acc i) @ '' does not exist under operator '' @ quoted (ari_op i))
       else thenM (storeInStorage E Req (accountRevocation_configPath i) (ERevocation
           \<lparr>rev_CreationTime = Some (e_now E), rev_Ttl = given (map_option seconds ttl) (rev_Ttl old_rev)\<rparr>))
      (thenM (EndTxStorage E)
      (bindM (wrapErr ''failed to encode account jwt: '' (issueAndSaveAccountJWT E Req (ReadAccount accId))) (\<lambda>warnings.
       bindM (syncOrWarn E accId (AddWarnings (reissueWarnings (ari_acc i) warnings) emptyResponse)) (\<lambda>resp.
       returnM (Some resp)))))))))"

definition pathAccountRevocationRead :: "env \<Rightarrow> accountRevocationId \<Rightarrow> response option m" where
  "pathAccountRevocationRead E i = bindM (AccountRevocation E Req i) (\<lambda>r. returnM (case r of
     None \<Rightarrow> None
   | Some found \<Rightarrow> Some (dataResponse [(''ttl'', JSeconds (rev_Ttl found)),
       (''creation_time'', JNum (Unix (rev_CreationTime found)))])))"

definition pathAccountRevocationExistenceCheck :: "env \<Rightarrow> accountRevocationId \<Rightarrow> bool m" where
  "pathAccountRevocationExistenceCheck E i = bindM (AccountRevocation E Req i) (\<lambda>r. returnM (r \<noteq> None))"

definition pathAccountRevocationList :: "env \<Rightarrow> accountId \<Rightarrow> string \<Rightarrow> int \<Rightarrow> response option m" where
  "pathAccountRevocationList E i = listPath E (account_revocationPrefix i)"

definition pathAccountRevocationDelete :: "env \<Rightarrow> accountRevocationId \<Rightarrow> response option m" where
  "pathAccountRevocationDelete E i = (let accId = accountRevocationId_accountId i in withTx E (
     bindM (AccountRevocation E Req i) (\<lambda>r. if r = None then returnNil
       else thenM (sDelete E Req (accountRevocation_configPath i))
      (bindM (issueAndSaveAccountJWT E Req (ReadAccount accId)) (\<lambda>warnings.
       thenM (EndTxStorage E)
      (bindM (syncOrWarn E accId (AddWarnings (reissueWarnings (ari_acc i) warnings) emptyResponse)) (\<lambda>resp.
       returnM (Some resp))))))))"

section \<open>Imports\<close>

definition emptyImport :: jwt_import where
  "emptyImport = \<lparr>imp_Name = [], imp_Subject = [], imp_Account = [], imp_Token = [],
     imp_LocalSubject = [], imp_Type = UnknownExport, imp_Share = False, imp_AllowTrace = False\<rparr>"

text \<open>
  One parameter of \<^verbatim>\<open>updateImportParams\<close>: absent, of the wrong type, or set. The state is
  \<open>(hasParams, dirty, imp)\<close>. The Go code names the offending type in its messages; the model
  does not.
\<close>

type_synonym importState = "bool \<times> bool \<times> jwt_import"

definition stringParam :: "(string \<times> json) list \<Rightarrow> string \<Rightarrow> (jwt_import \<Rightarrow> string) \<Rightarrow> (string \<Rightarrow> jwt_import \<Rightarrow> jwt_import)
    \<Rightarrow> importState \<Rightarrow> string + importState" where
  "stringParam params k field upd s = (case s of (hasParams, dirty, imp) \<Rightarrow> (case map_of params k of
     None \<Rightarrow> Inr s
   | Some (JStr v) \<Rightarrow> Inr (True, dirty \<or> v \<noteq> field imp, upd v imp)
   | Some _ \<Rightarrow> Inl (k @ '' must be a string'')))"

definition typeParam :: "(string \<times> json) list \<Rightarrow> importState \<Rightarrow> string + importState" where
  "typeParam params s = (case s of (hasParams, dirty, imp) \<Rightarrow> (case map_of params ''type'' of
     None \<Rightarrow> Inr s
   | Some (JStr v) \<Rightarrow>
       if v = ''stream'' then Inr (True, dirty \<or> StreamExport \<noteq> imp_Type imp, imp\<lparr>imp_Type := StreamExport\<rparr>)
       else if v = ''service'' then Inr (True, dirty \<or> ServiceExport \<noteq> imp_Type imp, imp\<lparr>imp_Type := ServiceExport\<rparr>)
       else Inl (''type must be either \"stream\" or \"service\", got '' @ quoted v)
   | Some _ \<Rightarrow> Inl ''type must be a string''))"

text \<open>The two flags are assigned before they are compared.\<close>

definition boolParam :: "(string \<times> json) list \<Rightarrow> string \<Rightarrow> (jwt_import \<Rightarrow> bool) \<Rightarrow> (bool \<Rightarrow> jwt_import \<Rightarrow> jwt_import)
    \<Rightarrow> importState \<Rightarrow> string + importState" where
  "boolParam params k field upd s = (case s of (hasParams, dirty, imp) \<Rightarrow> (case map_of params k of
     None \<Rightarrow> Inr s
   | Some (JBool v) \<Rightarrow> (let imp = upd v imp in Inr (True, dirty \<or> v \<noteq> field imp, imp))
   | Some _ \<Rightarrow> Inl ''share must be a bool''))"

fun andThen :: "'e + 'a \<Rightarrow> ('a \<Rightarrow> 'e + 'b) \<Rightarrow> 'e + 'b" where
  "andThen (Inl e) f = Inl e"
| "andThen (Inr x) f = f x"

definition updateImportParams :: "(string \<times> json) list \<Rightarrow> jwt_import \<Rightarrow> string + importState" where
  "updateImportParams params imp =
     andThen (stringParam params ''name'' imp_Name (\<lambda>v i. i\<lparr>imp_Name := v\<rparr>) (False, False, imp)) (\<lambda>s.
     andThen (stringParam params ''subject'' imp_Subject (\<lambda>v i. i\<lparr>imp_Subject := v\<rparr>) s) (\<lambda>s.
     andThen (stringParam params ''account'' imp_Account (\<lambda>v i. i\<lparr>imp_Account := v\<rparr>) s) (\<lambda>s.
     andThen (stringParam params ''token'' imp_Token (\<lambda>v i. i\<lparr>imp_Token := v\<rparr>) s) (\<lambda>s.
     andThen (stringParam params ''local_subject'' imp_LocalSubject (\<lambda>v i. i\<lparr>imp_LocalSubject := v\<rparr>) s) (\<lambda>s.
     andThen (typeParam params s) (\<lambda>s.
     andThen (boolParam params ''share'' imp_Share (\<lambda>v i. i\<lparr>imp_Share := v\<rparr>) s) (\<lambda>s.
     boolParam params ''allow_trace'' imp_AllowTrace (\<lambda>v i. i\<lparr>imp_AllowTrace := v\<rparr>) s)))))))"

definition rootParamsKeys :: "string list" where
  "rootParamsKeys = [''name'', ''subject'', ''account'', ''token'', ''local_subject'', ''type'', ''share'', ''allow_trace'']"

text \<open>The imports array: every element is read afresh, so any element makes the JWT dirty.\<close>

fun readImports :: "json list \<Rightarrow> string + jwt_import list" where
  "readImports [] = Inr []"
| "readImports (JObj kvs # vs) = (case updateImportParams kvs emptyImport of
     Inl e \<Rightarrow> Inl (''import: '' @ e)
   | Inr (hasParams, dirty, imp) \<Rightarrow> (case readImports vs of Inl e \<Rightarrow> Inl e | Inr imps \<Rightarrow> Inr (imp # imps)))"
| "readImports (_ # vs) = Inl ''import must be a map''"

text \<open>
  \<open>raw\<close> are the request's fields, \<open>imports\<close> its array. The root-level parameters edit the
  only import, or make the first. The result is the new imports and whether the JWT is dirty.
\<close>

definition updateImports :: "(string \<times> json) list \<Rightarrow> json list option \<Rightarrow> jwt_import list
    \<Rightarrow> string + (bool \<times> jwt_import list)" where
  "updateImports raw imports old = (case imports of
     Some vs \<Rightarrow>
       if \<exists>k \<in> set (map fst raw). k \<in> set rootParamsKeys
       then Inl ''may not specify imports array along with root-level import parameters''
       else (case readImports vs of Inl e \<Rightarrow> Inl e | Inr imps \<Rightarrow> Inr (length vs \<noteq> length old \<or> vs \<noteq> [], imps))
   | None \<Rightarrow>
       (case updateImportParams raw (case old of [] \<Rightarrow> emptyImport | imp # _ \<Rightarrow> imp) of
          Inl e \<Rightarrow> Inl (''import[0]: '' @ e)
        | Inr (hasParams, dirty, imp) \<Rightarrow>
            if \<not> hasParams then Inr (dirty, old)
            else if 1 < length old
            then Inl ''cannot specify root-level parameters on an account import with more than one import claim''
            else Inr (dirty, [imp])))"

definition pathAccountImportCreateUpdate :: "env \<Rightarrow> accountImportId \<Rightarrow> (string \<times> json) list \<Rightarrow> json list option
    \<Rightarrow> response option m" where
  "pathAccountImportCreateUpdate E i raw imports = (let accId = accountImportId_accountId i in withTx E (
     bindM (Nkey E Req (account_nkeyPath accId)) (\<lambda>n. case n of
       None \<Rightarrow> returnError (''account '' @ quoted (aii_acc i) @ '' does not exist'')
     | Some nkey \<Rightarrow>
     bindM (AccountImport E Req i) (\<lambda>old.
     (case updateImports raw imports (ai_Imports (case old of None \<Rightarrow> NewAccountImport | Some a \<Rightarrow> a)) of
        Inl e \<Rightarrow> returnError e
      | Inr (dirty, imps) \<Rightarrow>
        let jwtDirty = (old = None \<or> dirty) in
        if imps = [] then returnError ''must define at least one import''
        else bindM (publicKey E nkey) (\<lambda>pub.
        let vr = e_ValidateImports E pub imps in
        if snd vr \<noteq> []
        then throwM (EarlyReturn (Some (AddWarnings (fst vr) (ErrorResponse (''validation error: '' @ sprintErrors (snd vr))))))
        else thenM (storeInStorage E Req (accountImport_configPath i) (EImport \<lparr>ai_Imports = imps\<rparr>))
       (bindM (if jwtDirty
               then wrapErr ''failed to encode account jwt: '' (issueAndSaveAccountJWT E Req (ReadAccount accId))
               else returnM []) (\<lambda>warnings.
        let resp = AddWarnings (reissueWarnings (aii_acc i) warnings) (AddWarnings (fst vr) emptyResponse) in
        thenM (EndTxStorage E)
       (bindM (if jwtDirty then syncOrWarn E accId resp else returnM resp) (\<lambda>resp. returnM (Some resp)))))))))))"

definition exportTypeName :: "exportType \<Rightarrow> string" where
  "exportTypeName t = (case t of UnknownExport \<Rightarrow> ''unknown'' | StreamExport \<Rightarrow> ''stream'' | ServiceExport \<Rightarrow> ''service'')"

definition importData :: "jwt_import \<Rightarrow> json" where
  "importData imp = JObj (
     (if imp_Name imp \<noteq> [] then [(''name'', JStr (imp_Name imp))] else [])
     @ (if imp_Subject imp \<noteq> [] then [(''subject'', JStr (imp_Subject imp))] else [])
     @ (if imp_Account imp \<noteq> [] then [(''account'', JStr (imp_Account imp))] else [])
     @ (if imp_Token imp \<noteq> [] then [(''token'', JStr (imp_Token imp))] else [])
     @ (if imp_LocalSubject imp \<noteq> [] then [(''local_subject'', JStr (imp_LocalSubject imp))] else [])
     @ (if imp_Type imp \<noteq> UnknownExport then [(''type'', JStr (exportTypeName (imp_Type imp)))] else [])
     @ (if imp_Share imp then [(''share'', JBool True)] else [])
     @ (if imp_AllowTrace imp then [(''allow_trace'', JBool True)] else []))"

definition pathAccountImportRead :: "env \<Rightarrow> accountImportId \<Rightarrow> response option m" where
  "pathAccountImportRead E i = bindM (AccountImport E Req i) (\<lambda>a. returnM (case a of
     None \<Rightarrow> None
   | Some impConfig \<Rightarrow> Some (dataResponse (if ai_Imports impConfig = [] then []
       else [(''imports'', JList (map importData (ai_Imports impConfig)))]))))"

definition pathAccountImportExistenceCheck :: "env \<Rightarrow> accountImportId \<Rightarrow> bool m" where
  "pathAccountImportExistenceCheck E i = bindM (AccountImport E Req i) (\<lambda>a. returnM (a \<noteq> None))"

definition pathAccountImportList :: "env \<Rightarrow> accountId \<Rightarrow> string \<Rightarrow> int \<Rightarrow> response option m" where
  "pathAccountImportList E i = listPath E (account_importPrefix i)"

definition pathAccountImportDelete :: "env \<Rightarrow> accountImportId \<Rightarrow> response option m" where
  "pathAccountImportDelete E i = (let accId = accountImportId_accountId i in withTx E (
     thenM (sDelete E Req (accountImport_configPath i))
    (bindM (wrapErr ''failed to encode account jwt: '' (issueAndSaveAccountJWT E Req (ReadAccount accId))) (\<lambda>warnings.
     thenM (EndTxStorage E)
    (bindM (syncOrWarn E accId (AddWarnings (reissueWarnings (aii_acc i) warnings) emptyResponse)) (\<lambda>resp.
     returnM (Some resp)))))))"

section \<open>The backend's configuration\<close>

definition defaultBackendConfig :: backendConfigEntry where
  "defaultBackendConfig = \<lparr>cfg_ImplicitRevocationsEnabled = False\<rparr>"

definition Config :: "env \<Rightarrow> sref \<Rightarrow> backendConfigEntry m" where
  "Config E s = bindM (get E s backendConfigPath (\<lambda>e. case e of EConfig x \<Rightarrow> Some x | _ \<Rightarrow> None)) (\<lambda>stored.
     returnM (case stored of None \<Rightarrow> defaultBackendConfig | Some c \<Rightarrow> c))"

definition pathConfigWrite :: "env \<Rightarrow> bool option \<Rightarrow> response option m" where
  "pathConfigWrite E v = bindM (Config E Req) (\<lambda>cfg.
     thenM (storeInStorage E Req backendConfigPath
       (EConfig (cfg\<lparr>cfg_ImplicitRevocationsEnabled := given v (cfg_ImplicitRevocationsEnabled cfg)\<rparr>)))
       (returnM (Some emptyResponse)))"

definition pathConfigRead :: "env \<Rightarrow> response option m" where
  "pathConfigRead E = bindM (Config E Req) (\<lambda>cfg.
     returnM (Some (dataResponse [(''implicit_revocations_enabled'', JBool (cfg_ImplicitRevocationsEnabled cfg))])))"

definition pathConfigDelete :: "env \<Rightarrow> response option m" where
  "pathConfigDelete E = thenM (sDelete E Req backendConfigPath) (returnM (Some emptyResponse))"

section \<open>What the methods write\<close>

lemma writes_revocations [preserves_rules]:
  assumes "owns Ops (ari_op i)"
  shows "preserves (writes (allowed Ops) d) (pathAccountRevocationCreateUpdate E i ttl)"
    and "preserves (writes (allowed Ops) d) (pathAccountRevocationDelete E i)"
  unfolding pathAccountRevocationCreateUpdate_def pathAccountRevocationDelete_def
  by (intro preserves_rules writes_store writes_sDelete; simp add: allowed_simps assms)+

lemma writes_imports [preserves_rules]:
  assumes "owns Ops (aii_op i)"
  shows "preserves (writes (allowed Ops) d) (pathAccountImportCreateUpdate E i raw imports)"
    and "preserves (writes (allowed Ops) d) (pathAccountImportDelete E i)"
  unfolding pathAccountImportCreateUpdate_def pathAccountImportDelete_def
  by (intro preserves_rules writes_store writes_sDelete; simp add: allowed_simps assms)+

lemma preserves_Config [preserves_rules]: "preserves I (Config E s)"
  unfolding Config_def by (intro preserves_rules)

lemma writes_config [preserves_rules]:
  assumes "[] \<in> Ops"
  shows "preserves (writes (allowed Ops) d) (pathConfigWrite E v)"
    and "preserves (writes (allowed Ops) d) (pathConfigDelete E)"
  unfolding pathConfigWrite_def pathConfigDelete_def
  by (intro preserves_rules writes_store writes_sDelete; simp add: allowed_simps assms)+

end
