(* ===== verification/Secrets.thy ===== *)
theory Secrets
  imports Grants
begin

text \<open>
  Leases as the SDK's \<^verbatim>\<open>framework\<close> package handles them (\<^verbatim>\<open>secret.go\<close>, \<^verbatim>\<open>handleRevokeRenew\<close> of
  \<^verbatim>\<open>backend.go\<close>): a secret type, the response that makes a lease of it, and the dispatch of the renewal
  or revocation of a lease to its type. A lease comes back with the internal data it was made with.
\<close>

type_synonym internalData = "(string \<times> json) list"

text \<open>The callbacks get the environment and the lease's internal data; the fields of the type are empty.\<close>

record Secret =
  sct_Type :: string
  sct_DefaultDuration :: int
  sct_Renew :: "(env \<Rightarrow> internalData \<Rightarrow> response option m) option"
  sct_Revoke :: "(env \<Rightarrow> internalData \<Rightarrow> response option m) option"

definition Secret_Renewable :: "Secret \<Rightarrow> bool" where
  "Secret_Renewable s \<longleftrightarrow> sct_Renew s \<noteq> None"

definition Secret_Response :: "Secret \<Rightarrow> (string \<times> json) list \<Rightarrow> internalData \<Rightarrow> response" where
  "Secret_Response s data internal = \<lparr>r_Error = None, r_Warnings = [], r_Data = data,
     r_Secret = Some \<lparr>sec_TTL = sct_DefaultDuration s, sec_MaxTTL = 0, sec_Renewable = Secret_Renewable s,
       sec_InternalData = AList.update ''secret_type'' (JStr (sct_Type s)) internal\<rparr>\<rparr>"

definition Secret_HandleRenew :: "Secret \<Rightarrow> env \<Rightarrow> internalData \<Rightarrow> response option m" where
  "Secret_HandleRenew s E internal = (case sct_Renew s of
     None \<Rightarrow> throwM (Fail ''unsupported operation'') | Some renew \<Rightarrow> renew E internal)"

definition Secret_HandleRevoke :: "Secret \<Rightarrow> env \<Rightarrow> internalData \<Rightarrow> response option m" where
  "Secret_HandleRevoke s E internal = (case sct_Revoke s of
     Some revoke \<Rightarrow> revoke E internal | None \<Rightarrow> throwM (Fail ''unsupported operation''))"

text \<open>\<^verbatim>\<open>Backend.Secret\<close>: the first type of that name.\<close>

definition Backend_Secret :: "Secret list \<Rightarrow> string \<Rightarrow> Secret option" where
  "Backend_Secret secrets k = find (\<lambda>s. sct_Type s = k) secrets"

datatype leaseOperation = RenewOperation | RevokeOperation

text \<open>
  The lease of the request, if it has one, is given by its internal data. Requests to a secrets
  engine have no authentication to renew.
\<close>

definition handleRevokeRenew :: "Secret list \<Rightarrow> env \<Rightarrow> leaseOperation \<Rightarrow> internalData option \<Rightarrow> response option m" where
  "handleRevokeRenew secrets E opn lease = (case lease of
     None \<Rightarrow> throwM (Fail ''request has no secret'')
   | Some internal \<Rightarrow> (case map_of internal ''secret_type'' of
       Some (JStr secretType) \<Rightarrow> (case Backend_Secret secrets secretType of
         None \<Rightarrow> throwM (Fail ''secret is unsupported by this backend'')
       | Some s \<Rightarrow> (case opn of
           RenewOperation \<Rightarrow> Secret_HandleRenew s E internal
         | RevokeOperation \<Rightarrow> Secret_HandleRevoke s E internal))
     | _ \<Rightarrow> throwM (Fail ''secret is unsupported by this backend'')))"

text \<open>The name under a key of a lease's internal data, if there is one.\<close>

definition lease_names :: "internalData option \<Rightarrow> string \<Rightarrow> string list" where
  "lease_names lease k = (case lease of None \<Rightarrow> [] | Some internal \<Rightarrow>
     (case map_of internal k of Some (JStr n) \<Rightarrow> [n] | _ \<Rightarrow> []))"

lemma lease_names_iff: "n \<in> set (lease_names lease k) \<longleftrightarrow> (\<exists>internal. lease = Some internal \<and> map_of internal k = Some (JStr n))"
  by (auto simp: lease_names_def split: option.split json.split)

section \<open>Type assertions\<close>

text \<open>\<^verbatim>\<open>v.(string)\<close> and \<^verbatim>\<open>int64(v.(float64))\<close> of a value of a map; JSON numbers come back as floats.\<close>

definition assertString :: "json option \<Rightarrow> string m" where
  "assertString v = (case v of Some (JStr s) \<Rightarrow> returnM s | _ \<Rightarrow> throwM RuntimePanic)"

definition assertFloat64 :: "json option \<Rightarrow> int m" where
  "assertFloat64 v = (case v of Some (JNum n) \<Rightarrow> returnM n
     | Some (JSeconds d) \<Rightarrow> returnM (sgn d * (\<bar>d\<bar> div Second)) | _ \<Rightarrow> throwM RuntimePanic)"

lemma assert_simps [simp]:
  "assertString (Some (JStr s)) = returnM s" "assertFloat64 (Some (JNum n)) = returnM n"
  by (simp_all add: assertString_def assertFloat64_def)

lemma preserves_json [preserves_rules]:
  assumes "\<And>b. preserves I (f1 b)" "\<And>n. preserves I (f2 n)" "\<And>d. preserves I (f3 d)" "\<And>s. preserves I (f4 s)"
    "\<And>vs. preserves I (f5 vs)" "\<And>kvs. preserves I (f6 kvs)" "preserves I a"
  shows "preserves I (case v of JNull \<Rightarrow> a | JBool b \<Rightarrow> f1 b | JNum n \<Rightarrow> f2 n | JSeconds d \<Rightarrow> f3 d | JStr s \<Rightarrow> f4 s
    | JList vs \<Rightarrow> f5 vs | JObj kvs \<Rightarrow> f6 kvs)"
  using assms by (simp split: json.split)

lemma preserves_assert [preserves_rules]: "preserves I (assertString v)" "preserves I (assertFloat64 v)"
  unfolding assertString_def assertFloat64_def by (intro preserves_rules)+

lemma preserves_leaseOperation [preserves_rules]:
  "preserves I a \<Longrightarrow> preserves I b \<Longrightarrow> preserves I (case opn of RenewOperation \<Rightarrow> a | RevokeOperation \<Rightarrow> b)"
  by (simp split: leaseOperation.split)

end
