(* ===== verification/Creds.thy ===== *)
theory Creds
  imports Secrets
begin

text \<open>
  Credentials: \<^verbatim>\<open>path_creds.go\<close> and \<^verbatim>\<open>path_ephemeral_creds.go\<close>. Reading a user's credentials
  signs a JWT for the user's identity key; an ephemeral user gets a key made for the session.
  The lease carries what \<^verbatim>\<open>userCredsRevoke\<close> needs to revoke the key when it is revoked.
\<close>

section \<open>Revoking a lease\<close>

definition revokeDurationBuffer :: int where
  "revokeDurationBuffer = 5 * Second"

text \<open>A point in time in nanoseconds, also of the zero time.\<close>

definition instant :: "int option \<Rightarrow> int" where
  "instant t = (case t of None \<Rightarrow> Unix None * Second | Some n \<Rightarrow> n)"

text \<open>An existing revocation is extended if it would end before the credentials do.\<close>

definition extendRevocation :: "env \<Rightarrow> int \<Rightarrow> accountRevocationEntry option \<Rightarrow> accountRevocationEntry" where
  "extendRevocation E ttl old = (case old of
     None \<Rightarrow> NewAccountRevocationWithParams (e_now E) ttl
   | Some r \<Rightarrow> if instant (rev_CreationTime r) + rev_Ttl r - e_now E < ttl
       then \<lparr>rev_CreationTime = Some (e_now E), rev_Ttl = ttl\<rparr> else r)"

definition userCredsRevoke :: "env \<Rightarrow> internalData \<Rightarrow> response option m" where
  "userCredsRevoke E internal = bindM (Config E Req) (\<lambda>cfg.
     if \<not> cfg_ImplicitRevocationsEnabled cfg then returnM None
     else bindM (assertFloat64 (map_of internal ''exp'')) (\<lambda>exp.
     let ttl = exp * Second - e_now E in
     if ttl \<le> revokeDurationBuffer then returnM None
     else bindM (assertString (map_of internal ''op'')) (\<lambda>op.
       bindM (assertString (map_of internal ''acc'')) (\<lambda>acc.
       bindM (assertString (map_of internal ''sub'')) (\<lambda>sub.
       let i = AccountRevocationId op acc sub; accId = accountRevocationId_accountId i in
       bindM (Account E Req accId) (\<lambda>a. if a = None then returnM None
       else bindM (AccountRevocation E Req i) (\<lambda>old.
         thenM (storeInStorage E Req (accountRevocation_configPath i) (ERevocation (extendRevocation E ttl old)))
        (thenM (wrapErr (''unable to sync jwt for account '' @ quoted acc @ '': '') (syncAccountUpdate E accId))
         (returnM None)))))))))"

definition userCredsType :: string where
  "userCredsType = ''user_creds''"

definition userCredsSecretType :: Secret where
  "userCredsSecretType = \<lparr>sct_Type = userCredsType, sct_DefaultDuration = 0, sct_Renew = None, sct_Revoke = Some userCredsRevoke\<rparr>"

definition Backend_Secrets :: "Secret list" where
  "Backend_Secrets = [userCredsSecretType]"

section \<open>Time to live\<close>

record credsFields =
  cf_ttl :: "int option"
  cf_signing_key :: string
  cf_not_before :: "int option"
  cf_tags :: "string list option"

text \<open>The requested, the user's or the system's time, capped by the user's and the system's maximum.\<close>

definition requestedTtl :: "env \<Rightarrow> int option \<Rightarrow> int \<Rightarrow> int" where
  "requestedTtl E ttl dflt = (case ttl of Some t \<Rightarrow> seconds t
     | None \<Rightarrow> if 0 < dflt then dflt else e_DefaultLeaseTTL E)"

definition cappedTtl :: "env \<Rightarrow> int \<Rightarrow> int \<Rightarrow> int" where
  "cappedTtl E userMax ttl = (let ttl = (if 0 < userMax \<and> userMax < ttl then userMax else ttl)
     in if e_MaxLeaseTTL E < ttl then e_MaxLeaseTTL E else ttl)"

definition credsTtl :: "env \<Rightarrow> credsFields \<Rightarrow> userEntry \<Rightarrow> int" where
  "credsTtl E f user = cappedTtl E (us_CredsMaxTtl user) (requestedTtl E (cf_ttl f) (us_CredsDefaultTtl user))"

definition ephemeralCredsTtl :: "env \<Rightarrow> credsFields \<Rightarrow> ephemeralUserEntry \<Rightarrow> int" where
  "ephemeralCredsTtl E f user =
     (let ttl = cappedTtl E (eu_CredsMaxTtl user) (requestedTtl E (cf_ttl f) (eu_CredsDefaultTtl user))
      in if ttl \<le> 0 then e_MaxLeaseTTL E else ttl)"

section \<open>Signing\<close>

text \<open>The name of the key: of the request, of the user, of the account.\<close>

definition credsSigningKey :: "env \<Rightarrow> accountId \<Rightarrow> string \<Rightarrow> string \<Rightarrow> string m" where
  "credsSigningKey E accId requested userDefault = (
     let n = (if requested = [] then userDefault else requested) in
     if n \<noteq> [] then returnM n
     else bindM (Account E Req accId) (\<lambda>a. returnM (case a of None \<Rightarrow> [] | Some acc \<Rightarrow> acc_DefaultSigningKey acc)))"

definition userClaims :: "env \<Rightarrow> json option \<Rightarrow> string \<Rightarrow> (user_claims \<times> limitFlags) m" where
  "userClaims E rawClaims sub = (case rawClaims of
     None \<Rightarrow> returnM (NewUserClaims sub, 0)
   | Some raw \<Rightarrow> bindM (innerClaims raw) (\<lambda>raw.
       bindM (liftOption ''json: cannot unmarshal user'' (e_UnmarshalUser E raw)) (\<lambda>opClaims.
       bindM (readLimitFlags raw) (\<lambda>flags.
       returnM ((NewUserClaims sub)\<lparr>uc_User := opClaims, uc_Subject := sub\<rparr>, flags)))))"

record userCredsResult =
  ucr_warnings :: "string list"
  ucr_errors :: "string list"
  ucr_creds :: string
  ucr_jwt :: string
  ucr_seed :: string
  ucr_expiresAt :: "int option"

definition generateUserCreds :: "env \<Rightarrow> string \<Rightarrow> string \<Rightarrow> user_claims \<Rightarrow> int \<Rightarrow> userCredsResult" where
  "generateUserCreds E idKey signingKey claims ttl = (let j = encodeUserJWT E signingKey claims ttl;
     res = \<lparr>ucr_warnings = jr_warnings j, ucr_errors = jr_errors j, ucr_creds = [], ucr_jwt = [],
       ucr_seed = [], ucr_expiresAt = jr_expiresAt j\<rparr> in
     if jr_errors j \<noteq> [] then res
     else let res = res\<lparr>ucr_jwt := jr_jwt j, ucr_seed := idKey\<rparr> in
     case e_FormatUserConfig E (jr_jwt j) idKey of
       None \<Rightarrow> res\<lparr>ucr_errors := [''failed to format user creds'']\<rparr>
     | Some creds \<Rightarrow> res\<lparr>ucr_creds := creds\<rparr>)"

text \<open>
  Each method is its body, wrapped as a handler: an early return of the body is its response.
  The lease's internal data: what \<^verbatim>\<open>userCredsRevoke\<close> gets back. The response's warnings are
  those of the claims; the notes about a capped time are collected but not added.
\<close>

definition leaseData :: "accountId \<Rightarrow> string \<Rightarrow> int \<Rightarrow> internalData" where
  "leaseData accId sub exp = [(''op'', JStr (ai_op accId)), (''acc'', JStr (ai_acc accId)), (''sub'', JStr sub), (''exp'', JNum exp)]"

definition credsResponse :: "userCredsResult \<Rightarrow> (string \<times> json) list \<Rightarrow> accountId \<Rightarrow> string \<Rightarrow> string \<Rightarrow> string list \<Rightarrow> int
    \<Rightarrow> response" where
  "credsResponse result data accId sub signingKeyName enrichWarnings ttl =
     (let resp = Secret_Response userCredsSecretType
            (data @ (if signingKeyName \<noteq> [] then [(''signing_key'', JStr signingKeyName)] else []))
            (leaseData accId sub (Unix (ucr_expiresAt result)));
          resp = AddWarnings (enrichWarnings @ ucr_warnings result) resp
      in resp\<lparr>r_Secret := map_option (\<lambda>s. s\<lparr>sec_TTL := ttl, sec_MaxTTL := ttl\<rparr>) (r_Secret resp)\<rparr>)"

definition userCredsBody :: "env \<Rightarrow> userId \<Rightarrow> credsFields \<Rightarrow> response option m" where
  "userCredsBody E i f = bindM (User E Req i) (\<lambda>u. case u of
     None \<Rightarrow> returnM None
   | Some user \<Rightarrow>
     let ttl = credsTtl E f user; accId = userId_accountId i in
     bindM (credsSigningKey E accId (cf_signing_key f) (us_DefaultSigningKey user)) (\<lambda>signingKeyName.
     bindM (Nkey E Req (user_nkeyPath i)) (\<lambda>n. case n of
       None \<Rightarrow> throwM (Fail ''user identity key unexpectedly null'')
     | Some userIdKey \<Rightarrow>
     bindM (wrapErr ''failed to decode user identity key: '' (keyPair E userIdKey)) (\<lambda>idKey.
     bindM (wrapErr ''failed to decode public key: '' (PublicKey E idKey)) (\<lambda>sub.
     bindM (userClaims E (us_RawClaims user) sub) (\<lambda>(claims, limitFlags).
     bindM (respondErr ''failed to generate user creds: '' (enrichUserClaims E Req
         \<lparr>eup_op = ui_op i, eup_acc = ui_acc i, eup_user = ui_user i, eup_session = [], eup_claims = claims,
          eup_signingKey = signingKeyName, eup_tags = given (cf_tags f) [], eup_limitFlags = limitFlags,
          eup_nbf = (case cf_not_before f of None \<Rightarrow> 0 | t \<Rightarrow> Unix t)\<rparr>)) (\<lambda>(signingKey, enrichWarnings, claims).
     let result = generateUserCreds E idKey signingKey claims ttl in
     if ucr_errors result \<noteq> []
     then returnM (Some (AddWarnings (ucr_warnings result)
       (ErrorResponse (''failed to generate user creds: '' @ sprintErrors (ucr_errors result)))))
     else returnM (Some (credsResponse result
       [(''operator'', JStr (ui_op i)), (''account'', JStr (ui_acc i)), (''user'', JStr (ui_user i)),
        (''creds'', JStr (ucr_creds result)), (''jwt'', JStr (ucr_jwt result)),
        (''seed'', JStr (nk_Seed userIdKey)), (''expires_at'', JNum (Unix (ucr_expiresAt result)))]
       accId sub signingKeyName enrichWarnings ttl)))))))))"

definition pathUserCredsRead :: "env \<Rightarrow> userId \<Rightarrow> credsFields \<Rightarrow> response option m" where
  "pathUserCredsRead E i f = handler (userCredsBody E i f)"

definition pathUserCredsExistenceCheck :: "env \<Rightarrow> userId \<Rightarrow> bool m" where
  "pathUserCredsExistenceCheck E i = bindM (User E Req i) (\<lambda>u. returnM (u \<noteq> None))"

definition ephemeralUserCredsBody :: "env \<Rightarrow> ephemeralUserId \<Rightarrow> string \<Rightarrow> credsFields \<Rightarrow> response option m" where
  "ephemeralUserCredsBody E i session f = bindM (EphemeralUser E Req i) (\<lambda>u. case u of
     None \<Rightarrow> returnM None
   | Some user \<Rightarrow>
     let ttl = ephemeralCredsTtl E f user; accId = ephemeralUserId_accountId i in
     bindM (credsSigningKey E accId (cf_signing_key f) (eu_DefaultSigningKey user)) (\<lambda>signingKeyName.
     bindM (wrapErr ''failed to create user identity key: '' (createSeed E PrefixUser)) (\<lambda>idKey.
     bindM (wrapErr ''failed to decode public key: '' (PublicKey E idKey)) (\<lambda>sub.
     bindM (userClaims E (eu_RawClaims user) sub) (\<lambda>(claims, limitFlags).
     bindM (respondErr ''failed to generate user creds: '' (enrichUserClaims E Req
         \<lparr>eup_op = eui_op i, eup_acc = eui_acc i, eup_user = eui_user i, eup_session = session, eup_claims = claims,
          eup_signingKey = signingKeyName, eup_tags = given (cf_tags f) [], eup_limitFlags = limitFlags,
          eup_nbf = (case cf_not_before f of None \<Rightarrow> 0 | t \<Rightarrow> Unix t)\<rparr>)) (\<lambda>(signingKey, enrichWarnings, claims).
     let result = generateUserCreds E idKey signingKey claims ttl in
     if ucr_errors result \<noteq> []
     then returnM (Some (AddWarnings (ucr_warnings result)
       (ErrorResponse (''failed to generate user creds: '' @ sprintErrors (ucr_errors result)))))
     else returnM (Some (credsResponse result
       [(''operator'', JStr (eui_op i)), (''account'', JStr (eui_acc i)), (''user'', JStr (eui_user i)),
        (''session'', JStr session), (''creds'', JStr (ucr_creds result)), (''jwt'', JStr (ucr_jwt result)),
        (''seed'', JStr (ucr_seed result)), (''expires_at'', JNum (Unix (ucr_expiresAt result)))]
       accId sub signingKeyName enrichWarnings ttl))))))))"

definition pathEphemeralUserCredsRead :: "env \<Rightarrow> ephemeralUserId \<Rightarrow> string \<Rightarrow> credsFields \<Rightarrow> response option m" where
  "pathEphemeralUserCredsRead E i session f = handler (ephemeralUserCredsBody E i session f)"

section \<open>What the methods write\<close>

lemma writes_credsReads [preserves_rules]:
  "preserves (writes P d) (pathUserCredsRead E i f)"
  "preserves (writes P d) (pathEphemeralUserCredsRead E ei session f)"
  unfolding pathUserCredsRead_def pathEphemeralUserCredsRead_def userCredsBody_def ephemeralUserCredsBody_def credsSigningKey_def userClaims_def
  by (intro preserves_rules)+

lemma writes_userCredsRevoke [preserves_rules]:
  assumes "\<And>op. map_of internal ''op'' = Some (JStr op) \<Longrightarrow> owns Ops op"
  shows "preserves (writes (allowed Ops) d) (userCredsRevoke E internal)"
proof (cases "\<exists>op. map_of internal ''op'' = Some (JStr op)")
  case True
  then obtain op where op: "map_of internal ''op'' = Some (JStr op)" "owns Ops op" using assms by blast
  then show ?thesis
    unfolding userCredsRevoke_def Let_def op(1) assert_simps returnM_bind
    by (intro preserves_rules writes_store; simp add: allowed_simps)
next
  case False
  then have "assertString (map_of internal ''op'') = throwM RuntimePanic"
    by (auto simp: assertString_def split: option.split json.split)
  then show ?thesis unfolding userCredsRevoke_def Let_def by (simp only: throwM_bind) (intro preserves_rules)
qed

lemma writes_handleRevokeRenew [preserves_rules]:
  assumes "\<And>op. op \<in> set (lease_names lease ''op'') \<Longrightarrow> owns Ops op"
  shows "preserves (writes (allowed Ops) d) (handleRevokeRenew Backend_Secrets E opn lease)"
  using assms unfolding lease_names_iff
  by (auto simp: handleRevokeRenew_def Backend_Secrets_def Backend_Secret_def userCredsSecretType_def
      Secret_HandleRenew_def Secret_HandleRevoke_def intro!: preserves_rules split: option.split json.split leaseOperation.split)

end
