(* ===== verification/Rotate.thy ===== *)
theory Rotate
  imports Creds
begin

text \<open>
  Key rotation (\<^verbatim>\<open>path_rotate.go\<close>): a new key pair replaces the old one under the same
  name, and the JWTs that were signed by the old key, or that name it, are issued anew.
\<close>

text \<open>The accounts whose stored JWT was issued by the old key.\<close>

definition reissueIssuedBy :: "env \<Rightarrow> operatorId \<Rightarrow> string \<Rightarrow> response \<Rightarrow> response m" where
  "reissueIssuedBy E opId oldPublicKey = for_listPaged E Req (operator_accountsJwtPrefix opId) (\<lambda>acc resp.
     bindM (Jwt E Req (account_jwtPath (operatorId_accountId opId acc))) (\<lambda>j. bindM (deref j) (\<lambda>accJwt.
     bindM (liftOption ''failed to decode jwt'' (e_DecodeIssuer E (jwt_Token accJwt))) (\<lambda>issuer.
     if issuer \<noteq> oldPublicKey then returnM resp
     else bindM (issueAndSaveAccountJWT E Req (ReadAccount (operatorId_accountId opId acc))) (\<lambda>warnings.
       returnM (AddWarnings (reissueWarnings acc warnings) resp))))))"

definition pathRotateOperator :: "env \<Rightarrow> operatorId \<Rightarrow> response option m" where
  "pathRotateOperator E i = withTx E (bindM (Nkey E Req (operator_nkeyPath i)) (\<lambda>n. case n of
     None \<Rightarrow> returnError (''operator '' @ quoted (oi_op i) @ '' does not exist'')
   | Some oldNkey \<Rightarrow> bindM (publicKey E oldNkey) (\<lambda>oldPublicKey.
     bindM (orNilNkey (NewOperatorNKey E)) (\<lambda>nkey.
     thenM (storeInStorage E Req (operator_nkeyPath i) (ENkey nkey))
    (bindM (wrapErr ''failed to encode operator jwt: '' (issueAndSaveOperatorJWT E Req i)) (\<lambda>warnings.
     bindM (reissueIssuedBy E i oldPublicKey
         (AddWarnings (operatorReissueWarnings (oi_op i) warnings) emptyResponse)) (\<lambda>resp.
     thenM (suspendAccountServer E Req (operatorId_accountServerId i))
    (thenM (EndTxStorage E) (returnM (Some resp))))))))))"

definition pathRotateOperatorSigningKey :: "env \<Rightarrow> operatorSigningKeyId \<Rightarrow> response option m" where
  "pathRotateOperatorSigningKey E i = (let opId = operatorSigningKeyId_operatorId i in
     withTx E (bindM (Nkey E Req (operatorSigningKey_nkeyPath i)) (\<lambda>n. case n of
       None \<Rightarrow> returnError (''signing key '' @ quoted (oski_name i) @ '' does not exist'')
     | Some oldNkey \<Rightarrow> bindM (publicKey E oldNkey) (\<lambda>oldPublicKey.
       bindM (orNilNkey (NewOperatorNKey E)) (\<lambda>nkey.
       thenM (storeInStorage E Req (operatorSigningKey_nkeyPath i) (ENkey nkey))
      (bindM (wrapErr ''failed to encode operator jwt: '' (issueAndSaveOperatorJWT E Req opId)) (\<lambda>warnings.
       bindM (reissueIssuedBy E opId oldPublicKey
           (AddWarnings (operatorReissueWarnings (oi_op opId) warnings) emptyResponse)) (\<lambda>resp.
       thenM (suspendAccountServer E Req (operatorId_accountServerId opId))
      (thenM (EndTxStorage E) (returnM (Some resp)))))))))))"

definition pathRotateAccount :: "env \<Rightarrow> accountId \<Rightarrow> response option m" where
  "pathRotateAccount E i = withTx E (bindM (Nkey E Req (account_nkeyPath i)) (\<lambda>n. case n of
     None \<Rightarrow> returnError (''account '' @ quoted (ai_acc i) @ '' does not exist'')
   | Some oldNkey \<Rightarrow> bindM (keyPair E oldNkey) (\<lambda>oldKeyPair.
     bindM (orNilNkey (NewAccountNKey E)) (\<lambda>nkey.
     thenM (storeInStorage E Req (account_nkeyPath i) (ENkey nkey))
    (bindM (wrapErr ''failed to encode account jwt: '' (issueAndSaveAccountJWT E Req (ReadAccount i))) (\<lambda>warnings.
     let resp = AddWarnings (reissueWarnings (ai_acc i) warnings) emptyResponse in
     thenM (EndTxStorage E)
    (bindM (catchFail (syncAccountRotate E oldKeyPair i)) (\<lambda>r. returnM (Some (case r of
       Inl e \<Rightarrow> AddWarning (''unable to sync jwt for account '' @ quoted (ai_acc i) @ '': '' @ e) resp
     | Inr _ \<Rightarrow> resp))))))))))"

definition pathRotateAccountSigningKey :: "env \<Rightarrow> accountSigningKeyId \<Rightarrow> response option m" where
  "pathRotateAccountSigningKey E i = (let accId = accountSigningKeyId_accountId i in
     withTx E (bindM (Nkey E Req (accountSigningKey_nkeyPath i)) (\<lambda>n. case n of
       None \<Rightarrow> returnError (''signing key '' @ quoted (aski_name i) @ '' does not exist'')
     | Some oldKey \<Rightarrow> bindM (orNilNkey (NewAccountNKey E)) (\<lambda>nkey.
       thenM (storeInStorage E Req (accountSigningKey_nkeyPath i) (ENkey nkey))
      (bindM (wrapErr ''failed to encode account jwt: '' (issueAndSaveAccountJWT E Req (ReadAccount accId))) (\<lambda>warnings.
       thenM (EndTxStorage E)
      (bindM (syncOrWarn E accId (AddWarnings (reissueWarnings (ai_acc accId) warnings) emptyResponse)) (\<lambda>resp.
       returnM (Some resp)))))))))"

definition pathUserKeyRotate :: "env \<Rightarrow> userId \<Rightarrow> bool option \<Rightarrow> response option m" where
  "pathUserKeyRotate E i revoke = (let accId = userId_accountId i in
     withTx E (bindM (User E Req i) (\<lambda>u. case u of
       None \<Rightarrow> returnError (''user '' @ quoted (ui_user i) @ '' does not exist'')
     | Some user \<Rightarrow>
       bindM (if \<not> given revoke True then returnM emptyResponse
              else bindM (Account E Req accId) (\<lambda>a. if a = None then returnM emptyResponse
                else thenM (addUserToRevocationList E Req accId i (max (us_CredsMaxTtl user) (e_MaxLeaseTTL E)))
                 (bindM (wrapErr ''failed to encode account jwt: '' (issueAndSaveAccountJWT E Req (ReadAccount accId))) (\<lambda>warnings.
                  returnM (AddWarnings (reissueWarnings (ui_acc i) warnings) emptyResponse))))) (\<lambda>resp.
       bindM (orNilNkey (NewUserNKey E)) (\<lambda>nkey.
       thenM (storeInStorage E Req (user_nkeyPath i) (ENkey nkey))
      (thenM (EndTxStorage E) (returnM (Some resp))))))))"

section \<open>What the methods write\<close>

lemma writes_reissueIssuedBy [preserves_rules]:
  assumes "owns Ops (oi_op i)"
  shows "preserves (writes (allowed Ops) d) (reissueIssuedBy E i old resp)"
  unfolding reissueIssuedBy_def by (intro preserves_rules; simp add: assms)

lemma writes_rotateOperator [preserves_rules]:
  assumes "owns Ops (oi_op i)"
  shows "preserves (writes (allowed Ops) d) (pathRotateOperator E i)"
  unfolding pathRotateOperator_def by (intro preserves_rules writes_store; simp add: allowed_simps assms)

lemma writes_rotateOperatorSigningKey [preserves_rules]:
  assumes "owns Ops (oski_op i)"
  shows "preserves (writes (allowed Ops) d) (pathRotateOperatorSigningKey E i)"
  unfolding pathRotateOperatorSigningKey_def
  by (intro preserves_rules writes_store; simp add: allowed_simps assms)

lemma writes_rotateAccount [preserves_rules]:
  assumes "owns Ops (ai_op i)"
  shows "preserves (writes (allowed Ops) d) (pathRotateAccount E i)"
  unfolding pathRotateAccount_def by (intro preserves_rules writes_store; simp add: allowed_simps assms)

lemma writes_rotateAccountSigningKey [preserves_rules]:
  assumes "owns Ops (aski_op i)"
  shows "preserves (writes (allowed Ops) d) (pathRotateAccountSigningKey E i)"
  unfolding pathRotateAccountSigningKey_def
  by (intro preserves_rules writes_store; simp add: allowed_simps assms)

lemma writes_userKeyRotate [preserves_rules]:
  assumes "owns Ops (ui_op i)"
  shows "preserves (writes (allowed Ops) d) (pathUserKeyRotate E i revoke)"
  unfolding pathUserKeyRotate_def by (intro preserves_rules writes_store; simp add: allowed_simps assms)

end
