(* ===== verification/Backend.thy ===== *)
theory Backend
  imports Rotate
begin

text \<open>
  What runs beside the request handlers (\<^verbatim>\<open>backend.go\<close>): starting the account servers when
  the plugin is initialised, and the periodic function that keeps them running and prunes the
  revocations that have run out. Also \<^verbatim>\<open>path_utilities.go\<close>, the generated server
  configuration.
\<close>

section \<open>Generating a server configuration\<close>

text \<open>\<^verbatim>\<open>logical.StartTxStorage\<close> only opens a transaction if the storage offers one.\<close>

definition withNativeTx :: "env \<Rightarrow> response option m \<Rightarrow> response option m" where
  "withNativeTx E body = (if e_native E then withTx E body else handler body)"

datatype serverConfigFormat = ServerConfigFormatJson | ServerConfigFormatNats

definition readFormat :: "string option \<Rightarrow> serverConfigFormat m" where
  "readFormat f = (case f of None \<Rightarrow> returnM ServerConfigFormatJson
     | Some s \<Rightarrow> if s = ''json'' then returnM ServerConfigFormatJson
         else if s = ''nats'' then returnM ServerConfigFormatNats
         else returnError (''unsupported format '' @ quoted s))"

definition preloadEntry :: "env \<Rightarrow> operatorId \<Rightarrow> string \<Rightarrow> (string \<times> string) m" where
  "preloadEntry E opId acc = (let accId = operatorId_accountId opId acc in
     bindM (Jwt E Req (account_jwtPath accId)) (\<lambda>j. case j of
       None \<Rightarrow> throwM (Fail (''failed to find account '' @ quoted acc @ '' jwt''))
     | Some jwt \<Rightarrow> bindM (Nkey E Req (account_nkeyPath accId)) (\<lambda>n. case n of
         None \<Rightarrow> throwM (Fail (''failed to find account '' @ quoted acc @ '' identity key''))
       | Some nkey \<Rightarrow> bindM (catchFail (publicKey E nkey)) (\<lambda>p. case p of
           Inl e \<Rightarrow> throwM (Fail (''failed to decode account '' @ quoted acc @ '' public key''))
         | Inr pub \<Rightarrow> returnM (pub, jwt_Token jwt)))))"

text \<open>The JSON text is represented by the value it spells; the other format is rendered.\<close>

definition serverConfigJson :: "string \<Rightarrow> string \<Rightarrow> (string \<times> string) list \<Rightarrow> json" where
  "serverConfigJson opToken sysPublicKey preload = json_marshal (JObj (
     [(''operator'', JStr opToken)]
     @ (if sysPublicKey \<noteq> [] then [(''system_account'', JStr sysPublicKey)] else [])
     @ (if preload \<noteq> [] then [(''resolver_preload'',
          JObj (fold (\<lambda>(k, v). AList.update k (JStr v)) preload []))] else [])))"

definition newline :: string where
  "newline = [CHR 0x0A]"

definition serverConfigNats :: "string \<Rightarrow> string \<Rightarrow> (string \<times> string) list \<Rightarrow> string" where
  "serverConfigNats opToken sysPublicKey preload =
     ''operator: '' @ opToken @ newline
     @ (if sysPublicKey \<noteq> [] then ''system_account: '' @ sysPublicKey @ newline else [])
     @ (if preload \<noteq> [] then newline @ ''resolver_preload: {''
          @ concat (map (\<lambda>(k, v). ''  '' @ k @ '': '' @ v @ newline) preload) @ ''}'' @ newline
        else [])"

definition pathGenerateServerConfig :: "env \<Rightarrow> operatorId \<Rightarrow> bool option \<Rightarrow> string option \<Rightarrow> response option m" where
  "pathGenerateServerConfig E opId includePreload fmt = withNativeTx E (
     bindM (readFormat fmt) (\<lambda>fmt.
     bindM (Operator E Req opId) (\<lambda>o'. case o' of
       None \<Rightarrow> returnError (''operator '' @ quoted (oi_op opId) @ '' does not exist'')
     | Some operator \<Rightarrow>
     bindM (Jwt E Req (operator_jwtPath opId)) (\<lambda>j. case j of
       None \<Rightarrow> throwM (Fail ''operator jwt does not exist'')
     | Some opJwt \<Rightarrow>
     bindM (Nkey E Req (account_nkeyPath (operatorId_accountId opId (op_SysAccountName operator)))) (\<lambda>n.
     bindM (case n of None \<Rightarrow> returnM [] | Some nk \<Rightarrow> publicKey E nk) (\<lambda>sysPublicKey.
     bindM (if \<not> given includePreload False then returnM []
            else for_listPaged E Req (operator_accountsJwtPrefix opId) (\<lambda>acc kvs.
              bindM (preloadEntry E opId acc) (\<lambda>kv. returnM (kvs @ [kv]))) []) (\<lambda>kvs.
     let preload = sort_key fst kvs in
     thenM (EndTxStorage E) (returnM (Some (dataResponse [(''config'', case fmt of
       ServerConfigFormatJson \<Rightarrow> serverConfigJson (jwt_Token opJwt) sysPublicKey preload
     | ServerConfigFormatNats \<Rightarrow> JStr (serverConfigNats (jwt_Token opJwt) sysPublicKey preload))]))))))))))"

section \<open>Initialisation and the periodic function\<close>

definition initialize :: "env \<Rightarrow> unit m" where
  "initialize E = for_listPaged E Base operatorsPathPrefix (\<lambda>op u.
     bindM (catchFail (startAccountServer E (operatorId_accountServerId (OperatorId op)) False)) (\<lambda>_. returnM ())) ()"

text \<open>Whether a revocation was deleted; one that never expires has Ttl 0.\<close>

definition revocationExpired :: "env \<Rightarrow> accountRevocationEntry \<Rightarrow> bool" where
  "revocationExpired E r \<longleftrightarrow> rev_Ttl r \<noteq> 0 \<and> instant (rev_CreationTime r) + rev_Ttl r < e_now E"

definition periodicPruneAccountRevocations :: "env \<Rightarrow> sref \<Rightarrow> accountId \<Rightarrow> bool m" where
  "periodicPruneAccountRevocations E s i = for_AccountRevocations E s i (\<lambda>n r dirty.
     if revocationExpired E r
     then bindM (catchFail (sDelete E s (accountRevocation_configPath (accountId_revocationId i n)))) (\<lambda>d.
       returnM (case d of Inl e \<Rightarrow> dirty | Inr _ \<Rightarrow> True))
     else returnM dirty) False"

definition periodicRefreshAccount :: "env \<Rightarrow> sref \<Rightarrow> accountId \<Rightarrow> unit m" where
  "periodicRefreshAccount E s accId = bindM (catchFail (periodicPruneAccountRevocations E s accId)) (\<lambda>p.
     if p \<noteq> Inr True then returnM ()
     else bindM (catchFail (issueAndSaveAccountJWT E s (ReadAccount accId))) (\<lambda>r. case r of
       Inl e \<Rightarrow> updateAccountSyncStatus E s accId (Some e)
     | Inr _ \<Rightarrow> syncAccountUpdate E accId))"

definition periodicRefreshAccounts :: "env \<Rightarrow> sref \<Rightarrow> operatorId \<Rightarrow> unit m" where
  "periodicRefreshAccounts E s opId = for_listPaged E s (operator_accountsConfigPrefix opId) (\<lambda>n u.
     periodicRefreshAccount E s (operatorId_accountId opId n)) ()"

definition periodicFunc :: "env \<Rightarrow> response option m" where
  "periodicFunc E = withNativeTx E (
     thenM (for_listPaged E Req operatorsPathPrefix (\<lambda>op u. let i = OperatorId op in
        thenM (ignoreErr (startAccountServer E (operatorId_accountServerId i) False))
              (ignoreErr (periodicRefreshAccounts E Req i))) ())
    (thenM (EndTxStorage E) (returnM None)))"

section \<open>What the methods write\<close>

lemma writes_withNativeTx [preserves_rules]:
  "preserves (writes P d) body \<Longrightarrow> preserves (writes P d) (withNativeTx E body)"
  unfolding withNativeTx_def by (intro preserves_rules)

lemma writes_pathGenerateServerConfig [preserves_rules]:
  "preserves (writes P d) (pathGenerateServerConfig E i pre fmt)"
  unfolding pathGenerateServerConfig_def readFormat_def preloadEntry_def by (intro preserves_rules)

lemma writes_periodicRefreshAccounts [preserves_rules]:
  assumes "owns Ops (oi_op i)"
  shows "preserves (writes (allowed Ops) d) (periodicRefreshAccounts E s i)"
  unfolding periodicRefreshAccounts_def periodicRefreshAccount_def periodicPruneAccountRevocations_def
  by (intro preserves_rules writes_sDelete; simp add: allowed_simps assms)

text \<open>These two walk over all operators, so they are only bound by the typing of the entries.\<close>

lemma writes_background [preserves_rules]:
  "preserves (writes (allowed UNIV) d) (initialize E)"
  "preserves (writes (allowed UNIV) d) (periodicFunc E)"
  unfolding initialize_def periodicFunc_def
  by (intro preserves_rules; simp add: owns_def)+

end
