(* ===== verification/Requests.thy ===== *)
theory Requests
  imports Backend
begin

text \<open>
  The backend as a whole: the requests it serves (the paths of \<^verbatim>\<open>Backend()\<close> in
  \<^verbatim>\<open>backend.go\<close> with their handlers), the events of the NATS connections and of the plugin,
  and the states reachable by any sequence of them. Every request may meet its own
  environment: the clock moves, storage and network fail or not.
\<close>

datatype operatorRequest =
    OperatorWrite operatorId operatorFields
  | OperatorRead operatorId
  | OperatorList string int
  | OperatorDelete operatorId
  | OperatorNkeyRead operatorId
  | OperatorJwtRead operatorId
  | OperatorSigningKeyWrite operatorSigningKeyId
  | OperatorSigningKeyRead operatorSigningKeyId
  | OperatorSigningKeyList operatorId string int
  | OperatorSigningKeyDelete operatorSigningKeyId

datatype accountRequest =
    AccountWrite accountId accountFields
  | AccountRead accountId
  | AccountList operatorId string int
  | AccountDelete accountId
  | AccountNkeyRead accountId
  | AccountJwtRead accountId
  | AccountSigningKeyWrite accountSigningKeyId signingKeyFields
  | AccountSigningKeyRead accountSigningKeyId
  | AccountSigningKeyList accountId string int
  | AccountSigningKeyDelete accountSigningKeyId

datatype grantRequest =
    AccountImportWrite accountImportId "(string \<times> json) list" "json list option"
  | AccountImportRead accountImportId
  | AccountImportList accountId string int
  | AccountImportDelete accountImportId
  | RevocationWrite accountRevocationId "int option"
  | RevocationRead accountRevocationId
  | RevocationList accountId string int
  | RevocationDelete accountRevocationId

datatype userRequest =
    UserWrite userId userFields
  | UserRead userId
  | UserList accountId string int
  | UserDelete userId
  | UserNkeyRead userId
  | EphemeralUserWrite ephemeralUserId ephemeralUserFields
  | EphemeralUserRead ephemeralUserId
  | EphemeralUserList accountId string int
  | EphemeralUserDelete ephemeralUserId
  | UserCredsRead userId credsFields
  | EphemeralCredsRead ephemeralUserId string credsFields
  | LeaseRequest leaseOperation "internalData option"

datatype serverRequest =
    AccountServerWrite accountServerId accountServerFields
  | AccountServerRead accountServerId
  | AccountServerList string int
  | AccountServerDelete accountServerId
  | GenerateServerConfig operatorId "bool option" "string option"
  | ConfigWrite "bool option"
  | ConfigRead
  | ConfigDelete
  | Periodic

datatype rotateRequest =
    RotateOperator operatorId
  | RotateOperatorSigningKey operatorSigningKeyId
  | RotateAccount accountId
  | RotateAccountSigningKey accountSigningKeyId
  | RotateUser userId "bool option"

datatype request =
    OperatorRequest operatorRequest
  | AccountRequest accountRequest
  | GrantRequest grantRequest
  | UserRequest userRequest
  | ServerRequest serverRequest
  | RotateRequest rotateRequest

primrec handle_operatorRequest :: "env \<Rightarrow> operatorRequest \<Rightarrow> response option m" where
  "handle_operatorRequest E (OperatorWrite i f) = pathOperatorCreateUpdate E i f"
| "handle_operatorRequest E (OperatorRead i) = pathOperatorRead E i"
| "handle_operatorRequest E (OperatorList after limit) = pathOperatorList E after limit"
| "handle_operatorRequest E (OperatorDelete i) = pathOperatorDelete E i"
| "handle_operatorRequest E (OperatorNkeyRead i) = pathOperatorNkeyRead E i"
| "handle_operatorRequest E (OperatorJwtRead i) = pathOperatorJwtRead E i"
| "handle_operatorRequest E (OperatorSigningKeyWrite i) = pathOperatorSigningNkeyCreateUpdate E i"
| "handle_operatorRequest E (OperatorSigningKeyRead i) = pathOperatorSigningNkeyRead E i"
| "handle_operatorRequest E (OperatorSigningKeyList i after limit) = pathOperatorSigningNkeyList E i after limit"
| "handle_operatorRequest E (OperatorSigningKeyDelete i) = pathOperatorSigningNkeyDelete E i"

primrec handle_accountRequest :: "env \<Rightarrow> accountRequest \<Rightarrow> response option m" where
  "handle_accountRequest E (AccountWrite i f) = pathAccountCreateUpdate E i f"
| "handle_accountRequest E (AccountRead i) = pathAccountRead E i"
| "handle_accountRequest E (AccountList i after limit) = pathAccountList E i after limit"
| "handle_accountRequest E (AccountDelete i) = pathAccountDelete E i"
| "handle_accountRequest E (AccountNkeyRead i) = pathAccountNkeyRead E i"
| "handle_accountRequest E (AccountJwtRead i) = pathReadAccountJWT E i"
| "handle_accountRequest E (AccountSigningKeyWrite i f) = pathAccountSigningNkeyCreateUpdate E i f"
| "handle_accountRequest E (AccountSigningKeyRead i) = pathAccountSigningNkeyRead E i"
| "handle_accountRequest E (AccountSigningKeyList i after limit) = pathAccountSigningNkeyList E i after limit"
| "handle_accountRequest E (AccountSigningKeyDelete i) = pathAccountSigningNkeyDelete E i"

primrec handle_grantRequest :: "env \<Rightarrow> grantRequest \<Rightarrow> response option m" where
  "handle_grantRequest E (AccountImportWrite i raw imports) = pathAccountImportCreateUpdate E i raw imports"
| "handle_grantRequest E (AccountImportRead i) = pathAccountImportRead E i"
| "handle_grantRequest E (AccountImportList i after limit) = pathAccountImportList E i after limit"
| "handle_grantRequest E (AccountImportDelete i) = pathAccountImportDelete E i"
| "handle_grantRequest E (RevocationWrite i ttl) = pathAccountRevocationCreateUpdate E i ttl"
| "handle_grantRequest E (RevocationRead i) = pathAccountRevocationRead E i"
| "handle_grantRequest E (RevocationList i after limit) = pathAccountRevocationList E i after limit"
| "handle_grantRequest E (RevocationDelete i) = pathAccountRevocationDelete E i"

primrec handle_userRequest :: "env \<Rightarrow> userRequest \<Rightarrow> response option m" where
  "handle_userRequest E (UserWrite i f) = pathUserCreateUpdate E i f"
| "handle_userRequest E (UserRead i) = pathUserRead E i"
| "handle_userRequest E (UserList i after limit) = pathUserList E i after limit"
| "handle_userRequest E (UserDelete i) = pathDeleteUserIssue E i"
| "handle_userRequest E (UserNkeyRead i) = pathUserNkeyRead E i"
| "handle_userRequest E (EphemeralUserWrite i f) = pathEphemeralUserCreateUpdate E i f"
| "handle_userRequest E (EphemeralUserRead i) = pathEphemeralUserRead E i"
| "handle_userRequest E (EphemeralUserList i after limit) = pathEphemeralUserList E i after limit"
| "handle_userRequest E (EphemeralUserDelete i) = pathEphemeralUserDelete E i"
| "handle_userRequest E (UserCredsRead i f) = pathUserCredsRead E i f"
| "handle_userRequest E (EphemeralCredsRead i session f) = pathEphemeralUserCredsRead E i session f"
| "handle_userRequest E (LeaseRequest opn lease) = handleRevokeRenew Backend_Secrets E opn lease"

primrec handle_serverRequest :: "env \<Rightarrow> serverRequest \<Rightarrow> response option m" where
  "handle_serverRequest E (AccountServerWrite i f) = pathAccountServerCreateUpdate E i f"
| "handle_serverRequest E (AccountServerRead i) = pathAccountServerRead E i"
| "handle_serverRequest E (AccountServerList after limit) = pathAccountServerList E after limit"
| "handle_serverRequest E (AccountServerDelete i) = pathAccountServerDelete E i"
| "handle_serverRequest E (GenerateServerConfig i pre fmt) = pathGenerateServerConfig E i pre fmt"
| "handle_serverRequest E (ConfigWrite v) = pathConfigWrite E v"
| "handle_serverRequest E ConfigRead = pathConfigRead E"
| "handle_serverRequest E ConfigDelete = pathConfigDelete E"
| "handle_serverRequest E Periodic = periodicFunc E"

primrec handle_rotateRequest :: "env \<Rightarrow> rotateRequest \<Rightarrow> response option m" where
  "handle_rotateRequest E (RotateOperator i) = pathRotateOperator E i"
| "handle_rotateRequest E (RotateOperatorSigningKey i) = pathRotateOperatorSigningKey E i"
| "handle_rotateRequest E (RotateAccount i) = pathRotateAccount E i"
| "handle_rotateRequest E (RotateAccountSigningKey i) = pathRotateAccountSigningKey E i"
| "handle_rotateRequest E (RotateUser i revoke) = pathUserKeyRotate E i revoke"

primrec handle :: "env \<Rightarrow> request \<Rightarrow> response option m" where
  "handle E (OperatorRequest r) = handle_operatorRequest E r"
| "handle E (AccountRequest r) = handle_accountRequest E r"
| "handle E (GrantRequest r) = handle_grantRequest E r"
| "handle E (UserRequest r) = handle_userRequest E r"
| "handle E (ServerRequest r) = handle_serverRequest E r"
| "handle E (RotateRequest r) = handle_rotateRequest E r"

text \<open>
  The operators a request may write for: its own; none for a read; all for the periodic
  function. The configuration is at a path without an operator.
\<close>

definition operatorRequest_ops :: "operatorRequest \<Rightarrow> string set" where
  "operatorRequest_ops r = (case r of
     OperatorWrite i f \<Rightarrow> {oi_op i}
   | OperatorDelete i \<Rightarrow> {oi_op i}
   | OperatorSigningKeyWrite i \<Rightarrow> {oski_op i}
   | OperatorSigningKeyDelete i \<Rightarrow> {oski_op i}
   | _ \<Rightarrow> {})"

definition accountRequest_ops :: "accountRequest \<Rightarrow> string set" where
  "accountRequest_ops r = (case r of
     AccountWrite i f \<Rightarrow> {ai_op i}
   | AccountDelete i \<Rightarrow> {ai_op i}
   | AccountSigningKeyWrite i f \<Rightarrow> {aski_op i}
   | AccountSigningKeyDelete i \<Rightarrow> {aski_op i}
   | _ \<Rightarrow> {})"

definition grantRequest_ops :: "grantRequest \<Rightarrow> string set" where
  "grantRequest_ops r = (case r of
     AccountImportWrite i raw imports \<Rightarrow> {aii_op i}
   | AccountImportDelete i \<Rightarrow> {aii_op i}
   | RevocationWrite i ttl \<Rightarrow> {ari_op i}
   | RevocationDelete i \<Rightarrow> {ari_op i}
   | _ \<Rightarrow> {})"

definition userRequest_ops :: "userRequest \<Rightarrow> string set" where
  "userRequest_ops r = (case r of
     UserWrite i f \<Rightarrow> {ui_op i}
   | UserDelete i \<Rightarrow> {ui_op i}
   | EphemeralUserWrite i f \<Rightarrow> {eui_op i}
   | EphemeralUserDelete i \<Rightarrow> {eui_op i}
   | LeaseRequest opn lease \<Rightarrow> set (lease_names lease ''op'')
   | _ \<Rightarrow> {})"

definition serverRequest_ops :: "serverRequest \<Rightarrow> string set" where
  "serverRequest_ops r = (case r of
     AccountServerWrite i f \<Rightarrow> {asi_op i}
   | AccountServerDelete i \<Rightarrow> {asi_op i}
   | ConfigWrite v \<Rightarrow> {[]}
   | ConfigDelete \<Rightarrow> {[]}
   | Periodic \<Rightarrow> UNIV
   | _ \<Rightarrow> {})"

definition rotateRequest_ops :: "rotateRequest \<Rightarrow> string set" where
  "rotateRequest_ops r = (case r of
     RotateOperator i \<Rightarrow> {oi_op i}
   | RotateOperatorSigningKey i \<Rightarrow> {oski_op i}
   | RotateAccount i \<Rightarrow> {ai_op i}
   | RotateAccountSigningKey i \<Rightarrow> {aski_op i}
   | RotateUser i revoke \<Rightarrow> {ui_op i})"

primrec request_ops :: "request \<Rightarrow> string set" where
  "request_ops (OperatorRequest r) = operatorRequest_ops r"
| "request_ops (AccountRequest r) = accountRequest_ops r"
| "request_ops (GrantRequest r) = grantRequest_ops r"
| "request_ops (UserRequest r) = userRequest_ops r"
| "request_ops (ServerRequest r) = serverRequest_ops r"
| "request_ops (RotateRequest r) = rotateRequest_ops r"

lemmas request_ops_defs = operatorRequest_ops_def accountRequest_ops_def grantRequest_ops_def userRequest_ops_def serverRequest_ops_def rotateRequest_ops_def

lemma preserves_simpleReads [preserves_rules]:
  "preserves I (pathOperatorRead E oi)" "preserves I (pathAccountRead E ai)" "preserves I (pathUserRead E ui)"
  "preserves I (pathEphemeralUserRead E ei)" "preserves I (pathAccountRevocationRead E ri)"
  "preserves I (pathAccountImportRead E ii)" "preserves I (pathAccountServerRead E si)"
  "preserves I (pathAccountSigningNkeyRead E ki)" "preserves I (pathConfigRead E)"
  "preserves I (pathEphemeralUserList E ai after limit)"
  unfolding pathOperatorRead_def pathAccountRead_def pathUserRead_def pathEphemeralUserRead_def
    pathAccountRevocationRead_def pathAccountImportRead_def pathAccountServerRead_def
    pathAccountSigningNkeyRead_def pathConfigRead_def pathEphemeralUserList_def
  by (intro preserves_rules)+

lemmas list_path_defs = pathOperatorList_def pathOperatorNkeyRead_def pathOperatorJwtRead_def
  pathOperatorSigningNkeyRead_def pathOperatorSigningNkeyList_def pathAccountList_def
  pathAccountNkeyRead_def pathReadAccountJWT_def pathAccountSigningNkeyList_def
  pathAccountImportList_def pathAccountRevocationList_def pathUserList_def pathUserNkeyRead_def
  pathEphemeralUserRead_def pathAccountServerList_def

text \<open>Every write of every handler is typed and within the request's operator.\<close>

lemma writes_handle:
  assumes "\<And>op. op \<in> request_ops r \<Longrightarrow> owns Ops op" and "request_ops r \<subseteq> Ops"
  shows "preserves (writes (allowed Ops) d) (handle E r)"
proof -
  note own = assms
  have 1: "(\<And>op. op \<in> operatorRequest_ops r \<Longrightarrow> owns Ops op) \<Longrightarrow> operatorRequest_ops r \<subseteq> Ops \<Longrightarrow>
      preserves (writes (allowed Ops) d) (handle_operatorRequest E r)" for r
    by (cases r; simp add: list_path_defs operatorRequest_ops_def top.extremum_unique; (intro preserves_rules)?; assumption?)
  have 2: "(\<And>op. op \<in> accountRequest_ops r \<Longrightarrow> owns Ops op) \<Longrightarrow> accountRequest_ops r \<subseteq> Ops \<Longrightarrow>
      preserves (writes (allowed Ops) d) (handle_accountRequest E r)" for r
    by (cases r; simp add: list_path_defs accountRequest_ops_def top.extremum_unique; (intro preserves_rules)?; assumption?)
  have 3: "(\<And>op. op \<in> grantRequest_ops r \<Longrightarrow> owns Ops op) \<Longrightarrow> grantRequest_ops r \<subseteq> Ops \<Longrightarrow>
      preserves (writes (allowed Ops) d) (handle_grantRequest E r)" for r
    by (cases r; simp add: list_path_defs grantRequest_ops_def top.extremum_unique; (intro preserves_rules)?; assumption?)
  have 4: "(\<And>op. op \<in> userRequest_ops r \<Longrightarrow> owns Ops op) \<Longrightarrow> userRequest_ops r \<subseteq> Ops \<Longrightarrow>
      preserves (writes (allowed Ops) d) (handle_userRequest E r)" for r
    by (cases r; simp add: list_path_defs userRequest_ops_def top.extremum_unique; (intro preserves_rules)?; (assumption | simp)?)
  have 5: "(\<And>op. op \<in> serverRequest_ops r \<Longrightarrow> owns Ops op) \<Longrightarrow> serverRequest_ops r \<subseteq> Ops \<Longrightarrow>
      preserves (writes (allowed Ops) d) (handle_serverRequest E r)" for r
    by (cases r; simp add: list_path_defs serverRequest_ops_def top.extremum_unique; (intro preserves_rules)?; assumption?)
  have 6: "(\<And>op. op \<in> rotateRequest_ops r \<Longrightarrow> owns Ops op) \<Longrightarrow> rotateRequest_ops r \<subseteq> Ops \<Longrightarrow>
      preserves (writes (allowed Ops) d) (handle_rotateRequest E r)" for r
    by (cases r; simp add: list_path_defs rotateRequest_ops_def top.extremum_unique; (intro preserves_rules)?; assumption?)
  show ?thesis
    using own by (cases r) (simp_all add: 1 2 3 4 5 6)
qed

section \<open>Runs\<close>

text \<open>A transaction belongs to its request: each starts without one and leaves none.\<close>

definition run_request :: "env \<Rightarrow> request \<Rightarrow> world \<Rightarrow> (err + response option) \<times> world" where
  "run_request E r w = (case handle E r (w\<lparr>w_tx := None\<rparr>) of (x, w') \<Rightarrow> (x, w'\<lparr>w_tx := None\<rparr>))"

text \<open>
  What a new process of the plugin starts with (\<^verbatim>\<open>Backend()\<close>, called by \<^verbatim>\<open>Factory\<close>): the storage is
  what it was, the caches are empty and the lock is free.
\<close>

definition restarted :: "world \<Rightarrow> world" where
  "restarted w = w\<lparr>w_tx := None, w_accServerCache := [], w_accNkeyCache := [], w_accCacheReaders := 0,
     w_accCacheWriter := False\<rparr>"

inductive step :: "world \<Rightarrow> world \<Rightarrow> bool" where
  step_request: "run_request E r w = (x, w') \<Longrightarrow> step w w'"
| step_initialize: "initialize E w = (x, w') \<Longrightarrow> step w (w'\<lparr>w_tx := None\<rparr>)"
| step_lookup: "accountLookupRequest E srv msg w = (x, w') \<Longrightarrow> step w (w'\<lparr>w_tx := None\<rparr>)"
| step_closed: "onConnectionClosed E i w = (x, w') \<Longrightarrow> step w (w'\<lparr>w_tx := None\<rparr>)"
| step_clean: "clean w = (x, w') \<Longrightarrow> step w (w'\<lparr>w_tx := None\<rparr>)"
| step_restart: "step w (restarted w)"

inductive reachable :: "world \<Rightarrow> bool" where
  reachable_init: "reachable empty_world"
| reachable_step: "reachable w \<Longrightarrow> step w w' \<Longrightarrow> reachable w'"

inductive_cases stepE: "step w w'"

lemma typed_step:
  assumes "step w w'" and "well_typed w" and "w_tx w = None"
  shows "well_typed w' \<and> w_tx w' = None"
proof -
  have rollback: "well_typed (v\<lparr>w_tx := None\<rparr>) = well_typed v" for v by (simp add: well_typed_def)
  have typed: "well_typed (snd (m w))" if "\<And>d. preserves (writes (allowed UNIV) d) m" for m :: "'a m"
    by (rule writes_typed [OF that assms(3,2)])
  have own: "owns UNIV op" for op by (simp add: owns_def)
  have same: "w\<lparr>w_tx := None\<rparr> = w" using assms(3) by simp
  show ?thesis
    using assms(1)
  proof cases
    case (step_request E r x)
    then have "w' = (snd (handle E r w))\<lparr>w_tx := None\<rparr>"
      by (simp add: run_request_def same split: prod.splits)
    then show ?thesis using typed [OF writes_handle [OF own], of r E] by (simp add: rollback)
  next
    case (step_initialize E x v)
    then show ?thesis using typed [OF writes_background(1), of E] by (simp add: rollback)
  next
    case (step_lookup E srv msg x v)
    then show ?thesis using typed [OF writes_lookup(4), of E srv msg] by (simp add: rollback)
  next
    case (step_closed E i x v)
    then show ?thesis using typed [OF writes_onConnectionClosed [OF own], of E i] by (simp add: rollback)
  next
    case (step_clean x v)
    then show ?thesis using typed [OF writes_clean] by (simp add: rollback)
  next
    case step_restart
    then show ?thesis using assms(2) by (simp add: well_typed_def restarted_def)
  qed
qed

end
