(* ===== verification/Listing.thy ===== *)
theory Listing
  imports Txn
begin

text \<open>
  What the enumeration of a prefix does when the storage does not fail: over the mounted
  storage, or over a transaction of the backend, \<open>for_listPaged\<close> runs its body once for every
  name that is listed at the start, in order, although it fetches page by page and the body
  may delete what it has seen.
\<close>

section \<open>The storage a reference stands for\<close>

definition effective :: "sref \<Rightarrow> world \<Rightarrow> entry store" where
  "effective s w = (case pending s w of None \<Rightarrow> w_disk w | Some as \<Rightarrow> apply_actions as (w_disk w))"

lemma view_effective: "view s w k = store_get (effective s w) k"
  by (simp add: view_disk effective_def)

definition children :: "sref \<Rightarrow> world \<Rightarrow> string \<Rightarrow> string list" where
  "children s w p = store_list (effective s w) p"

lemma children_sorted: "sorted_wrt (<) (children s w p)"
  by (simp add: children_def store_list_sorted)

lemma children_key: "no_slash c \<Longrightarrow> c \<in> set (children s w p) \<longleftrightarrow> view s w (p @ c) \<noteq> None"
  by (simp add: children_def store_list_key view_effective)

lemma children_child: "c \<in> set (children s w p) \<longleftrightarrow> (\<exists>r. view s w (p @ r) \<noteq> None \<and> direct_child r = c)"
  by (simp add: children_def store_list_child view_effective)

lemma direct_child_empty: "direct_child r = [] \<longleftrightarrow> r = []"
  by (cases r) (auto simp: direct_child_def)

lemma children_empty: "[] \<in> set (children s w p) \<longleftrightarrow> view s w p \<noteq> None"
  using children_key [of "[]"] by simp

text \<open>\<open>plain\<close>: the listing is that of the effective storage, not the emulated transaction's.\<close>

definition plain :: "env \<Rightarrow> sref \<Rightarrow> world \<Rightarrow> bool" where
  "plain E s w \<longleftrightarrow> e_native E \<or> pending s w = None"

lemma sListPage_ok [run]:
  "storage_ok E \<Longrightarrow> plain E s w \<Longrightarrow>
   sListPage E s p after limit w = (Inr (page_of (children s w p) after limit), w)"
  by (auto simp: sListPage_def storage_ok_def plain_def children_def effective_def store_list_page_def
      split: option.split)

lemma length_apply_actions: "length (apply_actions as d) \<le> length d + length as"
proof (induction as arbitrary: d)
  case (Cons a as)
  have put: "length (AList.update k v s) \<le> Suc (length s)" for k v and s :: "'a store"
    by (induction s) auto
  have "length (apply_action a d) \<le> Suc (length d)"
  proof (cases a)
    case (ActPut k v)
    then show ?thesis using put by (simp add: store_put_def)
  next
    case (ActDelete k)
    have "length (AList.delete k d) \<le> length d" by (simp add: AList.delete_eq)
    then show ?thesis using ActDelete by (simp add: store_delete_def)
  qed
  then show ?case using Cons [of "apply_action a d"] by simp
qed simp

lemma length_children: "length (children s w p) < paging_fuel w"
proof -
  have "length (store_list d p) \<le> length d" for d :: "entry store"
    unfolding store_list_def remainders_def
    by simp (metis (no_types, lifting) length_filter_le length_map length_remdups_leq order_trans)
  then have "length (children s w p) \<le> length (effective s w)" by (simp add: children_def)
  also have "\<dots> < paging_fuel w"
    using length_apply_actions [of _ "w_disk w"]
    by (auto simp: effective_def paging_fuel_def pending_def less_Suc_eq_le split: option.split sref.split)
  finally show ?thesis .
qed

section \<open>Bodies that leave the names still to come alone\<close>

definition tail_stable :: "sref \<Rightarrow> string \<Rightarrow> (world \<Rightarrow> bool) \<Rightarrow> (string \<Rightarrow> 'a \<Rightarrow> 'a m) \<Rightarrow> bool" where
  "tail_stable s p I body \<longleftrightarrow> (\<forall>x a w r w'. I w \<longrightarrow> body x a w = (r, w') \<longrightarrow>
     I w' \<and> (\<forall>c. x < c \<longrightarrow> (c \<in> set (children s w' p) \<longleftrightarrow> c \<in> set (children s w p))))"

lemma tail_stableD:
  "tail_stable s p I body \<Longrightarrow> I w \<Longrightarrow> body x a w = (r, w') \<Longrightarrow>
   I w' \<and> (\<forall>c. x < c \<longrightarrow> (c \<in> set (children s w' p) \<longleftrightarrow> c \<in> set (children s w p)))"
  by (auto simp: tail_stable_def)

lemma foldM_tail:
  assumes "tail_stable s p I body"
  shows "I w \<Longrightarrow> foldM body xs a w = (r, w') \<Longrightarrow> I w' \<and>
     (\<forall>c. (\<forall>x \<in> set xs. x < c) \<longrightarrow> (c \<in> set (children s w' p) \<longleftrightarrow> c \<in> set (children s w p)))"
proof (induction xs arbitrary: a w)
  case (Cons x xs)
  obtain q v where q: "body x a w = (q, v)" by fastforce
  note t = tail_stableD [OF assms Cons.prems(1) q]
  show ?case
  proof (cases q)
    case (Inl e)
    then show ?thesis using t q Cons.prems(2) by auto
  next
    case (Inr a')
    then have "foldM body xs a' v = (r, w')" using q Cons.prems(2) by simp
    then show ?thesis using t Cons.IH by auto
  qed
qed (simp add: returnM_apply)

lemma sorted_filter_eq:
  fixes xs ys :: "'b :: linorder list"
  assumes "sorted_wrt (<) xs" and "sorted_wrt (<) ys" and "\<And>c. P c \<Longrightarrow> c \<in> set xs \<longleftrightarrow> c \<in> set ys"
  shows "filter P xs = filter P ys"
proof -
  have xs: "sorted_wrt (<) (filter P xs)" and ys: "sorted_wrt (<) (filter P ys)"
    using assms(1,2) by (simp_all add: sorted_wrt_filter)
  have "set (filter P ys) = set (filter P xs)" using assms(3) by auto
  then show ?thesis using strict_sorted_equal [OF xs ys] by simp
qed

definition rest_after :: "string \<Rightarrow> string list \<Rightarrow> string list" where
  "rest_after after cs = filter (\<lambda>c. after = [] \<or> after < c) cs"

lemma filter_rest:
  assumes "l \<in> set (rest_after after cs)"
  shows "filter (\<lambda>c. l < c) (rest_after after cs) = filter (\<lambda>c. l < c) cs"
  using assms unfolding rest_after_def filter_filter by (auto intro!: filter_cong)

lemma for_pages_all:
  assumes ok: "storage_ok E" and stable: "tail_stable s p I body" and plain: "\<And>w. I w \<Longrightarrow> plain E s w"
  shows "I w \<Longrightarrow> [] \<notin> set (rest_after after (children s w p)) \<Longrightarrow>
    length (rest_after after (children s w p)) < n \<Longrightarrow>
    for_pages n E s p body after a w = foldM body (rest_after after (children s w p)) a w"
proof (induction n arbitrary: after a w)
  case (Suc n)
  let ?R = "rest_after after (children s w p)"
  let ?page = "take 100 ?R"
  have page: "sListPage E s p after DefaultPagingSize w = (Inr ?page, w)"
    using sListPage_ok [OF ok plain [OF Suc.prems(1)]]
    by (simp add: page_of_def DefaultPagingSize_def rest_after_def)
  show ?case
  proof (cases "?R = []")
    case True
    then show ?thesis by (simp add: page)
  next
    case False
    let ?l = "last ?page"
    obtain q v where q: "foldM body ?page a w = (q, v)" by fastforce
    note t = foldM_tail [OF stable Suc.prems(1) q]
    have sw: "sorted_wrt (<) ?R"
      unfolding rest_after_def by (intro sorted_wrt_filter children_sorted)
    have l: "?l \<in> set ?R" using False by (metis in_set_takeD last_in_set take_eq_Nil zero_neq_numeral)
    then have lne: "?l \<noteq> []" using Suc.prems(2) by metis
    have above: "filter (\<lambda>c. ?l < c) ?R = drop 100 ?R" using filter_above_last [OF sw False] by simp
    have below: "\<forall>x \<in> set ?page. x \<le> ?l"
    proof
      fix x assume "x \<in> set ?page"
      then have "x \<notin> set (filter (\<lambda>c. ?l < c) ?R)"
        using sw above set_take_disj_set_drop_if_distinct [of ?R 100 100]
        by (auto simp: strict_sorted_iff)
      then show "x \<le> ?l" using \<open>x \<in> set ?page\<close> by (auto dest: in_set_takeD simp: not_less)
    qed
    have "rest_after ?l (children s v p) = filter (\<lambda>c. ?l < c) (children s v p)"
      using lne by (simp add: rest_after_def)
    also have "\<dots> = filter (\<lambda>c. ?l < c) (children s w p)"
    proof (rule sorted_filter_eq [OF children_sorted children_sorted])
      fix c assume "?l < c"
      then show "c \<in> set (children s v p) \<longleftrightarrow> c \<in> set (children s w p)"
        using t below by (metis order.strict_trans1)
    qed
    also have "\<dots> = filter (\<lambda>c. ?l < c) ?R"
      using filter_rest [OF l] by simp
    finally have rest: "rest_after ?l (children s v p) = drop 100 ?R" using above by simp
    have split: "foldM body ?R a w = bindM (foldM body ?page a) (foldM body (drop 100 ?R)) w"
      by (metis append_take_drop_id foldM_append)
    have step: "for_pages (Suc n) E s p body after a w =
        bindM (foldM body ?page a) (for_pages n E s p body ?l) w"
      using False by (simp add: page)
    show ?thesis
    proof (cases q)
      case (Inl e)
      then show ?thesis unfolding step split using q by simp
    next
      case (Inr a')
      have "length (drop 100 ?R) < n" using Suc.prems(3) False by (cases ?R) auto
      moreover have "[] \<notin> set (drop 100 ?R)" using Suc.prems(2) by (meson in_set_dropD)
      ultimately have "for_pages n E s p body ?l a' v = foldM body (drop 100 ?R) a' v"
        using Suc.IH [of v ?l a'] t rest by simp
      then show ?thesis unfolding step split using q Inr by simp
    qed
  qed
qed simp

lemma for_listPaged_all:
  assumes "storage_ok E" and "tail_stable s p I body" and "\<And>w. I w \<Longrightarrow> plain E s w"
    and "I w" and "view s w p = None"
  shows "for_listPaged E s p body a w = foldM body (children s w p) a w"
proof -
  have "rest_after [] (children s w p) = children s w p" by (simp add: rest_after_def)
  then show ?thesis
    using for_pages_all [OF assms(1-4), of "[]"] assms(5) length_children [of s w p]
    by (simp add: for_listPaged_def children_empty)
qed

section \<open>Deleting what is listed\<close>

lemma pending_written: "plain E s (written t a w) \<longleftrightarrow> plain E s w"
  by (cases s; cases t) (auto simp: plain_def written_def pending_def split: option.splits)

lemma direct_child_le: "direct_child r \<le> r"
proof -
  have le: "a \<le> a @ b" for a b :: string by (induction a) simp_all
  show ?thesis
  proof (cases "CHR ''/'' \<in> set r")
    case True
    then obtain a b where r: "r = a @ CHR ''/'' # b" and a: "no_slash a"
      by (meson split_list_first)
    have "takeWhile (\<lambda>c. c \<noteq> CHR ''/'') r = a"
      unfolding r using a by (subst takeWhile_append2) auto
    then have "direct_child r = a @ ''/''" by (simp add: direct_child_def r)
    then show ?thesis using le [of "a @ ''/''" b] by (simp add: r)
  qed (simp add: direct_child_plain)
qed

lemma delete_tail_stable:
  assumes "storage_ok E"
  shows "tail_stable s p (plain E s) (\<lambda>n u. sDelete E s (p @ n))"
  unfolding tail_stable_def
proof (intro allI impI)
  fix x :: string and a :: unit and w r w'
  assume pl: "plain E s w" and d: "sDelete E s (p @ x) w = (r, w')"
  have w': "w' = written s (ActDelete (p @ x)) w" using d assms by (simp add: sDelete_ok)
  have "c \<in> set (children s w' p) \<longleftrightarrow> c \<in> set (children s w p)" if "x < c" for c
    using that direct_child_le [of x] unfolding children_child w' view_written_delete
    by (metis leD same_append_eq)
  then show "plain E s w' \<and> (\<forall>c. x < c \<longrightarrow> (c \<in> set (children s w' p) \<longleftrightarrow> c \<in> set (children s w p)))"
    using pl by (simp add: w' pending_written)
qed

definition deleted :: "sref \<Rightarrow> string list \<Rightarrow> world \<Rightarrow> world" where
  "deleted s ks w = fold (\<lambda>k. written s (ActDelete k)) ks w"

lemma view_deleted: "view s (deleted s ks w) k = (if k \<in> set ks then None else view s w k)"
  unfolding deleted_def by (induction ks arbitrary: w) (simp_all add: view_written_delete)

lemma foldM_delete:
  "storage_ok E \<Longrightarrow> foldM (\<lambda>n u. sDelete E s (p @ n)) ns () w = (Inr (), deleted s (map (\<lambda>n. p @ n) ns) w)"
  by (induction ns arbitrary: w) (simp_all add: deleted_def returnM_apply sDelete_ok)

text \<open>A loop that deletes every listed child deletes the keys directly below the prefix, and nothing else.\<close>

lemma for_listPaged_delete:
  assumes "storage_ok E" and "plain E s w" and "view s w p = None"
  shows "for_listPaged E s p (\<lambda>n u. sDelete E s (p @ n)) () w =
     (Inr (), deleted s (map (\<lambda>n. p @ n) (children s w p)) w)"
  using for_listPaged_all [OF assms(1) delete_tail_stable [OF assms(1)] _ assms(2,3)] assms(1)
  by (simp add: foldM_delete)

end
