(* ===== verification/Views.thy ===== *)
theory Views
  imports Requests Listing
begin

text \<open>
  Reading the stored entries without the monad: \<open>nkeyAt\<close>, \<open>accountAt\<close>, ... are what the
  storage holds, and every reader of \<open>Entities\<close> returns it. With it the facts that let a
  proof follow a method step by step: methods that only read leave the world alone, and the
  generators visit every listed entry.
\<close>

section \<open>Entries as functions of the state\<close>

definition nkeyAt :: "sref \<Rightarrow> world \<Rightarrow> string \<Rightarrow> nkeyEntry option" where
  "nkeyAt s w p = Option.bind (view s w p) (\<lambda>e. case e of ENkey x \<Rightarrow> Some x | _ \<Rightarrow> None)"

definition jwtAt :: "sref \<Rightarrow> world \<Rightarrow> string \<Rightarrow> jwtEntry option" where
  "jwtAt s w p = Option.bind (view s w p) (\<lambda>e. case e of EJwt x \<Rightarrow> Some x | _ \<Rightarrow> None)"

definition operatorAt :: "sref \<Rightarrow> world \<Rightarrow> operatorId \<Rightarrow> operatorEntry option" where
  "operatorAt s w i = Option.bind (view s w (operator_configPath i)) (\<lambda>e. case e of EOperator x \<Rightarrow> Some x | _ \<Rightarrow> None)"

definition accountAt :: "sref \<Rightarrow> world \<Rightarrow> accountId \<Rightarrow> accountEntry option" where
  "accountAt s w i = Option.bind (view s w (account_configPath i)) (\<lambda>e. case e of EAccount x \<Rightarrow> Some x | _ \<Rightarrow> None)"

definition userAt :: "sref \<Rightarrow> world \<Rightarrow> userId \<Rightarrow> userEntry option" where
  "userAt s w i = Option.bind (view s w (user_configPath i)) (\<lambda>e. case e of EUser x \<Rightarrow> Some x | _ \<Rightarrow> None)"

definition ephemeralUserAt :: "sref \<Rightarrow> world \<Rightarrow> ephemeralUserId \<Rightarrow> ephemeralUserEntry option" where
  "ephemeralUserAt s w i = Option.bind (view s w (ephemeralUser_configPath i)) (\<lambda>e. case e of EEphemeralUser x \<Rightarrow> Some x | _ \<Rightarrow> None)"

definition revocationAt :: "sref \<Rightarrow> world \<Rightarrow> accountRevocationId \<Rightarrow> accountRevocationEntry option" where
  "revocationAt s w i = Option.bind (view s w (accountRevocation_configPath i)) (\<lambda>e. case e of ERevocation x \<Rightarrow> Some x | _ \<Rightarrow> None)"

definition importAt :: "sref \<Rightarrow> world \<Rightarrow> accountImportId \<Rightarrow> accountImportEntry option" where
  "importAt s w i = Option.bind (view s w (accountImport_configPath i)) (\<lambda>e. case e of EImport x \<Rightarrow> Some x | _ \<Rightarrow> None)"

definition serverAt :: "sref \<Rightarrow> world \<Rightarrow> accountServerId \<Rightarrow> accountServerEntry option" where
  "serverAt s w i = Option.bind (view s w (accountServer_configPath i)) (\<lambda>e. case e of EAccountServer x \<Rightarrow> Some x | _ \<Rightarrow> None)"

lemmas at_defs = nkeyAt_def jwtAt_def operatorAt_def accountAt_def userAt_def ephemeralUserAt_def
  revocationAt_def importAt_def serverAt_def

lemma get_Inr:
  "get E s p decode w = (Inr r, w') \<Longrightarrow> w' = w \<and> r = Option.bind (view s w p) decode"
  by (auto simp: get_def sGet_def bindM_apply run_simps split: option.splits)

lemma reader_Inr:
  "Nkey E s p w = (Inr n, w') \<Longrightarrow> w' = w \<and> n = nkeyAt s w p"
  "Jwt E s p w = (Inr j, w') \<Longrightarrow> w' = w \<and> j = jwtAt s w p"
  "Operator E s oi w = (Inr op, w') \<Longrightarrow> w' = w \<and> op = operatorAt s w oi"
  "Account E s ai w = (Inr acc, w') \<Longrightarrow> w' = w \<and> acc = accountAt s w ai"
  "User E s ui w = (Inr usr, w') \<Longrightarrow> w' = w \<and> usr = userAt s w ui"
  "EphemeralUser E s ei w = (Inr eph, w') \<Longrightarrow> w' = w \<and> eph = ephemeralUserAt s w ei"
  "AccountRevocation E s ri w = (Inr rv, w') \<Longrightarrow> w' = w \<and> rv = revocationAt s w ri"
  "AccountImport E s ii w = (Inr im, w') \<Longrightarrow> w' = w \<and> im = importAt s w ii"
  "AccountServer E s si w = (Inr srv, w') \<Longrightarrow> w' = w \<and> srv = serverAt s w si"
  unfolding reader_defs at_defs by (erule get_Inr)+

text \<open>In a well-typed state without storage failures every reader succeeds.\<close>

definition typed_view :: "sref \<Rightarrow> world \<Rightarrow> bool" where
  "typed_view s w \<longleftrightarrow> (\<forall>k v. view s w k = Some v \<longrightarrow> fits k v)"

lemma well_typed_view: "well_typed w \<Longrightarrow> w_tx w = None \<Longrightarrow> typed_view s w"
  by (simp add: well_typed_def typed_view_def view_no_tx)

lemma get_typed:
  assumes "storage_ok E" and "\<And>v. view s w k = Some v \<Longrightarrow> decode v \<noteq> None"
  shows "get E s k decode w = (Inr (Option.bind (view s w k) decode), w)"
  using assms by (cases "view s w k") (auto simp: get_ok)

lemma reader_ok:
  assumes "storage_ok E" and "typed_view s w"
  shows "Operator E s oi w = (Inr (operatorAt s w oi), w)"
    and "Account E s ai w = (Inr (accountAt s w ai), w)"
    and "User E s ui w = (Inr (userAt s w ui), w)"
    and "EphemeralUser E s ei w = (Inr (ephemeralUserAt s w ei), w)"
    and "AccountRevocation E s ri w = (Inr (revocationAt s w ri), w)"
    and "AccountImport E s ii w = (Inr (importAt s w ii), w)"
    and "AccountServer E s si w = (Inr (serverAt s w si), w)"
    and "path_kind p \<in> {''operator-keys'', ''operator-signing-keys'', ''account-keys'', ''account-signing-keys'', ''user-keys''}
      \<Longrightarrow> Nkey E s p w = (Inr (nkeyAt s w p), w)"
    and "path_kind p \<in> {''operator-jwts'', ''account-jwts''} \<Longrightarrow> Jwt E s p w = (Inr (jwtAt s w p), w)"
proof -
  have fit: "fits k v" if "view s w k = Some v" for k v using assms(2) that by (simp add: typed_view_def)
  note fits = fits_def entry_kinds_def path_simps
  show "Operator E s oi w = (Inr (operatorAt s w oi), w)"
    unfolding reader_defs at_defs
    by (rule get_typed [OF assms(1)], drule fit) (simp add: fits split: entry.splits)
  show "Account E s ai w = (Inr (accountAt s w ai), w)"
    unfolding reader_defs at_defs
    by (rule get_typed [OF assms(1)], drule fit) (simp add: fits split: entry.splits)
  show "User E s ui w = (Inr (userAt s w ui), w)"
    unfolding reader_defs at_defs
    by (rule get_typed [OF assms(1)], drule fit) (simp add: fits split: entry.splits)
  show "EphemeralUser E s ei w = (Inr (ephemeralUserAt s w ei), w)"
    unfolding reader_defs at_defs
    by (rule get_typed [OF assms(1)], drule fit) (simp add: fits split: entry.splits)
  show "AccountRevocation E s ri w = (Inr (revocationAt s w ri), w)"
    unfolding reader_defs at_defs
    by (rule get_typed [OF assms(1)], drule fit) (simp add: fits split: entry.splits)
  show "AccountImport E s ii w = (Inr (importAt s w ii), w)"
    unfolding reader_defs at_defs
    by (rule get_typed [OF assms(1)], drule fit) (simp add: fits split: entry.splits)
  show "AccountServer E s si w = (Inr (serverAt s w si), w)"
    unfolding reader_defs at_defs
    by (rule get_typed [OF assms(1)], drule fit) (simp add: fits split: entry.splits)
  show "Nkey E s p w = (Inr (nkeyAt s w p), w)" if k: "path_kind p \<in> {''operator-keys'', ''operator-signing-keys'', ''account-keys'', ''account-signing-keys'', ''user-keys''}"
    unfolding reader_defs at_defs
    by (rule get_typed [OF assms(1)], drule fit) (use k in \<open>auto simp: fits split: entry.splits\<close>)
  show "Jwt E s p w = (Inr (jwtAt s w p), w)" if k: "path_kind p \<in> {''operator-jwts'', ''account-jwts''}"
    unfolding reader_defs at_defs
    by (rule get_typed [OF assms(1)], drule fit) (use k in \<open>auto simp: fits split: entry.splits\<close>)
qed

section \<open>Methods that only read\<close>

lemma read_only: "(\<And>I. preserves I m) \<Longrightarrow> snd (m w) = w"
  using preserves_snd [of "\<lambda>v. v = w" m w] by simp

lemma read_only_Inr: "(\<And>I. preserves I m) \<Longrightarrow> m w = (r, w') \<Longrightarrow> w' = w"
  using read_only [of m w] by simp

lemma read_only_tail_stable:
  assumes "\<And>x a I. preserves I (body x a)"
  shows "tail_stable s p (plain E s) body"
  unfolding tail_stable_def using read_only_Inr [OF assms] by metis

lemma for_listPaged_read_only:
  assumes "storage_ok E" and "plain E s w" and "view s w p = None" and "\<And>x a I. preserves I (body x a)"
  shows "for_listPaged E s p body a w = foldM body (children s w p) a w"
  using for_listPaged_all [OF assms(1) read_only_tail_stable [OF assms(4)] _ assms(2,3)] by simp

lemma for_entries_read_only:
  assumes "storage_ok E" and "plain E s w" and "view s w p = None"
    and "\<And>n I. preserves I (read n)" and "\<And>n x a I. preserves I (body n x a)"
  shows "for_entries E s p read body a w =
     foldM (\<lambda>n a. bindM (read n) (\<lambda>e. case e of None \<Rightarrow> returnM a | Some x \<Rightarrow> body n x a)) (children s w p) a w"
  unfolding for_entries_def
  by (rule for_listPaged_read_only [OF assms(1-3)]) (intro preserves_rules assms)

text \<open>A pure key-pair step.\<close>

lemma keyPair_Inr: "keyPair E n w = (Inr kp, w') \<longleftrightarrow> w' = w \<and> kp = nk_Seed n \<and> e_FromSeed E (nk_Seed n)"
  by (auto simp: keyPair_def run_simps)

lemma PublicKey_Inr: "PublicKey E kp w = (Inr pub, w') \<longleftrightarrow> w' = w \<and> e_PublicKey E kp = Some pub"
  by (auto simp: PublicKey_def liftOption_def run_simps split: option.splits)

lemma publicKey_Inr:
  "publicKey E n w = (Inr pub, w') \<longleftrightarrow> w' = w \<and> e_FromSeed E (nk_Seed n) \<and> e_PublicKey E (nk_Seed n) = Some pub"
  by (auto simp: publicKey_def bindM_apply keyPair_def PublicKey_def liftOption_def run_simps split: option.splits)

lemma wrapErr_Inr: "wrapErr msg m w = (Inr x, w') \<longleftrightarrow> m w = (Inr x, w')"
  by (auto simp: wrapErr_def catchFail_def bindM_apply run_simps split: prod.splits sum.splits err.splits)

lemma respondErr_Inr: "respondErr msg m w = (Inr x, w') \<longleftrightarrow> m w = (Inr x, w')"
  by (auto simp: respondErr_def catchFail_def returnError_def bindM_apply run_simps split: prod.splits sum.splits err.splits)

lemma storeInStorage_Inr: "storeInStorage E s k v w = (Inr u, w') \<Longrightarrow> w' = written s (ActPut k v) w"
  using sWrite_result [of E s OpPut "ActPut k v" w] by (auto simp: storeInStorage_def)

lemma sDelete_Inr: "sDelete E s k w = (Inr u, w') \<Longrightarrow> w' = written s (ActDelete k) w"
  using sWrite_result [of E s OpDelete "ActDelete k" w] by (auto simp: sDelete_def)

end
