(* ===== verification/JwtFacts.thy ===== *)
theory JwtFacts
  imports Views
begin

text \<open>
  What the issued JWTs say. An account's JWT is signed by the first key that exists among the
  account's own choice, the operator's default and the operator's identity key; it names the
  account, does not expire, and carries every revocation and signing key the storage holds.
\<close>

section \<open>The key that signs\<close>

text \<open>The order of preference, as a function of the stored entries.\<close>

lemma keyPairAt_Inr:
  "keyPairAt E s p w = (Inr k, w') \<Longrightarrow> w' = w \<and> k = map_option nk_Seed (nkeyAt s w p) \<and>
     (\<forall>kp. k = Some kp \<longrightarrow> e_FromSeed E kp)"
  unfolding keyPairAt_def
  by (auto elim!: bindM_InrE dest!: reader_Inr(1) simp: keyPair_Inr returnM_apply split: option.splits)

definition storedKey :: "sref \<Rightarrow> world \<Rightarrow> operatorId \<Rightarrow> string \<Rightarrow> nkeyEntry option" where
  "storedKey s w opId n = (if n = [] then None
     else nkeyAt s w (operatorSigningKey_nkeyPath (operatorId_signingKeyId opId n)))"

lemma namedKey_Inr:
  "namedKey E s opId n w = (Inr k, w') \<Longrightarrow> w' = w \<and> k = map_option nk_Seed (storedKey s w opId n) \<and>
     (\<forall>kp. k = Some kp \<longrightarrow> e_FromSeed E kp)"
  by (auto simp: namedKey_def storedKey_def returnM_apply dest: keyPairAt_Inr split: if_splits)

definition operator_choice :: "sref \<Rightarrow> world \<Rightarrow> operatorId \<Rightarrow> string \<Rightarrow> (string \<times> string) option" where
  "operator_choice s w opId dflt = (case storedKey s w opId dflt of
     Some nk \<Rightarrow> Some (nk_Seed nk, fromOperator dflt)
   | None \<Rightarrow> map_option (\<lambda>nk. (nk_Seed nk, ''operator identity key'')) (nkeyAt s w (operator_nkeyPath opId)))"

definition signing_choice :: "sref \<Rightarrow> world \<Rightarrow> operatorId \<Rightarrow> accountEntry \<Rightarrow> (string \<times> string) option" where
  "signing_choice s w opId account = (case storedKey s w opId (acc_SigningKey account) of
     Some nk \<Rightarrow> Some (nk_Seed nk, fromAccount (acc_SigningKey account))
   | None \<Rightarrow> operator_choice s w opId
       (case operatorAt s w opId of None \<Rightarrow> [] | Some op \<Rightarrow> op_DefaultSigningKey op))"

lemma operatorKey_Inr:
  "operatorKey E s opId des dflt w = (Inr (kp, desired, selected), w') \<Longrightarrow>
   w' = w \<and> operator_choice s w opId dflt = Some (kp, selected) \<and> e_FromSeed E kp"
  unfolding operatorKey_def Let_def operator_choice_def
  by (auto elim!: bindM_InrE dest!: namedKey_Inr keyPairAt_Inr simp: run_simps split: option.splits)

lemma selectSigningKey_Inr:
  "selectSigningKey E s opId account w = (Inr (kp, desired, selected), w') \<Longrightarrow>
   w' = w \<and> signing_choice s w opId account = Some (kp, selected) \<and> e_FromSeed E kp"
  unfolding selectSigningKey_def Let_def signing_choice_def
  by (erule bindM_InrE, drule namedKey_Inr)
     (auto elim!: bindM_InrE dest!: reader_Inr(3) operatorKey_Inr simp: run_simps split: option.splits)

section \<open>The claims of an account\<close>

lemma readRevocations_Inr:
  assumes "foldM (\<lambda>n a. bindM (AccountRevocation E s (accountId_revocationId i n)) (\<lambda>e. case e of
      None \<Rightarrow> returnM a | Some x \<Rightarrow> returnM (AList.update n (Unix (rev_CreationTime x)) a))) ns a w = (Inr b, w')"
  shows "w' = w \<and> (\<forall>n. map_of b n = (case (if n \<in> set ns then revocationAt s w (accountId_revocationId i n) else None) of
      Some r \<Rightarrow> Some (Unix (rev_CreationTime r)) | None \<Rightarrow> map_of a n))"
  using assms
proof (induction ns arbitrary: a w)
  case Nil
  then show ?case by (simp add: returnM_apply)
next
  case (Cons n ns)
  from Cons.prems obtain c v where
    step: "bindM (AccountRevocation E s (accountId_revocationId i n)) (\<lambda>e. case e of
      None \<Rightarrow> returnM a | Some x \<Rightarrow> returnM (AList.update n (Unix (rev_CreationTime x)) a)) w = (Inr c, v)"
    and rest: "foldM (\<lambda>n a. bindM (AccountRevocation E s (accountId_revocationId i n)) (\<lambda>e. case e of
      None \<Rightarrow> returnM a | Some x \<Rightarrow> returnM (AList.update n (Unix (rev_CreationTime x)) a))) ns c v = (Inr b, w')"
    by (auto elim!: bindM_InrE)
  have v: "v = w" and c: "\<forall>m. map_of c m = (if m = n then (case revocationAt s w (accountId_revocationId i n) of
      Some r \<Rightarrow> Some (Unix (rev_CreationTime r)) | None \<Rightarrow> map_of a n) else map_of a m)"
    using step by (auto elim!: bindM_InrE dest!: reader_Inr(7) simp: returnM_apply split: option.splits)
  show ?case using Cons.IH [OF rest] v c by (auto split: option.splits)
qed

text \<open>The names below the account's revocation prefix are its revocations.\<close>

lemma revocation_child:
  assumes "revocationAt s w (accountId_revocationId i n) = Some r" and "no_slash n"
  shows "n \<in> set (children s w (account_revocationPrefix i))"
proof -
  have "account_revocationPrefix i @ n = accountRevocation_configPath (accountId_revocationId i n)"
    by (simp add: path_defs)
  then show ?thesis
    using assms by (cases "view s w (account_revocationPrefix i @ n)") (auto simp: children_key revocationAt_def)
qed

lemma for_AccountRevocations_Inr:
  assumes "storage_ok E" and "plain E s w" and "view s w (account_revocationPrefix i) = None"
    and run: "for_AccountRevocations E s i (\<lambda>n r revs.
         returnM (AList.update n (Unix (rev_CreationTime r)) revs)) [] w = (Inr revs, w')"
  shows "w' = w \<and> (\<forall>n r. no_slash n \<longrightarrow> revocationAt s w (accountId_revocationId i n) = Some r \<longrightarrow>
     map_of revs n = Some (Unix (rev_CreationTime r)))"
proof -
  have "foldM (\<lambda>n a. bindM (AccountRevocation E s (accountId_revocationId i n)) (\<lambda>e. case e of
      None \<Rightarrow> returnM a | Some x \<Rightarrow> returnM (AList.update n (Unix (rev_CreationTime x)) a)))
      (children s w (account_revocationPrefix i)) [] w = (Inr revs, w')"
    using run unfolding for_AccountRevocations_def
    using for_entries_read_only [OF assms(1-3), of "\<lambda>n. AccountRevocation E s (accountId_revocationId i n)"
        "\<lambda>n r revs. returnM (AList.update n (Unix (rev_CreationTime r)) revs)" "[]"]
    by (simp add: preserves_readers preserves_return)
  then show ?thesis using revocation_child by (auto dest!: readRevocations_Inr)
qed

text \<open>Signing keys: each stored key's public key is among the claims' keys.\<close>

lemma addAccountSigningKey_Inr:
  assumes "addAccountSigningKey E n nk keys w = (Inr keys', w')"
  shows "w' = w \<and> (\<exists>pub scope. e_PublicKey E (nk_Seed nk) = Some pub \<and>
     keys' = AList.update pub scope keys \<and> (scope = None \<longleftrightarrow> \<not> nk_Scoped nk))"
  using assms unfolding addAccountSigningKey_def Let_def NewUserScope_def
  by (cases "nk_Template nk")
     (auto elim!: bindM_InrE simp: publicKey_Inr run_simps liftOption_def split: if_splits option.splits,
      (intro exI conjI, rule refl, blast)+)

lemma readSigningKeys_Inr:
  assumes "foldM (\<lambda>n a. bindM (Nkey E s (accountSigningKey_nkeyPath (accountId_signingKeyId i n))) (\<lambda>e. case e of
      None \<Rightarrow> returnM a | Some x \<Rightarrow> addAccountSigningKey E n x a)) ns a w = (Inr b, w')"
  shows "w' = w \<and> (\<forall>k. map_of a k \<noteq> None \<longrightarrow> map_of b k \<noteq> None) \<and>
    (\<forall>n \<in> set ns. \<forall>nk. nkeyAt s w (accountSigningKey_nkeyPath (accountId_signingKeyId i n)) = Some nk \<longrightarrow>
       (\<exists>pub. e_PublicKey E (nk_Seed nk) = Some pub \<and> map_of b pub \<noteq> None))"
  using assms
proof (induction ns arbitrary: a w)
  case Nil
  then show ?case by (simp add: returnM_apply)
next
  case (Cons n ns)
  from Cons.prems obtain c v where
    step: "bindM (Nkey E s (accountSigningKey_nkeyPath (accountId_signingKeyId i n))) (\<lambda>e. case e of
      None \<Rightarrow> returnM a | Some x \<Rightarrow> addAccountSigningKey E n x a) w = (Inr c, v)"
    and rest: "foldM (\<lambda>n a. bindM (Nkey E s (accountSigningKey_nkeyPath (accountId_signingKeyId i n))) (\<lambda>e. case e of
      None \<Rightarrow> returnM a | Some x \<Rightarrow> addAccountSigningKey E n x a)) ns c v = (Inr b, w')"
    by (auto elim!: bindM_InrE)
  have "v = w \<and> (\<forall>k. map_of a k \<noteq> None \<longrightarrow> map_of c k \<noteq> None) \<and>
      (\<forall>nk. nkeyAt s w (accountSigningKey_nkeyPath (accountId_signingKeyId i n)) = Some nk \<longrightarrow>
        (\<exists>pub. e_PublicKey E (nk_Seed nk) = Some pub \<and> map_of c pub \<noteq> None))"
    using step
    by (auto elim!: bindM_InrE dest!: reader_Inr(1) addAccountSigningKey_Inr
        simp: returnM_apply split: option.splits if_splits)
  then show ?case using Cons.IH [OF rest] by auto
qed

lemma signingKey_child:
  assumes "nkeyAt s w (accountSigningKey_nkeyPath (accountId_signingKeyId i n)) = Some nk" and "no_slash n"
  shows "n \<in> set (children s w (account_signingKeyPrefix i))"
proof -
  have "account_signingKeyPrefix i @ n = accountSigningKey_nkeyPath (accountId_signingKeyId i n)"
    by (simp add: path_defs)
  then show ?thesis
    using assms by (cases "view s w (account_signingKeyPrefix i @ n)") (auto simp: children_key nkeyAt_def)
qed

lemma for_AccountSigningKeys_Inr:
  assumes "storage_ok E" and "plain E s w" and "view s w (account_signingKeyPrefix i) = None"
    and run: "for_AccountSigningKeys E s i (addAccountSigningKey E) keys w = (Inr keys', w')"
  shows "w' = w \<and> (\<forall>n nk. no_slash n \<longrightarrow>
     nkeyAt s w (accountSigningKey_nkeyPath (accountId_signingKeyId i n)) = Some nk \<longrightarrow>
     (\<exists>pub. e_PublicKey E (nk_Seed nk) = Some pub \<and> map_of keys' pub \<noteq> None))"
proof -
  have "foldM (\<lambda>n a. bindM (Nkey E s (accountSigningKey_nkeyPath (accountId_signingKeyId i n))) (\<lambda>e. case e of
      None \<Rightarrow> returnM a | Some x \<Rightarrow> addAccountSigningKey E n x a))
      (children s w (account_signingKeyPrefix i)) keys w = (Inr keys', w')"
    using run unfolding for_AccountSigningKeys_def
    using for_entries_read_only [OF assms(1-3), of "\<lambda>n. Nkey E s (accountSigningKey_nkeyPath (accountId_signingKeyId i n))"
        "addAccountSigningKey E" keys]
    by (simp add: preserves_readers preserves_claims)
  from readSigningKeys_Inr [OF this] signingKey_child show ?thesis by blast
qed

lemma enrichAccountClaims_Inr:
  assumes "storage_ok E" and "plain E s w" and "tidy s w"
    and run: "enrichAccountClaims E s i claims w = (Inr claims', w')"
  shows "w' = w \<and> ac_Name claims' = ai_acc i \<and> ac_Expires claims' = 0 \<and> ac_NotBefore claims' = 0
    \<and> (\<exists>nk. nkeyAt s w (account_nkeyPath i) = Some nk \<and> e_PublicKey E (nk_Seed nk) = Some (ac_Subject claims'))
    \<and> ja_Limits (ac_Account claims') = ja_Limits (ac_Account claims)
    \<and> (\<forall>n r. no_slash n \<longrightarrow> revocationAt s w (accountId_revocationId i n) = Some r \<longrightarrow>
         map_of (ja_Revocations (ac_Account claims')) n = Some (Unix (rev_CreationTime r)))
    \<and> (\<forall>n nk. no_slash n \<longrightarrow> nkeyAt s w (accountSigningKey_nkeyPath (accountId_signingKeyId i n)) = Some nk \<longrightarrow>
         (\<exists>pub keys. e_PublicKey E (nk_Seed nk) = Some pub \<and>
            ja_SigningKeys (ac_Account claims') = Some keys \<and> map_of keys pub \<noteq> None))"
proof -
  from run obtain nk sub imps v revs v2 keys v3 where
    nk: "nkeyAt s w (account_nkeyPath i) = Some nk" "e_PublicKey E (nk_Seed nk) = Some sub"
    and imp: "for_AccountImports E s i (\<lambda>n imp imports. returnM (imports @ ai_Imports imp)) [] w = (Inr imps, v)"
    and revs: "for_AccountRevocations E s i (\<lambda>n rev revs.
         returnM (AList.update n (Unix (rev_CreationTime rev)) revs)) [] v = (Inr revs, v2)"
    and keys: "for_AccountSigningKeys E s i (addAccountSigningKey E)
         (case ja_SigningKeys (ac_Account claims) of Some keys \<Rightarrow> keys | None \<Rightarrow> []) v2 = (Inr keys, v3)"
    and w': "w' = v3"
    and claims': "claims' = claims\<lparr>ac_Name := ai_acc i, ac_Expires := 0, ac_NotBefore := 0, ac_Subject := sub,
       ac_Account := (ac_Account claims)\<lparr>
         ja_Imports := (if imps \<noteq> [] then imps else ja_Imports (ac_Account claims)),
         ja_Revocations := (if revs \<noteq> [] then revs else ja_Revocations (ac_Account claims)),
         ja_SigningKeys := (if keys \<noteq> [] then Some keys else ja_SigningKeys (ac_Account claims))\<rparr>\<rparr>"
    unfolding enrichAccountClaims_def Let_def
    by (auto elim!: bindM_InrE dest!: reader_Inr(1) simp: publicKey_Inr run_simps split: option.splits)
  have v: "v = w"
    using imp by (rule read_only_Inr [rotated]) (intro preserves_rules)
  note r = for_AccountRevocations_Inr [OF assms(1,2) tidy_prefixes(1) [OF assms(3)] revs [unfolded v]]
  have v2: "v2 = w" using r by simp
  note k = for_AccountSigningKeys_Inr [OF assms(1,2) tidy_prefixes(2) [OF assms(3)] keys [unfolded v2]]
  have ne: "map_of xs x \<noteq> None \<Longrightarrow> xs \<noteq> []" for xs and x :: string by auto
  show ?thesis
    using r k nk ne [of revs] ne [of keys] unfolding claims' w' by fastforce
qed

lemma encodeJwt_ok:
  "jr_errors (encodeJwt vr encoded expiresAt) = [] \<Longrightarrow> snd vr = [] \<and>
   (\<exists>token. encoded = Some token \<and> jr_jwt (encodeJwt vr encoded expiresAt) = token \<and>
     jr_issuer (encodeJwt vr encoded expiresAt) = [] \<and> jr_expiresAt (encodeJwt vr encoded expiresAt) = expiresAt)"
  by (auto simp: encodeJwt_def NewJwtResult_def Let_def split: if_splits option.splits)

lemma accountClaims_state: "accountClaims E account sub w = (r, w') \<Longrightarrow> w' = w"
  by (rule read_only_Inr [OF preserves_claims(3)])

text \<open>What \<open>issueAndSaveAccountJWT\<close> stores for an account that exists.\<close>

lemma issueAndSaveAccountJWT_Inr:
  assumes "storage_ok E" and "plain E s w" and "tidy s w" and acc: "accountAt s w i = Some account"
    and run: "issueAndSaveAccountJWT E s (ReadAccount i) w = (Inr ws, w')"
  shows "\<exists>kp selected claims token. signing_choice s w (accountId_operatorId i) account = Some (kp, selected)
    \<and> e_EncodeAccount E kp claims = Some token \<and> snd (e_ValidateAccount E claims) = []
    \<and> w' = written s (ActPut (account_jwtPath i) (EJwt (NewJwt token []))) w
    \<and> ac_Name claims = ai_acc i \<and> ac_Expires claims = 0 \<and> ac_NotBefore claims = 0
    \<and> (\<exists>nk. nkeyAt s w (account_nkeyPath i) = Some nk \<and> e_PublicKey E (nk_Seed nk) = Some (ac_Subject claims))
    \<and> (\<forall>n r. no_slash n \<longrightarrow> revocationAt s w (accountId_revocationId i n) = Some r \<longrightarrow>
         map_of (ja_Revocations (ac_Account claims)) n = Some (Unix (rev_CreationTime r)))
    \<and> (\<forall>n nk. no_slash n \<longrightarrow> nkeyAt s w (accountSigningKey_nkeyPath (accountId_signingKeyId i n)) = Some nk \<longrightarrow>
         (\<exists>pub keys. e_PublicKey E (nk_Seed nk) = Some pub \<and>
            ja_SigningKeys (ac_Account claims) = Some keys \<and> map_of keys pub \<noteq> None))"
proof -
  from run acc obtain kp desired selected v1 sub claims0 v2 claims v3 where
    sel: "selectSigningKey E s (accountId_operatorId i) account w = (Inr (kp, desired, selected), v1)"
    and c0: "accountClaims E account sub v1 = (Inr claims0, v2)"
    and enrich: "enrichAccountClaims E s i claims0 v2 = (Inr claims, v3)"
    and enc: "storeAccountJWT E s i kp (signingKeyWarnings desired selected) claims v3 = (Inr ws, w')"
  proof -
    have "bindM (selectSigningKey E s (accountId_operatorId i) account) (\<lambda>(signingKey, desired, selected).
     bindM (Nkey E s (account_nkeyPath i)) (\<lambda>n. case n of
       None \<Rightarrow> throwM (Fail ''account nkey does not exist'')
     | Some idNkey \<Rightarrow> bindM (keyPair E idNkey) (\<lambda>idKey.
     bindM (wrapErr ''failed to decode public key: '' (PublicKey E idKey)) (\<lambda>sub.
     bindM (accountClaims E account sub) (\<lambda>claims.
     bindM (enrichAccountClaims E s i claims) (\<lambda>claims.
     storeAccountJWT E s i signingKey (signingKeyWarnings desired selected) claims)))))) w = (Inr ws, w')"
      using run acc unfolding issueAndSaveAccountJWT_def Let_def reader_Account_def
      by (auto elim!: bindM_InrE [where m = "Account E s i"] dest!: reader_Inr(4))
    then obtain sel v1 where sel: "selectSigningKey E s (accountId_operatorId i) account w = (Inr sel, v1)"
      and rest: "(case sel of (signingKey, desired, selected) \<Rightarrow>
     bindM (Nkey E s (account_nkeyPath i)) (\<lambda>n. case n of
       None \<Rightarrow> throwM (Fail ''account nkey does not exist'')
     | Some idNkey \<Rightarrow> bindM (keyPair E idNkey) (\<lambda>idKey.
     bindM (wrapErr ''failed to decode public key: '' (PublicKey E idKey)) (\<lambda>sub.
     bindM (accountClaims E account sub) (\<lambda>claims.
     bindM (enrichAccountClaims E s i claims) (\<lambda>claims.
     storeAccountJWT E s i signingKey (signingKeyWarnings desired selected) claims)))))) v1 = (Inr ws, w')"
      by (rule bindM_InrE)
    obtain kp desired selected where s3: "sel = (kp, desired, selected)" by (cases sel)
    from rest obtain sub claims0 v2 claims v3 where "accountClaims E account sub v1 = (Inr claims0, v2)"
      "enrichAccountClaims E s i claims0 v2 = (Inr claims, v3)"
      "storeAccountJWT E s i kp (signingKeyWarnings desired selected) claims v3 = (Inr ws, w')"
      unfolding s3 prod.case
      by (auto elim!: bindM_InrE dest!: reader_Inr(1) simp: keyPair_Inr PublicKey_Inr wrapErr_Inr throwM_apply
          split: option.splits)
    then show ?thesis using that sel s3 by blast
  qed
  have v1: "v1 = w" and choice: "signing_choice s w (accountId_operatorId i) account = Some (kp, selected)"
    using selectSigningKey_Inr [OF sel] by simp_all
  have v2: "v2 = w" using accountClaims_state [OF c0] v1 by simp
  note en = enrichAccountClaims_Inr [OF assms(1-3) enrich [unfolded v2]]
  have "snd (e_ValidateAccount E claims) = [] \<and> (\<exists>token. e_EncodeAccount E kp claims = Some token \<and>
      w' = written s (ActPut (account_jwtPath i) (EJwt (NewJwt token []))) v3)"
  proof -
    have ok: "jr_errors (encodeAccountJwt E kp claims) = []"
      and st: "w' = written s (ActPut (account_jwtPath i) (EJwt (NewJwt (jr_jwt (encodeAccountJwt E kp claims))
        (jr_issuer (encodeAccountJwt E kp claims))))) v3"
      using enc unfolding storeAccountJWT_def
      by (auto simp: Let_def throwM_apply returnM_apply elim!: thenM_InrE dest!: storeInStorage_Inr split: if_splits)
    show ?thesis using encodeJwt_ok [OF ok [unfolded encodeAccountJwt_def]] st
      by (auto simp: encodeAccountJwt_def)
  qed
  then obtain token where val: "snd (e_ValidateAccount E claims) = []" and tok: "e_EncodeAccount E kp claims = Some token"
    and w': "w' = written s (ActPut (account_jwtPath i) (EJwt (NewJwt token []))) v3"
    by blast
  have v3: "v3 = w" using en by (rule conjunct1)
  show ?thesis
    by (rule exI [of _ kp], rule exI [of _ selected], rule exI [of _ claims], rule exI [of _ token],
        intro conjI choice tok val w' [unfolded v3])
       (insert en, (elim conjE, assumption)+)
qed

end
