(* ===== verification/Samples.thy ===== *)
theory Samples
  imports JwtFacts
begin

text \<open>
  A concrete environment and concrete states, at which the properties are applied: storage and
  network do not fail, keys are numbered, every JWT is valid and encoded as its signer and the
  account, operator or user it names.
\<close>

definition sample_seed :: "prefixByte \<Rightarrow> nat \<Rightarrow> string" where
  "sample_seed p n = (case p of PrefixOperator \<Rightarrow> CHR ''O'' | PrefixAccount \<Rightarrow> CHR ''A''
     | PrefixUser \<Rightarrow> CHR ''U'' | PrefixOther \<Rightarrow> CHR ''X'') # replicate n (CHR ''k'')"

definition sample_prefix :: "string \<Rightarrow> prefixByte option" where
  "sample_prefix s = (case s of [] \<Rightarrow> None
     | c # _ \<Rightarrow> Some (if c = CHR ''O'' then PrefixOperator else if c = CHR ''A'' then PrefixAccount
         else if c = CHR ''U'' then PrefixUser else PrefixOther))"

definition sample_limits :: permission_limits where
  "sample_limits = \<lparr>pl_Subs = 0, pl_Data = 0, pl_Payload = 0, pl_Src = None, pl_Other = JObj []\<rparr>"

definition sample_reply :: "string \<Rightarrow> natsMsg" where
  "sample_reply payload = \<lparr>nm_Subject = ''_INBOX.1'', nm_Reply = [], nm_Header = [], nm_Data = payload\<rparr>"

definition sample_refusal :: ClaimUpdateError where
  "sample_refusal = \<lparr>cue_Account = ''PA'', cue_Code = 400, cue_Description = ''denied''\<rparr>"

definition sample_env :: env where
  "sample_env = \<lparr>e_storageFails = (\<lambda>opn k. None), e_native = True, e_now = 100 * Second,
     e_DefaultLeaseTTL = 3600 * Second, e_MaxLeaseTTL = 7200 * Second,
     e_CreatePair = (\<lambda>p n. Some (sample_seed p n)), e_DecodeSeed = sample_prefix,
     e_FromSeed = (\<lambda>s. True), e_PublicKey = (\<lambda>s. Some (''P'' @ s)), e_PrivateKey = (\<lambda>s. Some (''S'' @ s)),
     e_Sign = (\<lambda>s nonce. Some (nonce @ s)),
     e_IsValidPublicUserKey = (\<lambda>s. s \<noteq> []),
     e_UnmarshalOperator = (\<lambda>j. Some \<lparr>jo_SigningKeys = Some [''custom''], jo_SystemAccount = [], jo_Other = JObj []\<rparr>),
     e_UnmarshalAccount = (\<lambda>j. Some (ac_Account (NewAccountClaims []))),
     e_UnmarshalUser = (\<lambda>j. Some \<lparr>ju_Limits = sample_limits, ju_IssuerAccount = [], ju_Tags = None, ju_Other = JObj []\<rparr>),
     e_UnmarshalLimits = (\<lambda>j. Some sample_limits),
     e_ValidateOperator = (\<lambda>c. ([], [])), e_ValidateAccount = (\<lambda>c. ([], [])),
     e_ValidateUserClaims = (\<lambda>c. ([], [])), e_ValidateUser = (\<lambda>u. ([], [])),
     e_ValidateImports = (\<lambda>a is. ([], [])),
     e_EncodeOperator = (\<lambda>kp c. Some (kp @ ''.'' @ oc_Name c)),
     e_EncodeAccount = (\<lambda>kp c. Some (kp @ ''.'' @ ac_Name c)),
     e_EncodeUser = (\<lambda>kp c. Some (kp @ ''.'' @ uc_Name c)),
     e_EncodeDelete = (\<lambda>kp acc. Some (kp @ ''.'' @ acc)),
     e_DecodeIssuer = (\<lambda>t. Some (''P'' @ takeWhile (\<lambda>c. c \<noteq> CHR ''.'') t)),
     e_FormatUserConfig = (\<lambda>j s. Some (j @ s)), e_NormTag = (\<lambda>t. t),
     e_Connect = (\<lambda>url creds sign. None), e_Subscribe = (\<lambda>s. None), e_SubscribeSync = None,
     e_PublishFails = (\<lambda>s. None), e_NewInbox = ''_INBOX.1'',
     e_Replies = (\<lambda>s d. [Inr (sample_reply ''ok'')]),
     e_UnmarshalResponse = (\<lambda>t. if t = [] then None
       else Some \<lparr>resp_Server = None, resp_Data = None, resp_Error = (if t = ''ok'' then None else Some sample_refusal)\<rparr>)\<rparr>"

text \<open>The same plugin on a storage without transactions.\<close>

definition sample_shim_env :: env where
  "sample_shim_env = sample_env\<lparr>e_native := False\<rparr>"

lemma sample_env_ok [simp]: "storage_ok sample_env" "storage_ok sample_shim_env"
  by (simp_all add: storage_ok_def sample_env_def sample_shim_env_def)

definition sample_account :: accountId where
  "sample_account = AccountId ''op'' ''acc''"

text \<open>An operator with a signing key and an account with a signing key, users, revocations and a configuration.\<close>

definition sample_disk :: "entry store" where
  "sample_disk = [
     (''operators/op'', EOperator (newOperatorEntry\<lparr>op_SysAccountName := ''SYS'', op_DefaultSigningKey := ''sk''\<rparr>)),
     (''operator-keys/op'', ENkey (nkeyOfSeed ''O'')),
     (''operator-jwts/op'', EJwt (NewJwt ''O.op'' [])),
     (''operator-signing-keys/op/sk'', ENkey (nkeyOfSeed ''Ok'')),
     (''accounts/op/acc'', EAccount NewAccount),
     (''account-keys/op/acc'', ENkey (nkeyOfSeed ''A'')),
     (''account-jwts/op/acc'', EJwt (NewJwt ''Ok.acc'' [])),
     (''account-signing-keys/op/acc/ask'', ENkey ((nkeyOfSeed ''Ak'')\<lparr>nk_Scoped := True\<rparr>)),
     (''users/op/acc/usr'', EUser NewUser),
     (''user-keys/op/acc/usr'', ENkey (nkeyOfSeed ''U'')),
     (''ephemeral-users/op/acc/eph'', EEphemeralUser NewEphemeralUser),
     (''revocations/op/acc/PUold'', ERevocation \<lparr>rev_CreationTime = Some 0, rev_Ttl = Second\<rparr>),
     (''revocations/op/acc/PUkept'', ERevocation \<lparr>rev_CreationTime = Some 0, rev_Ttl = 0\<rparr>),
     (''config'', EConfig \<lparr>cfg_ImplicitRevocationsEnabled = True\<rparr>)]"

definition sample_world :: world where
  "sample_world = empty_world\<lparr>w_disk := sample_disk, w_entropy := 5\<rparr>"

lemmas sample_defs = sample_env_def sample_shim_env_def sample_account_def sample_world_def sample_disk_def
  empty_world_def

end
