(* ===== verification/Deletion.thy ===== *)
theory Deletion
  imports Samples
begin

text \<open>
  Deleting an account deletes everything that hangs on it and nothing else. \<open>erases D\<close> is the
  effect of a method that deletes the keys satisfying \<open>D\<close>; the loops of \<^verbatim>\<open>deleteAccount\<close> each
  erase the keys directly below one prefix.
\<close>

section \<open>Erasing keys\<close>

definition below :: "string \<Rightarrow> string \<Rightarrow> bool" where
  "below p k \<longleftrightarrow> (\<exists>n. k = p @ n \<and> no_slash n)"

definition erases :: "sref \<Rightarrow> (string \<Rightarrow> bool) \<Rightarrow> world \<Rightarrow> world \<Rightarrow> bool" where
  "erases s D w w' \<longleftrightarrow> (\<forall>k. view s w' k = (if D k then None else view s w k))"

lemma erasesD: "erases s D w w' \<Longrightarrow> view s w' k = (if D k then None else view s w k)"
  by (simp add: erases_def)

lemma erases_trans: "erases s D w v \<Longrightarrow> erases s F v w' \<Longrightarrow> erases s (\<lambda>k. D k \<or> F k) w w'"
  by (simp add: erases_def)

lemma erases_tidy: "erases s D w w' \<Longrightarrow> tidy s w \<Longrightarrow> tidy s w'"
  by (auto simp: erases_def tidy_def)

lemma plain_deleted: "plain E s (deleted s ks w) = plain E s w"
  unfolding deleted_def by (induction ks arbitrary: w) (simp_all add: pending_written)

text \<open>In a tidy storage a child with a slash is no key.\<close>

lemma child_plain:
  assumes "tidy s w" and "\<And>x. \<not> tidyKey (q @ x @ ''/'')" and "c \<in> set (children s w p)" and "\<not> no_slash c"
  shows "view s w (q @ c) = None"
proof -
  obtain r where r: "direct_child r = c" using assms(3) by (auto simp: children_child)
  then have "\<not> no_slash r" using assms(4) direct_child_slash [of r] by simp
  then have "\<exists>x. c = x @ ''/''" using r by (auto simp: direct_child_def)
  then obtain x where "c = x @ ''/''" ..
  then show ?thesis using assms(1,2) unfolding tidy_def by blast
qed

lemma deleteListed_erases:
  assumes "storage_ok E" and "plain E s w" and "tidy s w" and "view s w p = None"
    and path: "\<And>n. path n = p @ n" and untidy: "\<And>x. \<not> tidyKey (p @ x @ ''/'')"
  shows "\<exists>w'. deleteListed E s p path w = (Inr (), w') \<and> plain E s w' \<and> erases s (below p) w w'"
proof -
  let ?w' = "deleted s (map (\<lambda>n. p @ n) (children s w p)) w"
  have "deleteListed E s p path w = (Inr (), ?w')"
    using for_listPaged_delete [OF assms(1,2,4)] by (simp add: deleteListed_def path)
  moreover have "erases s (below p) w ?w'"
    unfolding erases_def below_def view_deleted
  proof
    fix k
    have "view s w k = None" if "n \<in> set (children s w p)" "k = p @ n" "\<not> no_slash n" for n
      using child_plain [OF assms(3) untidy that(1,3)] that(2) by simp
    then show "(if k \<in> set (map (\<lambda>n. p @ n) (children s w p)) then None else view s w k) =
        (if \<exists>n. k = p @ n \<and> no_slash n then None else view s w k)"
      by (auto simp: children_key)
  qed
  ultimately show ?thesis using assms(2) by (metis plain_deleted)
qed

lemma sDelete_erases:
  "storage_ok E \<Longrightarrow> plain E s w \<Longrightarrow>
   \<exists>w'. sDelete E s q w = (Inr (), w') \<and> plain E s w' \<and> erases s (\<lambda>k. k = q) w w'"
  by (rule exI [of _ "written s (ActDelete q) w"])
     (simp add: sDelete_ok pending_written erases_def view_written_delete)

section \<open>Users\<close>

lemma deleteUser_delete:
  assumes "storage_ok E"
  shows "thenM (deleteUser E s i False ttl) (returnM ()) w =
    (Inr (), deleted s [user_configPath i, user_nkeyPath i] w)"
  using assms by (simp add: deleteUser_def sDelete_ok returnM_apply deleted_def thenM_def bindM_apply)

lemma foldM_deleteUser:
  assumes "storage_ok E"
  shows "foldM (\<lambda>u _. thenM (deleteUser E s (accountId_userId i u) False 0) (returnM ())) us () w =
    (Inr (), deleted s (concat (map (\<lambda>u. [user_configPath (accountId_userId i u), user_nkeyPath (accountId_userId i u)]) us)) w)"
proof (induction us arbitrary: w)
  case (Cons u us)
  then show ?case by (simp add: deleteUser_delete [OF assms] bindM_apply) (simp add: deleted_def)
qed (simp add: deleted_def returnM_apply)

lemma user_paths: "user_configPath (accountId_userId i u) = account_userConfigPrefix i @ u"
    "user_nkeyPath (accountId_userId i u) = account_userNkeyPrefix i @ u"
    "account_userConfigPrefix i @ x \<noteq> account_userNkeyPrefix i @ y"
  by (simp_all add: path_defs)

lemma deleteUsers_stable:
  assumes "storage_ok E"
  shows "tail_stable s (account_userConfigPrefix i) (plain E s)
    (\<lambda>u _. thenM (deleteUser E s (accountId_userId i u) False 0) (returnM ()))"
  unfolding tail_stable_def
proof (intro allI impI)
  fix x :: string and a :: unit and w r w'
  assume pl: "plain E s w"
    and d: "thenM (deleteUser E s (accountId_userId i x) False 0) (returnM ()) w = (r, w')"
  have w': "w' = deleted s [user_configPath (accountId_userId i x), user_nkeyPath (accountId_userId i x)] w"
    using d by (simp add: deleteUser_delete [OF assms])
  have "c \<in> set (children s w' (account_userConfigPrefix i)) \<longleftrightarrow> c \<in> set (children s w (account_userConfigPrefix i))"
    if "x < c" for c
    using that direct_child_le [of x] unfolding children_child w' view_deleted
    by (simp add: user_paths) (metis leD)
  then show "plain E s w' \<and> (\<forall>c. x < c \<longrightarrow> (c \<in> set (children s w' (account_userConfigPrefix i))
      \<longleftrightarrow> c \<in> set (children s w (account_userConfigPrefix i))))"
    using pl by (simp add: w' plain_deleted)
qed

definition user_part :: "sref \<Rightarrow> world \<Rightarrow> accountId \<Rightarrow> string \<Rightarrow> bool" where
  "user_part s w i k \<longleftrightarrow> (\<exists>u. no_slash u \<and> (k = user_configPath (accountId_userId i u) \<or>
     (k = user_nkeyPath (accountId_userId i u) \<and> view s w (user_configPath (accountId_userId i u)) \<noteq> None)))"

lemma deleteUsers_erases:
  assumes "storage_ok E" and "plain E s w" and "tidy s w"
  shows "\<exists>w'. for_listPaged E s (account_userConfigPrefix i) (\<lambda>u _.
      thenM (deleteUser E s (accountId_userId i u) False 0) (returnM ())) () w = (Inr (), w')
    \<and> plain E s w' \<and> erases s (user_part s w i) w w'"
proof -
  let ?us = "children s w (account_userConfigPrefix i)"
  let ?ks = "concat (map (\<lambda>u. [user_configPath (accountId_userId i u), user_nkeyPath (accountId_userId i u)]) ?us)"
  have "for_listPaged E s (account_userConfigPrefix i) (\<lambda>u _.
      thenM (deleteUser E s (accountId_userId i u) False 0) (returnM ())) () w = (Inr (), deleted s ?ks w)"
    using for_listPaged_all [OF assms(1) deleteUsers_stable [OF assms(1)] _ assms(2) tidy_prefixes(5) [OF assms(3)]]
    by (simp add: foldM_deleteUser [OF assms(1)])
  moreover have "erases s (user_part s w i) w (deleted s ?ks w)"
    unfolding erases_def view_deleted
  proof
    fix k
    have slash: "view s w k = None" if "u \<in> set ?us" "\<not> no_slash u"
        "k = account_userConfigPrefix i @ u \<or> k = account_userNkeyPrefix i @ u" for u
      using child_plain [OF assms(3) untidy_slash(4) that(1,2)]
        child_plain [OF assms(3) untidy_slash(5) that(1,2)] that(3) by auto
    show "(if k \<in> set ?ks then None else view s w k) = (if user_part s w i k then None else view s w k)"
    proof (cases "view s w k")
      case (Some v)
      then have "k \<in> set ?ks \<longleftrightarrow> (\<exists>u \<in> set ?us. no_slash u \<and>
          (k = account_userConfigPrefix i @ u \<or> k = account_userNkeyPrefix i @ u))"
        using slash by (auto simp: user_paths)
      also have "\<dots> \<longleftrightarrow> user_part s w i k"
        using Some by (auto simp: user_part_def user_paths children_key)
      finally show ?thesis by simp
    qed simp
  qed
  ultimately show ?thesis using assms(2) by (metis plain_deleted)
qed

section \<open>Accounts\<close>

text \<open>The keys that belong to an account.\<close>

definition account_part :: "sref \<Rightarrow> world \<Rightarrow> accountId \<Rightarrow> string \<Rightarrow> bool" where
  "account_part s w i k \<longleftrightarrow> k = account_configPath i \<or> k = account_nkeyPath i \<or> k = account_jwtPath i
     \<or> below (account_signingKeyPrefix i) k \<or> below (account_importPrefix i) k
     \<or> below (account_revocationPrefix i) k \<or> user_part s w i k \<or> below (account_ephemeralUserConfigPrefix i) k"

lemma below_other_prefix:
  "\<not> below (account_signingKeyPrefix i) (user_configPath (accountId_userId i u))"
  "\<not> below (account_importPrefix i) (user_configPath (accountId_userId i u))"
  "\<not> below (account_revocationPrefix i) (user_configPath (accountId_userId i u))"
  by (simp_all add: below_def path_defs)

lemma child_paths:
  "accountSigningKey_nkeyPath (accountId_signingKeyId i n) = account_signingKeyPrefix i @ n"
  "accountImport_configPath (accountId_importId i n) = account_importPrefix i @ n"
  "accountRevocation_configPath (accountId_revocationId i n) = account_revocationPrefix i @ n"
  "ephemeralUser_configPath (accountId_ephemeralUserId i n) = account_ephemeralUserConfigPrefix i @ n"
  by (simp_all add: path_defs)

lemma user_part_erased:
  "erases s D w w' \<Longrightarrow> (\<And>u. \<not> D (user_configPath (accountId_userId i u))) \<Longrightarrow> user_part s w' i = user_part s w i"
  by (rule ext) (simp add: user_part_def erases_def)

lemma deleteAccount_erases:
  assumes ok: "storage_ok E" and "plain E s w" and "tidy s w"
  shows "\<exists>w'. deleteAccount E s i w = (Inr (), w') \<and> plain E s w' \<and> erases s (account_part s w i) w w'"
proof -
  obtain w1 where 1: "deleteListed E s (account_signingKeyPrefix i) (\<lambda>n. accountSigningKey_nkeyPath (accountId_signingKeyId i n)) w = (Inr (), w1)"
      "plain E s w1" and e1: "erases s (below (account_signingKeyPrefix i)) w w1"
    using deleteListed_erases [OF assms tidy_prefixes(2) [OF assms(3)] child_paths(1) untidy_slash(1)] by blast
  note t1 = erases_tidy [OF e1 assms(3)]
  obtain w2 where 2: "deleteListed E s (account_importPrefix i) (\<lambda>n. accountImport_configPath (accountId_importId i n)) w1 = (Inr (), w2)"
      "plain E s w2" and e2: "erases s (below (account_importPrefix i)) w1 w2"
    using deleteListed_erases [OF ok 1(2) t1 tidy_prefixes(3) [OF t1] child_paths(2) untidy_slash(2)] by blast
  note t2 = erases_tidy [OF e2 t1]
  obtain w3 where 3: "deleteListed E s (account_revocationPrefix i) (\<lambda>n. accountRevocation_configPath (accountId_revocationId i n)) w2 = (Inr (), w3)"
      "plain E s w3" and e3: "erases s (below (account_revocationPrefix i)) w2 w3"
    using deleteListed_erases [OF ok 2(2) t2 tidy_prefixes(1) [OF t2] child_paths(3) untidy_slash(3)] by blast
  note t3 = erases_tidy [OF e3 t2]
  obtain w4 where 4: "for_listPaged E s (account_userConfigPrefix i) (\<lambda>u _.
      thenM (deleteUser E s (accountId_userId i u) False 0) (returnM ())) () w3 = (Inr (), w4)"
      "plain E s w4" and e4: "erases s (user_part s w3 i) w3 w4"
    using deleteUsers_erases [OF ok 3(2) t3] by blast
  note t4 = erases_tidy [OF e4 t3]
  obtain w5 where 5: "deleteListed E s (account_ephemeralUserConfigPrefix i) (\<lambda>n. ephemeralUser_configPath (accountId_ephemeralUserId i n)) w4 = (Inr (), w5)"
      "plain E s w5" and e5: "erases s (below (account_ephemeralUserConfigPrefix i)) w4 w5"
    using deleteListed_erases [OF ok 4(2) t4 tidy_prefixes(6) [OF t4] child_paths(4) untidy_slash(6)] by blast
  obtain w6 where 6: "sDelete E s (account_nkeyPath i) w5 = (Inr (), w6)" "plain E s w6"
      and e6: "erases s (\<lambda>k. k = account_nkeyPath i) w5 w6"
    using sDelete_erases [OF ok 5(2)] by blast
  obtain w7 where 7: "sDelete E s (account_jwtPath i) w6 = (Inr (), w7)" "plain E s w7"
      and e7: "erases s (\<lambda>k. k = account_jwtPath i) w6 w7"
    using sDelete_erases [OF ok 6(2)] by blast
  obtain w8 where 8: "sDelete E s (account_configPath i) w7 = (Inr (), w8)" "plain E s w8"
      and e8: "erases s (\<lambda>k. k = account_configPath i) w7 w8"
    using sDelete_erases [OF ok 7(2)] by blast
  have users: "user_part s w3 i = user_part s w i"
    using user_part_erased [OF erases_trans [OF erases_trans [OF e1 e2] e3]] by (simp add: below_other_prefix)
  note all = erases_trans [OF erases_trans [OF erases_trans [OF erases_trans [OF erases_trans [OF erases_trans
    [OF erases_trans [OF e1 e2] e3] e4] e5] e6] e7] e8]
  have "erases s (account_part s w i) w w8"
    using all unfolding erases_def account_part_def users by (simp add: disj_ac)
  then show ?thesis using 1 2 3 4 5 6 7 8 by (simp add: deleteAccount_def)
qed

end
