(* ===== verification/Frames.thy ===== *)
theory Frames
  imports Deletion
begin

text \<open>
  What a method leaves alone. \<open>writes_frame\<close> turns the writes a method may make into the paths it
  cannot change. \<open>atomic\<close> says that a method which ends in an error has written nothing to the
  mounted storage: with transactions of the backend, all writes of a handler wait for its
  commit. Its rules follow the syntax of a method, as those of \<open>preserves\<close> do.
\<close>

section \<open>Frames\<close>

lemma apply_actions_other:
  "list_all P as \<Longrightarrow> (\<And>a. P a \<Longrightarrow> action_key a \<noteq> k) \<Longrightarrow> store_get (apply_actions as d) k = store_get d k"
proof (induction as arbitrary: d)
  case (Cons a as)
  have "action_key a \<noteq> k" using Cons.prems by simp
  then have "store_get (apply_action a d) k = store_get d k"
    by (cases a) (auto simp: store_get_put store_get_delete)
  with Cons show ?case by simp
qed simp

lemma writes_frame:
  assumes "preserves (writes P (w_disk w)) m" and "w_tx w = None" and "\<And>a. P a \<Longrightarrow> action_key a \<noteq> k"
  shows "store_get (w_disk (snd (m w))) k = store_get (w_disk w) k"
proof -
  have "writes P (w_disk w) w"
    using assms(2) by (auto simp: writes_def intro!: exI [of _ "[]"])
  with assms(1) have "writes P (w_disk w) (snd (m w))" by (rule preserves_snd)
  then obtain as where "list_all P as" "w_disk (snd (m w)) = apply_actions as (w_disk w)"
    by (auto simp: writes_def)
  with assms(3) show ?thesis by (simp add: apply_actions_other)
qed

text \<open>Pushing an account writes two entries: the account's, with the sync status, and its server's.\<close>

definition sync_writes :: "accountId \<Rightarrow> entry storageAction \<Rightarrow> bool" where
  "sync_writes i a \<longleftrightarrow> action_key a \<in> {account_configPath i, accountServer_configPath (serverOf i)}"

lemma writes_syncAccountUpdate_only: "preserves (writes (sync_writes i) d) (syncAccountUpdate E i)"
proof -
  have S: "preserves (writes (sync_writes i) d) (startAccountServer E (serverOf i) rc)" for rc
    unfolding startAccountServer_def by (intro preserves_rules writes_store) (simp add: sync_writes_def)
  have U: "preserves (writes (sync_writes i) d) (updateAccountSyncStatus E s i e)" for s e
    unfolding updateAccountSyncStatus_def by (intro preserves_rules writes_store) (simp add: sync_writes_def)
  have F: "preserves (writes (sync_writes i) d) (finishUpdate E i e)" for e
    unfolding finishUpdate_def by (intro preserves_rules U)
  show ?thesis unfolding syncAccountUpdate_def by (intro preserves_rules F S)
qed

lemma syncAccountUpdate_frame:
  assumes "w_tx w = None" and "k \<noteq> account_configPath i" and "k \<noteq> accountServer_configPath (serverOf i)"
  shows "store_get (w_disk (snd (syncAccountUpdate E i w))) k = store_get (w_disk w) k"
  by (rule writes_frame [OF writes_syncAccountUpdate_only assms(1)]) (use assms(2,3) in \<open>auto simp: sync_writes_def\<close>)

section \<open>What a push changes of the entries it writes\<close>

text \<open>A method that writes nothing keeps what only the storage decides.\<close>

lemma preserves_unwritten:
  assumes "\<And>d. preserves (writes (\<lambda>_. False) d) m"
    and "\<And>v w. I v \<Longrightarrow> w_disk w = w_disk v \<Longrightarrow> w_tx w \<in> {None, Some []} \<Longrightarrow> I w"
    and "\<And>v. I v \<Longrightarrow> w_tx v \<in> {None, Some []}"
  shows "preserves I m"
proof (rule preservesI)
  fix w r w' assume I: "I w" and run: "m w = (r, w')"
  have "writes (\<lambda>_. False) (w_disk w) w" using assms(3) [OF I] by (auto simp: writes_def intro!: exI [of _ "[]"])
  then have "writes (\<lambda>_. False) (w_disk w) w'" using assms(1) run by (auto dest: preservesD)
  then have "w_disk w' = w_disk w" and "w_tx w' \<in> {None, Some []}"
    by (auto simp: writes_def list_all_iff split: option.splits)
  then show "I w'" using assms(2) [OF I] by blast
qed

text \<open>What is read is used only as the invariant says.\<close>

lemma preserves_bind_read:
  assumes "preserves I m" and "\<And>w x w'. I w \<Longrightarrow> m w = (Inr x, w') \<Longrightarrow> Q x" and "\<And>x. Q x \<Longrightarrow> preserves I (f x)"
  shows "preserves I (bindM m f)"
proof (rule preservesI)
  fix w r w' assume I: "I w" and eq: "bindM m f w = (r, w')"
  obtain q v where m: "m w = (q, v)" by fastforce
  with assms(1) I have "I v" by (rule preservesD)
  then show "I w'"
    using eq m assms(2) [OF I] assms(3) by (cases q) (auto simp: bindM_def dest: preservesD)
qed

text \<open>\<open>status_only i d\<close>: of the entries of the account and of its server, only the statuses differ from \<open>d\<close>.\<close>

definition status_only :: "accountId \<Rightarrow> entry store \<Rightarrow> world \<Rightarrow> bool" where
  "status_only i d w \<longleftrightarrow> w_tx w \<in> {None, Some []}
     \<and> (\<forall>acc. store_get d (account_configPath i) = Some (EAccount acc) \<longrightarrow> (\<exists>sync.
         store_get (w_disk w) (account_configPath i) = Some (EAccount (acc\<lparr>acc_Status := (acc_Status acc)\<lparr>st_Sync := sync\<rparr>\<rparr>))))
     \<and> (\<forall>server. store_get d (accountServer_configPath (serverOf i)) = Some (EAccountServer server) \<longrightarrow> (\<exists>st.
         store_get (w_disk w) (accountServer_configPath (serverOf i)) = Some (EAccountServer (server\<lparr>ase_Status := st\<rparr>))))
     \<and> (store_get d (accountServer_configPath (serverOf i)) = None \<longrightarrow>
         store_get (w_disk w) (accountServer_configPath (serverOf i)) = None)"

lemma status_only_unwritten:
  "(\<And>d. preserves (writes (\<lambda>_. False) d) m) \<Longrightarrow> preserves (status_only i d) m"
  by (rule preserves_unwritten) (auto simp: status_only_def)

lemma status_only_store_server:
  assumes "\<And>server. store_get d (accountServer_configPath (serverOf i)) = Some (EAccountServer server) \<Longrightarrow> \<exists>st. entry = server\<lparr>ase_Status := st\<rparr>"
    and "store_get d (accountServer_configPath (serverOf i)) \<noteq> None"
  shows "preserves (status_only i d) (storeInStorage E Base (accountServer_configPath (serverOf i)) (EAccountServer entry))"
  using assms by (auto simp: preserves_def status_only_def storeInStorage_def sWrite_def pending_def store_get_put path_defs split: option.split)

lemma status_only_store_account:
  assumes "\<And>acc. store_get d (account_configPath i) = Some (EAccount acc) \<Longrightarrow>
    \<exists>sync. entry = acc\<lparr>acc_Status := (acc_Status acc)\<lparr>st_Sync := sync\<rparr>\<rparr>"
  shows "preserves (status_only i d) (storeInStorage E Base (account_configPath i) (EAccount entry))"
  using assms by (auto simp: preserves_def status_only_def storeInStorage_def sWrite_def pending_def store_get_put path_defs split: option.split)

lemma status_only_start: "preserves (status_only i d) (startAccountServer E (serverOf i) rc)"
  unfolding startAccountServer_def
proof (rule preserves_bind_read [where Q = "\<lambda>a. case a of None \<Rightarrow> True | Some entry \<Rightarrow>
      store_get d (accountServer_configPath (serverOf i)) \<noteq> None \<and> (\<forall>server.
        store_get d (accountServer_configPath (serverOf i)) = Some (EAccountServer server) \<longrightarrow> (\<exists>st. entry = server\<lparr>ase_Status := st\<rparr>))"])
  show "preserves (status_only i d) (AccountServer E Base (serverOf i))" by (intro preserves_rules)
next
  fix w a w' assume "status_only i d w" and "AccountServer E Base (serverOf i) w = (Inr a, w')"
  then show "case a of None \<Rightarrow> True | Some entry \<Rightarrow> store_get d (accountServer_configPath (serverOf i)) \<noteq> None \<and> (\<forall>server.
      store_get d (accountServer_configPath (serverOf i)) = Some (EAccountServer server) \<longrightarrow> (\<exists>st. entry = server\<lparr>ase_Status := st\<rparr>))"
    by (auto simp: status_only_def serverAt_def view_Base dest!: reader_Inr(9) split: option.split entry.splits; blast)
next
  fix a
  assume a: "case a of None \<Rightarrow> True | Some entry \<Rightarrow> store_get d (accountServer_configPath (serverOf i)) \<noteq> None \<and> (\<forall>server.
      store_get d (accountServer_configPath (serverOf i)) = Some (EAccountServer server) \<longrightarrow> (\<exists>st. entry = server\<lparr>ase_Status := st\<rparr>))"
  have update: "\<exists>st. serverStatusUpdate E e (server\<lparr>ase_Status := st'\<rparr>) = server\<lparr>ase_Status := st\<rparr>" for e server st'
    by (auto simp: serverStatusUpdate_def Let_def split: option.split)
  have connect: "preserves (status_only i d) (catchFail (connectAccountServer E (serverOf i) entry srv))" for entry srv
    by (rule status_only_unwritten) (intro preserves_rules)
  show "preserves (status_only i d) (case a of None \<Rightarrow> returnM None | Some entry \<Rightarrow> if Suspended entry then returnM None
     else bindM (getsM (\<lambda>w. map_of (w_accServerCache w) (asi_op (serverOf i)))) (\<lambda>srv.
       bindM (if rc \<or> srv = None then catchFail (connectAccountServer E (serverOf i) entry srv)
              else returnM (Inr (the srv))) (\<lambda>r.
       let syncErr = (case r of Inl e \<Rightarrow> Some e | Inr _ \<Rightarrow> None);
           srv' = (case r of Inl e \<Rightarrow> srv | Inr s \<Rightarrow> Some s) in
       thenM (if serverStatusDirty syncErr entry
              then storeInStorage E Base (accountServer_configPath (serverOf i)) (EAccountServer (serverStatusUpdate E syncErr entry))
              else returnM ())
         (returnM srv'))))"
    by (intro preserves_rules connect status_only_store_server) (use a update in \<open>auto split: option.splits\<close>)
qed

lemma status_only_update: "preserves (status_only i d) (updateAccountSyncStatus E Base i e)"
proof -
  have "preserves (status_only i d) (bindM (Account E Base i) (\<lambda>a. bindM (deref a) (\<lambda>account.
       let st = acc_Status account in
       storeInStorage E Base (account_configPath i) (EAccount (account\<lparr>acc_Status :=
         st\<lparr>st_Sync := Some (syncStatusUpdate E e (st_Sync st))\<rparr>\<rparr>)))))"
  proof (rule preserves_bind_read [where Q = "\<lambda>a. \<forall>acc. store_get d (account_configPath i) = Some (EAccount acc) \<longrightarrow>
      (\<exists>sync. a = Some (acc\<lparr>acc_Status := (acc_Status acc)\<lparr>st_Sync := sync\<rparr>\<rparr>))"])
    show "preserves (status_only i d) (Account E Base i)" by (intro preserves_rules)
  next
    fix w a w' assume "status_only i d w" and "Account E Base i w = (Inr a, w')"
    then show "\<forall>acc. store_get d (account_configPath i) = Some (EAccount acc) \<longrightarrow>
        (\<exists>sync. a = Some (acc\<lparr>acc_Status := (acc_Status acc)\<lparr>st_Sync := sync\<rparr>\<rparr>))"
      by (fastforce simp: status_only_def accountAt_def view_Base dest!: reader_Inr(4))
  next
    fix a assume a: "\<forall>acc. store_get d (account_configPath i) = Some (EAccount acc) \<longrightarrow>
        (\<exists>sync. a = Some (acc\<lparr>acc_Status := (acc_Status acc)\<lparr>st_Sync := sync\<rparr>\<rparr>))"
    have "preserves (status_only i d) (storeInStorage E Base (account_configPath i) (EAccount (account\<lparr>acc_Status :=
         (acc_Status account)\<lparr>st_Sync := Some (syncStatusUpdate E e (st_Sync (acc_Status account)))\<rparr>\<rparr>)))" if "a = Some account" for account
      by (rule status_only_store_account) (use a that in \<open>auto; blast\<close>)
    then show "preserves (status_only i d) (bindM (deref a) (\<lambda>account. let st = acc_Status account in
       storeInStorage E Base (account_configPath i) (EAccount (account\<lparr>acc_Status :=
         st\<lparr>st_Sync := Some (syncStatusUpdate E e (st_Sync st))\<rparr>\<rparr>))))"
      by (cases a) (simp_all add: deref_def Let_def preserves_throw)
  qed
  then show ?thesis unfolding updateAccountSyncStatus_def by (rule preserves_WithTransaction)
qed

text \<open>So a push, however it ends, changes no more of these two entries than their statuses.\<close>

lemma syncAccountUpdate_status_only:
  assumes "w_tx w = None"
  shows "status_only i (w_disk w) (snd (syncAccountUpdate E i w))"
proof -
  have pop: "preserves (status_only i d) (bindM (popAccountServer (ai_op i)) CloseConnection)" for d
    by (rule status_only_unwritten) (intro preserves_rules)
  have push: "preserves (status_only i d) (catchFail (UpdateAccount E srv token))" for d srv token
    by (rule status_only_unwritten) (intro preserves_rules)
  have F: "preserves (status_only i d) (finishUpdate E i e)" for d e
    unfolding finishUpdate_def by (intro preserves_rules pop status_only_update)
  have same: "\<exists>sync. acc = acc\<lparr>acc_Status := (acc_Status acc)\<lparr>st_Sync := sync\<rparr>\<rparr>" "\<exists>st. server = server\<lparr>ase_Status := st\<rparr>" for acc server
    by (rule exI [of _ "st_Sync (acc_Status acc)"], simp, rule exI [of _ "ase_Status server"], simp)
  have "preserves (status_only i (w_disk w)) (syncAccountUpdate E i)"
    unfolding syncAccountUpdate_def by (intro preserves_rules F push status_only_start)
  moreover have "status_only i (w_disk w) w"
    unfolding status_only_def using assms same by auto
  ultimately show ?thesis by (rule preserves_snd)
qed

section \<open>Transactions of the backend\<close>

text \<open>\<open>untouched d\<close>: the mounted storage is \<open>d\<close>, and what was written since waits in a transaction.\<close>

definition untouched :: "entry store \<Rightarrow> world \<Rightarrow> bool" where
  "untouched d w \<longleftrightarrow> w_disk w = d \<and> w_tx w \<noteq> None"

lemma untouched_sWrite: "preserves (untouched d) (sWrite E Req opn a)"
  by (auto simp: preserves_def untouched_def sWrite_def pending_def split: option.splits)

lemma untouched_Req [preserves_rules]:
  "preserves (untouched d) (storeInStorage E Req k v)" "preserves (untouched d) (sDelete E Req k)"
  unfolding storeInStorage_def sDelete_def by (rule untouched_sWrite)+

lemma untouched_modify:
  "(\<And>w. w_disk (f w) = w_disk w \<and> w_tx (f w) = w_tx w) \<Longrightarrow> preserves (untouched d) (modifyM f)"
  by (simp add: preserves_def modifyM_apply untouched_def)

lemma untouched_state [preserves_rules]:
  "preserves (untouched d) (createSeed E px)" "preserves (untouched d) (popAccountServer n)"
  "preserves (untouched d) (CloseConnection srv)"
proof -
  show "preserves (untouched d) (createSeed E px)"
    by (auto simp: preserves_def createSeed_def untouched_def split: option.splits)
  show "preserves (untouched d) (popAccountServer n)"
    by (auto simp: preserves_def popAccountServer_def untouched_def)
  show "preserves (untouched d) (CloseConnection srv)"
    unfolding CloseConnection_def natsConn_Drain_def by (intro preserves_rules untouched_modify) simp
qed

lemma untouched_issue [preserves_rules]:
  "preserves (untouched d) (issueAndSaveOperatorJWT E Req oid)"
  "preserves (untouched d) (issueAndSaveAccountJWT E Req rd)"
  unfolding issueAndSaveOperatorJWT_def issueAndSaveAccountJWT_def storeAccountJWT_def
  by (intro preserves_rules)+

lemma untouched_methods [preserves_rules]:
  "preserves (untouched d) (NewOperatorNKey E)" "preserves (untouched d) (NewAccountNKey E)"
  "preserves (untouched d) (NewUserNKey E)" "preserves (untouched d) (suspendAccountServer E Req si)"
  "preserves (untouched d) (addUserToRevocationList E Req ai ui ttl)"
  "preserves (untouched d) (deleteUser E Req ui rvk ttl)"
  unfolding NewOperatorNKey_def NewAccountNKey_def NewUserNKey_def suspendAccountServer_def
    addUserToRevocationList_def deleteUser_def
  by (intro preserves_rules)+

lemma untouched_deleteAccount [preserves_rules]: "preserves (untouched d) (deleteAccount E Req ai)"
  unfolding deleteAccount_def deleteListed_def by (intro preserves_rules)

lemma untouched_operator [preserves_rules]:
  "preserves (untouched d) (operatorStore E oi f)" "preserves (untouched d) (reissueIssuedBy E oi old resp)"
  unfolding operatorStore_def cleanupSystemAccount_def setupSystemAccount_def createAccountNkeyAndJwt_def
    reissueOperator_def reissueDefaultSigned_def reissueIssuedBy_def
  by (intro preserves_rules)+

section \<open>All or nothing\<close>

named_theorems atomic_rules \<open>introduction rules for \<open>atomic\<close>\<close>

definition atomic :: "entry store \<Rightarrow> 'a m \<Rightarrow> bool" where
  "atomic d m \<longleftrightarrow> (\<forall>w e w'. untouched d w \<longrightarrow> m w = (Inl e, w') \<longrightarrow> w_disk w' = d)"

lemma atomic_bind [atomic_rules]:
  assumes "preserves (untouched d) m" and "\<And>x. atomic d (f x)"
  shows "atomic d (bindM m f)"
  unfolding atomic_def
proof (intro allI impI)
  fix w e w' assume u: "untouched d w" and eq: "bindM m f w = (Inl e, w')"
  obtain q v where m: "m w = (q, v)" by fastforce
  then have v: "untouched d v" using assms(1) u by (metis preservesD)
  show "w_disk w' = d"
  proof (cases q)
    case (Inl x)
    then show ?thesis using eq m v by (simp add: untouched_def)
  next
    case (Inr x)
    then have "f x v = (Inl e, w')" using eq m by simp
    then show ?thesis using assms(2) v by (auto simp: atomic_def)
  qed
qed

lemma atomic_then [atomic_rules]: "preserves (untouched d) m \<Longrightarrow> atomic d k \<Longrightarrow> atomic d (thenM m k)"
  unfolding thenM_def by (rule atomic_bind)

lemma atomic_throw [atomic_rules]: "atomic d (throwM e)"
  by (auto simp: atomic_def throwM_apply untouched_def)

lemma atomic_exits [atomic_rules]: "atomic d (returnError msg)" "atomic d returnNil" "atomic d (returnM x)"
  by (auto simp: atomic_def returnError_def returnNil_def throwM_apply returnM_apply untouched_def)

lemma atomic_cases [atomic_rules]:
  "(c \<Longrightarrow> atomic d a) \<Longrightarrow> (\<not> c \<Longrightarrow> atomic d b) \<Longrightarrow> atomic d (if c then a else b)"
  "atomic d a \<Longrightarrow> (\<And>y. atomic d (g y)) \<Longrightarrow> atomic d (case z of None \<Rightarrow> a | Some y \<Rightarrow> g y)"
  "(\<And>y. atomic d (h y)) \<Longrightarrow> atomic d (let y = x in h y)"
  by (auto split: option.split simp: Let_def)

text \<open>A commit that fails leaves the storage alone; nothing can fail after one that succeeds.\<close>

lemma atomic_commit:
  assumes "e_native E"
  shows "atomic d (thenM (EndTxStorage E) (returnM x))"
  unfolding atomic_def
proof (intro allI impI)
  fix w e w' assume u: "untouched d w" and r: "thenM (EndTxStorage E) (returnM x) w = (Inl e, w')"
  obtain as where as: "w_tx w = Some as" using u by (auto simp: untouched_def)
  show "w_disk w' = d"
    using r u as assms
    by (cases "e_storageFails E OpCommit []")
       (auto simp: EndTxStorage_def thenM_def bindM_apply returnM_apply untouched_def)
qed

text \<open>A handler that reports an error leaves the storage as it found it.\<close>

definition contained :: "'a m \<Rightarrow> bool" where
  "contained m \<longleftrightarrow> (\<forall>w e w'. m w = (Inl e, w') \<longrightarrow> w_disk w' = w_disk w)"

lemma contained_withTx:
  assumes "\<And>d. atomic d body"
  shows "contained (withTx E body)"
  unfolding contained_def
proof (intro allI impI)
  fix w e w' assume r: "withTx E body w = (Inl e, w')"
  obtain q w1 where s: "StartTxStorageWithShim E w = (q, w1)" by fastforce
  then have w1: "w_disk w1 = w_disk w" "q = Inr () \<Longrightarrow> untouched (w_disk w) w1"
    by (auto simp: StartTxStorageWithShim_def untouched_def split: option.splits)
  show "w_disk w' = w_disk w"
  proof (cases q)
    case (Inl x)
    then show ?thesis using r s w1 by (cases x) (auto simp: withTx_def handler_def)
  next
    case (Inr u)
    obtain x w2 where b: "body w1 = (x, w2)" by fastforce
    have tx: "withTx E body w = (case x of Inl (EarlyReturn y) \<Rightarrow> Inr y | Inl err \<Rightarrow> Inl err | Inr y \<Rightarrow> Inr y, w2\<lparr>w_tx := None\<rparr>)"
      unfolding withTx_def handler_def s b Inr by (simp add: s b Inr split: sum.split err.split)
    have "x = Inl e" and w': "w' = w2\<lparr>w_tx := None\<rparr>"
      using r unfolding tx by (auto split: sum.splits err.splits)
    have "w_disk w2 = w_disk w"
      using assms [of "w_disk w", unfolded atomic_def, rule_format, of w1 e w2] w1(2) b Inr \<open>x = Inl e\<close> by simp
    then show ?thesis by (simp add: w')
  qed
qed

text \<open>The requests all of whose writes are in their transaction.\<close>

fun transactional :: "request \<Rightarrow> bool" where
  "transactional (OperatorRequest (OperatorWrite i f)) = True"
| "transactional (OperatorRequest (OperatorDelete i)) = True"
| "transactional (OperatorRequest (OperatorSigningKeyWrite i)) = True"
| "transactional (UserRequest (UserWrite i f)) = True"
| "transactional (UserRequest (EphemeralUserWrite i f)) = True"
| "transactional (UserRequest (EphemeralUserDelete i)) = True"
| "transactional (ServerRequest (AccountServerDelete i)) = True"
| "transactional (RotateRequest (RotateOperator i)) = True"
| "transactional (RotateRequest (RotateOperatorSigningKey i)) = True"
| "transactional (RotateRequest (RotateUser i revoke)) = True"
| "transactional _ = False"

lemma contained_handlers:
  assumes "e_native E"
  shows "contained (pathOperatorCreateUpdate E oi f)"
    and "contained (pathOperatorDelete E oi)"
    and "contained (pathOperatorSigningNkeyCreateUpdate E ki)"
    and "contained (pathUserCreateUpdate E ui uf)"
    and "contained (pathEphemeralUserCreateUpdate E ei ef)"
    and "contained (pathEphemeralUserDelete E ei)"
    and "contained (pathAccountServerDelete E si)"
    and "contained (pathRotateOperator E oi)"
    and "contained (pathRotateOperatorSigningKey E ki)"
    and "contained (pathUserKeyRotate E ui revoke)"
  unfolding pathOperatorCreateUpdate_def pathOperatorDelete_def pathOperatorSigningNkeyCreateUpdate_def
    pathUserCreateUpdate_def pathEphemeralUserCreateUpdate_def pathEphemeralUserDelete_def pathAccountServerDelete_def
    pathRotateOperator_def pathRotateOperatorSigningKey_def pathUserKeyRotate_def Let_def
  by (rule contained_withTx, (rule atomic_commit [OF assms] | rule atomic_rules preserves_rules)+)+

lemma contained_transactional: "e_native E \<Longrightarrow> transactional r \<Longrightarrow> contained (handle E r)"
  by (cases r rule: transactional.cases) (simp_all add: contained_handlers)

end
