(* ===== verification/Refusals.thy ===== *)
theory Refusals
  imports Frames
begin

text \<open>
  The early returns of the handlers are refusals: responses with an error and without a secret,
  or no response. So a response without an error comes from the end of the handler's body, after
  its commit; \<open>withTx_success\<close> gives the run of that body.
\<close>

named_theorems refuses_rules \<open>introduction rules for \<open>refuses\<close>\<close>

definition refuses :: "'a m \<Rightarrow> bool" where
  "refuses m \<longleftrightarrow> (\<forall>w r w'. m w = (Inl (EarlyReturn (Some r)), w') \<longrightarrow> r_Error r \<noteq> None \<and> r_Secret r = None)"

lemma refuses_bind [refuses_rules]: "refuses m \<Longrightarrow> (\<And>x. refuses (f x)) \<Longrightarrow> refuses (bindM m f)"
  unfolding refuses_def bindM_apply by (auto split: prod.splits sum.splits)

lemma refuses_basic [refuses_rules]:
  "refuses (returnM x)" "refuses (throwM (Fail msg))" "refuses (returnError msg)" "refuses (liftOption msg z)"
  "refuses (sGet E s k)" "refuses (createSeed E px)"
  by (auto simp: refuses_def run_simps returnError_def ErrorResponse_def emptyResponse_def liftOption_def
      sGet_def createSeed_def split: option.splits)

lemma refuses_cases [refuses_rules]:
  "(c \<Longrightarrow> refuses a) \<Longrightarrow> (\<not> c \<Longrightarrow> refuses b) \<Longrightarrow> refuses (if c then a else b)"
  "refuses a \<Longrightarrow> (\<And>y. refuses (g y)) \<Longrightarrow> refuses (case z of None \<Rightarrow> a | Some y \<Rightarrow> g y)"
  "(\<And>y. refuses (h y)) \<Longrightarrow> refuses (let y = x in h y)"
  "(\<And>y z. refuses (k y z)) \<Longrightarrow> refuses (case q of (y, z) \<Rightarrow> k y z)"
  "(\<And>y. refuses (e y)) \<Longrightarrow> (\<And>y. refuses (f y)) \<Longrightarrow> refuses (case v of Inl y \<Rightarrow> e y | Inr y \<Rightarrow> f y)"
  by (auto split: option.split prod.split sum.split simp: Let_def)

lemma refuses_catchFail [refuses_rules]: "refuses m \<Longrightarrow> refuses (catchFail m)"
  unfolding refuses_def catchFail_def by (auto split: prod.splits sum.splits err.splits)

lemma refuses_wrappers [refuses_rules]: "refuses m \<Longrightarrow> refuses (wrapErr msg m)" "refuses m \<Longrightarrow> refuses (respondErr msg m)"
  unfolding wrapErr_def respondErr_def by (intro refuses_rules; assumption)+

lemma refuses_readers [refuses_rules]:
  "refuses (get E s k decode)" "refuses (Nkey E s p)" "refuses (Account E s ai)" "refuses (User E s ui)"
  "refuses (EphemeralUser E s ei)" "refuses (keyPair E n)" "refuses (PublicKey E kp)"
  unfolding reader_defs get_def keyPair_def PublicKey_def by (intro refuses_rules)+

lemma refuses_claims [refuses_rules]:
  "refuses (innerClaims raw)" "refuses (readLimitFlags raw)" "refuses (userClaims E rawOpt sub)"
  "refuses (credsSigningKey E ai req dflt)" "refuses (enrichUserClaims E s eup)"
  unfolding innerClaims_def readLimitFlags_def userClaims_def credsSigningKey_def enrichUserClaims_def
  by (intro refuses_rules)+

lemma handler_secret:
  assumes "refuses m" and "handler m w = (Inr (Some r), w')" and "r_Secret r \<noteq> None"
  shows "m w = (Inr (Some r), w')"
proof -
  have "m w = (Inr (Some r), w') \<or> m w = (Inl (EarlyReturn (Some r)), w')"
    using assms(2) by (auto simp: handler_def split: prod.splits sum.splits err.splits)
  moreover have "m w \<noteq> (Inl (EarlyReturn (Some r)), w')"
    using assms(1,3) by (metis refuses_def)
  ultimately show ?thesis by blast
qed


section \<open>The methods\<close>

lemma refuses_state [refuses_rules]:
  "refuses (getsM g)" "refuses (modifyM h)" "refuses (sWrite E s opn act)" "refuses (EndTxStorage E)"
  "refuses (storeInStorage E s k x)" "refuses (sDelete E s k)" "refuses (sListPage E s p after limit)"
  "refuses accCacheRLock" "refuses accCacheRUnlock" "refuses accCacheLock" "refuses (throwM NilPointer)"
  "refuses (throwM Diverge)" "refuses (deref z)" "refuses (popAccountServer n)" "refuses (putAccountServer n srv)"
  by (auto simp: refuses_def run_simps getsM_def modifyM_def sWrite_def EndTxStorage_def storeInStorage_def sDelete_def
      sListPage_def accCacheRLock_def accCacheRUnlock_def accCacheLock_def deref_def popAccountServer_def putAccountServer_def listFailure_def
      split: option.splits prod.splits if_splits sum.splits list_fault.splits)

lemma refuses_then [refuses_rules]: "refuses a \<Longrightarrow> refuses b \<Longrightarrow> refuses (thenM a b)"
  unfolding thenM_def by (intro refuses_rules)

lemma refuses_fold [refuses_rules]: "(\<And>x a. refuses (body x a)) \<Longrightarrow> refuses (foldM body xs a)"
proof (induction xs arbitrary: a)
  case (Cons x xs)
  then show ?case by (simp add: refuses_bind)
qed (simp add: refuses_basic)

lemma refuses_pages:
  "(\<And>x a. refuses (body x a)) \<Longrightarrow> refuses (for_pages n E s p body after a)"
proof (induction n arbitrary: after a)
  case (Suc n)
  show ?case unfolding for_pages.simps by (intro refuses_rules Suc.prems Suc.IH)
qed (simp add: refuses_state)

lemma refuses_listPaged [refuses_rules]:
  "(\<And>x a. refuses (body x a)) \<Longrightarrow> refuses (for_listPaged E s p body a)"
  using refuses_pages [of body] by (simp add: refuses_def for_listPaged_def)

lemma refuses_entries [refuses_rules]:
  "(\<And>n. refuses (read n)) \<Longrightarrow> (\<And>n x a. refuses (body n x a)) \<Longrightarrow> refuses (for_entries E s p read body a)"
  unfolding for_entries_def by (intro refuses_rules)

lemma refuses_generators [refuses_rules]:
  "(\<And>n x a. refuses (accBody n x a)) \<Longrightarrow> refuses (for_Accounts E s oid accBody a0)"
  "(\<And>n x a. refuses (keyBody n x a)) \<Longrightarrow> refuses (for_OperatorSigningKeys E s oid keyBody a0)"
  "(\<And>n x a. refuses (keyBody n x a)) \<Longrightarrow> refuses (for_AccountSigningKeys E s aid keyBody a0)"
  "(\<And>n x a. refuses (revBody n x a)) \<Longrightarrow> refuses (for_AccountRevocations E s aid revBody a0)"
  "(\<And>n x a. refuses (impBody n x a)) \<Longrightarrow> refuses (for_AccountImports E s aid impBody a0)"
  unfolding for_Accounts_def for_OperatorSigningKeys_def for_AccountSigningKeys_def for_AccountRevocations_def
    for_AccountImports_def reader_defs
  by (intro refuses_rules; assumption?)+

lemma refuses_keys [refuses_rules]:
  "refuses (publicKey E n)" "refuses (validateSeed E seed px)" "refuses (NewOperatorNKey E)"
  "refuses (NewAccountNKey E)" "refuses (NewUserNKey E)" "refuses (AccountRevocation E s ri)"
  "refuses (AccountImport E s ii)" "refuses (AccountServer E s si)" "refuses (Operator E s oi)" "refuses (Jwt E s pt)"
  unfolding publicKey_def validateSeed_def NewOperatorNKey_def NewAccountNKey_def NewUserNKey_def reader_defs
  by (intro refuses_rules)+

lemma refuses_reader [refuses_rules]: "refuses (reader_Account E s rd)"
  by (cases rd) (simp_all add: reader_Account_def refuses_readers refuses_basic)

lemma refuses_issue [refuses_rules]:
  "refuses (issueAndSaveOperatorJWT E s oid)" "refuses (issueAndSaveAccountJWT E s rd)"
  unfolding issueAndSaveOperatorJWT_def issueAndSaveAccountJWT_def storeAccountJWT_def operatorClaims_def
    enrichOperatorClaims_def selectSigningKey_def namedKey_def operatorKey_def keyPairAt_def
    accountClaims_def enrichAccountClaims_def addAccountSigningKey_def
  by (intro refuses_rules)+

lemma refuses_natsConn [refuses_rules]:
  "refuses (natsConn_Drain c)" "refuses (natsConn_SubscribeSync E c subj)" "refuses (natsConn_Subscribe E c subj)"
  "refuses (natsConn_PublishRequest E c subj reply payload)" "refuses (CloseConnection srv)"
  unfolding natsConn_Drain_def natsConn_SubscribeSync_def natsConn_Subscribe_def natsConn_PublishRequest_def
    natsConn_Publish_def CloseConnection_def
  by (intro refuses_rules)+

lemma refuses_connect [refuses_rules]: "refuses (natsConnect E si servers key)"
proof -
  have "refuses (\<lambda>w. NewNatsConnection E servers creds (sign w) w)" for creds sign
    by (simp add: refuses_def NewNatsConnection_def split: option.split)
  then show ?thesis unfolding natsConnect_def authUserJwt_def by (intro refuses_rules)
qed

lemma refuses_servers [refuses_rules]: "refuses (startAccountServer E si rc)"
  unfolding startAccountServer_def connectAccountServer_def createAuthKey_def NewAccountServer_def
  by (intro refuses_rules)

lemma refuses_awaitReplies [refuses_rules]: "refuses (awaitReplies E rs)"
  by (induction rs) (auto intro!: refuses_rules split: sum.split option.split)

lemma refuses_status [refuses_rules]: "refuses (updateAccountSyncStatus E s ai err)"
proof -
  have commit: "refuses (\<lambda>w. case e_storageFails E OpCommit [] of Some e \<Rightarrow> (Inl (Fail e), w) | None \<Rightarrow> (Inr (), w))"
    by (simp add: refuses_def split: option.split)
  have "refuses (WithTransaction E s m)" if "refuses m" for m
    using refuses_then [OF that commit] that
    unfolding WithTransaction_def refuses_def by (simp split: option.split)
  note tx = this
  show ?thesis unfolding updateAccountSyncStatus_def by (rule tx, intro refuses_rules)
qed

lemma refuses_sync [refuses_rules]:
  "refuses (UpdateAccount E srv token)" "refuses (DeleteAccount E srv k1 k2)" "refuses (finishUpdate E ai err)"
  "refuses (syncAccountUpdate E ai)" "refuses (syncAccountDelete E ai)" "refuses (syncAccountRotate E old ai)"
  "refuses (syncOrWarn E ai resp)"
  unfolding UpdateAccount_def DeleteAccount_def claimUpdateRequest_def finishUpdate_def syncAccountUpdate_def
    syncAccountDelete_def syncAccountRotate_def syncOrWarn_def
  by (intro refuses_rules)+

lemma refuses_returnNil [refuses_rules]: "refuses returnNil"
  by (simp add: refuses_def returnNil_def throwM_apply)

lemma refuses_orNilNkey [refuses_rules]: "refuses m \<Longrightarrow> refuses (orNilNkey m)"
  unfolding orNilNkey_def by (intro refuses_rules)

section \<open>Successful handlers\<close>

lemma withTx_success:
  assumes "refuses body" and "storage_ok E" and "withTx E body w = (Inr (Some r), w')" and "r_Error r = None"
  obtains w2 where "body (w\<lparr>w_tx := Some []\<rparr>) = (Inr (Some r), w2)" and "w' = w2\<lparr>w_tx := None\<rparr>"
proof -
  obtain x w2 where x: "body (w\<lparr>w_tx := Some []\<rparr>) = (x, w2)" by fastforce
  have "handler (\<lambda>_. (x, w2\<lparr>w_tx := None\<rparr>)) w = (Inr (Some r), w')"
    using assms(3) by (simp add: withTx_def handler_def StartTx_ok [OF assms(2)] x)
  then have "w' = w2\<lparr>w_tx := None\<rparr>" and "x = Inr (Some r) \<or> x = Inl (EarlyReturn (Some r))"
    by (auto simp: handler_def split: sum.splits err.splits)
  moreover have "x \<noteq> Inl (EarlyReturn (Some r))" using assms(1,4) x unfolding refuses_def by (metis)
  ultimately show ?thesis using x that by blast
qed

end
