(* ===== verification/CredsFacts.thy ===== *)
theory CredsFacts
  imports Refusals
begin

text \<open>
  What the credentials say: which key signs a user's JWT, which limits it carries, when it
  expires, how long its lease runs; and what revoking a lease leaves behind.
\<close>

section \<open>The claims of a user\<close>

text \<open>The key that signs for an account: its identity key, or the named signing key with its scope.\<close>

definition user_signer :: "sref \<Rightarrow> world \<Rightarrow> accountId \<Rightarrow> string \<Rightarrow> (nkeyEntry \<times> nkeyEntry option) option" where
  "user_signer s w i n = Option.bind (nkeyAt s w (account_nkeyPath i)) (\<lambda>acc.
     if n = [] then Some (acc, None)
     else map_option (\<lambda>nk. (acc, Some nk)) (nkeyAt s w (accountSigningKey_nkeyPath (accountId_signingKeyId i n))))"

text \<open>
  The limits of a user: none of its own under a scoped key; else those the custom claims mention, and
  no limit for what they do not mention.
\<close>

definition granted_limits :: "nkeyEntry option \<Rightarrow> string set \<Rightarrow> permission_limits \<Rightarrow> permission_limits" where
  "granted_limits named mentioned l =
     (if case named of Some nk \<Rightarrow> nk_Scoped nk | None \<Rightarrow> False
      then \<lparr>pl_Subs = 0, pl_Data = 0, pl_Payload = 0, pl_Src = None, pl_Other = JObj []\<rparr>
      else \<lparr>pl_Subs = (if ''subs'' \<in> mentioned then pl_Subs l else -1),
        pl_Data = (if ''data'' \<in> mentioned then pl_Data l else -1),
        pl_Payload = (if ''payload'' \<in> mentioned then pl_Payload l else -1),
        pl_Src = (if ''src'' \<notin> mentioned \<and> pl_Src l = None then Some [] else pl_Src l),
        pl_Other = pl_Other l\<rparr>)"

definition enriched_limits :: "limitFlags \<Rightarrow> nkeyEntry option \<Rightarrow> permission_limits \<Rightarrow> permission_limits" where
  "enriched_limits flags named l = (case named of
     Some nk \<Rightarrow> if nk_Scoped nk then zeroLimits else userDefaultLimits flags l
   | None \<Rightarrow> userDefaultLimits flags l)"

lemma enrichUserClaims_Inr:
  assumes "enrichUserClaims E s p w = (Inr (kp, ws, claims), w')"
  shows "w' = w \<and> (\<exists>acc named iss. user_signer s w (AccountId (eup_op p) (eup_acc p)) (eup_signingKey p) = Some (acc, named)
    \<and> kp = (case named of None \<Rightarrow> nk_Seed acc | Some nk \<Rightarrow> nk_Seed nk)
    \<and> (case named of None \<Rightarrow> iss = [] | Some nk \<Rightarrow> e_PublicKey E (nk_Seed acc) = Some iss)
    \<and> claims = (eup_claims p)\<lparr>uc_Name := if eup_session p \<noteq> [] then eup_session p else eup_user p,
        uc_NotBefore := if 0 < eup_nbf p then eup_nbf p else uc_NotBefore (eup_claims p),
        uc_User := (uc_User (eup_claims p))\<lparr>
          ju_Limits := enriched_limits (eup_limitFlags p) named (ju_Limits (uc_User (eup_claims p))),
          ju_IssuerAccount := iss,
          ju_Tags := Some (mergeTags E (ju_Tags (uc_User (eup_claims p))) (eup_tags p))\<rparr>\<rparr>)"
proof -
  let ?i = "AccountId (eup_op p) (eup_acc p)"
  have "nkeyAt s w (account_nkeyPath ?i) \<noteq> None"
    using assms unfolding enrichUserClaims_def Let_def
    by (cases "nkeyAt s w (account_nkeyPath ?i)") (auto elim!: bindM_InrE dest!: reader_Inr(1) simp: throwM_apply)
  then obtain acc where acc: "nkeyAt s w (account_nkeyPath ?i) = Some acc" by blast
  show ?thesis
  proof (cases "eup_signingKey p = []")
    case True
    then have "user_signer s w ?i (eup_signingKey p) = Some (acc, None)"
      using acc by (simp add: user_signer_def)
    then show ?thesis
      using assms True acc unfolding enrichUserClaims_def Let_def enriched_limits_def
      by (auto elim!: bindM_InrE dest!: reader_Inr(1) simp: run_simps keyPair_Inr)
  next
    case False
    have "nkeyAt s w (accountSigningKey_nkeyPath (accountId_signingKeyId ?i (eup_signingKey p))) \<noteq> None"
      using assms False acc unfolding enrichUserClaims_def Let_def
      by (cases "nkeyAt s w (accountSigningKey_nkeyPath (accountId_signingKeyId ?i (eup_signingKey p)))")
         (auto elim!: bindM_InrE dest!: reader_Inr(1) simp: throwM_apply keyPair_Inr)
    then obtain nk where key: "nkeyAt s w (account_nkeyPath ?i) = Some acc"
        "nkeyAt s w (accountSigningKey_nkeyPath (accountId_signingKeyId ?i (eup_signingKey p))) = Some nk"
      using acc by blast
    then have "user_signer s w (AccountId (eup_op p) (eup_acc p)) (eup_signingKey p) = Some (acc, Some nk)"
      using False by (simp add: user_signer_def)
    then show ?thesis
      using assms False key unfolding enrichUserClaims_def Let_def enriched_limits_def
      by (auto elim!: bindM_InrE dest!: reader_Inr(1) simp: run_simps keyPair_Inr wrapErr_Inr PublicKey_Inr
          split: option.splits)
  qed
qed

section \<open>Tags and limits\<close>

lemma fold_tagListAdd:
  "distinct u \<Longrightarrow> [] \<notin> set u \<Longrightarrow>
   distinct (fold (tagListAdd E) ts u) \<and> set (fold (tagListAdd E) ts u) = set u \<union> (e_NormTag E ` set ts - {[]})"
  by (induction ts arbitrary: u) (auto simp: tagListAdd_def stringListAdd_def)

text \<open>A flag is set exactly if a key of the claims sets it.\<close>

lemma fold_or:
  fixes f :: "'a \<Rightarrow> 8 word"
  shows "fold (\<lambda>x flags. flags OR f x) xs a AND m = 0 \<longleftrightarrow> a AND m = 0 \<and> (\<forall>x \<in> set xs. f x AND m = 0)"
proof (induction xs arbitrary: a)
  case (Cons x xs)
  have "(a OR f x) AND m = 0 \<longleftrightarrow> a AND m = 0 \<and> f x AND m = 0"
    by (simp add: bit_eq_iff bit_simps) blast
  then show ?case using Cons [of "a OR f x"] by auto
qed simp

lemma limitFlagOf_bits:
  "limitFlagOf k AND LimitFlagsSubs = 0 \<longleftrightarrow> k \<noteq> ''subs''"
  "limitFlagOf k AND LimitFlagsData = 0 \<longleftrightarrow> k \<noteq> ''data''"
  "limitFlagOf k AND LimitFlagsPayload = 0 \<longleftrightarrow> k \<noteq> ''payload''"
  "limitFlagOf k AND LimitFlagsSrc = 0 \<longleftrightarrow> k \<noteq> ''src''"
  by (simp_all add: limitFlagOf_def LimitFlagsSubs_def LimitFlagsData_def LimitFlagsPayload_def
      LimitFlagsSrc_def LimitFlagsOther_def)

lemma readLimitFlags_Inr:
  assumes "readLimitFlags raw w = (Inr flags, w')"
  shows "\<exists>kvs. json_object raw = Some kvs \<and> flags = fold (\<lambda>(k, v) flags. flags OR limitFlagOf k) kvs 0 \<and> w' = w"
  using assms by (auto simp: readLimitFlags_def liftOption_def returnM_apply throwM_apply elim!: bindM_InrE split: option.splits)

lemma enriched_limits_granted:
  "enriched_limits (fold (\<lambda>(k, v) flags. flags OR limitFlagOf k) kvs 0) named l = granted_limits named (fst ` set kvs) l"
proof -
  let ?flags = "fold (\<lambda>(k, v) flags. flags OR limitFlagOf k) kvs 0"
  have "(\<lambda>(k, v :: 'a) flags. flags OR limitFlagOf k) = (\<lambda>x flags. flags OR limitFlagOf (fst x))"
    by (auto simp: fun_eq_iff)
  then have bits: "?flags AND m = 0 \<longleftrightarrow> (\<forall>x \<in> set kvs. limitFlagOf (fst x) AND m = 0)" for m
    by (simp add: fold_or [where f = "\<lambda>x. limitFlagOf (fst x)"])
  have key: "(\<forall>x \<in> set kvs. fst x \<noteq> k) \<longleftrightarrow> k \<notin> fst ` set kvs" for k by force
  have "userDefaultLimits ?flags l = granted_limits None (fst ` set kvs) l"
    unfolding userDefaultLimits_def granted_limits_def bits limitFlagOf_bits key by (cases "pl_Src l") simp_all
  then show ?thesis by (auto simp: enriched_limits_def granted_limits_def zeroLimits_def split: option.split)
qed

section \<open>Credentials\<close>

definition creds_key_name :: "world \<Rightarrow> accountId \<Rightarrow> string \<Rightarrow> string \<Rightarrow> string" where
  "creds_key_name w i requested userDefault = (if requested \<noteq> [] then requested
     else if userDefault \<noteq> [] then userDefault
     else case accountAt Req w i of None \<Rightarrow> [] | Some acc \<Rightarrow> acc_DefaultSigningKey acc)"

lemma credsSigningKey_Inr:
  "credsSigningKey E i requested dflt w = (Inr n, w') \<Longrightarrow> w' = w \<and> n = creds_key_name w i requested dflt"
  unfolding credsSigningKey_def creds_key_name_def Let_def
  by (auto elim!: bindM_InrE dest!: reader_Inr(4) simp: returnM_apply split: if_splits option.splits)

text \<open>The custom claims of a user, decoded, and the keys their JSON mentions; claims in the old style are wrapped.\<close>

definition custom_claims :: "env \<Rightarrow> json option \<Rightarrow> (jwt_user \<times> string set) option" where
  "custom_claims E rawClaims = (case rawClaims of
     None \<Rightarrow> Some (\<lparr>ju_Limits = \<lparr>pl_Subs = -1, pl_Data = -1, pl_Payload = -1, pl_Src = Some [], pl_Other = JObj []\<rparr>,
       ju_IssuerAccount = [], ju_Tags = None, ju_Other = JObj []\<rparr>, {})
   | Some raw \<Rightarrow> Option.bind (json_object raw) (\<lambda>kvs.
       let inner = (case map_of kvs ''nats'' of Some v \<Rightarrow> v | None \<Rightarrow> raw)
       in Option.bind (e_UnmarshalUser E inner) (\<lambda>user.
            map_option (\<lambda>kvs. (user, fst ` set kvs)) (json_object inner))))"

lemma userClaims_Inr:
  assumes "userClaims E raw sub w = (Inr (claims, flags), w')"
  shows "w' = w \<and> (\<exists>user mentioned. custom_claims E raw = Some (user, mentioned)
    \<and> claims = (NewUserClaims sub)\<lparr>uc_User := user\<rparr>
    \<and> (\<forall>named l. enriched_limits flags named l = granted_limits named mentioned l))"
proof (cases raw)
  case None
  then show ?thesis
    using assms enriched_limits_granted [of "[] :: (string \<times> json) list"]
    by (auto simp: userClaims_def custom_claims_def returnM_apply NewUserClaims_def NoLimit_def)
next
  case (Some r)
  then show ?thesis
    using assms unfolding userClaims_def innerClaims_def readLimitFlags_def liftOption_def
    by (auto elim!: bindM_InrE simp: run_simps NewUserClaims_def custom_claims_def enriched_limits_granted split: option.splits)
qed

text \<open>When a JWT signed now with the time to live \<open>ttl\<close> expires: never, if \<open>ttl\<close> is not positive.\<close>

definition expiry :: "env \<Rightarrow> int \<Rightarrow> int" where
  "expiry E ttl = (if 0 < ttl then Unix (Some (e_now E + ttl)) else 0)"

text \<open>What the lease records of it: of credentials without an expiry, the zero time.\<close>

definition lease_expiry :: "env \<Rightarrow> int \<Rightarrow> int" where
  "lease_expiry E ttl = (if 0 < ttl then expiry E ttl else Unix None)"

definition creds_lease :: "accountId \<Rightarrow> string \<Rightarrow> int \<Rightarrow> internalData" where
  "creds_lease i sub exp = AList.update ''secret_type'' (JStr userCredsType) (leaseData i sub exp)"

lemma generateUserCreds_ok:
  assumes "ucr_errors (generateUserCreds E idKey kp claims ttl) = []"
  shows "e_EncodeUser E kp (claims\<lparr>uc_Expires := expiry E ttl\<rparr>) = Some (ucr_jwt (generateUserCreds E idKey kp claims ttl))
    \<and> snd (e_ValidateUserClaims E (claims\<lparr>uc_Expires := expiry E ttl\<rparr>)) = []
    \<and> ucr_seed (generateUserCreds E idKey kp claims ttl) = idKey
    \<and> Unix (ucr_expiresAt (generateUserCreds E idKey kp claims ttl)) = lease_expiry E ttl"
proof -
  let ?c = "claims\<lparr>uc_Expires := (if 0 < ttl then Unix (if 0 < ttl then Some (e_now E + ttl) else None) else 0)\<rparr>"
  have c: "?c = claims\<lparr>uc_Expires := expiry E ttl\<rparr>" by (simp add: expiry_def)
  have ok: "jr_errors (encodeUserJWT E kp claims ttl) = []"
    using assms by (auto simp: generateUserCreds_def Let_def split: if_splits)
  have "snd (e_ValidateUserClaims E ?c) = [] \<and> e_EncodeUser E kp ?c = Some (jr_jwt (encodeUserJWT E kp claims ttl))"
    using encodeJwt_ok [OF ok [unfolded encodeUserJWT_def Let_def]] by (auto simp: encodeUserJWT_def Let_def)
  moreover have "ucr_jwt (generateUserCreds E idKey kp claims ttl) = jr_jwt (encodeUserJWT E kp claims ttl)
      \<and> ucr_seed (generateUserCreds E idKey kp claims ttl) = idKey
      \<and> ucr_expiresAt (generateUserCreds E idKey kp claims ttl) = jr_expiresAt (encodeUserJWT E kp claims ttl)"
    using assms ok by (auto simp: generateUserCreds_def Let_def split: option.splits)
  moreover have "Unix (jr_expiresAt (encodeUserJWT E kp claims ttl)) = lease_expiry E ttl"
    using ok by (auto simp: encodeUserJWT_def encodeJwt_def lease_expiry_def expiry_def Let_def split: if_splits option.splits)
  ultimately show ?thesis unfolding c by simp
qed

text \<open>
  The user's JWT in a response: its claims are those of the user's custom claims but for what the
  request and the configuration decide; who signed it, and on whose behalf.
\<close>

record terms =
  tm_subject :: string
  tm_name :: string
  tm_tags :: "string list"
  tm_not_before :: int
  tm_ttl :: int

definition credential :: "env \<Rightarrow> world \<Rightarrow> accountId \<Rightarrow> string \<Rightarrow> json option \<Rightarrow> terms \<Rightarrow> string \<Rightarrow> bool" where
  "credential E w i keyName rawClaims t token \<longleftrightarrow> (\<exists>acc named user mentioned claims iss.
     user_signer Req w i keyName = Some (acc, named)
     \<and> custom_claims E rawClaims = Some (user, mentioned)
     \<and> (case named of None \<Rightarrow> iss = [] | Some nk \<Rightarrow> e_PublicKey E (nk_Seed acc) = Some iss)
     \<and> claims = \<lparr>uc_Subject = tm_subject t, uc_Name = tm_name t, uc_Expires = expiry E (tm_ttl t),
         uc_NotBefore = max 0 (tm_not_before t), uc_User = user\<lparr>
           ju_Limits := granted_limits named mentioned (ju_Limits user), ju_IssuerAccount := iss,
           ju_Tags := Some (mergeTags E (ju_Tags user) (tm_tags t))\<rparr>\<rparr>
     \<and> snd (e_ValidateUserClaims E claims) = []
     \<and> e_EncodeUser E (case named of None \<Rightarrow> nk_Seed acc | Some nk \<Rightarrow> nk_Seed nk) claims = Some token)"

lemma credential_intro:
  assumes en: "enrichUserClaims E Req p w = (Inr (kp, ws, claims), w')"
    and ok: "ucr_errors (generateUserCreds E idKey kp claims ttl) = []"
    and user: "custom_claims E raw = Some (user, mentioned)" "eup_claims p = (NewUserClaims sub)\<lparr>uc_User := user\<rparr>"
      "\<And>named l. enriched_limits (eup_limitFlags p) named l = granted_limits named mentioned l"
  shows "w' = w \<and> credential E w (AccountId (eup_op p) (eup_acc p)) (eup_signingKey p) raw
    \<lparr>tm_subject = sub, tm_name = (if eup_session p \<noteq> [] then eup_session p else eup_user p), tm_tags = eup_tags p,
     tm_not_before = eup_nbf p, tm_ttl = ttl\<rparr> (ucr_jwt (generateUserCreds E idKey kp claims ttl))"
proof -
  from enrichUserClaims_Inr [OF en] obtain acc named iss where w': "w' = w"
    and c: "user_signer Req w (AccountId (eup_op p) (eup_acc p)) (eup_signingKey p) = Some (acc, named)"
      "kp = (case named of None \<Rightarrow> nk_Seed acc | Some nk \<Rightarrow> nk_Seed nk)"
      "case named of None \<Rightarrow> iss = [] | Some nk \<Rightarrow> e_PublicKey E (nk_Seed acc) = Some iss"
    and claims: "claims = (eup_claims p)\<lparr>uc_Name := if eup_session p \<noteq> [] then eup_session p else eup_user p,
        uc_NotBefore := if 0 < eup_nbf p then eup_nbf p else uc_NotBefore (eup_claims p),
        uc_User := (uc_User (eup_claims p))\<lparr>
          ju_Limits := enriched_limits (eup_limitFlags p) named (ju_Limits (uc_User (eup_claims p))),
          ju_IssuerAccount := iss,
          ju_Tags := Some (mergeTags E (ju_Tags (uc_User (eup_claims p))) (eup_tags p))\<rparr>\<rparr>"
    by blast
  have "credential E w (AccountId (eup_op p) (eup_acc p)) (eup_signingKey p) raw
    \<lparr>tm_subject = sub, tm_name = (if eup_session p \<noteq> [] then eup_session p else eup_user p), tm_tags = eup_tags p,
     tm_not_before = eup_nbf p, tm_ttl = ttl\<rparr> (ucr_jwt (generateUserCreds E idKey kp claims ttl))"
    unfolding credential_def
    by (rule exI [of _ acc], rule exI [of _ named], rule exI [of _ user], rule exI [of _ mentioned],
        rule exI [of _ "claims\<lparr>uc_Expires := expiry E ttl\<rparr>"], rule exI [of _ iss])
       (use c user generateUserCreds_ok [OF ok] in \<open>simp add: claims NewUserClaims_def\<close>)
  with w' show ?thesis ..
qed

lemma refuses_creds: "refuses (userCredsBody E i f)" "refuses (ephemeralUserCredsBody E ei session f)"
  unfolding userCredsBody_def ephemeralUserCredsBody_def by (intro refuses_rules)+

text \<open>The steps the two methods share: enrich the claims, sign them, respond.\<close>

lemma signed_response:
  assumes "bindM (respondErr msg (enrichUserClaims E Req p)) (\<lambda>(kp, ws, claims).
      let result = generateUserCreds E idKey kp claims ttl in
      if ucr_errors result \<noteq> []
      then returnM (Some (AddWarnings (ucr_warnings result) (ErrorResponse (msg' @ sprintErrors (ucr_errors result)))))
      else returnM (Some (credsResponse result (data result) i sub' n ws ttl))) w = (Inr (Some resp), w')"
    and uc: "userClaims E raw sub v = (Inr (cl, fl), v')" "eup_claims p = cl" "eup_limitFlags p = fl"
    and sec: "r_Secret resp \<noteq> None"
  shows "w' = w \<and> (\<exists>result ws. resp = credsResponse result (data result) i sub' n ws ttl \<and> ucr_seed result = idKey
    \<and> Unix (ucr_expiresAt result) = lease_expiry E ttl
    \<and> credential E w (AccountId (eup_op p) (eup_acc p)) (eup_signingKey p) raw
        \<lparr>tm_subject = sub, tm_name = (if eup_session p \<noteq> [] then eup_session p else eup_user p), tm_tags = eup_tags p,
         tm_not_before = eup_nbf p, tm_ttl = ttl\<rparr> (ucr_jwt result))"
proof -
  obtain q u where en': "respondErr msg (enrichUserClaims E Req p) w = (Inr q, u)"
    using assms(1) by (auto elim!: bindM_InrE)
  obtain kp ws claims where q: "q = (kp, ws, claims)" by (cases q)
  have en: "enrichUserClaims E Req p w = (Inr (kp, ws, claims), u)" using en' by (simp add: respondErr_Inr q)
  let ?r = "generateUserCreds E idKey kp claims ttl"
  have ok: "ucr_errors ?r = []"
    using assms(1) sec en' by (auto simp: q bindM_apply Let_def returnM_apply AddWarnings_def ErrorResponse_def emptyResponse_def split: if_splits)
  then have resp: "resp = credsResponse ?r (data ?r) i sub' n ws ttl" "w' = u"
    using assms(1) en' by (simp_all add: q bindM_apply Let_def returnM_apply)
  obtain user mentioned where "custom_claims E raw = Some (user, mentioned)" "eup_claims p = (NewUserClaims sub)\<lparr>uc_User := user\<rparr>"
      "\<And>named l. enriched_limits (eup_limitFlags p) named l = granted_limits named mentioned l"
    using userClaims_Inr [OF uc(1)] uc(2,3) by auto
  from credential_intro [OF en ok this] generateUserCreds_ok [OF ok] resp show ?thesis by auto
qed

text \<open>
  The time to live: that of the request, else the user's default, else the system's; at most the
  maxima of the user, if it has one, and of the system.
\<close>

definition wanted_ttl :: "env \<Rightarrow> int option \<Rightarrow> int \<Rightarrow> int" where
  "wanted_ttl E requested userDefault = (case requested of Some t \<Rightarrow> t * Second
     | None \<Rightarrow> if 0 < userDefault then userDefault else e_DefaultLeaseTTL E)"

definition granted_ttl :: "env \<Rightarrow> int option \<Rightarrow> int \<Rightarrow> int \<Rightarrow> int" where
  "granted_ttl E requested userDefault userMax = min (e_MaxLeaseTTL E)
     (if 0 < userMax then min userMax (wanted_ttl E requested userDefault) else wanted_ttl E requested userDefault)"

lemma ttl_granted:
  "credsTtl E f user = granted_ttl E (cf_ttl f) (us_CredsDefaultTtl user) (us_CredsMaxTtl user)"
  "ephemeralCredsTtl E f eph = (let ttl = granted_ttl E (cf_ttl f) (eu_CredsDefaultTtl eph) (eu_CredsMaxTtl eph)
     in if ttl \<le> 0 then e_MaxLeaseTTL E else ttl)"
  by (auto simp: credsTtl_def ephemeralCredsTtl_def cappedTtl_def requestedTtl_def seconds_def wanted_ttl_def granted_ttl_def
      Let_def min_def split: option.split)

definition not_before :: "int option \<Rightarrow> int" where
  "not_before t = (case t of None \<Rightarrow> 0 | Some n \<Rightarrow> n div Second)"

lemma not_before_nbf: "(case t of None \<Rightarrow> 0 | Some n \<Rightarrow> Unix (Some n)) = not_before t"
  by (simp add: not_before_def Unix_def split: option.split)

lemma credsResponse_fields:
  "r_Secret (credsResponse res data i sub n ws ttl) = Some \<lparr>sec_TTL = ttl, sec_MaxTTL = ttl, sec_Renewable = False,
     sec_InternalData = creds_lease i sub (Unix (ucr_expiresAt res))\<rparr>"
  "r_Data (credsResponse res data i sub n ws ttl) = data @ (if n \<noteq> [] then [(''signing_key'', JStr n)] else [])"
  by (auto simp: credsResponse_def AddWarnings_def creds_lease_def Secret_Response_def userCredsSecretType_def Secret_Renewable_def Let_def)

lemma pathUserCredsRead_secret:
  assumes run: "pathUserCredsRead E i f w = (Inr (Some resp), w')" and sec: "r_Secret resp = Some sec"
  shows "\<exists>user nk sub token. w' = w \<and> userAt Req w i = Some user \<and> nkeyAt Req w (user_nkeyPath i) = Some nk
    \<and> e_PublicKey E (nk_Seed nk) = Some sub \<and> (''jwt'', JStr token) \<in> set (r_Data resp)
    \<and> credential E w (userId_accountId i)
        (creds_key_name w (userId_accountId i) (cf_signing_key f) (us_DefaultSigningKey user)) (us_RawClaims user)
        \<lparr>tm_subject = sub, tm_name = ui_user i, tm_tags = given (cf_tags f) [], tm_not_before = not_before (cf_not_before f),
         tm_ttl = credsTtl E f user\<rparr> token
    \<and> sec_TTL sec = credsTtl E f user \<and> sec_MaxTTL sec = credsTtl E f user \<and> \<not> sec_Renewable sec
    \<and> sec_InternalData sec = creds_lease (userId_accountId i) sub (lease_expiry E (credsTtl E f user))"
proof -
  have some: "r_Secret resp \<noteq> None" using sec by simp
  note body = handler_secret [OF refuses_creds(1) run [unfolded pathUserCredsRead_def] some, unfolded userCredsBody_def Let_def]
  obtain user where user: "userAt Req w i = Some user"
    using body by (cases "userAt Req w i") (auto elim!: bindM_InrE dest!: reader_Inr(5) simp: returnM_apply)
  obtain nk where nk: "nkeyAt Req w (user_nkeyPath i) = Some nk"
    using body user by (cases "nkeyAt Req w (user_nkeyPath i)")
      (auto elim!: bindM_InrE dest!: reader_Inr(5) reader_Inr(1) credsSigningKey_Inr simp: throwM_apply)
  note signed = signed_response [where data = "\<lambda>result. [(''operator'', JStr (ui_op i)), (''account'', JStr (ui_acc i)),
    (''user'', JStr (ui_user i)), (''creds'', JStr (ucr_creds result)), (''jwt'', JStr (ucr_jwt result)),
    (''seed'', JStr (nk_Seed nk)), (''expires_at'', JNum (Unix (ucr_expiresAt result)))]", unfolded Let_def, OF _ _ _ _ some]
  show ?thesis
    using body user nk
    apply (elim bindM_InrE)
    apply (drule reader_Inr(5), simp)
    apply (elim bindM_InrE)
    apply (drule credsSigningKey_Inr, drule reader_Inr(1), simp)
    apply (elim bindM_InrE)
    apply (simp add: wrapErr_Inr keyPair_Inr PublicKey_Inr)
    apply (clarsimp split: prod.splits)
    apply (drule signed, assumption, simp, simp)
    apply (frule userClaims_Inr, elim conjE exE)
    using sec by (fastforce simp: credsResponse_fields userId_accountId_def not_before_nbf)
qed

lemma createSeed_InrE:
  assumes "createSeed E p w = (Inr seed, w')"
  obtains "e_CreatePair E p (w_entropy w) = Some seed" and "w' = w\<lparr>w_entropy := Suc (w_entropy w)\<rparr>"
  using assms by (auto simp: createSeed_def split: option.splits)

lemma creds_key_name_entropy: "creds_key_name (w\<lparr>w_entropy := n\<rparr>) i req dflt = creds_key_name w i req dflt"
proof -
  have "view s (w\<lparr>w_entropy := n\<rparr>) k = view s w k" for s k
    by (cases s; cases "w_tx w") (simp_all add: view_def pending_def)
  then show ?thesis by (simp add: creds_key_name_def accountAt_def)
qed

text \<open>An ephemeral user's key is made for the request; nothing of it is stored.\<close>

lemma pathEphemeralUserCredsRead_secret:
  assumes run: "pathEphemeralUserCredsRead E i session f w = (Inr (Some resp), w')" and sec: "r_Secret resp = Some sec"
  shows "\<exists>user seed sub token. w' = w\<lparr>w_entropy := Suc (w_entropy w)\<rparr> \<and> ephemeralUserAt Req w i = Some user
    \<and> e_CreatePair E PrefixUser (w_entropy w) = Some seed
    \<and> e_PublicKey E seed = Some sub \<and> (''jwt'', JStr token) \<in> set (r_Data resp)
    \<and> credential E w' (ephemeralUserId_accountId i)
        (creds_key_name w' (ephemeralUserId_accountId i) (cf_signing_key f) (eu_DefaultSigningKey user)) (eu_RawClaims user)
        \<lparr>tm_subject = sub, tm_name = (if session = [] then eui_user i else session), tm_tags = given (cf_tags f) [],
         tm_not_before = not_before (cf_not_before f), tm_ttl = ephemeralCredsTtl E f user\<rparr> token
    \<and> sec_TTL sec = ephemeralCredsTtl E f user \<and> sec_MaxTTL sec = ephemeralCredsTtl E f user \<and> \<not> sec_Renewable sec
    \<and> sec_InternalData sec = creds_lease (ephemeralUserId_accountId i) sub (lease_expiry E (ephemeralCredsTtl E f user))"
proof -
  have some: "r_Secret resp \<noteq> None" using sec by simp
  note body = handler_secret [OF refuses_creds(2) run [unfolded pathEphemeralUserCredsRead_def] some, unfolded ephemeralUserCredsBody_def Let_def]
  obtain user where user: "ephemeralUserAt Req w i = Some user"
    using body by (cases "ephemeralUserAt Req w i") (auto elim!: bindM_InrE dest!: reader_Inr(6) simp: returnM_apply)
  note signed = signed_response [where data = "\<lambda>result. [(''operator'', JStr (eui_op i)), (''account'', JStr (eui_acc i)),
    (''user'', JStr (eui_user i)), (''session'', JStr session), (''creds'', JStr (ucr_creds result)), (''jwt'', JStr (ucr_jwt result)),
    (''seed'', JStr (ucr_seed result)), (''expires_at'', JNum (Unix (ucr_expiresAt result)))]", unfolded Let_def, OF _ _ _ _ some]
  show ?thesis
    using body user
    apply (elim bindM_InrE)
    apply (drule reader_Inr(6), simp)
    apply (elim bindM_InrE)
    apply (drule credsSigningKey_Inr, simp add: wrapErr_Inr PublicKey_Inr)
    apply (elim conjE createSeed_InrE)
    apply (clarsimp split: prod.splits)
    apply (drule signed, assumption, simp, simp)
    apply (frule userClaims_Inr, elim conjE exE)
    using sec by (fastforce simp: credsResponse_fields ephemeralUserId_accountId_def creds_key_name_entropy not_before_nbf)
qed

end
