(* ===== verification/CredsClaims.thy ===== *)
theory CredsClaims
  imports CredsFacts
begin

text \<open>The properties of the credentials, of their leases and of the revocation a lease leaves.\<close>

section \<open>Reading credentials\<close>

text \<open>
  C13. Whenever \<^verbatim>\<open>pathUserCredsRead\<close> answers with a lease, the response's \<^verbatim>\<open>jwt\<close> encodes the user's custom
  claims with these changes: its subject is the public key of the user's stored identity key, its name
  the user's; it has the tags of the claims and of the request; it is not valid before the requested
  time; its limits are those the custom claims mention and none for what they do not, or those of the
  scoped signing key; it expires after the time to live. It is signed by the named signing key of the
  account (of the request, else of the user, else of the account) on behalf of the account, or by the
  account's identity key, and is valid for the library. The time to live, of the JWT and of the lease, is that
  of the request, else the user's default, else the system's, at most the maxima of the user and of the
  system. The lease is not renewable, and nothing is written.
\<close>

theorem user_creds_as_configured:
  assumes run: "pathUserCredsRead E i f w = (Inr (Some resp), w')" and sec: "r_Secret resp = Some sec"
  shows "w' = w \<and> (\<exists>user nk sub token. userAt Req w i = Some user \<and> nkeyAt Req w (user_nkeyPath i) = Some nk
    \<and> e_PublicKey E (nk_Seed nk) = Some sub \<and> (''jwt'', JStr token) \<in> set (r_Data resp)
    \<and> sec_TTL sec = granted_ttl E (cf_ttl f) (us_CredsDefaultTtl user) (us_CredsMaxTtl user)
    \<and> credential E w (userId_accountId i)
        (creds_key_name w (userId_accountId i) (cf_signing_key f) (us_DefaultSigningKey user)) (us_RawClaims user)
        \<lparr>tm_subject = sub, tm_name = ui_user i, tm_tags = (case cf_tags f of None \<Rightarrow> [] | Some ts \<Rightarrow> ts),
         tm_not_before = not_before (cf_not_before f), tm_ttl = sec_TTL sec\<rparr> token)
    \<and> sec_MaxTTL sec = sec_TTL sec \<and> \<not> sec_Renewable sec"
  using pathUserCredsRead_secret [OF run sec] unfolding ttl_granted(1) given_def by auto

lemma user_creds_as_configured_witness:
  "\<exists>resp sec token. pathUserCredsRead sample_env (UserId ''op'' ''acc'' ''usr'')
       \<lparr>cf_ttl = Some 9000, cf_signing_key = ''ask'', cf_not_before = None, cf_tags = None\<rparr> sample_world = (Inr (Some resp), sample_world)
     \<and> r_Secret resp = Some sec \<and> sec_TTL sec = 7200 * Second \<and> (''jwt'', JStr token) \<in> set (r_Data resp)
     \<and> credential sample_env sample_world sample_account ''ask'' None
         \<lparr>tm_subject = ''PU'', tm_name = ''usr'', tm_tags = [], tm_not_before = 0, tm_ttl = 7200 * Second\<rparr> token"
proof -
  let ?i = "UserId ''op'' ''acc'' ''usr''"
  let ?f = "\<lparr>cf_ttl = Some 9000, cf_signing_key = ''ask'', cf_not_before = None, cf_tags = None\<rparr>"
  have "case pathUserCredsRead sample_env ?i ?f sample_world of (Inr (Some r), v) \<Rightarrow> r_Secret r \<noteq> None | _ \<Rightarrow> False"
    by code_simp
  then obtain resp v sec where r: "pathUserCredsRead sample_env ?i ?f sample_world = (Inr (Some resp), v)" "r_Secret resp = Some sec"
    by (auto split: prod.splits sum.splits option.splits)
  note c = user_creds_as_configured [OF r]
  have k: "userAt Req sample_world ?i = Some NewUser" "nkeyAt Req sample_world (user_nkeyPath ?i) = Some (nkeyOfSeed ''U'')"
    "e_PublicKey sample_env (nk_Seed (nkeyOfSeed ''U'')) = Some ''PU''"
    "creds_key_name sample_world (userId_accountId ?i) (cf_signing_key ?f) (us_DefaultSigningKey NewUser) = ''ask''"
    "granted_ttl sample_env (cf_ttl ?f) (us_CredsDefaultTtl NewUser) (us_CredsMaxTtl NewUser) = 7200 * Second"
    "userId_accountId ?i = sample_account" "us_RawClaims NewUser = None" "not_before (cf_not_before ?f) = 0"
    "(case cf_tags ?f of None \<Rightarrow> [] | Some ts \<Rightarrow> ts) = []" "ui_user ?i = ''usr''"
    by code_simp+
  from c k have "v = sample_world" "sec_TTL sec = 7200 * Second"
    "\<exists>token. (''jwt'', JStr token) \<in> set (r_Data resp) \<and> credential sample_env sample_world sample_account ''ask'' None
         \<lparr>tm_subject = ''PU'', tm_name = ''usr'', tm_tags = [], tm_not_before = 0, tm_ttl = 7200 * Second\<rparr> token"
    by auto
  with r show ?thesis by blast
qed

text \<open>
  C14. Credentials of a session: the JWT is for a key pair made for the request, has the session's name
  and is otherwise made and signed like a user's; nothing is stored. The time to live is determined like a
  user's, but one that is not positive is replaced by the system's maximum: these credentials always
  expire, within the system's maximum, and within the user's if the wanted time is positive. A request for
  0 seconds gets the system's maximum, past that of the user.
\<close>

theorem ephemeral_creds_expire:
  assumes run: "pathEphemeralUserCredsRead E i session f w = (Inr (Some resp), w')" and sec: "r_Secret resp = Some sec"
    and max: "0 < e_MaxLeaseTTL E"
  shows "w' = w\<lparr>w_entropy := Suc (w_entropy w)\<rparr> \<and> (\<exists>user seed sub token. ephemeralUserAt Req w i = Some user
    \<and> e_CreatePair E PrefixUser (w_entropy w) = Some seed
    \<and> e_PublicKey E seed = Some sub \<and> (''jwt'', JStr token) \<in> set (r_Data resp)
    \<and> credential E w' (ephemeralUserId_accountId i)
        (creds_key_name w' (ephemeralUserId_accountId i) (cf_signing_key f) (eu_DefaultSigningKey user)) (eu_RawClaims user)
        \<lparr>tm_subject = sub, tm_name = (if session = [] then eui_user i else session),
         tm_tags = (case cf_tags f of None \<Rightarrow> [] | Some ts \<Rightarrow> ts),
         tm_not_before = not_before (cf_not_before f), tm_ttl = sec_TTL sec\<rparr> token
    \<and> (let wanted = wanted_ttl E (cf_ttl f) (eu_CredsDefaultTtl user) in
        sec_TTL sec = (if wanted \<le> 0 then e_MaxLeaseTTL E
          else granted_ttl E (cf_ttl f) (eu_CredsDefaultTtl user) (eu_CredsMaxTtl user))
        \<and> (0 < wanted \<and> 0 < eu_CredsMaxTtl user \<longrightarrow> sec_TTL sec \<le> eu_CredsMaxTtl user)))
    \<and> 0 < sec_TTL sec \<and> sec_TTL sec \<le> e_MaxLeaseTTL E \<and> sec_MaxTTL sec = sec_TTL sec \<and> \<not> sec_Renewable sec"
proof -
  have "ephemeralCredsTtl E f user = (if wanted_ttl E (cf_ttl f) (eu_CredsDefaultTtl user) \<le> 0 then e_MaxLeaseTTL E
      else granted_ttl E (cf_ttl f) (eu_CredsDefaultTtl user) (eu_CredsMaxTtl user))"
    and "0 < ephemeralCredsTtl E f user" "ephemeralCredsTtl E f user \<le> e_MaxLeaseTTL E"
    and "0 < wanted_ttl E (cf_ttl f) (eu_CredsDefaultTtl user) \<and> 0 < eu_CredsMaxTtl user \<Longrightarrow>
      ephemeralCredsTtl E f user \<le> eu_CredsMaxTtl user" for user
    using max by (auto simp: ttl_granted(2) granted_ttl_def Let_def min_def)
  note ttl = this
  obtain user seed sub token where w': "w' = w\<lparr>w_entropy := Suc (w_entropy w)\<rparr>" and user: "ephemeralUserAt Req w i = Some user"
    and key: "e_CreatePair E PrefixUser (w_entropy w) = Some seed" "e_PublicKey E seed = Some sub" "(''jwt'', JStr token) \<in> set (r_Data resp)"
    and cred: "credential E w' (ephemeralUserId_accountId i)
        (creds_key_name w' (ephemeralUserId_accountId i) (cf_signing_key f) (eu_DefaultSigningKey user)) (eu_RawClaims user)
        \<lparr>tm_subject = sub, tm_name = (if session = [] then eui_user i else session), tm_tags = given (cf_tags f) [],
         tm_not_before = not_before (cf_not_before f), tm_ttl = ephemeralCredsTtl E f user\<rparr> token"
    and sec': "sec_TTL sec = ephemeralCredsTtl E f user" "sec_MaxTTL sec = ephemeralCredsTtl E f user" "\<not> sec_Renewable sec"
    using pathEphemeralUserCredsRead_secret [OF run sec] by blast
  show ?thesis
    by (intro conjI w' exI [of _ user] exI [of _ seed] exI [of _ sub] exI [of _ token] user key cred [unfolded given_def, folded sec'(1)])
       (use ttl [of user] sec' in \<open>simp_all add: Let_def\<close>)
qed

lemma ephemeral_creds_expire_witness:
  "\<exists>resp sec w' token. pathEphemeralUserCredsRead sample_env (EphemeralUserId ''op'' ''acc'' ''eph'') ''s1''
       \<lparr>cf_ttl = Some 0, cf_signing_key = [], cf_not_before = None, cf_tags = None\<rparr> sample_world = (Inr (Some resp), w')
     \<and> r_Secret resp = Some sec \<and> 0 < sec_TTL sec \<and> (''jwt'', JStr token) \<in> set (r_Data resp)"
proof -
  let ?i = "EphemeralUserId ''op'' ''acc'' ''eph''"
  let ?f = "\<lparr>cf_ttl = Some 0, cf_signing_key = [], cf_not_before = None, cf_tags = None\<rparr>"
  have "case pathEphemeralUserCredsRead sample_env ?i ''s1'' ?f sample_world of (Inr (Some r), v) \<Rightarrow> r_Secret r \<noteq> None | _ \<Rightarrow> False"
    by code_simp
  then obtain resp v sec where r: "pathEphemeralUserCredsRead sample_env ?i ''s1'' ?f sample_world = (Inr (Some resp), v)"
      "r_Secret resp = Some sec"
    by (auto split: prod.splits sum.splits option.splits)
  have "0 < e_MaxLeaseTTL sample_env" by code_simp
  from ephemeral_creds_expire [OF r this] r show ?thesis by blast
qed

text \<open>The dispatch of a lease of credentials, and what \<^verbatim>\<open>userCredsRevoke\<close> finds in it.\<close>

lemma creds_lease_keys:
  "map_of (creds_lease i sub exp) ''op'' = Some (JStr (ai_op i))" "map_of (creds_lease i sub exp) ''acc'' = Some (JStr (ai_acc i))"
  "map_of (creds_lease i sub exp) ''sub'' = Some (JStr sub)" "map_of (creds_lease i sub exp) ''exp'' = Some (JNum exp)"
  "map_of (creds_lease i sub exp) ''secret_type'' = Some (JStr userCredsType)"
  by (simp_all add: creds_lease_def leaseData_def)

lemma handle_creds_lease:
  "handleRevokeRenew Backend_Secrets E RevokeOperation (Some (creds_lease i sub exp)) = userCredsRevoke E (creds_lease i sub exp)"
  "handleRevokeRenew Backend_Secrets E RenewOperation (Some (creds_lease i sub exp)) = throwM (Fail ''unsupported operation'')"
  by (simp_all add: handleRevokeRenew_def creds_lease_keys Backend_Secret_def Backend_Secrets_def userCredsSecretType_def
      Secret_HandleRevoke_def Secret_HandleRenew_def)

text \<open>
  C31. A request with a time to live of 0 gets credentials that never expire, whatever maximum the
  user or the system sets: the JWT in the response has no expiry, and the lease has time 0. Nor can
  they be revoked by their lease: handing it back for revocation succeeds and changes nothing, as
  the lease records the zero time for their end.
\<close>

theorem zero_ttl_never_ends:
  assumes run: "pathUserCredsRead E i f w = (Inr (Some resp), w')" and sec: "r_Secret resp = Some sec"
    and "cf_ttl f = Some 0" and "0 \<le> e_MaxLeaseTTL E"
    and cfg: "Config E' Req v = (Inr cfg, v)" and now: "0 \<le> e_now E'"
  shows "sec_TTL sec = 0 \<and> (\<exists>kp claims token. e_EncodeUser E kp claims = Some token \<and> uc_Expires claims = 0
    \<and> (''jwt'', JStr token) \<in> set (r_Data resp))
    \<and> handleRevokeRenew Backend_Secrets E' RevokeOperation (Some (sec_InternalData sec)) v = (Inr None, v)"
proof -
  have ttl: "credsTtl E f user = 0" for user
    using assms(3,4) by (simp add: credsTtl_def requestedTtl_def cappedTtl_def seconds_def)
  note secret = pathUserCredsRead_secret [OF run sec, unfolded ttl credential_def expiry_def]
  then obtain sub where sub: "sec_InternalData sec = creds_lease (userId_accountId i) sub (Unix None)"
    by (auto simp: lease_expiry_def)
  have "Unix None * Second - e_now E' \<le> revokeDurationBuffer"
    using now by (simp add: Unix_def Second_def revokeDurationBuffer_def)
  then have "userCredsRevoke E' (creds_lease j sub (Unix None)) v = (Inr None, v)" for j
    by (simp add: userCredsRevoke_def bindM_apply cfg creds_lease_keys returnM_apply)
  then show ?thesis using secret unfolding sub handle_creds_lease by fastforce
qed

lemma zero_ttl_never_ends_witness:
  "\<exists>resp sec. pathUserCredsRead sample_env (UserId ''op'' ''acc'' ''usr'')
       \<lparr>cf_ttl = Some 0, cf_signing_key = [], cf_not_before = None, cf_tags = None\<rparr> sample_world = (Inr (Some resp), sample_world)
     \<and> r_Secret resp = Some sec \<and> sec_TTL sec = 0 \<and> e_MaxLeaseTTL sample_env = 7200 * Second
     \<and> handleRevokeRenew Backend_Secrets sample_env RevokeOperation (Some (sec_InternalData sec)) sample_world = (Inr None, sample_world)"
proof -
  let ?i = "UserId ''op'' ''acc'' ''usr''"
  let ?f = "\<lparr>cf_ttl = Some 0, cf_signing_key = [], cf_not_before = None, cf_tags = None\<rparr>"
  have "case pathUserCredsRead sample_env ?i ?f sample_world of (Inr (Some r), v) \<Rightarrow> r_Secret r \<noteq> None | _ \<Rightarrow> False"
    by code_simp
  then obtain resp v sec where r: "pathUserCredsRead sample_env ?i ?f sample_world = (Inr (Some resp), v)" "r_Secret resp = Some sec"
    by (auto split: prod.splits sum.splits option.splits)
  have m: "e_MaxLeaseTTL sample_env = 7200 * Second" "0 \<le> e_MaxLeaseTTL sample_env" "cf_ttl ?f = Some 0"
    "Config sample_env Req sample_world = (Inr \<lparr>cfg_ImplicitRevocationsEnabled = True\<rparr>, sample_world)" "0 \<le> e_now sample_env"
    by code_simp+
  have "v = sample_world" using pathUserCredsRead_secret [OF r] by blast
  with zero_ttl_never_ends [OF r m(3,2,4,5)] m(1) r show ?thesis by blast
qed

section \<open>Limits and tags\<close>

text \<open>
  C38. A user's limits that the custom claims do not mention are unlimited, and those they mention
  are kept, 0 included: the flags \<^verbatim>\<open>readLimitFlags\<close> collects from the raw JSON tell the two apart,
  also where the decoded struct cannot.
\<close>

theorem user_limit_defaults:
  assumes "readLimitFlags raw w = (Inr flags, w')" and "json_object raw = Some kvs"
  shows "let l' = userDefaultLimits flags l; given = fst ` set kvs in
    pl_Subs l' = (if ''subs'' \<in> given then pl_Subs l else -1)
    \<and> pl_Data l' = (if ''data'' \<in> given then pl_Data l else -1)
    \<and> pl_Payload l' = (if ''payload'' \<in> given then pl_Payload l else -1)
    \<and> pl_Src l' = (if ''src'' \<notin> given \<and> pl_Src l = None then Some [] else pl_Src l)
    \<and> pl_Other l' = pl_Other l \<and> w' = w"
  using readLimitFlags_Inr [OF assms(1)] assms(2) enriched_limits_granted [of kvs None l]
  by (auto simp: enriched_limits_def granted_limits_def Let_def)

lemma user_limit_defaults_witness:
  "let raw = JObj [(''subs'', JNum 0), (''src'', JList [])];
       l' = userDefaultLimits (LimitFlagsSubs OR LimitFlagsSrc) sample_limits
   in pl_Subs l' = 0 \<and> pl_Data l' = -1 \<and> pl_Payload l' = -1 \<and> pl_Src l' = None"
proof -
  have 1: "readLimitFlags (JObj [(''subs'', JNum 0), (''src'', JList [])]) empty_world = (Inr (LimitFlagsSubs OR LimitFlagsSrc), empty_world)"
    by code_simp
  have 2: "json_object (JObj [(''subs'', JNum 0), (''src'', JList [])]) = Some [(''subs'', JNum 0), (''src'', JList [])]"
    by code_simp
  from user_limit_defaults [OF 1 2, of sample_limits] show ?thesis by (simp add: Let_def sample_limits_def)
qed

text \<open>
  C39. The tags of a user's JWT are the normalised tags of the custom claims and of the request,
  each once and none empty.
\<close>

theorem user_tags_merged:
  "distinct (mergeTags E claimed requested)
   \<and> set (mergeTags E claimed requested) =
       e_NormTag E ` (set (case claimed of None \<Rightarrow> [] | Some ts \<Rightarrow> ts) \<union> set requested) - {[]}"
  using fold_tagListAdd [of "[]" E "(case claimed of None \<Rightarrow> [] | Some ts \<Rightarrow> ts) @ requested"]
  by (simp add: mergeTags_def)

section \<open>Revoking a lease\<close>

lemma extendRevocation_covers:
  "e_now E + ttl \<le> instant (rev_CreationTime (extendRevocation E ttl old)) + rev_Ttl (extendRevocation E ttl old)"
  by (cases old) (simp_all add: extendRevocation_def NewAccountRevocationWithParams_def instant_def Let_def)

lemma Config_state: "Config E s w = (Inr c, w') \<Longrightarrow> w' = w"
  unfolding Config_def by (erule read_only_Inr [rotated]) (intro preserves_rules)

text \<open>What \<^verbatim>\<open>userCredsRevoke\<close> stores when it has something to revoke; nothing else but statuses changes.\<close>

lemma userCredsRevoke_Inr:
  assumes run: "userCredsRevoke E (creds_lease a sub exp) w = (Inr r, w')" and cfg: "Config E Req w = (Inr cfg, w)"
    and on: "cfg_ImplicitRevocationsEnabled cfg" and ttl: "revokeDurationBuffer < exp * Second - e_now E"
    and acc: "accountAt Req w a \<noteq> None"
  obtains w1 u where "w1 = written Req (ActPut (accountRevocation_configPath (AccountRevocationId (ai_op a) (ai_acc a) sub))
      (ERevocation (extendRevocation E (exp * Second - e_now E)
        (revocationAt Req w (AccountRevocationId (ai_op a) (ai_acc a) sub))))) w"
    and "syncAccountUpdate E a w1 = (Inr u, w')"
proof -
  have a: "AccountId (ai_op a) (ai_acc a) = a" by (cases a) simp
  show ?thesis
    using run cfg on ttl acc that unfolding userCredsRevoke_def Let_def accountRevocationId_accountId_def creds_lease_keys assert_simps returnM_bind
    by (auto elim!: bindM_InrE thenM_InrE dest!: reader_Inr(4,7) storeInStorage_Inr simp: wrapErr_Inr returnM_apply a split: if_splits)
qed

lemma userCredsRevoke_stores:
  assumes run: "userCredsRevoke E (creds_lease a sub exp) w = (Inr r, w')" and cfg: "Config E Req w = (Inr cfg, w)"
    and on: "cfg_ImplicitRevocationsEnabled cfg" and ttl: "revokeDurationBuffer < exp * Second - e_now E"
    and acc: "accountAt Req w a \<noteq> None" and tx: "w_tx w = None"
  defines "i \<equiv> AccountRevocationId (ai_op a) (ai_acc a) sub"
  shows "store_get (w_disk w') (accountRevocation_configPath i) =
      Some (ERevocation (extendRevocation E (exp * Second - e_now E) (revocationAt Req w i)))"
    and "k \<notin> {accountRevocation_configPath i, account_configPath a, accountServer_configPath (serverOf a)} \<Longrightarrow>
      store_get (w_disk w') k = store_get (w_disk w) k"
    and "status_only a (w_disk w) w'"
proof -
  let ?rv = "extendRevocation E (exp * Second - e_now E) (revocationAt Req w i)"
  obtain w1 u where w1: "w1 = written Req (ActPut (accountRevocation_configPath i) (ERevocation ?rv)) w"
    and sync: "syncAccountUpdate E a w1 = (Inr u, w')"
    using userCredsRevoke_Inr [OF run cfg on ttl acc] unfolding i_def by metis
  have disk: "w_tx w1 = None" "w_disk w1 = store_put (w_disk w) (accountRevocation_configPath i) (ERevocation ?rv)"
    using w1 tx by (simp_all add: written_def pending_def)
  have frame: "store_get (w_disk w') k = store_get (w_disk w1) k"
    if "k \<noteq> account_configPath a" "k \<noteq> accountServer_configPath (serverOf a)" for k
    using syncAccountUpdate_frame [OF disk(1) that, of E] sync by simp
  show "store_get (w_disk w') (accountRevocation_configPath i) = Some (ERevocation ?rv)"
    by (subst frame) (simp_all add: disk store_get_put path_defs)
  show "store_get (w_disk w') k = store_get (w_disk w) k"
    if "k \<notin> {accountRevocation_configPath i, account_configPath a, accountServer_configPath (serverOf a)}"
    using that by (subst frame) (simp_all add: disk store_get_put)
  have "store_get (w_disk w1) k = store_get (w_disk w) k" if "k = account_configPath a \<or> k = accountServer_configPath (serverOf a)" for k
    using that by (auto simp: disk store_get_put path_defs)
  then show "status_only a (w_disk w) w'"
    using syncAccountUpdate_status_only [OF disk(1), of a E] sync by (simp add: status_only_def)
qed

text \<open>
  C15. What becomes of the lease of a user's credentials. It cannot be renewed. Revoking it while
  they are still good for a while, if that succeeds, leaves a revocation of the user's public key,
  which their JWT is for, that lasts at least until that JWT expires. Of the
  account's entry only the sync status changes, of the entry of its server only the status, and no other
  path changes at all. So the account's stored JWT is the one from before: it is
  pushed to the cluster, but without the new revocation.
\<close>

theorem creds_lease_revokes_key:
  assumes read: "pathUserCredsRead E i f w = (Inr (Some resp), w0)" and sec: "r_Secret resp = Some sec"
    and run: "handleRevokeRenew Backend_Secrets E' RevokeOperation (Some (sec_InternalData sec)) v = (Inr r, v')"
    and cfg: "Config E' Req v = (Inr cfg, v)" and on: "cfg_ImplicitRevocationsEnabled cfg"
    and ttl: "0 < sec_TTL sec" "revokeDurationBuffer < expiry E (sec_TTL sec) * Second - e_now E'"
    and acc: "accountAt Req v (userId_accountId i) \<noteq> None" and tx: "w_tx v = None"
  shows "\<exists>nk key sub token p rv. nkeyAt Req w (user_nkeyPath i) = Some nk \<and> e_PublicKey E (nk_Seed nk) = Some sub
    \<and> (''jwt'', JStr token) \<in> set (r_Data resp)
    \<and> (\<exists>raw t. credential E w (userId_accountId i) key raw t token \<and> tm_subject t = sub \<and> tm_ttl t = sec_TTL sec)
    \<and> p = accountRevocation_configPath (AccountRevocationId (ui_op i) (ui_acc i) sub)
    \<and> store_get (w_disk v') p = Some (ERevocation rv)
    \<and> expiry E (sec_TTL sec) * Second \<le> instant (rev_CreationTime rv) + rev_Ttl rv
    \<and> (\<forall>k. k \<notin> {p, account_configPath (userId_accountId i), accountServer_configPath (serverOf (userId_accountId i))} \<longrightarrow>
        store_get (w_disk v') k = store_get (w_disk v) k)
    \<and> (\<exists>account sync. store_get (w_disk v) (account_configPath (userId_accountId i)) = Some (EAccount account)
        \<and> store_get (w_disk v') (account_configPath (userId_accountId i)) =
            Some (EAccount (account\<lparr>acc_Status := (acc_Status account)\<lparr>st_Sync := sync\<rparr>\<rparr>)))
    \<and> (\<forall>server. store_get (w_disk v) (accountServer_configPath (serverOf (userId_accountId i))) = Some (EAccountServer server) \<longrightarrow>
        (\<exists>st. store_get (w_disk v') (accountServer_configPath (serverOf (userId_accountId i))) =
            Some (EAccountServer (server\<lparr>ase_Status := st\<rparr>))))
    \<and> (store_get (w_disk v) (accountServer_configPath (serverOf (userId_accountId i))) = None \<longrightarrow>
        store_get (w_disk v') (accountServer_configPath (serverOf (userId_accountId i))) = None)
    \<and> store_get (w_disk v') (account_jwtPath (userId_accountId i)) = store_get (w_disk v) (account_jwtPath (userId_accountId i))
    \<and> handleRevokeRenew Backend_Secrets E' RenewOperation (Some (sec_InternalData sec)) v = (Inl (Fail ''unsupported operation''), v)"
proof -
  let ?a = "userId_accountId i" and ?exp = "expiry E (sec_TTL sec)"
  obtain nk key sub token raw t where c: "nkeyAt Req w (user_nkeyPath i) = Some nk" "e_PublicKey E (nk_Seed nk) = Some sub"
    "(''jwt'', JStr token) \<in> set (r_Data resp)"
    and t: "credential E w ?a key raw t token" "tm_subject t = sub" "tm_ttl t = sec_TTL sec"
    and lease: "sec_InternalData sec = creds_lease ?a sub ?exp"
    using pathUserCredsRead_secret [OF read sec] ttl(1) by (auto simp: lease_expiry_def)
  let ?p = "accountRevocation_configPath (AccountRevocationId (ui_op i) (ui_acc i) sub)"
  have a: "ai_op ?a = ui_op i" "ai_acc ?a = ui_acc i" by (simp_all add: userId_accountId_def)
  let ?rv = "extendRevocation E' (?exp * Second - e_now E') (revocationAt Req v (AccountRevocationId (ui_op i) (ui_acc i) sub))"
  note stores = userCredsRevoke_stores [OF run [unfolded lease handle_creds_lease] cfg on ttl(2) acc tx, unfolded a]
  have jwt: "account_jwtPath ?a \<notin> {?p, account_configPath ?a, accountServer_configPath (serverOf ?a)}" by (simp add: path_defs)
  obtain account where account: "store_get (w_disk v) (account_configPath ?a) = Some (EAccount account)"
    using acc by (auto simp: accountAt_def view_no_tx [OF tx] split: Option.bind_splits entry.splits)
  obtain sync where sync: "store_get (w_disk v') (account_configPath ?a) =
      Some (EAccount (account\<lparr>acc_Status := (acc_Status account)\<lparr>st_Sync := sync\<rparr>\<rparr>))"
    using stores(3) account by (auto simp: status_only_def)
  have server: "\<forall>server. store_get (w_disk v) (accountServer_configPath (serverOf ?a)) = Some (EAccountServer server) \<longrightarrow>
      (\<exists>st. store_get (w_disk v') (accountServer_configPath (serverOf ?a)) = Some (EAccountServer (server\<lparr>ase_Status := st\<rparr>)))"
    and no_server: "store_get (w_disk v) (accountServer_configPath (serverOf ?a)) = None \<longrightarrow>
      store_get (w_disk v') (accountServer_configPath (serverOf ?a)) = None"
    using stores(3) unfolding status_only_def by blast+
  have renew: "handleRevokeRenew Backend_Secrets E' RenewOperation (Some (sec_InternalData sec)) v = (Inl (Fail ''unsupported operation''), v)"
    unfolding lease handle_creds_lease throwM_apply ..
  have covered: "?exp * Second \<le> instant (rev_CreationTime ?rv) + rev_Ttl ?rv"
    using extendRevocation_covers [of E' "?exp * Second - e_now E'"] by simp
  have cred: "\<exists>raw t. credential E w ?a key raw t token \<and> tm_subject t = sub \<and> tm_ttl t = sec_TTL sec"
    using t by blast
  have frame: "\<forall>k. k \<notin> {?p, account_configPath ?a, accountServer_configPath (serverOf ?a)} \<longrightarrow>
      store_get (w_disk v') k = store_get (w_disk v) k"
    using stores(2) by blast
  show ?thesis
    by (rule exI [of _ nk], rule exI [of _ key], rule exI [of _ sub], rule exI [of _ token], rule exI [of _ ?p], rule exI [of _ ?rv],
        intro conjI)
       (rule refl c cred covered frame server no_server renew stores(1) stores(2) [OF jwt] exI [of _ account] exI [of _ sync] conjI account sync)+
qed

lemma creds_lease_revokes_key_witness:
  "\<exists>resp sec r v' rv. pathUserCredsRead sample_env (UserId ''op'' ''acc'' ''usr'')
       \<lparr>cf_ttl = Some 300, cf_signing_key = ''ask'', cf_not_before = None, cf_tags = None\<rparr> sample_world = (Inr (Some resp), sample_world)
     \<and> r_Secret resp = Some sec
     \<and> handleRevokeRenew Backend_Secrets sample_env RevokeOperation (Some (sec_InternalData sec)) sample_world = (Inr r, v')
     \<and> store_get (w_disk v') ''revocations/op/acc/PU'' = Some (ERevocation rv)
     \<and> 400 * Second \<le> instant (rev_CreationTime rv) + rev_Ttl rv"
proof -
  let ?i = "UserId ''op'' ''acc'' ''usr''"
  let ?f = "\<lparr>cf_ttl = Some 300, cf_signing_key = ''ask'', cf_not_before = None, cf_tags = None\<rparr>"
  let ?revoke = "\<lambda>sec. handleRevokeRenew Backend_Secrets sample_env RevokeOperation (Some (sec_InternalData sec)) sample_world"
  have "case pathUserCredsRead sample_env ?i ?f sample_world of (Inr (Some r), v) \<Rightarrow> (case r_Secret r of
      Some sec \<Rightarrow> \<not> isl (fst (?revoke sec)) \<and> sec_TTL sec = 300 * Second | None \<Rightarrow> False) | _ \<Rightarrow> False"
    by code_simp
  then obtain resp v sec where r: "pathUserCredsRead sample_env ?i ?f sample_world = (Inr (Some resp), v)" "r_Secret resp = Some sec"
      and ok: "\<not> isl (fst (?revoke sec))" and ttl: "sec_TTL sec = 300 * Second"
    by (auto split: prod.splits sum.splits option.splits)
  obtain r v' where run: "?revoke sec = (Inr r, v')" using ok by (cases "?revoke sec"; cases "fst (?revoke sec)") auto
  have e: "expiry sample_env (300 * Second) = 400" by code_simp
  have c: "Config sample_env Req sample_world = (Inr \<lparr>cfg_ImplicitRevocationsEnabled = True\<rparr>, sample_world)"
    "cfg_ImplicitRevocationsEnabled \<lparr>cfg_ImplicitRevocationsEnabled = True\<rparr>"
    by code_simp+
  have t: "0 < sec_TTL sec" "revokeDurationBuffer < expiry sample_env (sec_TTL sec) * Second - e_now sample_env"
    unfolding ttl by code_simp+
  have a: "accountAt Req sample_world (userId_accountId ?i) \<noteq> None" "w_tx sample_world = None" by code_simp+
  have k: "nkeyAt Req sample_world (user_nkeyPath ?i) = Some (nkeyOfSeed ''U'')"
    "e_PublicKey sample_env (nk_Seed (nkeyOfSeed ''U'')) = Some ''PU''"
    "accountRevocation_configPath (AccountRevocationId (ui_op ?i) (ui_acc ?i) ''PU'') = ''revocations/op/acc/PU''"
    by code_simp+
  have v: "v = sample_world" using pathUserCredsRead_secret [OF r] by blast
  from creds_lease_revokes_key [OF r run c t a]
  obtain rv where "store_get (w_disk v') ''revocations/op/acc/PU'' = Some (ERevocation rv)"
      "400 * Second \<le> instant (rev_CreationTime rv) + rev_Ttl rv"
    unfolding ttl e k(1) option.inject using k(2,3) by (metis option.inject)
  then show ?thesis using r run unfolding v by blast
qed

text \<open>
  C32. A revocation that never runs out (time to live 0) and was made in the past does not survive
  the end of a lease of the same subject: it becomes one that ends with the lease.
\<close>

theorem permanent_revocation_lost:
  assumes run: "handleRevokeRenew Backend_Secrets E RevokeOperation (Some (creds_lease a sub exp)) w = (Inr r, w')"
    and cfg: "Config E Req w = (Inr cfg, w)"
    and on: "cfg_ImplicitRevocationsEnabled cfg" and ttl: "revokeDurationBuffer < exp * Second - e_now E"
    and acc: "accountAt Req w a \<noteq> None" and tx: "w_tx w = None"
    and old: "revocationAt Req w (AccountRevocationId (ai_op a) (ai_acc a) sub) = Some \<lparr>rev_CreationTime = Some t, rev_Ttl = 0\<rparr>"
    and "t \<le> e_now E"
  shows "store_get (w_disk w') (accountRevocation_configPath (AccountRevocationId (ai_op a) (ai_acc a) sub)) =
    Some (ERevocation \<lparr>rev_CreationTime = Some (e_now E), rev_Ttl = exp * Second - e_now E\<rparr>)"
proof -
  have "0 < exp * Second - e_now E" using ttl by (simp add: revokeDurationBuffer_def Second_def)
  then have "extendRevocation E (exp * Second - e_now E) (revocationAt Req w (AccountRevocationId (ai_op a) (ai_acc a) sub)) =
      \<lparr>rev_CreationTime = Some (e_now E), rev_Ttl = exp * Second - e_now E\<rparr>"
    using assms(8) by (simp add: old extendRevocation_def instant_def)
  then show ?thesis
    using userCredsRevoke_stores(1) [OF run [unfolded handle_creds_lease] cfg on ttl acc tx] by simp
qed

lemma permanent_revocation_lost_witness:
  "\<exists>r w'. handleRevokeRenew Backend_Secrets sample_env RevokeOperation (Some (creds_lease sample_account ''PUkept'' 400)) sample_world
       = (Inr r, w')
     \<and> store_get sample_disk ''revocations/op/acc/PUkept'' = Some (ERevocation \<lparr>rev_CreationTime = Some 0, rev_Ttl = 0\<rparr>)
     \<and> store_get (w_disk w') ''revocations/op/acc/PUkept'' =
         Some (ERevocation \<lparr>rev_CreationTime = Some (100 * Second), rev_Ttl = 300 * Second\<rparr>)"
proof -
  let ?l = "creds_lease sample_account ''PUkept'' 400"
  have "case handleRevokeRenew Backend_Secrets sample_env RevokeOperation (Some ?l) sample_world of (Inr r, v) \<Rightarrow> True | _ \<Rightarrow> False"
    by code_simp
  then obtain r v where r: "handleRevokeRenew Backend_Secrets sample_env RevokeOperation (Some ?l) sample_world = (Inr r, v)"
    by (auto split: prod.splits sum.splits)
  have c: "Config sample_env Req sample_world = (Inr \<lparr>cfg_ImplicitRevocationsEnabled = True\<rparr>, sample_world)"
    "cfg_ImplicitRevocationsEnabled \<lparr>cfg_ImplicitRevocationsEnabled = True\<rparr>"
    "revokeDurationBuffer < 400 * Second - e_now sample_env" "accountAt Req sample_world sample_account \<noteq> None"
    "w_tx sample_world = None"
    "revocationAt Req sample_world (AccountRevocationId (ai_op sample_account) (ai_acc sample_account) ''PUkept'') =
       Some \<lparr>rev_CreationTime = Some 0, rev_Ttl = 0\<rparr>"
    "0 \<le> e_now sample_env"
    by code_simp+
  have p: "accountRevocation_configPath (AccountRevocationId (ai_op sample_account) (ai_acc sample_account) ''PUkept'') = ''revocations/op/acc/PUkept''"
    "e_now sample_env = 100 * Second" "400 * Second - e_now sample_env = 300 * Second"
    "store_get sample_disk ''revocations/op/acc/PUkept'' = Some (ERevocation \<lparr>rev_CreationTime = Some 0, rev_Ttl = 0\<rparr>)"
    by code_simp+
  from permanent_revocation_lost [OF r c] r p show ?thesis by auto
qed

end
