(* ===== verification/AccountClaims.thy ===== *)
theory AccountClaims
  imports CredsFacts
begin

text \<open>
  The properties of accounts: what their JWT says, what deleting, revoking and rotating leaves in
  the storage, and which accounts are protected.
\<close>

section \<open>Helpers\<close>

lemma sample_plain: "plain sample_env s sample_world"
  by (simp add: plain_def sample_env_def)

lemma sample_tidy: "tidy s sample_world"
proof -
  have "list_all tidyKey (map fst sample_disk)" by code_simp
  then have "store_get sample_disk k \<noteq> None \<Longrightarrow> tidyKey k" for k
    unfolding store_get_key list_all_iff by blast
  then show ?thesis by (simp add: tidy_def view_no_tx sample_world_def empty_world_def)
qed

lemma syncOrWarn_frame:
  assumes "syncOrWarn E i resp w = (Inr r, w')" and "w_tx w = None"
    and "k \<noteq> account_configPath i" and "k \<noteq> accountServer_configPath (serverOf i)"
  shows "store_get (w_disk w') k = store_get (w_disk w) k"
proof -
  have "w' = snd (syncAccountUpdate E i w)"
    using assms(1) by (auto simp: syncOrWarn_def catchFail_def bindM_apply returnM_apply split: prod.splits sum.splits err.splits)
  then show ?thesis using syncAccountUpdate_frame [OF assms(2-4)] by simp
qed

text \<open>Issuing an account's JWT only writes the JWT.\<close>

lemma reader_Account_state: "reader_Account E s rd w = (Inr a, w') \<Longrightarrow> w' = w"
  by (erule read_only_Inr [rotated]) (intro preserves_rules)

lemma selectSigningKey_state: "selectSigningKey E s oid a w = (Inr k, w') \<Longrightarrow> w' = w"
  by (erule read_only_Inr [rotated]) (intro preserves_rules)

lemma enrichAccountClaims_state: "enrichAccountClaims E s i c w = (Inr c', w') \<Longrightarrow> w' = w"
  by (erule read_only_Inr [rotated]) (intro preserves_rules)

lemma issueAndSaveAccountJWT_state:
  assumes "issueAndSaveAccountJWT E s rd w = (Inr ws, w')"
  shows "w' = w \<or> (\<exists>j. w' = written s (ActPut (account_jwtPath (reader_AccountId rd)) (EJwt j)) w)"
  using assms unfolding issueAndSaveAccountJWT_def Let_def storeAccountJWT_def
  by ((auto elim!: bindM_InrE thenM_InrE
      dest!: reader_Account_state selectSigningKey_state reader_Inr(1) accountClaims_state enrichAccountClaims_state storeInStorage_Inr
      simp: keyPair_Inr wrapErr_Inr PublicKey_Inr returnM_apply throwM_apply split: option.splits prod.splits if_splits); blast)

text \<open>Issuing an account's JWT outside a transaction, then pushing it.\<close>

lemma issue_then_sync:
  assumes E: "storage_ok E" "e_native E" and w: "w_tx w = None" "tidy Base w" and acc: "accountAt Req w a = Some acc"
    and issue: "issueAndSaveAccountJWT E Req (ReadAccount a) w = (Inr ws, w1)"
    and sync: "syncOrWarn E a resp w1 = (Inr r, w2)"
  obtains kp selected claims token where "signing_choice Req w (accountId_operatorId a) acc = Some (kp, selected)"
    and "e_EncodeAccount E kp claims = Some token" and "ac_Name claims = ai_acc a"
    and "\<And>n r. no_slash n \<Longrightarrow> revocationAt Req w (accountId_revocationId a n) = Some r \<Longrightarrow>
       map_of (ja_Revocations (ac_Account claims)) n = Some (Unix (rev_CreationTime r))"
    and "store_get (w_disk w2) (account_jwtPath a) = Some (EJwt (NewJwt token []))"
    and "\<And>k. k \<notin> {account_configPath a, account_jwtPath a, accountServer_configPath (serverOf a)} \<Longrightarrow>
       store_get (w_disk w2) k = store_get (w_disk w) k"
proof -
  have "plain E Req w" "tidy Req w" using E w by (simp_all add: plain_def tidy_def view_no_tx)
  then obtain kp selected claims token where claims: "signing_choice Req w (accountId_operatorId a) acc = Some (kp, selected)"
      "e_EncodeAccount E kp claims = Some token" "ac_Name claims = ai_acc a"
    and w1: "w1 = written Req (ActPut (account_jwtPath a) (EJwt (NewJwt token []))) w"
    and revs: "\<forall>n r. no_slash n \<longrightarrow> revocationAt Req w (accountId_revocationId a n) = Some r \<longrightarrow>
         map_of (ja_Revocations (ac_Account claims)) n = Some (Unix (rev_CreationTime r))"
    using issueAndSaveAccountJWT_Inr [OF E(1) _ _ acc issue] by blast
  have d: "w_tx w1 = None" "w_disk w1 = store_put (w_disk w) (account_jwtPath a) (EJwt (NewJwt token []))"
    using w by (simp_all add: w1 written_def pending_def)
  have frame: "store_get (w_disk w2) k = store_get (w_disk w1) k"
    if "k \<noteq> account_configPath a" "k \<noteq> accountServer_configPath (serverOf a)" for k
    using syncOrWarn_frame [OF sync d(1) that] .
  have "store_get (w_disk w2) (account_jwtPath a) = Some (EJwt (NewJwt token []))"
    by (subst frame) (simp_all add: d store_get_put path_defs)
  with revs show ?thesis
    by (intro that [OF claims]) (auto simp: frame d store_get_put)
qed

section \<open>Signing\<close>

text \<open>
  C9. Who signs an account. When \<^verbatim>\<open>issueAndSaveAccountJWT\<close> succeeds for an account that exists, it
  has stored, at the path of the account's JWT and nowhere else, a valid JWT of that name, signed with
  the first key that exists of these: the operator signing key the account names, the default signing
  key of the operator, the identity key of the operator. A key that was named and is gone does not
  make it fail.
\<close>

theorem account_jwt_signer:
  assumes "storage_ok E" and "plain E s w" and "tidy s w" and "accountAt s w i = Some account"
    and "issueAndSaveAccountJWT E s (ReadAccount i) w = (Inr ws, w')"
  shows "\<exists>kp claims token. w' = written s (ActPut (account_jwtPath i) (EJwt (NewJwt token []))) w
    \<and> e_EncodeAccount E kp claims = Some token \<and> snd (e_ValidateAccount E claims) = [] \<and> ac_Name claims = ai_acc i
    \<and> (let opId = accountId_operatorId i;
           key = (\<lambda>n. if n = [] then None else nkeyAt s w (operatorSigningKey_nkeyPath (operatorId_signingKeyId opId n)));
           dflt = (case operatorAt s w opId of None \<Rightarrow> [] | Some op \<Rightarrow> op_DefaultSigningKey op)
       in Some kp = map_option nk_Seed (case key (acc_SigningKey account) of Some nk \<Rightarrow> Some nk
          | None \<Rightarrow> (case key dflt of Some nk \<Rightarrow> Some nk | None \<Rightarrow> nkeyAt s w (operator_nkeyPath opId))))"
proof -
  obtain kp selected claims token where
    choice: "signing_choice s w (accountId_operatorId i) account = Some (kp, selected)"
    and issued: "w' = written s (ActPut (account_jwtPath i) (EJwt (NewJwt token []))) w" "e_EncodeAccount E kp claims = Some token"
      "snd (e_ValidateAccount E claims) = []" "ac_Name claims = ai_acc i"
    using issueAndSaveAccountJWT_Inr [OF assms] by blast
  show ?thesis
    using choice
    by (intro exI [of _ kp] exI [of _ claims] exI [of _ token])
       (auto simp: issued signing_choice_def operator_choice_def storedKey_def Let_def split: option.splits if_splits)
qed

lemma account_jwt_signer_witness:
  "\<exists>w'. issueAndSaveAccountJWT sample_env Base (ReadAccount sample_account) sample_world = (Inr [], w')
     \<and> store_get (w_disk w') ''account-jwts/op/acc'' = Some (EJwt (NewJwt ''Ok.acc'' []))"
proof -
  have "case issueAndSaveAccountJWT sample_env Base (ReadAccount sample_account) sample_world of (Inr ws, w') \<Rightarrow> ws = [] | _ \<Rightarrow> False"
    by code_simp
  then obtain w' where r: "issueAndSaveAccountJWT sample_env Base (ReadAccount sample_account) sample_world = (Inr [], w')"
    by (auto split: prod.splits sum.splits)
  have acc: "accountAt Base sample_world sample_account = Some NewAccount" by code_simp
  have opr: "map_option op_DefaultSigningKey (operatorAt Base sample_world (accountId_operatorId sample_account)) = Some ''sk''"
    and nk: "nkeyAt Base sample_world (operatorSigningKey_nkeyPath (operatorId_signingKeyId (accountId_operatorId sample_account) ''sk''))
      = Some (nkeyOfSeed ''Ok'')" by code_simp+
  from account_jwt_signer [OF sample_env_ok(1) sample_plain sample_tidy acc r] opr nk
  obtain claims token where w': "w' = written Base (ActPut (account_jwtPath sample_account) (EJwt (NewJwt token []))) sample_world"
    and token: "e_EncodeAccount sample_env ''Ok'' claims = Some token" "ac_Name claims = ai_acc sample_account"
    by (auto simp: Let_def NewAccount_def nkeyOfSeed_def)
  have "token = ''Ok.acc''" "account_jwtPath sample_account = ''account-jwts/op/acc''"
    using token by (simp_all add: sample_env_def sample_account_def path_defs)
  then show ?thesis using r by (simp add: w' written_def pending_def store_get_put)
qed

section \<open>Deleting\<close>

text \<open>
  C7. \<^verbatim>\<open>deleteAccount\<close> is complete and touches nothing else: on a storage that does not fail it
  succeeds, and afterwards exactly the account's configuration, identity key, JWT, signing keys,
  imports, revocations, users with their keys and ephemeral users are gone; every other path
  reads as before, however many pages the five listings take.
\<close>

theorem delete_account_complete:
  assumes "storage_ok E" and "plain E s w" and "tidy s w"
  shows "\<exists>w'. deleteAccount E s i w = (Inr (), w')
    \<and> (\<forall>k. view s w' k = (if account_part s w i k then None else view s w k))"
  using deleteAccount_erases [OF assms, of i] unfolding erases_def by blast

lemma delete_account_complete_witness:
  "\<exists>w'. deleteAccount sample_env Base sample_account sample_world = (Inr (), w')
     \<and> view Base w' ''user-keys/op/acc/usr'' = None \<and> view Base w' ''operators/op'' \<noteq> None"
proof -
  obtain w' where w': "deleteAccount sample_env Base sample_account sample_world = (Inr (), w')"
    and v: "\<And>k. view Base w' k = (if account_part Base sample_world sample_account k then None else view Base sample_world k)"
    using delete_account_complete [OF sample_env_ok(1) sample_plain sample_tidy] by blast
  have "user_nkeyPath (accountId_userId sample_account ''usr'') = ''user-keys/op/acc/usr''"
    "view Base sample_world (user_configPath (accountId_userId sample_account ''usr'')) \<noteq> None" "no_slash ''usr''"
    by code_simp+
  then have "account_part Base sample_world sample_account ''user-keys/op/acc/usr''"
    unfolding account_part_def user_part_def by metis
  moreover have "\<not> account_part Base sample_world sample_account ''operators/op''"
    by (auto simp: account_part_def user_part_def below_def path_defs sample_account_def)
  moreover have "view Base sample_world ''operators/op'' \<noteq> None" by code_simp
  ultimately show ?thesis using w' v by auto
qed

section \<open>Revoking a key\<close>

text \<open>
  C12. Revoking a user's key takes effect. When \<^verbatim>\<open>pathAccountRevocationCreateUpdate\<close> answers without
  an error, the revocation is stored with the time of the request, and the stored JWT of the
  account encodes claims that name the account and carry the new revocation and every other one
  in the storage.
\<close>

theorem revocation_in_issued_jwt:
  assumes run: "pathAccountRevocationCreateUpdate E i ttl w = (Inr (Some resp), w')" and ok: "r_Error resp = None"
    and E: "storage_ok E" "e_native E" and tidy: "tidy Base w" and sub: "no_slash (ari_sub i)" "ari_sub i \<noteq> []"
  shows "\<exists>kp claims token rv. e_EncodeAccount E kp claims = Some token
    \<and> store_get (w_disk w') (account_jwtPath (accountRevocationId_accountId i)) = Some (EJwt (NewJwt token []))
    \<and> store_get (w_disk w') (accountRevocation_configPath i) = Some (ERevocation rv) \<and> rev_CreationTime rv = Some (e_now E)
    \<and> ac_Name claims = ari_acc i
    \<and> map_of (ja_Revocations (ac_Account claims)) (ari_sub i) = Some (Unix (Some (e_now E)))
    \<and> (\<forall>n r. no_slash n \<longrightarrow> store_get (w_disk w')
          (accountRevocation_configPath (accountId_revocationId (accountRevocationId_accountId i) n)) = Some (ERevocation r) \<longrightarrow>
        map_of (ja_Revocations (ac_Account claims)) n = Some (Unix (rev_CreationTime r)))"
proof -
  let ?a = "accountRevocationId_accountId i"
  let ?w0 = "w\<lparr>w_tx := Some []\<rparr>"
  have i: "accountId_revocationId ?a (ari_sub i) = i" by (cases i) (simp add: path_defs)
  let ?rv = "\<lparr>rev_CreationTime = Some (e_now E), rev_Ttl = given (map_option seconds ttl)
      (rev_Ttl (case revocationAt Req ?w0 i of None \<Rightarrow> NewAccountRevocation | Some r \<Rightarrow> r))\<rparr>"
  let ?put = "written Req (ActPut (accountRevocation_configPath i) (ERevocation ?rv)) ?w0"
  have "\<exists>acc ws w2 w3 r. accountAt Req ?w0 ?a = Some acc
    \<and> issueAndSaveAccountJWT E Req (ReadAccount ?a) (committed ?put) = (Inr ws, w3)
    \<and> syncOrWarn E ?a (AddWarnings (reissueWarnings (ari_acc i) ws) emptyResponse) w3 = (Inr r, w2) \<and> w' = w2\<lparr>w_tx := None\<rparr>"
    by (rule withTx_success [OF _ E(1) run [unfolded pathAccountRevocationCreateUpdate_def Let_def] ok],
        (intro refuses_rules)[1])
      (fastforce elim!: bindM_InrE thenM_InrE dest!: reader_Inr(4,7) simp: returnError_def throwM_apply returnM_apply
        wrapErr_Inr storeInStorage_ok [OF E(1)] EndTx_ok [OF E(1)] split: if_splits)
  then obtain acc ws w2 w3 r where acc: "accountAt Req ?w0 ?a = Some acc"
    and issue: "issueAndSaveAccountJWT E Req (ReadAccount ?a) (committed ?put) = (Inr ws, w3)"
    and sync: "syncOrWarn E ?a (AddWarnings (reissueWarnings (ari_acc i) ws) emptyResponse) w3 = (Inr r, w2)"
    and w': "w' = w2\<lparr>w_tx := None\<rparr>"
    by blast
  define w1 where "w1 = committed ?put"
  have w1: "w_tx w1 = None" "w_disk w1 = store_put (w_disk w) (accountRevocation_configPath i) (ERevocation ?rv)"
    by (simp_all add: w1_def committed_def written_def pending_def)
  have v1: "view Req w1 k = (if k = accountRevocation_configPath i then Some (ERevocation ?rv) else store_get (w_disk w) k)" for k
    by (simp add: view_no_tx w1 store_get_put)
  have a1: "accountAt Req w1 ?a = Some acc"
    using acc by (simp add: accountAt_def v1 view_tx [of _ "[]"] path_defs)
  have tidy1: "tidy Base w1"
    using tidy tidy_names(10) [of i] sub
    by (auto simp: tidy_def view_no_tx [OF w1(1)] w1 store_get_put view_Base word_def simp del: word_simps)
  obtain kp selected claims token where claims: "e_EncodeAccount E kp claims = Some token" "ac_Name claims = ai_acc ?a"
    and revs: "\<And>n r. no_slash n \<Longrightarrow> revocationAt Req w1 (accountId_revocationId ?a n) = Some r \<Longrightarrow>
         map_of (ja_Revocations (ac_Account claims)) n = Some (Unix (rev_CreationTime r))"
    and jwt: "store_get (w_disk w2) (account_jwtPath ?a) = Some (EJwt (NewJwt token []))"
    and frame: "\<And>k. k \<notin> {account_configPath ?a, account_jwtPath ?a, accountServer_configPath (serverOf ?a)} \<Longrightarrow>
       store_get (w_disk w2) k = store_get (w_disk w1) k"
    using issue_then_sync [OF E w1(1) tidy1 a1 issue [folded w1_def] sync] by metis
  have stored: "store_get (w_disk w') (accountRevocation_configPath j) = view Req w1 (accountRevocation_configPath j)" for j
    by (simp add: w' frame path_defs view_no_tx w1(1))
  have new: "store_get (w_disk w') (accountRevocation_configPath i) = Some (ERevocation ?rv)"
    by (simp add: stored v1)
  have all: "map_of (ja_Revocations (ac_Account claims)) n = Some (Unix (rev_CreationTime r))"
    if "no_slash n" "store_get (w_disk w') (accountRevocation_configPath (accountId_revocationId ?a n)) = Some (ERevocation r)" for n r
    using revs that by (simp add: stored revocationAt_def)
  have "map_of (ja_Revocations (ac_Account claims)) (ari_sub i) = Some (Unix (Some (e_now E)))"
    using all [OF sub(1)] new by (simp add: i)
  moreover have "ac_Name claims = ari_acc i" using claims(2) by (simp add: path_defs)
  ultimately show ?thesis
    using claims(1) jwt new all by (intro exI [of _ kp] exI [of _ claims] exI [of _ token] exI [of _ ?rv]) (simp add: w')
qed

lemma revocation_in_issued_jwt_witness:
  "\<exists>resp w' token. pathAccountRevocationCreateUpdate sample_env (AccountRevocationId ''op'' ''acc'' ''PUnew'') None sample_world
       = (Inr (Some resp), w') \<and> store_get (w_disk w') ''account-jwts/op/acc'' = Some (EJwt (NewJwt token []))"
proof -
  let ?i = "AccountRevocationId ''op'' ''acc'' ''PUnew''"
  have "case pathAccountRevocationCreateUpdate sample_env ?i None sample_world of
      (Inr (Some r), v) \<Rightarrow> r_Error r = None | _ \<Rightarrow> False" by code_simp
  then obtain resp v where r: "pathAccountRevocationCreateUpdate sample_env ?i None sample_world = (Inr (Some resp), v)"
      "r_Error resp = None"
    by (auto split: prod.splits sum.splits option.splits)
  have p: "e_native sample_env" "no_slash (ari_sub ?i)" "ari_sub ?i \<noteq> []"
    "account_jwtPath (accountRevocationId_accountId ?i) = ''account-jwts/op/acc''" by code_simp+
  from revocation_in_issued_jwt [OF r sample_env_ok(1) p(1) sample_tidy p(2,3)] r p(4) show ?thesis by auto
qed

section \<open>Managed accounts\<close>

text \<open>
  C26. The managed system account belongs to its operator: writing and deleting it are refused with
  an error response, and nothing that is stored changes.
\<close>

theorem managed_account_protected:
  assumes E: "storage_ok E" and tx: "w_tx w = None" and acc: "store_get (w_disk w) (account_configPath i) = Some (EAccount a)"
    and managed: "st_IsManaged (acc_Status a)"
    and op: "store_get (w_disk w) (operator_configPath (accountId_operatorId i)) \<noteq> None"
  shows "(\<exists>resp. pathAccountCreateUpdate E i f w = (Inr (Some resp), w) \<and> r_Error resp \<noteq> None)
    \<and> (\<exists>resp. pathAccountDelete E i w = (Inr (Some resp), w) \<and> r_Error resp \<noteq> None)"
proof -
  have v: "view Req (w\<lparr>w_tx := Some []\<rparr>) k = store_get (w_disk w) k" for k by (simp add: view_tx [of _ "[]"])
  have same: "w\<lparr>w_tx := None\<rparr> = w" using tx by simp
  have read: "Account E Req i (w\<lparr>w_tx := Some []\<rparr>) = (Inr (Some a), w\<lparr>w_tx := Some []\<rparr>)"
    by (simp add: Account_def get_ok [OF E] v acc)
  have ex: "operatorExists E Req (accountId_operatorId i) (w\<lparr>w_tx := Some []\<rparr>) = (Inr True, w\<lparr>w_tx := Some []\<rparr>)"
    using op by (simp add: operatorExists_def sGet_ok [OF E] v returnM_apply)
  show ?thesis
    unfolding pathAccountCreateUpdate_def pathAccountDelete_def withTx_def handler_def accountStore_def
    by (simp add: StartTx_ok [OF E] ex read managed returnError_def throwM_apply ErrorResponse_def same)
qed

lemma managed_account_protected_witness:
  "let w = sample_world\<lparr>w_disk := store_put sample_disk ''accounts/op/SYS''
         (EAccount (NewAccount\<lparr>acc_Status := \<lparr>st_IsSystemAccount = True, st_IsManaged = True, st_Sync = None\<rparr>\<rparr>))\<rparr>
   in \<exists>resp. pathAccountDelete sample_env (AccountId ''op'' ''SYS'') w = (Inr (Some resp), w) \<and> r_Error resp \<noteq> None"
proof -
  let ?a = "NewAccount\<lparr>acc_Status := \<lparr>st_IsSystemAccount = True, st_IsManaged = True, st_Sync = None\<rparr>\<rparr>"
  let ?w = "sample_world\<lparr>w_disk := store_put sample_disk ''accounts/op/SYS'' (EAccount ?a)\<rparr>"
  let ?i = "AccountId ''op'' ''SYS''"
  have p: "w_tx ?w = None" "store_get (w_disk ?w) (account_configPath ?i) = Some (EAccount ?a)" "st_IsManaged (acc_Status ?a)"
    "store_get (w_disk ?w) (operator_configPath (accountId_operatorId ?i)) \<noteq> None"
    by code_simp+
  show ?thesis
    unfolding Let_def using managed_account_protected [OF sample_env_ok(1) p] by blast
qed

section \<open>Rotation\<close>

lemma orNilNkey_NewAccountNKey_Inr:
  "orNilNkey (NewAccountNKey E) w = (Inr nk, w') \<Longrightarrow> \<exists>seed. nk = nkeyOfSeed seed \<and> e_DecodeSeed E seed = Some PrefixAccount
     \<and> e_CreatePair E PrefixAccount (w_entropy w) = Some seed \<and> w' = w\<lparr>w_entropy := Suc (w_entropy w)\<rparr>"
  by (auto simp: orNilNkey_def NewAccountNKey_def validateSeed_def catchFail_def liftOption_def run_simps
      elim!: bindM_InrE thenM_InrE createSeed_InrE split: prod.splits sum.splits err.splits option.splits if_splits)

text \<open>
  C33. Rotating a signing key of an account drops its scope. If \<^verbatim>\<open>pathRotateAccountSigningKey\<close>
  succeeds, the key that is stored is fresh, of the account kind, and unscoped, without template
  and description, whatever the old key was: users signed with it are no longer limited by it.
\<close>

theorem rotated_signing_key_unscoped:
  assumes run: "pathRotateAccountSigningKey E i w = (Inr (Some resp), w')" and ok: "r_Error resp = None"
    and E: "storage_ok E" "e_native E"
  shows "\<exists>seed. store_get (w_disk w') (accountSigningKey_nkeyPath i) =
      Some (ENkey \<lparr>nk_Seed = seed, nk_Scoped = False, nk_Template = None, nk_Description = []\<rparr>)
    \<and> e_CreatePair E PrefixAccount (w_entropy w) = Some seed \<and> e_DecodeSeed E seed = Some PrefixAccount"
proof -
  let ?a = "accountSigningKeyId_accountId i"
  let ?w0 = "w\<lparr>w_tx := Some []\<rparr>"
  have "\<exists>nk v ws w1 r w2. orNilNkey (NewAccountNKey E) ?w0 = (Inr nk, v)
    \<and> issueAndSaveAccountJWT E Req (ReadAccount ?a) (written Req (ActPut (accountSigningKey_nkeyPath i) (ENkey nk)) v) = (Inr ws, w1)
    \<and> syncOrWarn E ?a (AddWarnings (reissueWarnings (ai_acc ?a) ws) emptyResponse) (committed w1) = (Inr r, w2) \<and> w' = w2\<lparr>w_tx := None\<rparr>"
    by (rule withTx_success [OF _ E(1) run [unfolded pathRotateAccountSigningKey_def Let_def] ok],
        (intro refuses_rules)[1])
      (fastforce elim!: bindM_InrE thenM_InrE dest!: reader_Inr(1) simp: returnError_def throwM_apply returnM_apply
        wrapErr_Inr storeInStorage_ok [OF E(1)] EndTx_ok [OF E(1)] split: if_splits option.splits)
  then obtain nk v ws w1 r w2 where nk: "orNilNkey (NewAccountNKey E) ?w0 = (Inr nk, v)"
    and issue: "issueAndSaveAccountJWT E Req (ReadAccount ?a) (written Req (ActPut (accountSigningKey_nkeyPath i) (ENkey nk)) v) = (Inr ws, w1)"
    and sync: "syncOrWarn E ?a (AddWarnings (reissueWarnings (ai_acc ?a) ws) emptyResponse) (committed w1) = (Inr r, w2)"
    and w': "w' = w2\<lparr>w_tx := None\<rparr>"
    by blast
  from orNilNkey_NewAccountNKey_Inr [OF nk] obtain seed where seed: "nk = nkeyOfSeed seed" "e_DecodeSeed E seed = Some PrefixAccount"
      "e_CreatePair E PrefixAccount (w_entropy w) = Some seed" by auto
  let ?k = "accountSigningKey_nkeyPath i"
  have path: "?k \<notin> {account_configPath ?a, account_jwtPath ?a, accountServer_configPath (serverOf ?a)}" by (simp add: path_defs)
  have "view Req w1 ?k = Some (ENkey nk)"
    using issueAndSaveAccountJWT_state [OF issue] path by (auto simp: view_written_put)
  moreover have "w_tx (committed w1) = None" by (simp add: committed_def split: option.split)
  ultimately have "store_get (w_disk w2) ?k = Some (ENkey nk)"
    using syncOrWarn_frame [OF sync, of ?k] path by (simp flip: view_Base)
  then show ?thesis using seed by (auto simp: nkeyOfSeed_def w')
qed

lemma rotated_signing_key_unscoped_witness:
  "\<exists>resp w' seed. pathRotateAccountSigningKey sample_env (AccountSigningKeyId ''op'' ''acc'' ''ask'') sample_world = (Inr (Some resp), w')
     \<and> store_get sample_disk ''account-signing-keys/op/acc/ask'' = Some (ENkey ((nkeyOfSeed ''Ak'')\<lparr>nk_Scoped := True\<rparr>))
     \<and> store_get (w_disk w') ''account-signing-keys/op/acc/ask'' =
         Some (ENkey \<lparr>nk_Seed = seed, nk_Scoped = False, nk_Template = None, nk_Description = []\<rparr>)"
proof -
  let ?i = "AccountSigningKeyId ''op'' ''acc'' ''ask''"
  have "case pathRotateAccountSigningKey sample_env ?i sample_world of (Inr (Some r), v) \<Rightarrow> r_Error r = None | _ \<Rightarrow> False"
    by code_simp
  then obtain resp v where r: "pathRotateAccountSigningKey sample_env ?i sample_world = (Inr (Some resp), v)" "r_Error resp = None"
    by (auto split: prod.splits sum.splits option.splits)
  have p: "e_native sample_env" "accountSigningKey_nkeyPath ?i = ''account-signing-keys/op/acc/ask''"
    "store_get sample_disk ''account-signing-keys/op/acc/ask'' = Some (ENkey ((nkeyOfSeed ''Ak'')\<lparr>nk_Scoped := True\<rparr>))"
    by code_simp+
  from rotated_signing_key_unscoped [OF r sample_env_ok(1) p(1)] r p(2,3) show ?thesis by auto
qed

section \<open>Operators\<close>

text \<open>
  Deleting an operator leaves its signing keys behind, with or without an error: every path
  under \<^verbatim>\<open>operator-signing-keys/\<close> reads as before. An operator of the same name that is made
  later finds them.
\<close>

lemma operator_delete_keeps_signing_keys:
  assumes "w_tx w = None"
  shows "store_get (w_disk (snd (pathOperatorDelete E i w))) (operatorSigningKey_nkeyPath k) =
    store_get (w_disk w) (operatorSigningKey_nkeyPath k)"
proof (rule writes_frame [OF _ assms])
  let ?P = "\<lambda>a. path_kind (action_key a) \<noteq> ''operator-signing-keys''"
  have D: "preserves (writes ?P d) (deleteAccount E s a)" for d s a
    unfolding deleteAccount_def deleteListed_def deleteUser_def
    by (intro preserves_rules writes_sDelete writes_store) (simp_all add: path_simps)
  show "preserves (writes ?P (w_disk w)) (pathOperatorDelete E i)"
    unfolding pathOperatorDelete_def
    by (intro preserves_rules D writes_sDelete) (simp_all add: path_simps)
qed (auto simp: path_simps)

lemma operator_delete_keeps_signing_keys_witness:
  "store_get (w_disk (snd (pathOperatorDelete sample_env (OperatorId ''op'') sample_world))) ''operator-signing-keys/op/sk'' \<noteq> None
   \<and> store_get (w_disk (snd (pathOperatorDelete sample_env (OperatorId ''op'') sample_world))) ''operators/op'' = None"
proof -
  have p: "w_tx sample_world = None" "operatorSigningKey_nkeyPath (OperatorSigningKeyId ''op'' ''sk'') = ''operator-signing-keys/op/sk''"
    "store_get (w_disk sample_world) ''operator-signing-keys/op/sk'' \<noteq> None"
    "store_get (w_disk (snd (pathOperatorDelete sample_env (OperatorId ''op'') sample_world))) ''operators/op'' = None"
    by code_simp+
  then show ?thesis
    using operator_delete_keeps_signing_keys [OF p(1), of sample_env "OperatorId ''op''" "OperatorSigningKeyId ''op'' ''sk''"] by simp
qed

section \<open>Updates\<close>

text \<open>
  C27. An account's JWT is issued anew exactly if a request changes the account: \<^verbatim>\<open>jwtDirty\<close> is set
  by the fields of an update if and only if setting them changes the entry.
\<close>

theorem account_dirty_iff_changed: "accountFieldsDirty f a \<longleftrightarrow> setAccountFields f a \<noteq> a"
  by (cases a; cases "af_claims f"; cases "af_signing_key f"; cases "af_default_signing_key f")
     (auto simp: accountFieldsDirty_def setAccountFields_def rawField_def)

end
