(* ===== verification/UpkeepClaims.thy ===== *)
theory UpkeepClaims
  imports AccountClaims
begin

text \<open>
  The properties of the loops over stored entries: paging runs each body once per listed name, and
  pruning removes exactly the revocations that have run out.
\<close>

section \<open>Paging\<close>

text \<open>
  C25. Over the storage or a transaction of its own, that is, not inside a transaction that
  \<^verbatim>\<open>pkg/shimtx\<close> emulates, \<^verbatim>\<open>for ... range listPaged\<close> terminates and visits every name that is listed
  when it starts, once and in order, although it fetches page after page while its body changes the
  storage: if the body leaves the listing of the names behind the current one alone, the loop is the fold of
  the body over that listing, for any number of pages. The listing is strictly sorted, and the names
  without a slash in it are those with an entry. (Over an emulated transaction with pending puts below the
  prefix a name may be visited twice and out of order: \<open>shim_list_page_disorder\<close>.)
\<close>

theorem paged_loop_is_fold:
  assumes "storage_ok E" and "tail_stable s p I body" and "\<And>w. I w \<Longrightarrow> e_native E \<or> pending s w = None"
    and "I w" and "view s w p = None"
  shows "for_listPaged E s p body a w = foldM body (children s w p) a w
    \<and> sorted_wrt (<) (children s w p)
    \<and> (\<forall>c. no_slash c \<longrightarrow> (c \<in> set (children s w p) \<longleftrightarrow> view s w (p @ c) \<noteq> None))"
  using for_listPaged_all [OF assms(1,2) _ assms(4,5)] assms(3) children_sorted children_key by (auto simp: plain_def)

lemma paged_loop_is_fold_witness:
  "fst (for_listPaged sample_env Base ''revocations/op/acc/'' (\<lambda>n ns. returnM (ns @ [n])) [] sample_world) = Inr [''PUkept'', ''PUold'']"
proof -
  let ?p = "''revocations/op/acc/''" and ?body = "\<lambda>n ns. returnM (ns @ [n]) :: string list m"
  have "tail_stable Base ?p (plain sample_env Base) ?body"
    by (rule read_only_tail_stable) (rule preserves_return)
  moreover have "view Base sample_world ?p = None" by code_simp
  ultimately have "for_listPaged sample_env Base ?p ?body [] sample_world = foldM ?body (children Base sample_world ?p) [] sample_world"
    using paged_loop_is_fold [of sample_env Base ?p "plain sample_env Base" ?body sample_world "[]"] sample_plain
    by (simp add: plain_def)
  moreover have "fst (foldM ?body (children Base sample_world ?p) [] sample_world) = Inr [''PUkept'', ''PUold'']" by code_simp
  ultimately show ?thesis by simp
qed

section \<open>Pruning revocations\<close>

definition run_out :: "env \<Rightarrow> sref \<Rightarrow> world \<Rightarrow> accountId \<Rightarrow> string \<Rightarrow> bool" where
  "run_out E s w i n \<longleftrightarrow> (\<exists>r. revocationAt s w (accountId_revocationId i n) = Some r \<and> revocationExpired E r)"

definition prune_step :: "env \<Rightarrow> sref \<Rightarrow> accountId \<Rightarrow> string \<Rightarrow> bool \<Rightarrow> bool m" where
  "prune_step E s i n dirty = bindM (AccountRevocation E s (accountId_revocationId i n)) (\<lambda>e. case e of
     None \<Rightarrow> returnM dirty
   | Some r \<Rightarrow> if revocationExpired E r
       then bindM (catchFail (sDelete E s (accountRevocation_configPath (accountId_revocationId i n)))) (\<lambda>d.
         returnM (case d of Inl e \<Rightarrow> dirty | Inr _ \<Rightarrow> True))
       else returnM dirty)"

lemma prune_step_run:
  assumes "storage_ok E" and "typed_view s w"
  shows "prune_step E s i n dirty w = (Inr (dirty \<or> run_out E s w i n),
    if run_out E s w i n then written s (ActDelete (account_revocationPrefix i @ n)) w else w)"
  by (cases "revocationAt s w (accountId_revocationId i n)")
     (simp_all add: prune_step_def bindM_apply reader_ok(5) [OF assms] run_out_def returnM_apply sDelete_ok [OF assms(1)] child_paths(3))

lemma typed_view_delete: "typed_view s w \<Longrightarrow> typed_view s (written s (ActDelete k) w)"
  by (auto simp: typed_view_def view_written_delete split: if_splits)

lemma prune_stable:
  assumes "storage_ok E"
  shows "tail_stable s (account_revocationPrefix i) (\<lambda>w. plain E s w \<and> typed_view s w) (prune_step E s i)"
  unfolding tail_stable_def
proof (intro allI impI)
  fix x a w r w'
  assume I: "plain E s w \<and> typed_view s w" and d: "prune_step E s i x a w = (r, w')"
  then have w': "w' = (if run_out E s w i x then written s (ActDelete (account_revocationPrefix i @ x)) w else w)"
    by (simp add: prune_step_run [OF assms])
  have "c \<in> set (children s (written s (ActDelete (account_revocationPrefix i @ x)) w) (account_revocationPrefix i))
      \<longleftrightarrow> c \<in> set (children s w (account_revocationPrefix i))" if "x < c" for c
    using that direct_child_le [of x] unfolding children_child view_written_delete by (metis leD same_append_eq)
  then show "(plain E s w' \<and> typed_view s w') \<and> (\<forall>c. x < c \<longrightarrow>
      (c \<in> set (children s w' (account_revocationPrefix i)) \<longleftrightarrow> c \<in> set (children s w (account_revocationPrefix i))))"
    using I by (simp add: w' pending_written typed_view_delete)
qed

lemma prune_fold:
  assumes "storage_ok E" and "typed_view s w" and "distinct ns"
  shows "foldM (prune_step E s i) ns dirty w = (Inr (dirty \<or> (\<exists>n \<in> set ns. run_out E s w i n)),
    deleted s (map (\<lambda>n. account_revocationPrefix i @ n) (filter (run_out E s w i) ns)) w)"
  using assms(2,3)
proof (induction ns arbitrary: dirty w)
  case (Cons n ns)
  let ?w = "written s (ActDelete (account_revocationPrefix i @ n)) w"
  have other: "run_out E s ?w i m = run_out E s w i m" if "m \<noteq> n" for m
    using that by (simp add: run_out_def revocationAt_def view_written_delete child_paths(3))
  have "\<forall>m \<in> set ns. run_out E s ?w i m = run_out E s w i m"
    using other Cons.prems(2) by (metis distinct.simps(2))
  then have "filter (run_out E s ?w i) ns = filter (run_out E s w i) ns" "(\<exists>m \<in> set ns. run_out E s ?w i m) = (\<exists>m \<in> set ns. run_out E s w i m)"
    by (simp_all cong: filter_cong)
  then show ?case
    using Cons.prems Cons.IH [of ?w True] Cons.IH [of w dirty]
    by (simp add: bindM_apply prune_step_run [OF assms(1)] typed_view_delete deleted_def)
qed (simp add: deleted_def returnM_apply)

text \<open>
  C18. Pruning removes exactly the revocations that have run out: on a typed storage that does not
  fail, \<^verbatim>\<open>periodicPruneAccountRevocations\<close> succeeds, afterwards the account's revocations with a
  time to live that is over are gone and every other path reads as before (also those with time to
  live 0), and it reports a change if and only if it removed one.
\<close>

theorem prune_exact:
  assumes E: "storage_ok E" and w: "plain E s w" "typed_view s w" "tidy s w"
  shows "\<exists>dirty w'. periodicPruneAccountRevocations E s i w = (Inr dirty, w')
    \<and> (\<forall>k. view s w' k = (if (\<exists>n r. no_slash n \<and> k = accountRevocation_configPath (accountId_revocationId i n)
          \<and> revocationAt s w (accountId_revocationId i n) = Some r
          \<and> rev_Ttl r \<noteq> 0 \<and> instant (rev_CreationTime r) + rev_Ttl r < e_now E) then None else view s w k))
    \<and> (dirty \<longleftrightarrow> (\<exists>k. view s w' k \<noteq> view s w k))"
proof -
  let ?p = "account_revocationPrefix i"
  let ?ns = "children s w ?p"
  let ?w' = "deleted s (map (\<lambda>n. ?p @ n) (filter (run_out E s w i) ?ns)) w"
  have step: "(\<lambda>n a. bindM (AccountRevocation E s (accountId_revocationId i n)) (\<lambda>e. case e of None \<Rightarrow> returnM a
      | Some r \<Rightarrow> if revocationExpired E r
       then bindM (catchFail (sDelete E s (accountRevocation_configPath (accountId_revocationId i n)))) (\<lambda>d.
         returnM (case d of Inl e \<Rightarrow> a | Inr _ \<Rightarrow> True))
       else returnM a)) = prune_step E s i"
    by (intro ext) (simp add: prune_step_def)
  have "periodicPruneAccountRevocations E s i w = foldM (prune_step E s i) ?ns False w"
    unfolding periodicPruneAccountRevocations_def for_AccountRevocations_def for_entries_def step
    using for_listPaged_all [OF E prune_stable [OF E, of s i], where w = w and a = False] w tidy_prefixes(1) [OF w(3)] by simp
  moreover have "distinct ?ns" using children_sorted [of s w ?p] by (simp add: strict_sorted_iff)
  ultimately have run: "periodicPruneAccountRevocations E s i w = (Inr (\<exists>n \<in> set ?ns. run_out E s w i n), ?w')"
    by (simp add: prune_fold [OF E w(2)])
  have entry: "view s w (?p @ n) \<noteq> None" if "run_out E s w i n" for n
    using that by (auto simp: run_out_def revocationAt_def child_paths(3) split: Option.bind_splits)
  have listed: "n \<in> set ?ns \<longleftrightarrow> no_slash n" if "run_out E s w i n" for n
    using entry [OF that] children_key [of n s w ?p] child_plain [OF w(3) untidy_slash(3) [of i], where c = n and p = ?p] by (cases "no_slash n") auto
  have view': "view s ?w' k = (if \<exists>n. no_slash n \<and> k = ?p @ n \<and> run_out E s w i n then None else view s w k)" for k
    using listed by (auto simp: view_deleted)
  have iff: "(\<exists>n \<in> set ?ns. run_out E s w i n) \<longleftrightarrow> (\<exists>k. view s ?w' k \<noteq> view s w k)"
  proof
    assume "\<exists>n \<in> set ?ns. run_out E s w i n"
    then obtain n where "n \<in> set ?ns" "run_out E s w i n" by blast
    then have "view s ?w' (?p @ n) = None" using listed by (auto simp: view')
    then have "view s ?w' (?p @ n) \<noteq> view s w (?p @ n)" using entry [OF \<open>run_out E s w i n\<close>] by metis
    then show "\<exists>k. view s ?w' k \<noteq> view s w k" ..
  next
    assume "\<exists>k. view s ?w' k \<noteq> view s w k"
    then show "\<exists>n \<in> set ?ns. run_out E s w i n" using listed by (auto simp: view' split: if_splits)
  qed
  have cond: "(\<exists>n r. no_slash n \<and> k = accountRevocation_configPath (accountId_revocationId i n)
          \<and> revocationAt s w (accountId_revocationId i n) = Some r \<and> rev_Ttl r \<noteq> 0
          \<and> instant (rev_CreationTime r) + rev_Ttl r < e_now E)
      \<longleftrightarrow> (\<exists>n. no_slash n \<and> k = ?p @ n \<and> run_out E s w i n)" for k
    by (auto simp: run_out_def revocationExpired_def child_paths(3))
  show ?thesis
    by (intro exI conjI, rule run, simp only: cond view' simp_thms, rule iff)
qed

lemma prune_exact_witness:
  "\<exists>w'. periodicPruneAccountRevocations sample_env Base sample_account sample_world = (Inr True, w')
     \<and> view Base w' ''revocations/op/acc/PUold'' = None"
proof -
  have "well_typed sample_world"
  proof -
    have "\<forall>(k, v) \<in> set sample_disk. fits k v" by code_simp
    then show ?thesis
      by (auto simp: well_typed_def sample_world_def empty_world_def store_get_def dest!: map_of_SomeD)
  qed
  moreover have "w_tx sample_world = None" by code_simp
  ultimately have t: "typed_view Base sample_world" by (rule well_typed_view)
  let ?i = sample_account
  obtain dirty w' where w': "periodicPruneAccountRevocations sample_env Base ?i sample_world = (Inr dirty, w')"
    and gone: "\<forall>k. view Base w' k = (if (\<exists>n r. no_slash n \<and> k = accountRevocation_configPath (accountId_revocationId ?i n)
          \<and> revocationAt Base sample_world (accountId_revocationId ?i n) = Some r
          \<and> rev_Ttl r \<noteq> 0 \<and> instant (rev_CreationTime r) + rev_Ttl r < e_now sample_env) then None else view Base sample_world k)"
    and dirty: "dirty \<longleftrightarrow> (\<exists>k. view Base w' k \<noteq> view Base sample_world k)"
    using prune_exact [OF sample_env_ok(1) sample_plain t sample_tidy, of ?i] by (elim exE conjE)
  let ?r = "\<lparr>rev_CreationTime = Some 0, rev_Ttl = Second\<rparr>"
  have old: "no_slash ''PUold''" "revocationAt Base sample_world (accountId_revocationId sample_account ''PUold'') = Some ?r"
    "rev_Ttl ?r \<noteq> 0" "instant (rev_CreationTime ?r) + rev_Ttl ?r < e_now sample_env"
    "accountRevocation_configPath (accountId_revocationId sample_account ''PUold'') = ''revocations/op/acc/PUold''"
    "view Base sample_world ''revocations/op/acc/PUold'' \<noteq> None"
    by code_simp+
  have "view Base w' ''revocations/op/acc/PUold'' = None" using old by (subst gone [rule_format], subst if_P) metis+
  moreover from this old(6) have "\<exists>k. view Base w' k \<noteq> view Base sample_world k"
    by metis
  ultimately show ?thesis using w' dirty by simp
qed

end
