(* ===== verification/ServerClaims.thy ===== *)
theory ServerClaims
  imports CredsFacts
begin

text \<open>
  The properties of the account servers: when a connection is made, what a failed one leaves
  behind, what the stored status says, and the replies to the cluster's lookups.
\<close>

section \<open>Methods that end in Go errors only\<close>

named_theorems fails_rules \<open>introduction rules for \<open>fails\<close>\<close>

definition fails :: "'a m \<Rightarrow> bool" where
  "fails m \<longleftrightarrow> (\<forall>w e w'. m w = (Inl e, w') \<longrightarrow> (\<exists>msg. e = Fail msg))"

lemma fails_bind [fails_rules]: "fails m \<Longrightarrow> (\<And>x. fails (f x)) \<Longrightarrow> fails (bindM m f)"
  unfolding fails_def bindM_apply by (fastforce split: prod.splits sum.splits)

lemma fails_basic [fails_rules]:
  "fails (returnM x)" "fails (throwM (Fail msg))" "fails (liftOption msg z)" "fails (sGet E s k)"
  "fails (createSeed E px)" "fails (modifyM h)" "fails (putAccountServer n srv)"
  "fails (deref (Some y))"
  by (auto simp: fails_def run_simps liftOption_def sGet_def createSeed_def modifyM_def putAccountServer_def split: option.splits)

lemma fails_cases [fails_rules]:
  "(c \<Longrightarrow> fails a) \<Longrightarrow> (\<not> c \<Longrightarrow> fails b) \<Longrightarrow> fails (if c then a else b)"
  "fails a \<Longrightarrow> (\<And>y. fails (g y)) \<Longrightarrow> fails (case z of None \<Rightarrow> a | Some y \<Rightarrow> g y)"
  "(\<And>y. fails (h y)) \<Longrightarrow> fails (let y = x in h y)"
  "(\<And>y z. fails (k y z)) \<Longrightarrow> fails (case q of (y, z) \<Rightarrow> k y z)"
  "(\<And>y. fails (e y)) \<Longrightarrow> (\<And>y. fails (f y)) \<Longrightarrow> fails (case v of Inl y \<Rightarrow> e y | Inr y \<Rightarrow> f y)"
  by (auto split: option.split prod.split sum.split simp: Let_def)

lemma fails_then [fails_rules]: "fails a \<Longrightarrow> fails b \<Longrightarrow> fails (thenM a b)"
  unfolding thenM_def by (intro fails_rules)

lemma fails_catch [fails_rules]: "fails m \<Longrightarrow> fails (catchFail m)" "fails m \<Longrightarrow> fails (wrapErr msg m)"
proof -
  show A: "fails (catchFail m)" if "fails m" for m :: "'c m"
    using that unfolding fails_def catchFail_def by (auto split: prod.splits sum.splits err.splits)
  show "fails (wrapErr msg m)" if "fails m"
    unfolding wrapErr_def by (intro fails_rules A that)
qed

lemma fails_readers [fails_rules]:
  "fails (get E s k decode)" "fails (Nkey E s p)" "fails (Operator E s oi)" "fails (AccountServer E s si)"
  "fails (Account E s ai)" "fails (keyPair E n)" "fails (PublicKey E kp)"
  unfolding reader_defs get_def keyPair_def PublicKey_def by (intro fails_rules)+

lemma fails_natsConn [fails_rules]:
  "fails (NewNatsConnection E servers creds sign)" "fails (natsConn_Drain (Some nc))" "fails (natsConn_SubscribeSync E (Some nc) subj)"
  "fails (natsConn_Subscribe E (Some nc) subj)" "fails (natsConn_PublishRequest E (Some nc) subj reply payload)"
proof -
  show "fails (NewNatsConnection E servers creds sign)" by (simp add: fails_def NewNatsConnection_def split: option.split)
qed (unfold natsConn_Drain_def natsConn_SubscribeSync_def natsConn_Subscribe_def natsConn_PublishRequest_def natsConn_Publish_def;
    intro fails_rules)+

lemma fails_connect [fails_rules]: "fails (natsConnect E i servers key)" "fails (CloseConnection srv)"
  "fails (NewAccountServer E as)" "fails (connectAccountServer E i entry srv)"
proof -
  have connect: "fails (\<lambda>w. NewNatsConnection E servers creds (sign w) w)" for creds servers sign
    using fails_natsConn(1) by (simp add: fails_def)
  show N: "fails (natsConnect E i servers key)" for servers key
    unfolding natsConnect_def authUserJwt_def enrichUserClaims_def by (intro connect fails_rules)
  show C: "fails (CloseConnection srv)" unfolding CloseConnection_def by (intro fails_rules)
  show S: "fails (NewAccountServer E as)" for as unfolding NewAccountServer_def by (intro fails_rules)
  show "fails (connectAccountServer E i entry srv)"
    unfolding connectAccountServer_def createAuthKey_def by (intro N C S fails_rules)
qed

text \<open>What a method that only asks the storage and draws keys leaves alone.\<close>

definition quiet :: "world \<Rightarrow> world \<Rightarrow> bool" where
  "quiet w0 w \<longleftrightarrow> w_disk w = w_disk w0 \<and> w_tx w = w_tx w0 \<and> w_accServerCache w = w_accServerCache w0
     \<and> w_published w = w_published w0 \<and> w_closed w = w_closed w0"

lemma quiet_rules:
  "preserves (quiet w0) (createSeed E px)" "preserves (quiet w0) (natsConnect E i servers key)"
  by (auto simp: preserves_def quiet_def createSeed_def natsConnect_def NewNatsConnection_def bindM_apply split: option.splits prod.splits sum.splits
      simp: read_only [OF preserves_authUserJwt] dest!: read_only_Inr [OF preserves_catchFail [OF preserves_authUserJwt]])

section \<open>Starting a server\<close>

lemma connect_refused:
  assumes "e_Connect E (join '','' (ase_Servers entry)) = (\<lambda>creds sign. Some (refusal creds))"
  shows "\<exists>msg w1. connectAccountServer E i entry srv w = (Inl (Fail msg), w1) \<and> quiet w w1"
proof -
  let ?key = "wrapErr ''failed to create auth callback: '' (createAuthKey E)"
  let ?connect = "\<lambda>key. wrapErr ''failed to create nats connection: '' (natsConnect E i (ase_Servers entry) key)"
  have refused: "?connect key v \<noteq> (Inr nc, v')" for key v nc v'
    using assms by (auto simp: wrapErr_Inr natsConnect_def NewNatsConnection_def bindM_apply split: prod.splits sum.splits)
  have key: "quiet w (snd (?key w))"
    unfolding createAuthKey_def by (rule preserves_snd [of "quiet w"]) (intro preserves_rules quiet_rules, simp add: quiet_def)
  have connect: "quiet w (snd (?connect key v))" if "quiet w v" for key v
    by (rule preserves_snd [of "quiet w", OF _ that]) (intro preserves_rules quiet_rules)
  obtain q w1 where run: "connectAccountServer E i entry srv w = (q, w1)" by fastforce
  have "quiet w w1 \<and> (\<exists>e. q = Inl e)"
  proof (cases "?key w")
    case (Pair q1 v)
    show ?thesis
    proof (cases q1)
      case (Inl e)
      then show ?thesis using run Pair key by (auto simp: connectAccountServer_def bindM_apply)
    next
      case (Inr key)
      obtain q2 v2 where c: "?connect key v = (q2, v2)" by fastforce
      then show ?thesis
        using run Pair Inr \<open>quiet w (snd (?key w))\<close> connect [of v key] refused [of key v]
        by (cases q2) (auto simp: connectAccountServer_def bindM_apply)
    qed
  qed
  then show ?thesis using run fails_connect(4) [of E i entry srv] by (auto simp: fails_def)
qed

text \<open>
  C28. A refused connection is not an error to the caller. If the account server's cluster refuses
  the connection and none is cached, \<^verbatim>\<open>syncAccountUpdate\<close> returns success: nothing was sent, the
  account's sync status is as before, and only the server's stored status says that it failed.
\<close>

theorem refused_connection_is_silent:
  assumes E: "storage_ok E" and refused: "e_Connect E (join '','' (ase_Servers entry)) = (\<lambda>creds sign. Some (refusal creds))"
    and server: "store_get (w_disk w) (accountServer_configPath (serverOf i)) = Some (EAccountServer entry)"
    and "\<not> Suspended entry" and "map_of (w_accServerCache w) (ai_op i) = None"
  shows "\<exists>w'. syncAccountUpdate E i w = (Inr (), w') \<and> w_published w' = w_published w
    \<and> (\<exists>entry'. store_get (w_disk w') (accountServer_configPath (serverOf i)) = Some (EAccountServer entry')
        \<and> ast_Status (ase_Status entry') = StatusError)
    \<and> store_get (w_disk w') (account_configPath i) = store_get (w_disk w) (account_configPath i)"
proof -
  let ?k = "accountServer_configPath (serverOf i)"
  have op: "asi_op (serverOf i) = ai_op i" by (simp add: serverOf_def path_defs)
  have read: "AccountServer E Base (serverOf i) w = (Inr (Some entry), w)"
    by (simp add: AccountServer_def get_ok [OF E] view_Base server)
  obtain msg w1 where conn: "connectAccountServer E (serverOf i) entry None w = (Inl (Fail msg), w1)" and q: "quiet w w1"
    using connect_refused [OF refused] by blast
  let ?w' = "if serverStatusDirty (Some msg) entry
    then written Base (ActPut ?k (EAccountServer (serverStatusUpdate E (Some msg) entry))) w1 else w1"
  have start: "startAccountServer E (serverOf i) False w = (Inr None, ?w')"
    using assms(4,5) by (simp add: startAccountServer_def bindM_apply read getsM_apply op conn
        storeInStorage_ok [OF E] thenM_def returnM_apply)
  have w': "w_disk ?w' = (if serverStatusDirty (Some msg) entry
      then store_put (w_disk w) ?k (EAccountServer (serverStatusUpdate E (Some msg) entry)) else w_disk w)"
    using q by (simp add: written_def pending_def quiet_def)
  have "syncAccountUpdate E i w = (Inr (), ?w')"
    by (simp add: syncAccountUpdate_def bindM_apply start returnM_apply)
  moreover have "w_published ?w' = w_published w" using q by (simp add: written_def pending_def quiet_def)
  moreover have "ast_Status (ase_Status (serverStatusUpdate E (Some msg) entry)) = StatusError"
    by (simp add: serverStatusUpdate_def Let_def)
  moreover have "\<not> serverStatusDirty (Some msg) entry \<Longrightarrow> ast_Status (ase_Status entry) = StatusError"
    by (simp add: serverStatusDirty_def Let_def)
  moreover have "?k \<noteq> account_configPath i" by (simp add: path_defs)
  ultimately show ?thesis using server by (intro exI [of _ ?w']) (auto simp: w' store_get_put)
qed

text \<open>The sample state with an account server.\<close>

definition sample_server :: accountServerEntry where
  "sample_server = NewAccountServerEntry\<lparr>ase_Servers := [''nats://one''], ase_ClientName := ''openbao''\<rparr>"

definition sample_server_world :: world where
  "sample_server_world = sample_world\<lparr>w_disk := store_put sample_disk ''account-servers/op'' (EAccountServer sample_server)\<rparr>"

lemma refused_connection_is_silent_witness:
  "\<exists>w'. syncAccountUpdate (sample_env\<lparr>e_Connect := (\<lambda>url creds sign. Some ''refused'')\<rparr>) sample_account sample_server_world = (Inr (), w')
     \<and> w_published w' = []"
proof -
  let ?E = "sample_env\<lparr>e_Connect := (\<lambda>url creds sign. Some ''refused'')\<rparr>"
  have ok: "storage_ok ?E" using sample_env_ok(1) by (simp add: storage_ok_def)
  have r: "e_Connect ?E (join '','' (ase_Servers sample_server)) = (\<lambda>creds sign. Some ''refused'')" by simp
  have p: "store_get (w_disk sample_server_world) (accountServer_configPath (serverOf sample_account)) = Some (EAccountServer sample_server)"
    "\<not> Suspended sample_server" "map_of (w_accServerCache sample_server_world) (ai_op sample_account) = None"
    "w_published sample_server_world = []"
    by code_simp+
  show ?thesis using refused_connection_is_silent [OF ok r p(1-3)] p(4) by auto
qed

section \<open>Authentication\<close>

text \<open>The sample state with an account server and the system account's key.\<close>

definition auth_world :: world where
  "auth_world = sample_server_world\<lparr>w_disk := store_put (w_disk sample_server_world) ''account-keys/op/SYS'' (ENkey (nkeyOfSeed ''As''))\<rparr>"

text \<open>
  C16. Who the plugin is to the cluster. The JWT \<^verbatim>\<open>createAuthCallback\<close> signs for a connection is for
  the key made for that connection, signed by the identity key of the operator's system account,
  named as the account server says, valid for an hour, valid for the library, and allowed nothing
  but the two claim subjects and inboxes to publish to, the lookup subject and inboxes to subscribe
  to. Making it changes nothing.
\<close>

theorem auth_jwt_as_configured:
  assumes "authUserJwt E i sub w = (Inr token, w')"
  shows "w' = w \<and> (\<exists>operator server nk claims. operatorAt Base w (accountServerId_operatorId i) = Some operator
    \<and> serverAt Base w i = Some server
    \<and> nkeyAt Base w (account_nkeyPath (AccountId (asi_op i) (op_SysAccountName operator))) = Some nk
    \<and> e_EncodeUser E (nk_Seed nk) claims = Some token \<and> snd (e_ValidateUserClaims E claims) = []
    \<and> uc_Subject claims = sub \<and> uc_Name claims = ase_ClientName server \<and> uc_Expires claims = Unix (Some (e_now E + Hour))
    \<and> ju_IssuerAccount (uc_User claims) = []
    \<and> ju_Limits (uc_User claims) =
        \<lparr>pl_Subs = -1, pl_Data = -1, pl_Payload = -1, pl_Src = Some [], pl_Other = JObj [
          (''pub'', JObj [(''allow'', JList [JStr ''$SYS.REQ.CLAIMS.UPDATE'', JStr ''$SYS.REQ.CLAIMS.DELETE'', JStr ''_INBOX.*''])]),
          (''sub'', JObj [(''allow'', JList [JStr ''$SYS.REQ.ACCOUNT.*.CLAIMS.LOOKUP'', JStr ''_INBOX.*''])])]\<rparr>)"
proof -
  obtain operator where op: "operatorAt Base w (accountServerId_operatorId i) = Some operator"
    using assms unfolding authUserJwt_def
    by (cases "operatorAt Base w (accountServerId_operatorId i)") (auto elim!: bindM_InrE dest!: reader_Inr(3) simp: wrapErr_Inr throwM_apply)
  obtain server where srv: "serverAt Base w i = Some server"
    using assms op unfolding authUserJwt_def
    by (cases "serverAt Base w i") (auto elim!: bindM_InrE dest!: reader_Inr(3,9) simp: wrapErr_Inr throwM_apply)
  let ?p = "\<lparr>eup_op = asi_op i, eup_acc = op_SysAccountName operator, eup_user = ase_ClientName server, eup_session = [],
    eup_claims = authUserClaims E sub, eup_signingKey = [], eup_tags = [], eup_limitFlags = 0, eup_nbf = 0\<rparr>"
  obtain kp ws claims v where en: "enrichUserClaims E Base ?p w = (Inr (kp, ws, claims), v)"
    and ok: "jr_errors (encodeUserJWT E kp claims Hour) = []" and res: "token = jr_jwt (encodeUserJWT E kp claims Hour)" "w' = v"
    using assms op srv unfolding authUserJwt_def
    by (auto elim!: bindM_InrE dest!: reader_Inr(3,9) simp: wrapErr_Inr throwM_apply returnM_apply Let_def split: if_splits)
  obtain nk where c: "v = w" "nkeyAt Base w (account_nkeyPath (AccountId (asi_op i) (op_SysAccountName operator))) = Some nk"
      "kp = nk_Seed nk" "ju_IssuerAccount (uc_User claims) = []" "uc_Subject claims = sub" "uc_Name claims = ase_ClientName server"
      "ju_Limits (uc_User claims) = userDefaultLimits 0 (ju_Limits (uc_User (authUserClaims E sub)))"
    using enrichUserClaims_Inr [OF en]
    by (auto simp: user_signer_def enriched_limits_def authUserClaims_def split: option.splits bind_splits)
  let ?claims = "claims\<lparr>uc_Expires := Unix (Some (e_now E + Hour))\<rparr>"
  have hour: "0 < Hour" by (simp add: Hour_def Second_def)
  have enc: "e_EncodeUser E (nk_Seed nk) ?claims = Some token" "snd (e_ValidateUserClaims E ?claims) = []"
    using encodeJwt_ok [OF ok [unfolded encodeUserJWT_def Let_def]] hour by (auto simp: encodeUserJWT_def Let_def res c(3))
  show ?thesis
    using op srv c enc res(2)
    by (intro conjI exI [of _ operator] exI [of _ server] exI [of _ nk] exI [of _ ?claims])
       (simp_all add: userDefaultLimits_def authUserClaims_def authPermissions_def SysClaimsUpdateSubject_def
         SysClaimsDeleteSubject_def SysAccountClaimsLookupSubject_def)
qed

lemma auth_jwt_as_configured_witness:
  "\<exists>token. authUserJwt sample_env (serverOf sample_account) ''PU'' auth_world = (Inr token, auth_world)
     \<and> (\<exists>claims. e_EncodeUser sample_env ''As'' claims = Some token \<and> uc_Subject claims = ''PU'' \<and> uc_Name claims = ''openbao''
        \<and> uc_Expires claims = 3700)"
proof -
  let ?i = "serverOf sample_account"
  have "case authUserJwt sample_env ?i ''PU'' auth_world of (Inr t, v) \<Rightarrow> True | _ \<Rightarrow> False" by code_simp
  then obtain token v where r: "authUserJwt sample_env ?i ''PU'' auth_world = (Inr token, v)"
    by (auto split: prod.splits sum.splits)
  have k: "map_option op_SysAccountName (operatorAt Base auth_world (accountServerId_operatorId ?i)) = Some ''SYS''"
    "map_option ase_ClientName (serverAt Base auth_world ?i) = Some ''openbao''"
    "map_option nk_Seed (nkeyAt Base auth_world (account_nkeyPath (AccountId (asi_op ?i) ''SYS''))) = Some ''As''"
    "Unix (Some (e_now sample_env + Hour)) = 3700"
    by code_simp+
  from auth_jwt_as_configured [OF r] k show ?thesis using r by auto
qed

section \<open>Requests to the cluster\<close>

text \<open>The error an answer stands for: none if it is not JSON or reports no error.\<close>

definition reply_errors :: "env \<Rightarrow> string + natsMsg \<Rightarrow> string list" where
  "reply_errors E r = (case r of Inl e \<Rightarrow> [e]
     | Inr m \<Rightarrow> (case Option.bind (e_UnmarshalResponse E (nm_Data m)) resp_Error of
         None \<Rightarrow> [] | Some e \<Rightarrow> [ClaimUpdateError_Error e]))"

lemma awaitReplies_first:
  "awaitReplies E (map (natsSub_NextMsg sub) rs) w = (case concat (map (reply_errors E) rs) of
     [] \<Rightarrow> (Inr (), w) | e # _ \<Rightarrow> (Inl (Fail e), w))"
  by (induction rs) (auto simp: run_simps natsSub_NextMsg_def reply_errors_def split: sum.split option.split)

lemma claimUpdateRequest_run:
  "claimUpdateRequest E r subject payload w = (case e_SubscribeSync E of
     Some e \<Rightarrow> (Inl (Fail e), w)
   | None \<Rightarrow> (case e_PublishFails E subject of
       Some e \<Rightarrow> (Inl (Fail e), w)
     | None \<Rightarrow> (case concat (map (reply_errors E) (e_Replies E subject payload)) of [] \<Rightarrow> Inr () | e # _ \<Rightarrow> Inl (Fail e),
         w\<lparr>w_published := w_published w @ [(as_conn r, subject, payload)]\<rparr>)))"
  by (cases "concat (map (reply_errors E) (e_Replies E subject payload))")
     (simp_all add: claimUpdateRequest_def natsConn_SubscribeSync_def natsConn_PublishRequest_def natsConn_Publish_def Let_def
      thenM_def bindM_apply modifyM_apply returnM_apply throwM_apply awaitReplies_first del: concat_eq_Nil_conv split: option.split)

section \<open>The sync status of an account\<close>

lemma startAccountServer_frame:
  assumes "startAccountServer E si rc w = (r, w')" and "w_tx w = None" and "k \<noteq> accountServer_configPath si"
  shows "store_get (w_disk w') k = store_get (w_disk w) k"
proof -
  have "preserves (writes (\<lambda>a. action_key a = accountServer_configPath si) (w_disk w)) (startAccountServer E si rc)"
    unfolding startAccountServer_def by (intro preserves_rules writes_store) simp
  from writes_frame [OF this assms(2), of k] assms(1,3) show ?thesis by simp
qed

text \<open>What pushing a JWT comes to: the error it meets, and whether it is sent.\<close>

definition push_error :: "env \<Rightarrow> accountServer \<Rightarrow> string \<Rightarrow> string option" where
  "push_error E srv token = (if \<not> as_EnableAccountUpdates srv then None
     else case e_SubscribeSync E of Some e \<Rightarrow> Some e
     | None \<Rightarrow> (case e_PublishFails E ''$SYS.REQ.CLAIMS.UPDATE'' of Some e \<Rightarrow> Some e
       | None \<Rightarrow> (case concat (map (reply_errors E) (e_Replies E ''$SYS.REQ.CLAIMS.UPDATE'' token)) of [] \<Rightarrow> None | e # _ \<Rightarrow> Some e)))"

definition push_sent :: "env \<Rightarrow> accountServer \<Rightarrow> bool" where
  "push_sent E srv \<longleftrightarrow> as_EnableAccountUpdates srv \<and> e_SubscribeSync E = None \<and> e_PublishFails E ''$SYS.REQ.CLAIMS.UPDATE'' = None"

lemma UpdateAccount_run:
  "UpdateAccount E srv token w = (case push_error E srv token of None \<Rightarrow> Inr () | Some e \<Rightarrow> Inl (Fail e),
     if push_sent E srv then w\<lparr>w_published := w_published w @ [(as_conn srv, ''$SYS.REQ.CLAIMS.UPDATE'', token)]\<rparr> else w)"
  by (auto simp: UpdateAccount_def push_error_def push_sent_def claimUpdateRequest_run SysClaimsUpdateSubject_def returnM_apply
      simp del: concat_eq_Nil_conv split: option.split list.split)

text \<open>
  C21. The sync status stored with an account tells what became of the push. With a running account
  server, an account and its JWT in the storage, \<^verbatim>\<open>syncAccountUpdate\<close> sends exactly that JWT, once, to the
  subject for claim updates, if the server has updates enabled and neither the subscription for the
  answers nor the publication fails. If one of these fails, or an answer of the cluster reports an error
  or fails to arrive, it ends with the first such error, and the account is stored as not synced with that
  error; the server is then no longer cached, so that the next push connects anew. Otherwise it succeeds,
  and the account is stored as synced now and without an error; so also if updates are disabled and
  nothing was sent. Of the account's entry, nothing else changes.
\<close>

theorem sync_status_truthful:
  assumes E: "storage_ok E" and tx: "w_tx w = None"
    and start: "startAccountServer E (serverOf i) False w = (Inr (Some srv), w1)"
    and acc: "store_get (w_disk w) (account_configPath i) = Some (EAccount acc)"
    and jwt: "store_get (w_disk w) (account_jwtPath i) = Some (EJwt jwt)"
  shows "\<exists>x w' st. syncAccountUpdate E i w = (x, w')
    \<and> store_get (w_disk w') (account_configPath i) = Some (EAccount (acc\<lparr>acc_Status := (acc_Status acc)\<lparr>st_Sync := Some st\<rparr>\<rparr>))
    \<and> w_published w' = w_published w1 @ (if push_sent E srv then [(as_conn srv, ''$SYS.REQ.CLAIMS.UPDATE'', jwt_Token jwt)] else [])
    \<and> (case push_error E srv (jwt_Token jwt) of
         None \<Rightarrow> x = Inr () \<and> ss_Synced st \<and> ss_LastError st = [] \<and> ss_LastSuccessfulSync st = Some (e_now E)
       | Some e \<Rightarrow> x = Inl (Fail (''failed to send account update: '' @ e))
           \<and> ss_LastError st = ''failed to send account update: '' @ e \<and> \<not> ss_Synced st
           \<and> map_of (w_accServerCache w') (ai_op i) = None)"
proof -
  have k: "account_configPath i \<noteq> accountServer_configPath (serverOf i)" "account_jwtPath i \<noteq> accountServer_configPath (serverOf i)"
    by (simp_all add: path_defs)
  note f = startAccountServer_frame [OF start tx]
  let ?w2 = "if push_sent E srv then w1\<lparr>w_published := w_published w1 @ [(as_conn srv, ''$SYS.REQ.CLAIMS.UPDATE'', jwt_Token jwt)]\<rparr> else w1"
  note u = UpdateAccount_run [of E srv "jwt_Token jwt" w1]
  have read: "Jwt E Base (account_jwtPath i) w1 = (Inr (Some jwt), w1)"
    using f [OF k(2)] jwt by (simp add: Jwt_def get_ok [OF E] view_Base)
  have status: "updateAccountSyncStatus E Base i err v = (Inr (), v\<lparr>w_disk := store_put (w_disk v) (account_configPath i)
      (EAccount (acc\<lparr>acc_Status := (acc_Status acc)\<lparr>st_Sync := Some (syncStatusUpdate E err (st_Sync (acc_Status acc)))\<rparr>\<rparr>))\<rparr>)"
    if "w_disk v = w_disk w1" for err v
    using that f [OF k(1)] acc E
    by (simp add: updateAccountSyncStatus_def WithTransaction_def Account_def bindM_apply get_ok [OF E] view_Base
        storeInStorage_ok [OF E] written_def pending_def thenM_def Let_def storage_ok_def)
  show ?thesis
  proof (cases "push_error E srv (jwt_Token jwt)")
    case None
    then have "syncAccountUpdate E i w = updateAccountSyncStatus E Base i None ?w2"
      using u by (simp add: syncAccountUpdate_def bindM_apply start read finishUpdate_def thenM_def returnM_apply)
    then show ?thesis using None by (auto simp: status store_get_put syncStatusUpdate_def Let_def)
  next
    case (Some e)
    let ?err = "Some (''failed to send account update: '' @ e)"
    obtain w3 where pop: "bindM (popAccountServer (ai_op i)) CloseConnection ?w2 = (Inr (), w3)"
      and w3: "w_disk w3 = w_disk w1" "map_of (w_accServerCache w3) (ai_op i) = None" "w_published w3 = w_published ?w2"
    proof
      let ?v = "?w2\<lparr>w_accServerCache := AList.delete (ai_op i) (w_accServerCache ?w2)\<rparr>"
      show "bindM (popAccountServer (ai_op i)) CloseConnection ?w2 =
          (Inr (), case map_of (w_accServerCache ?w2) (ai_op i) of None \<Rightarrow> ?v | Some r \<Rightarrow> ?v\<lparr>w_closed := w_closed ?w2 @ [as_conn r]\<rparr>)"
        by (simp add: bindM_apply popAccountServer_def CloseConnection_def natsConn_Drain_def returnM_apply modifyM_apply split: option.split)
    qed (simp_all add: delete_conv' split: option.split)
    have "syncAccountUpdate E i w = finishUpdate E i ?err ?w2"
      using u Some by (simp add: syncAccountUpdate_def bindM_apply start read)
    then have "syncAccountUpdate E i w = (Inl (Fail (the ?err)), snd (updateAccountSyncStatus E Base i ?err w3))"
      by (simp add: finishUpdate_def thenM_def bindM_apply [of "bindM _ _"] pop bindM_apply [of "updateAccountSyncStatus E Base i ?err"]
          status w3(1) throwM_apply)
    then show ?thesis using w3 Some by (auto simp: status store_get_put syncStatusUpdate_def Let_def)
  qed
qed

lemma sync_status_truthful_witness:
  "\<exists>e w' st acc. syncAccountUpdate (sample_env\<lparr>e_Replies := (\<lambda>s d. [Inr (sample_reply ''ok''), Inr (sample_reply ''denied'')])\<rparr>) sample_account sample_server_world
       = (Inl (Fail e), w')
     \<and> store_get (w_disk w') ''accounts/op/acc'' = Some (EAccount acc) \<and> st_Sync (acc_Status acc) = Some st \<and> ss_LastError st = e"
proof -
  let ?E = "sample_env\<lparr>e_Replies := (\<lambda>s d. [Inr (sample_reply ''ok''), Inr (sample_reply ''denied'')])\<rparr>"
  have "case startAccountServer ?E (serverOf sample_account) False sample_server_world of (Inr (Some s), v) \<Rightarrow> True | _ \<Rightarrow> False"
    "case syncAccountUpdate ?E sample_account sample_server_world of (Inl e, v) \<Rightarrow> True | _ \<Rightarrow> False"
    by code_simp+
  then obtain srv v e w' where s: "startAccountServer ?E (serverOf sample_account) False sample_server_world = (Inr (Some srv), v)"
    and u: "syncAccountUpdate ?E sample_account sample_server_world = (Inl e, w')"
    by (auto split: prod.splits sum.splits option.splits)
  have ok: "storage_ok ?E" using sample_env_ok(1) by (simp add: storage_ok_def)
  have p: "w_tx sample_server_world = None"
    "store_get (w_disk sample_server_world) (account_configPath sample_account) = Some (EAccount NewAccount)"
    "store_get (w_disk sample_server_world) (account_jwtPath sample_account) = Some (EJwt (NewJwt ''Ok.acc'' []))"
    "account_configPath sample_account = ''accounts/op/acc''"
    by code_simp+
  from sync_status_truthful [OF ok p(1) s p(2,3)] u p(4) show ?thesis by (auto split: option.splits)
qed

section \<open>Lookups\<close>

text \<open>
  C29. A hit in the cache of account keys keeps its read lock: \<^verbatim>\<open>accountNameFromNkey\<close> returns the
  name without unlocking, and whoever next writes to the cache waits forever, as does every later
  lookup.
\<close>

theorem nkey_cache_deadlock:
  assumes "cachedName w i key = Some acc" and "\<not> w_accCacheWriter w"
  shows "\<exists>w1 w2. accountNameFromNkey E s i key w = (Inr (Some acc), w1)
    \<and> writeAccountToCache j key' w1 = (Inl Deadlock, w2)
    \<and> accountNameFromNkey E s i key w2 = (Inl Deadlock, w2)"
  using assms
  by (auto simp: accountNameFromNkey_def writeAccountToCache_def accCacheRLock_def accCacheLock_def
      thenM_def bindM_apply getsM_apply returnM_apply cachedName_def)

lemma nkey_cache_deadlock_witness:
  "\<exists>w1 w2. accountNameFromNkey sample_env Base (OperatorId ''op'') ''PA'' (sample_world\<lparr>w_accNkeyCache := [(''op'', [(''PA'', ''acc'')])]\<rparr>)
       = (Inr (Some ''acc''), w1)
     \<and> writeAccountToCache (AccountId ''op'' ''new'') ''PB'' w1 = (Inl Deadlock, w2)"
proof -
  let ?w = "sample_world\<lparr>w_accNkeyCache := [(''op'', [(''PA'', ''acc'')])]\<rparr>"
  have "cachedName ?w (OperatorId ''op'') ''PA'' = Some ''acc''" "\<not> w_accCacheWriter ?w" by code_simp+
  from nkey_cache_deadlock [OF this] show ?thesis by blast
qed

text \<open>What a lookup does besides reading: it locks and fills the cache, and publishes nothing.\<close>

definition unpublished :: "(nat \<times> string \<times> string) list \<Rightarrow> world \<Rightarrow> bool" where
  "unpublished ps w \<longleftrightarrow> w_published w = ps"

lemma unpublished_lookup: "preserves (unpublished ps) (accountJwtLookupFunc E i key)"
proof -
  have lock: "preserves (unpublished ps) accCacheRLock" "preserves (unpublished ps) accCacheRUnlock"
    "preserves (unpublished ps) (writeAccountToCache j k)" for j k
    by (auto simp: preserves_def unpublished_def accCacheRLock_def accCacheRUnlock_def writeAccountToCache_def accCacheLock_def
        thenM_def bindM_apply modifyM_apply Let_def)
  show ?thesis
    unfolding accountJwtLookupFunc_def accountNameFromNkey_def refreshNkeyCache_def by (intro preserves_rules lock)
qed

lemma catchFail_Inl: "catchFail m w = (Inl e, w') \<Longrightarrow> m w = (Inl e, w') \<and> (\<forall>msg. e \<noteq> Fail msg)"
  by (auto simp: catchFail_def split: prod.splits sum.splits err.splits)

text \<open>An answer to a message of a subscription: the subscription does not know its connection.\<close>

lemma Msg_Respond_subscribed:
  "nm_Reply m \<noteq> [] \<Longrightarrow> Msg_Respond E (Some (subscribedMsg s m)) payload = throwM NilPointer"
  by (simp add: Msg_Respond_def subscribedMsg_def NewMsg_def natsConn_Publish_def natsSub_Connection_def deref_def throwM_bind)

text \<open>
  C17. No lookup of the cluster is ever answered. The callback of the lookup subscription gets its
  message from \<^verbatim>\<open>natsConn.Subscribe\<close>, which sets the message's subscription but not that subscription's
  connection. So for a subject of the lookup's form and a reply subject, the callback publishes
  nothing and does not return: whatever the lookup finds, \<^verbatim>\<open>Respond\<close> calls \<^verbatim>\<open>Publish\<close> on a nil
  connection, a panic that nothing on the way catches; if the lookup itself ends in a panic or
  waits forever, so does the callback.
\<close>

theorem lookup_never_answered:
  assumes "length (splitOn (CHR ''.'') (nm_Subject m)) = 6" and "nm_Reply m \<noteq> []"
  shows "\<exists>e w'. accountLookupRequest E srv (subscribedMsg s m) w = (Inl e, w') \<and> (\<forall>msg. e \<noteq> Fail msg)
    \<and> w_published w' = w_published w
    \<and> (\<forall>jwt v. accountJwtLookupFunc E (OperatorId (as_Operator srv)) (splitOn (CHR ''.'') (nm_Subject m) ! 3) w = (Inr jwt, v)
        \<longrightarrow> e = NilPointer \<and> w' = v)"
proof -
  let ?lookup = "accountJwtLookupFunc E (OperatorId (as_Operator srv)) (splitOn (CHR ''.'') (nm_Subject m) ! 3)"
  have subj: "msg_Subject (subscribedMsg s m) = nm_Subject m" by (simp add: subscribedMsg_def NewMsg_def)
  have respond: "catchFail (Msg_Respond E (Some (subscribedMsg s m)) payload) v = (Inl NilPointer, v)" for payload v
    by (simp add: Msg_Respond_subscribed [OF assms(2)] catchFail_def throwM_apply)
  obtain j w' where run: "catchFail ?lookup w = (j, w')" by fastforce
  have published: "w_published w' = w_published w"
    using run unpublished_lookup [of "w_published w", THEN preserves_catchFail, unfolded preserves_def unpublished_def, rule_format, OF refl]
    by (metis snd_conv)
  have caught: "?lookup w = (Inr jwt, v) \<Longrightarrow> j = Inr (Inr jwt) \<and> w' = v" for jwt v
    using run by (auto simp: catchFail_def)
  have result: "accountLookupRequest E srv (subscribedMsg s m) w = (case j of Inl e \<Rightarrow> (Inl e, w') | Inr _ \<Rightarrow> (Inl NilPointer, w'))"
    using assms(1) run by (cases j) (simp_all add: accountLookupRequest_def subj Let_def bindM_apply respond)
  show ?thesis
  proof (cases j)
    case (Inl e)
    then show ?thesis using result published caught catchFail_Inl run by fastforce
  next
    case (Inr x)
    then show ?thesis using result published caught by fastforce
  qed
qed

lemma lookup_never_answered_witness:
  "\<exists>e w'. accountLookupRequest sample_env \<lparr>as_Operator = ''op'', as_EnableAccountLookups = True, as_EnableAccountUpdates = True,
       as_EnableAccountDeletes = True, as_conn = 0\<rparr> (subscribedMsg (0, SysAccountClaimsLookupSubject)
         \<lparr>nm_Subject = ''$SYS.REQ.ACCOUNT.PA.CLAIMS.LOOKUP'', nm_Reply = ''_INBOX.2'', nm_Header = [], nm_Data = []\<rparr>) sample_world
       = (Inl e, w') \<and> e = NilPointer \<and> w_published w' = []"
proof -
  let ?s = "\<lparr>as_Operator = ''op'', as_EnableAccountLookups = True, as_EnableAccountUpdates = True,
       as_EnableAccountDeletes = True, as_conn = 0\<rparr>"
  let ?m = "\<lparr>nm_Subject = ''$SYS.REQ.ACCOUNT.PA.CLAIMS.LOOKUP'', nm_Reply = ''_INBOX.2'', nm_Header = [], nm_Data = []\<rparr>"
  have p: "length (splitOn (CHR ''.'') (nm_Subject ?m)) = 6" "nm_Reply ?m \<noteq> []"
    and q: "w_published sample_world = []"
    "case accountJwtLookupFunc sample_env (OperatorId (as_Operator ?s)) (splitOn (CHR ''.'') (nm_Subject ?m) ! 3) sample_world of
       (Inr jwt, v) \<Rightarrow> jwt = ''Ok.acc'' | _ \<Rightarrow> False"
    by code_simp+
  obtain jwt v where "accountJwtLookupFunc sample_env (OperatorId (as_Operator ?s)) (splitOn (CHR ''.'') (nm_Subject ?m) ! 3) sample_world
      = (Inr jwt, v)"
    using q(2) by (auto split: prod.splits sum.splits)
  with lookup_never_answered [OF p, of sample_env ?s "(0, SysAccountClaimsLookupSubject)" sample_world] q(1) show ?thesis by auto
qed

text \<open>A lookup of an account deleted after its key was cached ends so even before it could answer.\<close>

lemma lookup_of_deleted_account:
  assumes E: "storage_ok E" and "cachedName w i key = Some acc" and "\<not> w_accCacheWriter w"
    and "store_get (w_disk w) (account_jwtPath (AccountId (oi_op i) acc)) = None"
  shows "accountJwtLookupFunc E i key w = (Inl NilPointer, w\<lparr>w_accCacheReaders := Suc (w_accCacheReaders w)\<rparr>)"
proof -
  let ?w = "w\<lparr>w_accCacheReaders := Suc (w_accCacheReaders w)\<rparr>"
  have "accountNameFromNkey E Base i key w = (Inr (Some acc), ?w)"
    using assms(2,3) by (simp add: accountNameFromNkey_def accCacheRLock_def thenM_def bindM_apply getsM_apply returnM_apply cachedName_def)
  moreover have "Jwt E Base (account_jwtPath (operatorId_accountId i acc)) ?w = (Inr None, ?w)"
    using assms(4) by (simp add: Jwt_def get_ok [OF E] view_Base path_defs)
  ultimately show ?thesis by (simp add: accountJwtLookupFunc_def bindM_apply)
qed

section \<open>Replies\<close>

text \<open>
  C30. A request to the cluster is sent once, if the subscription for its answers and the
  publication do not fail. It then succeeds if and only if no answer before its deadline reports
  an error or fails to arrive; otherwise it ends with the first such error. Answers that are not
  JSON are passed over, and no answer at all is success.
\<close>

theorem cluster_request_result:
  "claimUpdateRequest E r subject payload w = (case e_SubscribeSync E of
     Some e \<Rightarrow> (Inl (Fail e), w)
   | None \<Rightarrow> (case e_PublishFails E subject of
       Some e \<Rightarrow> (Inl (Fail e), w)
     | None \<Rightarrow> (case concat (map (reply_errors E) (e_Replies E subject payload)) of [] \<Rightarrow> Inr () | e # _ \<Rightarrow> Inl (Fail e),
         w\<lparr>w_published := w_published w @ [(as_conn r, subject, payload)]\<rparr>)))"
  by (rule claimUpdateRequest_run)

end
