(* ===== verification/FieldClaims.thy ===== *)
theory FieldClaims
  imports CredsFacts
begin

text \<open>
  The properties of paths, request fields and claims: nothing stored shares its path, imports
  survive being read and written back, which changes of an update are noticed, which limits an
  account gets and which signing keys an operator's JWT names.
\<close>

section \<open>Identifiers and paths\<close>

text \<open>Everything the backend stores, by what it is of; and when the names in it have no slash but in the last.\<close>

datatype location =
    OperatorAt operatorId
  | OperatorKeyAt operatorId
  | OperatorJwtAt operatorId
  | ServerAt accountServerId
  | OperatorSigningKeyAt operatorSigningKeyId
  | AccountAt accountId
  | AccountKeyAt accountId
  | AccountJwtAt accountId
  | AccountSigningKeyAt accountSigningKeyId
  | UserAt userId
  | UserKeyAt userId
  | EphemeralUserAt ephemeralUserId
  | RevocationAt accountRevocationId
  | ImportAt accountImportId
  | ConfigAt

primrec location_path :: "location \<Rightarrow> string" where
  "location_path (OperatorAt i) = operator_configPath i"
| "location_path (OperatorKeyAt i) = operator_nkeyPath i"
| "location_path (OperatorJwtAt i) = operator_jwtPath i"
| "location_path (ServerAt i) = accountServer_configPath i"
| "location_path (OperatorSigningKeyAt i) = operatorSigningKey_nkeyPath i"
| "location_path (AccountAt i) = account_configPath i"
| "location_path (AccountKeyAt i) = account_nkeyPath i"
| "location_path (AccountJwtAt i) = account_jwtPath i"
| "location_path (AccountSigningKeyAt i) = accountSigningKey_nkeyPath i"
| "location_path (UserAt i) = user_configPath i"
| "location_path (UserKeyAt i) = user_nkeyPath i"
| "location_path (EphemeralUserAt i) = ephemeralUser_configPath i"
| "location_path (RevocationAt i) = accountRevocation_configPath i"
| "location_path (ImportAt i) = accountImport_configPath i"
| "location_path ConfigAt = backendConfigPath"

primrec location_wf :: "location \<Rightarrow> bool" where
  "location_wf (OperatorAt i) \<longleftrightarrow> True"
| "location_wf (OperatorKeyAt i) \<longleftrightarrow> True"
| "location_wf (OperatorJwtAt i) \<longleftrightarrow> True"
| "location_wf (ServerAt i) \<longleftrightarrow> True"
| "location_wf (OperatorSigningKeyAt i) \<longleftrightarrow> no_slash (oski_op i)"
| "location_wf (AccountAt i) \<longleftrightarrow> no_slash (ai_op i)"
| "location_wf (AccountKeyAt i) \<longleftrightarrow> no_slash (ai_op i)"
| "location_wf (AccountJwtAt i) \<longleftrightarrow> no_slash (ai_op i)"
| "location_wf (AccountSigningKeyAt i) \<longleftrightarrow> no_slash (aski_op i) \<and> no_slash (aski_acc i)"
| "location_wf (UserAt i) \<longleftrightarrow> no_slash (ui_op i) \<and> no_slash (ui_acc i)"
| "location_wf (UserKeyAt i) \<longleftrightarrow> no_slash (ui_op i) \<and> no_slash (ui_acc i)"
| "location_wf (EphemeralUserAt i) \<longleftrightarrow> no_slash (eui_op i) \<and> no_slash (eui_acc i)"
| "location_wf (RevocationAt i) \<longleftrightarrow> no_slash (ari_op i) \<and> no_slash (ari_acc i)"
| "location_wf (ImportAt i) \<longleftrightarrow> no_slash (aii_op i) \<and> no_slash (aii_acc i)"
| "location_wf ConfigAt \<longleftrightarrow> True"

lemmas own_path_injs = kv_operator_configPath.path_inj kv_operator_nkeyPath.path_inj kv_operator_jwtPath.path_inj kv_accountServer_configPath.path_inj
  kv_operatorSigningKey_nkeyPath.path_inj kv_account_configPath.path_inj kv_account_nkeyPath.path_inj kv_account_jwtPath.path_inj
  kv_accountSigningKey_nkeyPath.path_inj kv_user_configPath.path_inj kv_user_nkeyPath.path_inj kv_ephemeralUser_configPath.path_inj
  kv_accountRevocation_configPath.path_inj kv_accountImport_configPath.path_inj

lemma location_path_inj:
  assumes "location_wf x" and "location_wf y" and "location_path x = location_path y"
  shows "x = y"
  using assms
  by (cases x; cases y; (simp add: path_defs; fail)?) (auto simp: wf_defs intro: own_path_injs)

text \<open>
  C35. Everything the backend stores has a path of its own. For operators, their keys and JWTs, account
  servers, operators' signing keys, accounts, their keys and JWTs, accounts' signing keys, users and their keys, ephemeral
  users, revocations, imports and the configuration: as long as the names of operators and accounts have
  no slash where another name follows (the framework's name pattern allows none), two different ones,
  of the same kind or of different kinds, have different paths, and to store or to delete one, in a
  transaction or not, and whether it succeeds or fails, leaves what is read of the other as it was.
\<close>

theorem identifiers_have_own_paths:
  assumes "location_wf x" and "location_wf y" and "x \<noteq> y"
  shows "location_path x \<noteq> location_path y
    \<and> view s (snd (storeInStorage E s (location_path x) v w)) (location_path y) = view s w (location_path y)
    \<and> view s (snd (sDelete E s (location_path x) w)) (location_path y) = view s w (location_path y)"
proof -
  have other: "location_path x \<noteq> location_path y" using location_path_inj assms by blast
  then show ?thesis
    using sWrite_result [of E s OpPut "ActPut (location_path x) v" w] sWrite_result [of E s OpDelete "ActDelete (location_path x)" w]
    by (auto simp: storeInStorage_def sDelete_def view_written_put view_written_delete)
qed

lemma identifiers_have_own_paths_witness:
  "location_path (RevocationAt (AccountRevocationId ''op'' ''acc'' ''U1'')) \<noteq> location_path (UserAt (UserId ''op'' ''acc'' ''U1''))
   \<and> view Base (snd (sDelete sample_env Base (location_path (RevocationAt (AccountRevocationId ''op'' ''acc'' ''PUold''))) sample_world))
       (location_path (RevocationAt (AccountRevocationId ''op'' ''acc'' ''PUkept''))) =
     view Base sample_world (location_path (RevocationAt (AccountRevocationId ''op'' ''acc'' ''PUkept'')))"
  using identifiers_have_own_paths [of "RevocationAt (AccountRevocationId ''op'' ''acc'' ''U1'')" "UserAt (UserId ''op'' ''acc'' ''U1'')"]
    identifiers_have_own_paths [of "RevocationAt (AccountRevocationId ''op'' ''acc'' ''PUold'')" "RevocationAt (AccountRevocationId ''op'' ''acc'' ''PUkept'')"]
  by simp

section \<open>Imports\<close>

text \<open>Each parameter sets its field to what the object shows, also if it leaves it out.\<close>

lemma stringParam_shown:
  assumes "map_of kvs k = (if v \<noteq> [] then Some (JStr v) else None)"
  shows "upd [] i = i \<Longrightarrow> stringParam kvs k field upd (h, d, i) = Inr (h \<or> v \<noteq> [], d \<or> v \<noteq> [] \<and> v \<noteq> field i, upd v i)"
  using assms by (cases v) (auto simp: stringParam_def)

lemma boolParam_shown:
  assumes "map_of kvs k = (if v then Some (JBool True) else None)"
  shows "upd False i = i \<Longrightarrow> boolParam kvs k field upd (h, d, i) = Inr (h \<or> v, d \<or> v \<and> \<not> field (upd v i), upd v i)"
  using assms by (cases v) (auto simp: boolParam_def Let_def)

lemma typeParam_shown:
  assumes "map_of kvs ''type'' = (if t \<noteq> UnknownExport then Some (JStr (exportTypeName t)) else None)"
  shows "imp_Type i = UnknownExport \<Longrightarrow> typeParam kvs (h, d, i) =
    Inr (h \<or> t \<noteq> UnknownExport, d \<or> t \<noteq> UnknownExport, i\<lparr>imp_Type := t\<rparr>)"
  using assms by (cases t) (auto simp: typeParam_def exportTypeName_def)

lemma map_of_shown:
  "map_of ((if c then [(k, v)] else []) @ kvs) k' = (if k' = k \<and> c then Some v else map_of kvs k')"
  by simp

lemma updateImportParams_importData:
  assumes "importData imp = JObj kvs"
  shows "\<exists>h d. updateImportParams kvs emptyImport = Inr (h, d, imp)"
proof -
  have kvs: "kvs = (if imp_Name imp \<noteq> [] then [(''name'', JStr (imp_Name imp))] else [])
     @ (if imp_Subject imp \<noteq> [] then [(''subject'', JStr (imp_Subject imp))] else [])
     @ (if imp_Account imp \<noteq> [] then [(''account'', JStr (imp_Account imp))] else [])
     @ (if imp_Token imp \<noteq> [] then [(''token'', JStr (imp_Token imp))] else [])
     @ (if imp_LocalSubject imp \<noteq> [] then [(''local_subject'', JStr (imp_LocalSubject imp))] else [])
     @ (if imp_Type imp \<noteq> UnknownExport then [(''type'', JStr (exportTypeName (imp_Type imp)))] else [])
     @ (if imp_Share imp then [(''share'', JBool True)] else [])
     @ (if imp_AllowTrace imp then [(''allow_trace'', JBool True)] else []) @ []"
    using assms by (simp add: importData_def)
  have m: "map_of kvs ''name'' = (if imp_Name imp \<noteq> [] then Some (JStr (imp_Name imp)) else None)"
    "map_of kvs ''subject'' = (if imp_Subject imp \<noteq> [] then Some (JStr (imp_Subject imp)) else None)"
    "map_of kvs ''account'' = (if imp_Account imp \<noteq> [] then Some (JStr (imp_Account imp)) else None)"
    "map_of kvs ''token'' = (if imp_Token imp \<noteq> [] then Some (JStr (imp_Token imp)) else None)"
    "map_of kvs ''local_subject'' = (if imp_LocalSubject imp \<noteq> [] then Some (JStr (imp_LocalSubject imp)) else None)"
    "map_of kvs ''type'' = (if imp_Type imp \<noteq> UnknownExport then Some (JStr (exportTypeName (imp_Type imp))) else None)"
    "map_of kvs ''share'' = (if imp_Share imp then Some (JBool True) else None)"
    "map_of kvs ''allow_trace'' = (if imp_AllowTrace imp then Some (JBool True) else None)"
    unfolding kvs map_of_shown by simp_all
  note shown = m(1-5) [THEN stringParam_shown] m(6) [THEN typeParam_shown] m(7,8) [THEN boolParam_shown]
  show ?thesis by (cases imp) (simp add: updateImportParams_def shown emptyImport_def)
qed

text \<open>
  C34. What \<^verbatim>\<open>pathAccountImportRead\<close> shows can be written back: the objects it returns for the
  imports of an account, given as the \<^verbatim>\<open>imports\<close> array of a write, are read as the same imports.
\<close>

theorem imports_round_trip: "readImports (map importData imps) = Inr imps"
proof (induction imps)
  case (Cons imp imps)
  obtain kvs where kvs: "importData imp = JObj kvs" by (simp add: importData_def)
  from updateImportParams_importData [OF this] Cons show ?case by (auto simp: kvs)
qed simp

text \<open>One parameter: the field it sets, and whether it says that the import changed.\<close>

lemma andThen_Inr: "andThen x f = Inr z \<Longrightarrow> (\<And>y. x = Inr y \<Longrightarrow> f y = Inr z \<Longrightarrow> P) \<Longrightarrow> P"
  by (cases x) auto

lemma stringParam_set:
  assumes "stringParam params k field upd (h, d, i) = Inr s" and "upd (field i) i = i"
  shows "\<exists>h' v. s = (h', d \<or> v \<noteq> field i, upd v i)"
proof (cases "map_of params k")
  case None
  then show ?thesis using assms by (intro exI [of _ h] exI [of _ "field i"]) (simp add: stringParam_def)
next
  case (Some j)
  then show ?thesis using assms(1) by (cases j) (auto simp: stringParam_def)
qed

lemma typeParam_set:
  assumes "typeParam params (h, d, i) = Inr s"
  shows "\<exists>h' v. s = (h', d \<or> v \<noteq> imp_Type i, i\<lparr>imp_Type := v\<rparr>)"
proof (cases "map_of params ''type''")
  case None
  then show ?thesis using assms by (intro exI [of _ h] exI [of _ "imp_Type i"]) (simp add: typeParam_def)
next
  case (Some j)
  then show ?thesis using assms by (cases j) (auto simp: typeParam_def split: if_splits)
qed

lemma boolParam_set:
  assumes "boolParam params k field upd (h, d, i) = Inr s" and "\<And>v. field (upd v i) = v" and "upd (field i) i = i"
  shows "\<exists>h' v. s = (h', d, upd v i)"
proof (cases "map_of params k")
  case None
  then show ?thesis using assms by (intro exI [of _ h] exI [of _ "field i"]) (simp add: boolParam_def)
next
  case (Some j)
  then show ?thesis using assms(1,2) by (cases j) (auto simp: boolParam_def Let_def)
qed

text \<open>
  C36. An update of an import through root-level parameters notices a change of every field but
  \<^verbatim>\<open>share\<close> and \<^verbatim>\<open>allow_trace\<close>, which are assigned before they are compared: changing only these
  leaves the JWT of the account as it was.
\<close>

theorem import_flags_never_dirty:
  assumes "updateImportParams params imp = Inr (h, dirty, imp')"
  shows "dirty \<longleftrightarrow> imp'\<lparr>imp_Share := imp_Share imp, imp_AllowTrace := imp_AllowTrace imp\<rparr> \<noteq> imp"
proof -
  from assms [unfolded updateImportParams_def] obtain s1 s2 s3 s4 s5 s6 s7 where p1: "stringParam params ''name'' imp_Name (\<lambda>v i. i\<lparr>imp_Name := v\<rparr>) (False, False, imp) = Inr s1"
    and p2: "stringParam params ''subject'' imp_Subject (\<lambda>v i. i\<lparr>imp_Subject := v\<rparr>) s1 = Inr s2"
    and p3: "stringParam params ''account'' imp_Account (\<lambda>v i. i\<lparr>imp_Account := v\<rparr>) s2 = Inr s3"
    and p4: "stringParam params ''token'' imp_Token (\<lambda>v i. i\<lparr>imp_Token := v\<rparr>) s3 = Inr s4"
    and p5: "stringParam params ''local_subject'' imp_LocalSubject (\<lambda>v i. i\<lparr>imp_LocalSubject := v\<rparr>) s4 = Inr s5"
    and p6: "typeParam params s5 = Inr s6"
    and p7: "boolParam params ''share'' imp_Share (\<lambda>v i. i\<lparr>imp_Share := v\<rparr>) s6 = Inr s7"
    and p8: "boolParam params ''allow_trace'' imp_AllowTrace (\<lambda>v i. i\<lparr>imp_AllowTrace := v\<rparr>) s7 = Inr (h, dirty, imp')"
    by (elim andThen_Inr) (rule that)
  obtain h1 v1 where s1: "s1 = (h1, v1 \<noteq> imp_Name imp, imp\<lparr>imp_Name := v1\<rparr>)"
    using stringParam_set [OF p1] by auto
  obtain h2 v2 where s2: "s2 = (h2, v1 \<noteq> imp_Name imp \<or> v2 \<noteq> imp_Subject imp, imp\<lparr>imp_Name := v1, imp_Subject := v2\<rparr>)"
    using stringParam_set [OF p2 [unfolded s1]] by auto
  obtain h3 v3 where s3: "s3 = (h3, v1 \<noteq> imp_Name imp \<or> v2 \<noteq> imp_Subject imp \<or> v3 \<noteq> imp_Account imp, imp\<lparr>imp_Name := v1, imp_Subject := v2, imp_Account := v3\<rparr>)"
    using stringParam_set [OF p3 [unfolded s2]] by auto
  obtain h4 v4 where s4: "s4 = (h4, v1 \<noteq> imp_Name imp \<or> v2 \<noteq> imp_Subject imp \<or> v3 \<noteq> imp_Account imp \<or> v4 \<noteq> imp_Token imp, imp\<lparr>imp_Name := v1, imp_Subject := v2, imp_Account := v3, imp_Token := v4\<rparr>)"
    using stringParam_set [OF p4 [unfolded s3]] by auto
  obtain h5 v5 where s5: "s5 = (h5, v1 \<noteq> imp_Name imp \<or> v2 \<noteq> imp_Subject imp \<or> v3 \<noteq> imp_Account imp \<or> v4 \<noteq> imp_Token imp \<or> v5 \<noteq> imp_LocalSubject imp, imp\<lparr>imp_Name := v1, imp_Subject := v2, imp_Account := v3, imp_Token := v4, imp_LocalSubject := v5\<rparr>)"
    using stringParam_set [OF p5 [unfolded s4]] by auto
  obtain h6 v6 where s6: "s6 = (h6, v1 \<noteq> imp_Name imp \<or> v2 \<noteq> imp_Subject imp \<or> v3 \<noteq> imp_Account imp \<or> v4 \<noteq> imp_Token imp \<or> v5 \<noteq> imp_LocalSubject imp \<or> v6 \<noteq> imp_Type imp, imp\<lparr>imp_Name := v1, imp_Subject := v2, imp_Account := v3, imp_Token := v4, imp_LocalSubject := v5, imp_Type := v6\<rparr>)"
    using typeParam_set [OF p6 [unfolded s5]] by auto
  obtain h7 v7 where s7: "s7 = (h7, v1 \<noteq> imp_Name imp \<or> v2 \<noteq> imp_Subject imp \<or> v3 \<noteq> imp_Account imp \<or> v4 \<noteq> imp_Token imp \<or> v5 \<noteq> imp_LocalSubject imp \<or> v6 \<noteq> imp_Type imp, imp\<lparr>imp_Name := v1, imp_Subject := v2, imp_Account := v3, imp_Token := v4, imp_LocalSubject := v5, imp_Type := v6, imp_Share := v7\<rparr>)"
    using boolParam_set [OF p7 [unfolded s6]] by auto
  obtain h8 v8 where s8: "(h, dirty, imp') = (h8, v1 \<noteq> imp_Name imp \<or> v2 \<noteq> imp_Subject imp \<or> v3 \<noteq> imp_Account imp \<or> v4 \<noteq> imp_Token imp \<or> v5 \<noteq> imp_LocalSubject imp \<or> v6 \<noteq> imp_Type imp, imp\<lparr>imp_Name := v1, imp_Subject := v2, imp_Account := v3, imp_Token := v4, imp_LocalSubject := v5, imp_Type := v6, imp_Share := v7, imp_AllowTrace := v8\<rparr>)"
    using boolParam_set [OF p8 [unfolded s7]] by auto
  from s8 show ?thesis by (cases imp) auto
qed

lemma import_flags_never_dirty_witness:
  "let i = emptyImport\<lparr>imp_Share := True\<rparr> in
     updateImportParams [(''share'', JBool True)] emptyImport = Inr (True, False, i)
     \<and> i\<lparr>imp_Share := imp_Share emptyImport, imp_AllowTrace := imp_AllowTrace emptyImport\<rparr> = emptyImport"
proof -
  have u: "updateImportParams [(''share'', JBool True)] emptyImport = Inr (True, False, emptyImport\<lparr>imp_Share := True\<rparr>)"
    by code_simp
  from import_flags_never_dirty [OF u] u show ?thesis by (simp add: Let_def)
qed

section \<open>Account server fields\<close>

text \<open>
  C37. An update of an account server notices a change of every field but the list of servers: for an
  entry with a client name that the request does not clear, it is dirty exactly if setting the
  fields changes something other than the servers. So the connection to the old servers stays.
\<close>

theorem server_list_never_dirty:
  assumes "ase_ClientName e \<noteq> []" and "asf_client_name f \<noteq> Some []"
  shows "serverFieldsDirty f e \<longleftrightarrow> (setServerFields f e)\<lparr>ase_Servers := ase_Servers e\<rparr> \<noteq> e"
proof -
  have given: "given v old = old \<longleftrightarrow> \<not> changed v old" for v :: "'x option" and old
    by (cases v) auto
  have "given (asf_client_name f) (ase_ClientName e) \<noteq> []" using assms by (cases "asf_client_name f") auto
  then show ?thesis
    by (cases e) (simp add: serverFieldsDirty_def setServerFields_def Let_def given, argo)
qed

lemma server_list_never_dirty_witness:
  "\<not> serverFieldsDirty \<lparr>asf_suspend = None, asf_servers = Some [''nats://new''], asf_connect_timeout = None, asf_max_reconnects = None,
     asf_reconnect_wait = None, asf_client_name = None, asf_disable_lookups = None, asf_disable_updates = None,
     asf_disable_deletes = None, asf_sync_now = None\<rparr> (NewAccountServerEntry\<lparr>ase_Servers := [''nats://old''], ase_ClientName := ''openbao''\<rparr>)"
  using server_list_never_dirty [of "NewAccountServerEntry\<lparr>ase_Servers := [''nats://old''], ase_ClientName := ''openbao''\<rparr>"
      "\<lparr>asf_suspend = None, asf_servers = Some [''nats://new''], asf_connect_timeout = None, asf_max_reconnects = None,
     asf_reconnect_wait = None, asf_client_name = None, asf_disable_lookups = None, asf_disable_updates = None,
     asf_disable_deletes = None, asf_sync_now = None\<rparr>"]
  by (simp add: setServerFields_def NewAccountServerEntry_def)

end
