(* ===== verification/Framework.thy ===== *)
theory Framework
  imports Requests
begin

text \<open>
  The part of the SDK's \<^verbatim>\<open>framework\<close> package the backend is plugged into: field schemas and
  \<^verbatim>\<open>FieldData\<close> (\<^verbatim>\<open>field_data.go\<close>), path patterns and their matching (\<^verbatim>\<open>path.go\<close>), routing and
  \<^verbatim>\<open>HandleRequest\<close> (\<^verbatim>\<open>backend.go\<close>). A panic is \<open>Inl RuntimePanic\<close>. How a raw value is decoded
  to a field's type is a parameter, \<open>fd_convert\<close>: an error, a value, or \<open>None\<close> for a nil that
  counts as absent.
\<close>

section \<open>Fields\<close>

datatype fieldType = TypeBool | TypeInt | TypeMap | TypeDurationSecond | TypeString | TypeNameString
  | TypeSlice | TypeStringSlice | TypeTime

text \<open>A map may be nil; a time is in nanoseconds.\<close>

datatype fieldValue = FBool bool | FInt int | FString string | FMap "(string \<times> json) list option"
  | FSlice "json list" | FStrings "string list" | FTime int

record fieldSchema =
  fs_Type :: fieldType
  fs_Default :: "fieldValue option"
  fs_Required :: bool
  fs_AllowedValues :: "string list"

definition field :: "fieldType \<Rightarrow> fieldSchema" where
  "field t = \<lparr>fs_Type = t, fs_Default = None, fs_Required = False, fs_AllowedValues = []\<rparr>"

fun Zero :: "fieldType \<Rightarrow> fieldValue" where
  "Zero TypeString = FString []"
| "Zero TypeNameString = FString []"
| "Zero TypeInt = FInt 0"
| "Zero TypeBool = FBool False"
| "Zero TypeMap = FMap (Some [])"
| "Zero TypeDurationSecond = FInt 0"
| "Zero TypeSlice = FSlice []"
| "Zero TypeStringSlice = FStrings []"
| "Zero TypeTime = FTime (instant None)"

definition DefaultOrZero :: "fieldSchema \<Rightarrow> fieldValue" where
  "DefaultOrZero s = (case fs_Default s of Some v \<Rightarrow> v | None \<Rightarrow> Zero (fs_Type s))"

record fieldData =
  fd_Raw :: "(string \<times> json) list"
  fd_Schema :: "(string \<times> fieldSchema) list"
  fd_convert :: "fieldType \<Rightarrow> json \<Rightarrow> string + fieldValue option"

text \<open>\<^verbatim>\<open>getPrimitive\<close>: the decoded value of a field of the schema.\<close>

definition getPrimitive :: "fieldData \<Rightarrow> string \<Rightarrow> fieldSchema \<Rightarrow> string + fieldValue option" where
  "getPrimitive d k s = (case map_of (fd_Raw d) k of
     None \<Rightarrow> Inr None
   | Some raw \<Rightarrow> fd_convert d (fs_Type s) raw)"

definition GetOk :: "fieldData \<Rightarrow> string \<Rightarrow> err + fieldValue option" where
  "GetOk d k = (case map_of (fd_Schema d) k of
     None \<Rightarrow> Inr None
   | Some s \<Rightarrow> (case getPrimitive d k s of Inl e \<Rightarrow> Inl RuntimePanic | Inr v \<Rightarrow> Inr v))"

definition Get :: "fieldData \<Rightarrow> string \<Rightarrow> err + fieldValue" where
  "Get d k = (case map_of (fd_Schema d) k of
     None \<Rightarrow> Inl RuntimePanic
   | Some s \<Rightarrow> andThen (GetOk d k) (\<lambda>v. Inr (case v of Some x \<Rightarrow> x | None \<Rightarrow> DefaultOrZero s)))"

text \<open>The first field whose value cannot be decoded; fields that are not in the schema are skipped.\<close>

fun Validate_fields :: "fieldData \<Rightarrow> string list \<Rightarrow> string option" where
  "Validate_fields d [] = None"
| "Validate_fields d (k # ks) = (case map_of (fd_Schema d) k of
     None \<Rightarrow> Validate_fields d ks
   | Some s \<Rightarrow> (case getPrimitive d k s of
       Inl e \<Rightarrow> Some (''error converting input for field '' @ quoted k @ '': '' @ e)
     | Inr v \<Rightarrow> Validate_fields d ks))"

definition Validate :: "fieldData \<Rightarrow> string option" where
  "Validate d = Validate_fields d (map fst (fd_Raw d))"

text \<open>Type assertions on field values.\<close>

fun theString :: "fieldValue \<Rightarrow> err + string" where
  "theString (FString s) = Inr s" | "theString _ = Inl RuntimePanic"

fun theInt :: "fieldValue \<Rightarrow> err + int" where
  "theInt (FInt n) = Inr n" | "theInt _ = Inl RuntimePanic"

fun theBool :: "fieldValue \<Rightarrow> err + bool" where
  "theBool (FBool b) = Inr b" | "theBool _ = Inl RuntimePanic"

fun theMap :: "fieldValue \<Rightarrow> err + (string \<times> json) list option" where
  "theMap (FMap m) = Inr m" | "theMap _ = Inl RuntimePanic"

fun theSlice :: "fieldValue \<Rightarrow> err + json list" where
  "theSlice (FSlice vs) = Inr vs" | "theSlice _ = Inl RuntimePanic"

fun theStrings :: "fieldValue \<Rightarrow> err + string list" where
  "theStrings (FStrings vs) = Inr vs" | "theStrings _ = Inl RuntimePanic"

fun theTime :: "fieldValue \<Rightarrow> err + int" where
  "theTime (FTime t) = Inr t" | "theTime _ = Inl RuntimePanic"

text \<open>\<^verbatim>\<open>d.Get(k).(T)\<close> and \<^verbatim>\<open>if v, ok := d.GetOk(k); ok { ... v.(T) ... }\<close>.\<close>

definition getField :: "(fieldValue \<Rightarrow> err + 'a) \<Rightarrow> fieldData \<Rightarrow> string \<Rightarrow> err + 'a" where
  "getField typed d k = andThen (Get d k) typed"

definition optField :: "(fieldValue \<Rightarrow> err + 'a) \<Rightarrow> fieldData \<Rightarrow> string \<Rightarrow> err + 'a option" where
  "optField typed d k = andThen (GetOk d k) (\<lambda>v. case v of
     None \<Rightarrow> Inr None
   | Some x \<Rightarrow> andThen (typed x) (\<lambda>y. Inr (Some y)))"

section \<open>Patterns\<close>

text \<open>
  The regular expressions of the routes: literal text, an optional last character, and a captured
  name (\<^verbatim>\<open>GenericNameRegex\<close>). \<open>matches\<close> lists the captures of all matches of the whole path, the
  longest name first.
\<close>

datatype atom = Lit string | OptChar char | NameRegex string

fun matches :: "atom list \<Rightarrow> string \<Rightarrow> (string \<times> string) list list" where
  "matches [] s = (if s = [] then [[]] else [])"
| "matches (Lit l # as) s = (if take (length l) s = l then matches as (drop (length l) s) else [])"
| "matches (OptChar c # as) s =
     (if s \<noteq> [] \<and> hd s = c then matches as (tl s) else []) @ matches as s"
| "matches (NameRegex n # as) s =
     concat (map (\<lambda>k. map (Cons (n, take k s)) (matches as (drop k s)))
       (filter (\<lambda>k. generic_name (take k s)) (rev [0..<Suc (length s)])))"

text \<open>\<^verbatim>\<open>prefix + aRegex + "/" + bRegex + "$"\<close>, the same with \<^verbatim>\<open>"/?$"\<close>, and \<^verbatim>\<open>prefix + "?$"\<close>.\<close>

fun nameAtoms :: "string list \<Rightarrow> atom list" where
  "nameAtoms [] = []"
| "nameAtoms [n] = [NameRegex n]"
| "nameAtoms (n # ns) = NameRegex n # Lit ''/'' # nameAtoms ns"

definition pattern :: "string \<Rightarrow> string list \<Rightarrow> atom list" where
  "pattern pfx ns = Lit pfx # nameAtoms ns"

definition listPattern :: "string \<Rightarrow> string list \<Rightarrow> atom list" where
  "listPattern pfx ns = Lit pfx # nameAtoms ns @ [OptChar (CHR ''/'')]"

definition rootPattern :: "string \<Rightarrow> atom list" where
  "rootPattern pfx = [Lit (butlast pfx), OptChar (last pfx)]"

definition exactPattern :: "string \<Rightarrow> atom list" where
  "exactPattern p = [Lit p]"

section \<open>Routes\<close>

datatype operation = CreateOperation | UpdateOperation | ReadOperation | DeleteOperation | ListOperation

text \<open>
  A callback turns the field data into the request it handles; an existence check into the check.
  The responses are the declared status codes and data fields.
\<close>

record operationHandler =
  oh_Callback :: "fieldData \<Rightarrow> err + request"
  oh_Responses :: "(nat \<times> (string \<times> fieldSchema) list) list"

record Path =
  p_Pattern :: "atom list"
  p_Fields :: "(string \<times> fieldSchema) list"
  p_ExistenceCheck :: "(fieldData \<Rightarrow> err + (env \<Rightarrow> bool m)) option"
  p_Operations :: "(operation \<times> operationHandler) list"

text \<open>The first path that matches, and the values of its captures.\<close>

fun route :: "Path list \<Rightarrow> string \<Rightarrow> (Path \<times> (string \<times> string) list) option" where
  "route [] path = None"
| "route (r # rs) path = (case matches (p_Pattern r) path of
     [] \<Rightarrow> route rs path
   | captures # _ \<Rightarrow> Some (r, captures))"

text \<open>The values in the URL take priority over those in the body.\<close>

definition requestData :: "(fieldType \<Rightarrow> json \<Rightarrow> string + fieldValue option) \<Rightarrow> Path \<Rightarrow> (string \<times> string) list
    \<Rightarrow> (string \<times> json) list \<Rightarrow> fieldData" where
  "requestData cv r captures data =
     \<lparr>fd_Raw = map (\<lambda>(k, v). (k, JStr v)) captures @ filter (\<lambda>(k, v). k \<notin> fst ` set captures) data,
      fd_Schema = p_Fields r, fd_convert = cv\<rparr>"

definition endpointWarnings :: "Path \<Rightarrow> (string \<times> string) list \<Rightarrow> (string \<times> json) list \<Rightarrow> string list" where
  "endpointWarnings r captures data =
     (let ignored = sort (filter (\<lambda>k. map_of (p_Fields r) k = None) (map fst data));
          replaced = filter (\<lambda>k. map_of data k \<notin> {None, Some JNull}) (map fst captures)
      in (if ignored \<noteq> [] then [''Endpoint ignored these unrecognized parameters: '' @ ''['' @ join '' '' ignored @ '']''] else [])
       @ (if replaced \<noteq> [] then [''Endpoint replaced the value of these parameters with the values captured from the endpoint's path: ''
            @ ''['' @ join '' '' replaced @ '']''] else []))"

definition HandleExistenceCheck :: "env \<Rightarrow> (fieldType \<Rightarrow> json \<Rightarrow> string + fieldValue option) \<Rightarrow> Path list
    \<Rightarrow> string \<Rightarrow> (string \<times> json) list \<Rightarrow> (bool \<times> bool) m" where
  "HandleExistenceCheck E cv rs path data = (case route rs path of
     None \<Rightarrow> throwM (Fail ''unsupported path'')
   | Some (r, captures) \<Rightarrow> (case p_ExistenceCheck r of
       None \<Rightarrow> returnM (False, False)
     | Some check \<Rightarrow> let d = requestData cv r captures data in
         (case Validate d of
            Some msg \<Rightarrow> throwM (Fail msg)
          | None \<Rightarrow> (case check d of
              Inl e \<Rightarrow> throwM e
            | Inr c \<Rightarrow> bindM (c E) (\<lambda>exists. returnM (True, exists))))))"

definition HandleRequest :: "env \<Rightarrow> (fieldType \<Rightarrow> json \<Rightarrow> string + fieldValue option) \<Rightarrow> Path list
    \<Rightarrow> operation \<Rightarrow> string \<Rightarrow> (string \<times> json) list \<Rightarrow> world \<Rightarrow> (err + response option) \<times> world" where
  "HandleRequest E cv rs opn path data w = (case route rs path of
     None \<Rightarrow> (Inl (Fail ''unsupported path''), w)
   | Some (r, captures) \<Rightarrow> (case map_of (p_Operations r) opn of
       None \<Rightarrow> (Inl (Fail ''unsupported operation''), w)
     | Some h \<Rightarrow> let d = requestData cv r captures data in
         (case Validate d of
            Some msg \<Rightarrow> (Inr (Some (ErrorResponse (''Field validation failed: '' @ msg))), w)
          | None \<Rightarrow> (case oh_Callback h d of
              Inl e \<Rightarrow> (Inl e, w)
            | Inr req \<Rightarrow> (case run_request E req w of
                (Inr (Some resp), w') \<Rightarrow> (Inr (Some (AddWarnings (endpointWarnings r captures data) resp)), w')
              | result \<Rightarrow> result)))))"

end
