(* ===== verification/Callbacks.thy ===== *)
theory Callbacks
  imports Framework
begin

text \<open>
  How the handlers read their fields: the identifier functions (\<^verbatim>\<open>OperatorIdField\<close>, ...), the
  \<^verbatim>\<open>d.GetOk\<close> calls of the handlers with optional fields, and for each callback the request it
  handles. A handler with a field that has a default reads it with \<^verbatim>\<open>d.Get\<close>.
\<close>

section \<open>Identifiers\<close>

named_theorems idField_defs \<open>the identifier functions\<close>

definition OperatorIdField :: "fieldData \<Rightarrow> err + operatorId" where [idField_defs]:
  "OperatorIdField d = andThen (getField theString d ''operator'') (\<lambda>opn. Inr (OperatorId opn))"

definition AccountServerIdField :: "fieldData \<Rightarrow> err + accountServerId" where [idField_defs]:
  "AccountServerIdField d = andThen (getField theString d ''operator'') (\<lambda>opn. Inr (AccountServerId opn))"

definition OperatorSigningKeyIdField :: "fieldData \<Rightarrow> err + operatorSigningKeyId" where [idField_defs]:
  "OperatorSigningKeyIdField d = andThen (getField theString d ''operator'') (\<lambda>opn. andThen (getField theString d ''name'') (\<lambda>nm. Inr (OperatorSigningKeyId opn nm)))"

definition AccountIdField :: "fieldData \<Rightarrow> err + accountId" where [idField_defs]:
  "AccountIdField d = andThen (getField theString d ''operator'') (\<lambda>opn. andThen (getField theString d ''account'') (\<lambda>acc. Inr (AccountId opn acc)))"

definition AccountSigningKeyIdField :: "fieldData \<Rightarrow> err + accountSigningKeyId" where [idField_defs]:
  "AccountSigningKeyIdField d = andThen (getField theString d ''operator'') (\<lambda>opn. andThen (getField theString d ''account'') (\<lambda>acc. andThen (getField theString d ''name'') (\<lambda>nm. Inr (AccountSigningKeyId opn acc nm))))"

definition UserIdField :: "fieldData \<Rightarrow> err + userId" where [idField_defs]:
  "UserIdField d = andThen (getField theString d ''operator'') (\<lambda>opn. andThen (getField theString d ''account'') (\<lambda>acc. andThen (getField theString d ''user'') (\<lambda>user. Inr (UserId opn acc user))))"

definition EphemeralUserIdField :: "fieldData \<Rightarrow> err + ephemeralUserId" where [idField_defs]:
  "EphemeralUserIdField d = andThen (getField theString d ''operator'') (\<lambda>opn. andThen (getField theString d ''account'') (\<lambda>acc. andThen (getField theString d ''user'') (\<lambda>user. Inr (EphemeralUserId opn acc user))))"

definition AccountRevocationIdField :: "fieldData \<Rightarrow> err + accountRevocationId" where [idField_defs]:
  "AccountRevocationIdField d = andThen (getField theString d ''operator'') (\<lambda>opn. andThen (getField theString d ''account'') (\<lambda>acc. andThen (getField theString d ''subject'') (\<lambda>sub. Inr (AccountRevocationId opn acc sub))))"

definition AccountImportIdField :: "fieldData \<Rightarrow> err + accountImportId" where [idField_defs]:
  "AccountImportIdField d = andThen (getField theString d ''operator'') (\<lambda>opn. andThen (getField theString d ''import_account'') (\<lambda>acc. andThen (getField theString d ''import_name'') (\<lambda>nm. Inr (AccountImportId opn acc nm))))"

section \<open>Other fields\<close>

named_theorems readFields_defs \<open>the readers of the other fields\<close>

definition read_operatorFields :: "fieldData \<Rightarrow> err + operatorFields" where [readFields_defs]:
  "read_operatorFields d =
     andThen (optField theBool d ''create_system_account'') (\<lambda>create.
     andThen (optField theString d ''default_signing_key'') (\<lambda>key.
     andThen (optField theString d ''system_account_name'') (\<lambda>nm.
     andThen (optField theMap d ''claims'') (\<lambda>claims.
     Inr \<lparr>of_create_system_account = create, of_system_account_name = nm, of_default_signing_key = key, of_claims = claims\<rparr>))))"

definition read_accountFields :: "fieldData \<Rightarrow> err + accountFields" where [readFields_defs]:
  "read_accountFields d =
     andThen (optField theMap d ''claims'') (\<lambda>claims.
     andThen (optField theString d ''signing_key'') (\<lambda>key.
     andThen (optField theString d ''default_signing_key'') (\<lambda>dflt.
     Inr \<lparr>af_claims = claims, af_signing_key = key, af_default_signing_key = dflt\<rparr>)))"

definition read_signingKeyFields :: "fieldData \<Rightarrow> err + signingKeyFields" where [readFields_defs]:
  "read_signingKeyFields d =
     andThen (optField theBool d ''scoped'') (\<lambda>scoped.
     andThen (optField theString d ''description'') (\<lambda>descr.
     andThen (optField theMap d ''permission_template'') (\<lambda>template.
     Inr \<lparr>skf_scoped = scoped, skf_description = descr, skf_permission_template = template\<rparr>)))"

definition read_userFields :: "fieldData \<Rightarrow> err + userFields" where [readFields_defs]:
  "read_userFields d =
     andThen (optField theString d ''default_signing_key'') (\<lambda>key.
     andThen (optField theInt d ''creds_default_ttl'') (\<lambda>dflt.
     andThen (optField theInt d ''creds_max_ttl'') (\<lambda>mx.
     andThen (optField theBool d ''revoke_on_delete'') (\<lambda>revoke.
     andThen (optField theMap d ''claims'') (\<lambda>claims.
     Inr \<lparr>uf_default_signing_key = key, uf_creds_default_ttl = dflt, uf_creds_max_ttl = mx, uf_revoke_on_delete = revoke, uf_claims = claims\<rparr>)))))"

definition read_ephemeralUserFields :: "fieldData \<Rightarrow> err + ephemeralUserFields" where [readFields_defs]:
  "read_ephemeralUserFields d =
     andThen (optField theString d ''default_signing_key'') (\<lambda>key.
     andThen (optField theInt d ''creds_default_ttl'') (\<lambda>dflt.
     andThen (optField theInt d ''creds_max_ttl'') (\<lambda>mx.
     andThen (optField theMap d ''claims'') (\<lambda>claims.
     Inr \<lparr>ef_default_signing_key = key, ef_creds_default_ttl = dflt, ef_creds_max_ttl = mx, ef_claims = claims\<rparr>))))"

definition read_credsFields :: "fieldData \<Rightarrow> err + credsFields" where [readFields_defs]:
  "read_credsFields d =
     andThen (optField theInt d ''ttl'') (\<lambda>ttl.
     andThen (optField theStrings d ''tags'') (\<lambda>tags.
     andThen (getField theString d ''signing_key'') (\<lambda>key.
     andThen (optField theTime d ''not_before'') (\<lambda>nbf.
     Inr \<lparr>cf_ttl = ttl, cf_signing_key = key, cf_not_before = nbf, cf_tags = tags\<rparr>))))"

definition read_accountServerFields :: "fieldData \<Rightarrow> err + accountServerFields" where [readFields_defs]:
  "read_accountServerFields d =
     andThen (optField theBool d ''suspend'') (\<lambda>susp.
     andThen (optField theStrings d ''servers'') (\<lambda>servers.
     andThen (optField theInt d ''connect_timeout'') (\<lambda>timeout.
     andThen (optField theInt d ''max_reconnects'') (\<lambda>reconn.
     andThen (optField theInt d ''reconnect_wait'') (\<lambda>wait.
     andThen (optField theBool d ''disable_lookups'') (\<lambda>lookups.
     andThen (optField theBool d ''disable_updates'') (\<lambda>updates.
     andThen (optField theBool d ''disable_deletes'') (\<lambda>deletes.
     andThen (optField theString d ''client_name'') (\<lambda>client.
     andThen (getField theBool d ''sync_now'') (\<lambda>now.
     Inr \<lparr>asf_suspend = susp, asf_servers = servers, asf_connect_timeout = timeout,
       asf_max_reconnects = reconn, asf_reconnect_wait = wait, asf_client_name = client, asf_disable_lookups = lookups,
       asf_disable_updates = updates, asf_disable_deletes = deletes, asf_sync_now = Some now\<rparr>))))))))))"

definition read_listFields :: "fieldData \<Rightarrow> err + string \<times> int" where [readFields_defs]:
  "read_listFields d = andThen (getField theString d ''after'') (\<lambda>after.
     andThen (getField theInt d ''limit'') (\<lambda>limit. Inr (after, limit)))"

section \<open>Callbacks\<close>

text \<open>A request about an identifier, without and with other fields.\<close>

definition requestFor :: "(fieldData \<Rightarrow> err + 'i) \<Rightarrow> ('i \<Rightarrow> request) \<Rightarrow> fieldData \<Rightarrow> err + request" where
  "requestFor idField req d = andThen (idField d) (\<lambda>i. Inr (req i))"

definition requestWith :: "(fieldData \<Rightarrow> err + 'i) \<Rightarrow> (fieldData \<Rightarrow> err + 'f) \<Rightarrow> ('i \<Rightarrow> 'f \<Rightarrow> request)
    \<Rightarrow> fieldData \<Rightarrow> err + request" where
  "requestWith idField others req d = andThen (idField d) (\<lambda>i. andThen (others d) (\<lambda>f. Inr (req i f)))"

definition checkFor :: "(fieldData \<Rightarrow> err + 'i) \<Rightarrow> (env \<Rightarrow> 'i \<Rightarrow> bool m) \<Rightarrow> fieldData \<Rightarrow> err + (env \<Rightarrow> bool m)" where
  "checkFor idField check d = andThen (idField d) (\<lambda>i. Inr (\<lambda>E. check E i))"

named_theorems callback_defs \<open>the callbacks of the routes\<close>

definition call_pathOperatorCreateUpdate :: "fieldData \<Rightarrow> err + request" where [callback_defs]:
  "call_pathOperatorCreateUpdate = requestWith OperatorIdField read_operatorFields (\<lambda>i f. OperatorRequest (OperatorWrite i f))"

definition call_pathOperatorRead :: "fieldData \<Rightarrow> err + request" where [callback_defs]:
  "call_pathOperatorRead = requestFor OperatorIdField (\<lambda>i. OperatorRequest (OperatorRead i))"

definition call_pathOperatorList :: "fieldData \<Rightarrow> err + request" where [callback_defs]:
  "call_pathOperatorList = requestFor read_listFields (\<lambda>(after, limit). OperatorRequest (OperatorList after limit))"

definition call_pathOperatorDelete :: "fieldData \<Rightarrow> err + request" where [callback_defs]:
  "call_pathOperatorDelete = requestFor OperatorIdField (\<lambda>i. OperatorRequest (OperatorDelete i))"

definition call_pathOperatorNkeyRead :: "fieldData \<Rightarrow> err + request" where [callback_defs]:
  "call_pathOperatorNkeyRead = requestFor OperatorIdField (\<lambda>i. OperatorRequest (OperatorNkeyRead i))"

definition call_pathOperatorJwtRead :: "fieldData \<Rightarrow> err + request" where [callback_defs]:
  "call_pathOperatorJwtRead = requestFor OperatorIdField (\<lambda>i. OperatorRequest (OperatorJwtRead i))"

definition call_pathOperatorSigningNkeyCreateUpdate :: "fieldData \<Rightarrow> err + request" where [callback_defs]:
  "call_pathOperatorSigningNkeyCreateUpdate = requestFor OperatorSigningKeyIdField (\<lambda>i. OperatorRequest (OperatorSigningKeyWrite i))"

definition call_pathOperatorSigningNkeyRead :: "fieldData \<Rightarrow> err + request" where [callback_defs]:
  "call_pathOperatorSigningNkeyRead = requestFor OperatorSigningKeyIdField (\<lambda>i. OperatorRequest (OperatorSigningKeyRead i))"

definition call_pathOperatorSigningNkeyList :: "fieldData \<Rightarrow> err + request" where [callback_defs]:
  "call_pathOperatorSigningNkeyList = requestWith OperatorIdField read_listFields (\<lambda>i (after, limit). OperatorRequest (OperatorSigningKeyList i after limit))"

definition call_pathOperatorSigningNkeyDelete :: "fieldData \<Rightarrow> err + request" where [callback_defs]:
  "call_pathOperatorSigningNkeyDelete = requestFor OperatorSigningKeyIdField (\<lambda>i. OperatorRequest (OperatorSigningKeyDelete i))"

definition call_pathAccountCreateUpdate :: "fieldData \<Rightarrow> err + request" where [callback_defs]:
  "call_pathAccountCreateUpdate = requestWith AccountIdField read_accountFields (\<lambda>i f. AccountRequest (AccountWrite i f))"

definition call_pathAccountRead :: "fieldData \<Rightarrow> err + request" where [callback_defs]:
  "call_pathAccountRead = requestFor AccountIdField (\<lambda>i. AccountRequest (AccountRead i))"

definition call_pathAccountList :: "fieldData \<Rightarrow> err + request" where [callback_defs]:
  "call_pathAccountList = requestWith OperatorIdField read_listFields (\<lambda>i (after, limit). AccountRequest (AccountList i after limit))"

definition call_pathAccountDelete :: "fieldData \<Rightarrow> err + request" where [callback_defs]:
  "call_pathAccountDelete = requestFor AccountIdField (\<lambda>i. AccountRequest (AccountDelete i))"

definition call_pathAccountNkeyRead :: "fieldData \<Rightarrow> err + request" where [callback_defs]:
  "call_pathAccountNkeyRead = requestFor AccountIdField (\<lambda>i. AccountRequest (AccountNkeyRead i))"

definition call_pathReadAccountJWT :: "fieldData \<Rightarrow> err + request" where [callback_defs]:
  "call_pathReadAccountJWT = requestFor AccountIdField (\<lambda>i. AccountRequest (AccountJwtRead i))"

definition call_pathAccountSigningNkeyCreateUpdate :: "fieldData \<Rightarrow> err + request" where [callback_defs]:
  "call_pathAccountSigningNkeyCreateUpdate = requestWith AccountSigningKeyIdField read_signingKeyFields (\<lambda>i f. AccountRequest (AccountSigningKeyWrite i f))"

definition call_pathAccountSigningNkeyRead :: "fieldData \<Rightarrow> err + request" where [callback_defs]:
  "call_pathAccountSigningNkeyRead = requestFor AccountSigningKeyIdField (\<lambda>i. AccountRequest (AccountSigningKeyRead i))"

definition call_pathAccountSigningNkeyList :: "fieldData \<Rightarrow> err + request" where [callback_defs]:
  "call_pathAccountSigningNkeyList = requestWith AccountIdField read_listFields (\<lambda>i (after, limit). AccountRequest (AccountSigningKeyList i after limit))"

definition call_pathAccountSigningNkeyDelete :: "fieldData \<Rightarrow> err + request" where [callback_defs]:
  "call_pathAccountSigningNkeyDelete = requestFor AccountSigningKeyIdField (\<lambda>i. AccountRequest (AccountSigningKeyDelete i))"

definition call_pathAccountImportCreateUpdate :: "fieldData \<Rightarrow> err + request" where [callback_defs]:
  "call_pathAccountImportCreateUpdate d = requestWith AccountImportIdField (\<lambda>d. optField theSlice d ''imports'')
     (\<lambda>i f. GrantRequest (AccountImportWrite i (fd_Raw d) f)) d"

definition call_pathAccountImportRead :: "fieldData \<Rightarrow> err + request" where [callback_defs]:
  "call_pathAccountImportRead = requestFor AccountImportIdField (\<lambda>i. GrantRequest (AccountImportRead i))"

definition call_pathAccountImportList :: "fieldData \<Rightarrow> err + request" where [callback_defs]:
  "call_pathAccountImportList = requestWith AccountIdField read_listFields (\<lambda>i (after, limit). GrantRequest (AccountImportList i after limit))"

definition call_pathAccountImportDelete :: "fieldData \<Rightarrow> err + request" where [callback_defs]:
  "call_pathAccountImportDelete = requestFor AccountImportIdField (\<lambda>i. GrantRequest (AccountImportDelete i))"

definition call_pathAccountRevocationCreateUpdate :: "fieldData \<Rightarrow> err + request" where [callback_defs]:
  "call_pathAccountRevocationCreateUpdate = requestWith AccountRevocationIdField (\<lambda>d. optField theInt d ''ttl'') (\<lambda>i f. GrantRequest (RevocationWrite i f))"

definition call_pathAccountRevocationRead :: "fieldData \<Rightarrow> err + request" where [callback_defs]:
  "call_pathAccountRevocationRead = requestFor AccountRevocationIdField (\<lambda>i. GrantRequest (RevocationRead i))"

definition call_pathAccountRevocationList :: "fieldData \<Rightarrow> err + request" where [callback_defs]:
  "call_pathAccountRevocationList = requestWith AccountIdField read_listFields (\<lambda>i (after, limit). GrantRequest (RevocationList i after limit))"

definition call_pathAccountRevocationDelete :: "fieldData \<Rightarrow> err + request" where [callback_defs]:
  "call_pathAccountRevocationDelete = requestFor AccountRevocationIdField (\<lambda>i. GrantRequest (RevocationDelete i))"

definition call_pathUserCreateUpdate :: "fieldData \<Rightarrow> err + request" where [callback_defs]:
  "call_pathUserCreateUpdate = requestWith UserIdField read_userFields (\<lambda>i f. UserRequest (UserWrite i f))"

definition call_pathUserRead :: "fieldData \<Rightarrow> err + request" where [callback_defs]:
  "call_pathUserRead = requestFor UserIdField (\<lambda>i. UserRequest (UserRead i))"

definition call_pathUserList :: "fieldData \<Rightarrow> err + request" where [callback_defs]:
  "call_pathUserList = requestWith AccountIdField read_listFields (\<lambda>i (after, limit). UserRequest (UserList i after limit))"

definition call_pathDeleteUserIssue :: "fieldData \<Rightarrow> err + request" where [callback_defs]:
  "call_pathDeleteUserIssue = requestFor UserIdField (\<lambda>i. UserRequest (UserDelete i))"

definition call_pathUserNkeyRead :: "fieldData \<Rightarrow> err + request" where [callback_defs]:
  "call_pathUserNkeyRead = requestFor UserIdField (\<lambda>i. UserRequest (UserNkeyRead i))"

definition call_pathEphemeralUserCreateUpdate :: "fieldData \<Rightarrow> err + request" where [callback_defs]:
  "call_pathEphemeralUserCreateUpdate = requestWith EphemeralUserIdField read_ephemeralUserFields (\<lambda>i f. UserRequest (EphemeralUserWrite i f))"

definition call_pathEphemeralUserRead :: "fieldData \<Rightarrow> err + request" where [callback_defs]:
  "call_pathEphemeralUserRead = requestFor EphemeralUserIdField (\<lambda>i. UserRequest (EphemeralUserRead i))"

definition call_pathEphemeralUserList :: "fieldData \<Rightarrow> err + request" where [callback_defs]:
  "call_pathEphemeralUserList = requestWith AccountIdField read_listFields (\<lambda>i (after, limit). UserRequest (EphemeralUserList i after limit))"

definition call_pathEphemeralUserDelete :: "fieldData \<Rightarrow> err + request" where [callback_defs]:
  "call_pathEphemeralUserDelete = requestFor EphemeralUserIdField (\<lambda>i. UserRequest (EphemeralUserDelete i))"

definition call_pathUserCredsRead :: "fieldData \<Rightarrow> err + request" where [callback_defs]:
  "call_pathUserCredsRead = requestWith UserIdField read_credsFields (\<lambda>i f. UserRequest (UserCredsRead i f))"

definition call_pathEphemeralUserCredsRead :: "fieldData \<Rightarrow> err + request" where [callback_defs]:
  "call_pathEphemeralUserCredsRead d = andThen (getField theString d ''session'') (\<lambda>session.
     requestWith EphemeralUserIdField read_credsFields (\<lambda>i f. UserRequest (EphemeralCredsRead i session f)) d)"

definition call_pathAccountServerCreateUpdate :: "fieldData \<Rightarrow> err + request" where [callback_defs]:
  "call_pathAccountServerCreateUpdate = requestWith AccountServerIdField read_accountServerFields (\<lambda>i f. ServerRequest (AccountServerWrite i f))"

definition call_pathAccountServerRead :: "fieldData \<Rightarrow> err + request" where [callback_defs]:
  "call_pathAccountServerRead = requestFor AccountServerIdField (\<lambda>i. ServerRequest (AccountServerRead i))"

definition call_pathAccountServerList :: "fieldData \<Rightarrow> err + request" where [callback_defs]:
  "call_pathAccountServerList = requestFor read_listFields (\<lambda>(after, limit). ServerRequest (AccountServerList after limit))"

definition call_pathAccountServerDelete :: "fieldData \<Rightarrow> err + request" where [callback_defs]:
  "call_pathAccountServerDelete = requestFor AccountServerIdField (\<lambda>i. ServerRequest (AccountServerDelete i))"

definition call_pathGenerateServerConfig :: "fieldData \<Rightarrow> err + request" where [callback_defs]:
  "call_pathGenerateServerConfig d = andThen (optField theBool d ''include_resolver_preload'') (\<lambda>preload.
     requestWith OperatorIdField (\<lambda>d. optField theString d ''format'')
       (\<lambda>i f. ServerRequest (GenerateServerConfig i preload f)) d)"

definition call_pathConfigWrite :: "fieldData \<Rightarrow> err + request" where [callback_defs]:
  "call_pathConfigWrite = requestFor (\<lambda>d. optField theBool d ''implicit_revocations_enabled'')
     (\<lambda>v. ServerRequest (ConfigWrite v))"

definition call_pathConfigRead :: "fieldData \<Rightarrow> err + request" where [callback_defs]:
  "call_pathConfigRead d = Inr (ServerRequest ConfigRead)"

definition call_pathConfigDelete :: "fieldData \<Rightarrow> err + request" where [callback_defs]:
  "call_pathConfigDelete d = Inr (ServerRequest ConfigDelete)"

definition call_pathRotateOperator :: "fieldData \<Rightarrow> err + request" where [callback_defs]:
  "call_pathRotateOperator = requestFor OperatorIdField (\<lambda>i. RotateRequest (RotateOperator i))"

definition call_pathRotateOperatorSigningKey :: "fieldData \<Rightarrow> err + request" where [callback_defs]:
  "call_pathRotateOperatorSigningKey = requestFor OperatorSigningKeyIdField (\<lambda>i. RotateRequest (RotateOperatorSigningKey i))"

definition call_pathRotateAccount :: "fieldData \<Rightarrow> err + request" where [callback_defs]:
  "call_pathRotateAccount = requestFor AccountIdField (\<lambda>i. RotateRequest (RotateAccount i))"

definition call_pathRotateAccountSigningKey :: "fieldData \<Rightarrow> err + request" where [callback_defs]:
  "call_pathRotateAccountSigningKey = requestFor AccountSigningKeyIdField (\<lambda>i. RotateRequest (RotateAccountSigningKey i))"

definition call_pathUserKeyRotate :: "fieldData \<Rightarrow> err + request" where [callback_defs]:
  "call_pathUserKeyRotate = requestWith UserIdField (\<lambda>d. getField theBool d ''revoke'')
     (\<lambda>i f. RotateRequest (RotateUser i (Some f)))"

end
