(* ===== verification/Routes.thy ===== *)
theory Routes
  imports Callbacks
begin

text \<open>
  The route table of \<^verbatim>\<open>Backend()\<close>: every \<^verbatim>\<open>framework.Path\<close> of the \<^verbatim>\<open>path*\<close> functions with its
  pattern, the schema of its fields, its existence check and the callback and declared responses
  of each operation, in the order of the source. Help texts and descriptions are left out.
\<close>

section \<open>Prefixes and shared fields\<close>

named_theorems prefix_defs \<open>the prefixes of the routes\<close>

definition operatorGenerateServerConfigPathPrefix :: string where [prefix_defs]:
  "operatorGenerateServerConfigPathPrefix = ''generate-server-config/''"

definition credsPathPrefix :: string where [prefix_defs]:
  "credsPathPrefix = ''creds/''"

definition ephemeralCredsPathPrefix :: string where [prefix_defs]:
  "ephemeralCredsPathPrefix = ''ephemeral-creds/''"

definition rotateOperatorPathPrefix :: string where [prefix_defs]:
  "rotateOperatorPathPrefix = ''rotate-operator/''"

definition rotateAccountPathPrefix :: string where [prefix_defs]:
  "rotateAccountPathPrefix = ''rotate-account/''"

definition rotateOperatorSigningKeyPathPrefix :: string where [prefix_defs]:
  "rotateOperatorSigningKeyPathPrefix = ''rotate-operator-signing-key/''"

definition rotateAccountSigningKeyPathPrefix :: string where [prefix_defs]:
  "rotateAccountSigningKeyPathPrefix = ''rotate-account-signing-key/''"

definition rotateUserPathPrefix :: string where [prefix_defs]:
  "rotateUserPathPrefix = ''rotate-user/''"

definition operatorField :: fieldSchema where
  "operatorField = (field TypeNameString)\<lparr>fs_Required := True\<rparr>"

definition accountField :: fieldSchema where
  "accountField = (field TypeNameString)\<lparr>fs_Required := True\<rparr>"

definition userField :: fieldSchema where
  "userField = (field TypeNameString)\<lparr>fs_Required := True\<rparr>"

definition afterField :: fieldSchema where
  "afterField = field TypeString"

definition limitField :: fieldSchema where
  "limitField = field TypeInt"

lemmas shared_field_defs = operatorField_def accountField_def userField_def afterField_def limitField_def

text \<open>The responses that only have a status, and that of a listing.\<close>

definition responseOK :: "(nat \<times> (string \<times> fieldSchema) list) list" where
  "responseOK = [(200, [])]"

definition responseNoContent :: "(nat \<times> (string \<times> fieldSchema) list) list" where
  "responseNoContent = [(204, [])]"

definition responseList :: "(nat \<times> (string \<times> fieldSchema) list) list" where
  "responseList = [(200, [(''keys'', (field TypeStringSlice)\<lparr>fs_Required := True\<rparr>)])]"

definition handler :: "operation \<Rightarrow> (fieldData \<Rightarrow> err + request) \<Rightarrow> (nat \<times> (string \<times> fieldSchema) list) list
    \<Rightarrow> operation \<times> operationHandler" where
  "handler opn callback responses = (opn, \<lparr>oh_Callback = callback, oh_Responses = responses\<rparr>)"

section \<open>Routes\<close>

named_theorems route_defs \<open>the routes\<close>

definition accountImport_route :: Path where [route_defs]:
  "accountImport_route = \<lparr>
     p_Pattern = pattern accountImportsPathPrefix [''operator'', ''import_account'', ''import_name''],
     p_Fields = [(''operator'', operatorField),
       (''import_account'', accountField),
       (''import_name'', (field TypeNameString)\<lparr>fs_Required := True\<rparr>),
       (''imports'', field TypeSlice),
       (''name'', field TypeString),
       (''subject'', field TypeString),
       (''account'', field TypeString),
       (''token'', field TypeString),
       (''local_subject'', field TypeString),
       (''type'', (field TypeString)\<lparr>fs_AllowedValues := [''stream'', ''service'']\<rparr>),
       (''share'', field TypeBool),
       (''allow_trace'', field TypeBool)],
     p_ExistenceCheck = Some (checkFor AccountImportIdField pathAccountImportExistenceCheck),
     p_Operations = [handler CreateOperation call_pathAccountImportCreateUpdate responseOK,
       handler UpdateOperation call_pathAccountImportCreateUpdate responseOK,
       handler ReadOperation call_pathAccountImportRead [(200, [(''imports'', (field TypeSlice)\<lparr>fs_Required := True\<rparr>)])],
       handler DeleteOperation call_pathAccountImportDelete responseNoContent]\<rparr>"

definition accountImports_route :: Path where [route_defs]:
  "accountImports_route = \<lparr>
     p_Pattern = listPattern accountImportsPathPrefix [''operator'', ''account''],
     p_Fields = [(''operator'', operatorField),
       (''account'', accountField),
       (''after'', afterField),
       (''limit'', limitField)],
     p_ExistenceCheck = None,
     p_Operations = [handler ListOperation call_pathAccountImportList responseList]\<rparr>"

definition accountServer_route :: Path where [route_defs]:
  "accountServer_route = \<lparr>
     p_Pattern = pattern accountServersPathPrefix [''operator''],
     p_Fields = [(''operator'', operatorField),
       (''servers'', field TypeStringSlice),
       (''suspend'', field TypeBool),
       (''connect_timeout'', field TypeDurationSecond),
       (''max_reconnects'', field TypeInt),
       (''reconnect_wait'', field TypeDurationSecond),
       (''client_name'', (field TypeString)\<lparr>fs_Default := Some (FString DefaultAccountServerClientName)\<rparr>),
       (''disable_lookups'', (field TypeBool)\<lparr>fs_Default := Some (FBool False)\<rparr>),
       (''disable_updates'', (field TypeBool)\<lparr>fs_Default := Some (FBool False)\<rparr>),
       (''disable_deletes'', (field TypeBool)\<lparr>fs_Default := Some (FBool False)\<rparr>),
       (''sync_now'', (field TypeBool)\<lparr>fs_Default := Some (FBool True)\<rparr>)],
     p_ExistenceCheck = Some (checkFor AccountServerIdField pathAccountServerExistenceCheck),
     p_Operations = [handler CreateOperation call_pathAccountServerCreateUpdate responseOK,
       handler UpdateOperation call_pathAccountServerCreateUpdate responseOK,
       handler ReadOperation call_pathAccountServerRead [(200, [(''servers'', (field TypeStringSlice)\<lparr>fs_Required := True\<rparr>),
         (''suspend'', field TypeBool),
         (''connect_timeout'', field TypeInt),
         (''max_reconnects'', field TypeInt),
         (''reconnect_wait'', field TypeDurationSecond),
         (''client_name'', (field TypeString)\<lparr>fs_Required := True, fs_Default := Some (FString DefaultAccountServerClientName)\<rparr>),
         (''disable_lookups'', (field TypeBool)\<lparr>fs_Default := Some (FBool False)\<rparr>),
         (''disable_updates'', (field TypeBool)\<lparr>fs_Default := Some (FBool False)\<rparr>),
         (''disable_deletes'', (field TypeBool)\<lparr>fs_Default := Some (FBool False)\<rparr>),
         (''status'', (field TypeMap)\<lparr>fs_Required := True\<rparr>)])],
       handler DeleteOperation call_pathAccountServerDelete responseNoContent]\<rparr>"

definition accountServers_route :: Path where [route_defs]:
  "accountServers_route = \<lparr>
     p_Pattern = rootPattern accountServersPathPrefix,
     p_Fields = [(''after'', afterField), (''limit'', limitField)],
     p_ExistenceCheck = None,
     p_Operations = [handler ListOperation call_pathAccountServerList responseList]\<rparr>"

definition listAccount_route :: "string \<Rightarrow> Path" where [route_defs]:
  "listAccount_route pfx = \<lparr>
     p_Pattern = listPattern pfx [''operator''],
     p_Fields = [(''operator'', operatorField), (''after'', afterField), (''limit'', limitField)],
     p_ExistenceCheck = None,
     p_Operations = [handler ListOperation call_pathAccountList responseList]\<rparr>"

definition account_route :: Path where [route_defs]:
  "account_route = \<lparr>
     p_Pattern = pattern accountsPathPrefix [''operator'', ''account''],
     p_Fields = [(''operator'', operatorField),
       (''account'', accountField),
       (''claims'', field TypeMap),
       (''signing_key'', field TypeString),
       (''default_signing_key'', field TypeString)],
     p_ExistenceCheck = Some (checkFor AccountIdField pathAccountExistenceCheck),
     p_Operations = [handler CreateOperation call_pathAccountCreateUpdate responseOK,
       handler UpdateOperation call_pathAccountCreateUpdate responseOK,
       handler ReadOperation call_pathAccountRead [(200, [(''claims'', field TypeMap),
         (''signing_key'', field TypeString),
         (''default_signing_key'', field TypeString),
         (''status'', field TypeMap)])],
       handler DeleteOperation call_pathAccountDelete responseNoContent]\<rparr>"

definition config_route :: Path where [route_defs]:
  "config_route = \<lparr>
     p_Pattern = exactPattern backendConfigPath,
     p_Fields = [(''implicit_revocations_enabled'', (field TypeBool)\<lparr>fs_Default := Some (FBool False)\<rparr>)],
     p_ExistenceCheck = None,
     p_Operations = [handler CreateOperation call_pathConfigWrite responseOK,
       handler UpdateOperation call_pathConfigWrite responseOK,
       handler ReadOperation call_pathConfigRead [(200, [(''implicit_revocations_enabled'', (field TypeBool)\<lparr>fs_Required := True\<rparr>)])],
       handler DeleteOperation call_pathConfigDelete [(204, [])]]\<rparr>"

definition userCreds_route :: Path where [route_defs]:
  "userCreds_route = \<lparr>
     p_Pattern = pattern credsPathPrefix [''operator'', ''account'', ''user''],
     p_Fields = [(''operator'', operatorField),
       (''account'', accountField),
       (''user'', userField),
       (''signing_key'', field TypeString),
       (''ttl'', field TypeDurationSecond),
       (''not_before'', field TypeTime),
       (''tags'', field TypeStringSlice)],
     p_ExistenceCheck = Some (checkFor UserIdField pathUserCredsExistenceCheck),
     p_Operations = [handler ReadOperation call_pathUserCredsRead [(200, [(''operator'', (field TypeString)\<lparr>fs_Required := True\<rparr>),
         (''account'', (field TypeString)\<lparr>fs_Required := True\<rparr>),
         (''user'', (field TypeString)\<lparr>fs_Required := True\<rparr>),
         (''creds'', (field TypeString)\<lparr>fs_Required := True\<rparr>),
         (''jwt'', (field TypeString)\<lparr>fs_Required := True\<rparr>),
         (''seed'', (field TypeString)\<lparr>fs_Required := True\<rparr>),
         (''signing_key'', (field TypeString)\<lparr>fs_Required := True\<rparr>),
         (''expires_at'', (field TypeTime)\<lparr>fs_Required := True\<rparr>)])]]\<rparr>"

definition ephemeralCreds_route :: Path where [route_defs]:
  "ephemeralCreds_route = \<lparr>
     p_Pattern = pattern ephemeralCredsPathPrefix [''operator'', ''account'', ''user'', ''session''],
     p_Fields = [(''operator'', operatorField),
       (''account'', accountField),
       (''user'', (field TypeNameString)\<lparr>fs_Required := True\<rparr>),
       (''session'', (field TypeNameString)\<lparr>fs_Required := True\<rparr>),
       (''signing_key'', field TypeString),
       (''ttl'', field TypeDurationSecond),
       (''not_before'', field TypeTime),
       (''tags'', field TypeStringSlice)],
     p_ExistenceCheck = None,
     p_Operations = [handler ReadOperation call_pathEphemeralUserCredsRead [(200, [(''operator'', (field TypeString)\<lparr>fs_Required := True\<rparr>),
         (''account'', (field TypeString)\<lparr>fs_Required := True\<rparr>),
         (''user'', (field TypeString)\<lparr>fs_Required := True\<rparr>),
         (''session'', (field TypeString)\<lparr>fs_Required := True\<rparr>),
         (''creds'', (field TypeString)\<lparr>fs_Required := True\<rparr>),
         (''jwt'', (field TypeString)\<lparr>fs_Required := True\<rparr>),
         (''seed'', (field TypeString)\<lparr>fs_Required := True\<rparr>),
         (''signing_key'', (field TypeString)\<lparr>fs_Required := True\<rparr>),
         (''expires_at'', (field TypeTime)\<lparr>fs_Required := True\<rparr>)])]]\<rparr>"

definition listEphemeralUser_route :: "string \<Rightarrow> Path" where [route_defs]:
  "listEphemeralUser_route pfx = \<lparr>
     p_Pattern = listPattern pfx [''operator'', ''account''],
     p_Fields = [(''operator'', operatorField),
       (''account'', accountField),
       (''after'', afterField),
       (''limit'', limitField)],
     p_ExistenceCheck = None,
     p_Operations = [handler ListOperation call_pathEphemeralUserList responseList]\<rparr>"

definition ephemeralUser_route :: Path where [route_defs]:
  "ephemeralUser_route = \<lparr>
     p_Pattern = pattern ephemeralUsersPathPrefix [''operator'', ''account'', ''user''],
     p_Fields = [(''operator'', operatorField),
       (''account'', accountField),
       (''user'', userField),
       (''claims'', field TypeMap),
       (''creds_default_ttl'', (field TypeDurationSecond)\<lparr>fs_Default := Some (FInt 0)\<rparr>),
       (''creds_max_ttl'', (field TypeDurationSecond)\<lparr>fs_Default := Some (FInt 0)\<rparr>),
       (''default_signing_key'', field TypeString)],
     p_ExistenceCheck = Some (checkFor EphemeralUserIdField pathEphemeralUserExistenceCheck),
     p_Operations = [handler CreateOperation call_pathEphemeralUserCreateUpdate responseOK,
       handler UpdateOperation call_pathEphemeralUserCreateUpdate responseOK,
       handler ReadOperation call_pathEphemeralUserRead [(200, [(''claims'', field TypeMap),
         (''creds_default_ttl'', field TypeInt),
         (''creds_max_ttl'', field TypeInt),
         (''default_signing_key'', field TypeString)])],
       handler DeleteOperation call_pathEphemeralUserDelete responseNoContent]\<rparr>"

definition accountJwt_route :: Path where [route_defs]:
  "accountJwt_route = \<lparr>
     p_Pattern = pattern accountJwtsPathPrefix [''operator'', ''account''],
     p_Fields = [(''operator'', operatorField), (''account'', accountField)],
     p_ExistenceCheck = Some (checkFor AccountIdField pathAccountJWTExistenceCheck),
     p_Operations = [handler ReadOperation call_pathReadAccountJWT [(200, [(''jwt'', (field TypeString)\<lparr>fs_Required := True\<rparr>)])]]\<rparr>"

definition accountJwts_route :: Path where [route_defs]:
  "accountJwts_route = \<lparr>
     p_Pattern = listPattern accountJwtsPathPrefix [''operator''],
     p_Fields = [(''operator'', operatorField), (''after'', afterField), (''limit'', limitField)],
     p_ExistenceCheck = None,
     p_Operations = [handler ListOperation call_pathAccountList responseList]\<rparr>"

definition operatorJwt_route :: Path where [route_defs]:
  "operatorJwt_route = \<lparr>
     p_Pattern = pattern operatorJwtsPathPrefix [''operator''],
     p_Fields = [(''operator'', operatorField)],
     p_ExistenceCheck = Some (checkFor OperatorIdField pathOperatorExistenceCheck),
     p_Operations = [handler ReadOperation call_pathOperatorJwtRead [(200, [(''jwt'', (field TypeString)\<lparr>fs_Required := True\<rparr>)])]]\<rparr>"

definition operatorJwts_route :: Path where [route_defs]:
  "operatorJwts_route = \<lparr>
     p_Pattern = rootPattern operatorJwtsPathPrefix,
     p_Fields = [(''after'', afterField), (''limit'', limitField)],
     p_ExistenceCheck = None,
     p_Operations = [handler ListOperation call_pathOperatorList responseList]\<rparr>"

definition userKey_route :: Path where [route_defs]:
  "userKey_route = \<lparr>
     p_Pattern = pattern userKeysPathPrefix [''operator'', ''account'', ''user''],
     p_Fields = [(''operator'', operatorField), (''account'', accountField), (''user'', userField)],
     p_ExistenceCheck = Some (checkFor UserIdField pathUserExistenceCheck),
     p_Operations = [handler ReadOperation call_pathUserNkeyRead [(200, [(''public_key'', (field TypeString)\<lparr>fs_Required := True\<rparr>),
         (''private_key'', (field TypeString)\<lparr>fs_Required := True\<rparr>),
         (''seed'', (field TypeString)\<lparr>fs_Required := True\<rparr>)])]]\<rparr>"

definition accountSigningKey_route :: Path where [route_defs]:
  "accountSigningKey_route = \<lparr>
     p_Pattern = pattern accountSigningKeysPathPrefix [''operator'', ''account'', ''name''],
     p_Fields = [(''operator'', operatorField),
       (''account'', accountField),
       (''name'', (field TypeString)\<lparr>fs_Required := True\<rparr>),
       (''scoped'', field TypeBool),
       (''description'', field TypeString),
       (''permission_template'', field TypeMap)],
     p_ExistenceCheck = Some (checkFor AccountSigningKeyIdField pathAccountSigningNkeyExistenceCheck),
     p_Operations = [handler CreateOperation call_pathAccountSigningNkeyCreateUpdate responseOK,
       handler UpdateOperation call_pathAccountSigningNkeyCreateUpdate responseOK,
       handler ReadOperation call_pathAccountSigningNkeyRead [(200, [(''public_key'', (field TypeString)\<lparr>fs_Required := True\<rparr>),
         (''private_key'', (field TypeString)\<lparr>fs_Required := True\<rparr>),
         (''seed'', (field TypeString)\<lparr>fs_Required := True\<rparr>),
         (''scoped'', field TypeBool),
         (''description'', field TypeString),
         (''permission_template'', field TypeMap)])],
       handler DeleteOperation call_pathAccountSigningNkeyDelete responseNoContent]\<rparr>"

definition accountKey_route :: Path where [route_defs]:
  "accountKey_route = \<lparr>
     p_Pattern = pattern accountKeysPathPrefix [''operator'', ''account''],
     p_Fields = [(''operator'', operatorField), (''account'', accountField)],
     p_ExistenceCheck = Some (checkFor AccountIdField pathAccountExistenceCheck),
     p_Operations = [handler ReadOperation call_pathAccountNkeyRead [(200, [(''public_key'', (field TypeString)\<lparr>fs_Required := True\<rparr>),
         (''private_key'', (field TypeString)\<lparr>fs_Required := True\<rparr>),
         (''seed'', (field TypeString)\<lparr>fs_Required := True\<rparr>)])]]\<rparr>"

definition operatorSigningKey_route :: Path where [route_defs]:
  "operatorSigningKey_route = \<lparr>
     p_Pattern = pattern operatorSigningKeysPathPrefix [''operator'', ''name''],
     p_Fields = [(''operator'', operatorField), (''name'', (field TypeString)\<lparr>fs_Required := True\<rparr>)],
     p_ExistenceCheck = Some (checkFor OperatorSigningKeyIdField pathOperatorSigningNkeyExistenceCheck),
     p_Operations = [handler CreateOperation call_pathOperatorSigningNkeyCreateUpdate responseOK,
       handler UpdateOperation call_pathOperatorSigningNkeyCreateUpdate responseOK,
       handler ReadOperation call_pathOperatorSigningNkeyRead [(200, [(''public_key'', (field TypeString)\<lparr>fs_Required := True\<rparr>),
         (''private_key'', (field TypeString)\<lparr>fs_Required := True\<rparr>),
         (''seed'', (field TypeString)\<lparr>fs_Required := True\<rparr>)])],
       handler DeleteOperation call_pathOperatorSigningNkeyDelete responseNoContent]\<rparr>"

definition operatorKey_route :: Path where [route_defs]:
  "operatorKey_route = \<lparr>
     p_Pattern = pattern operatorKeysPathPrefix [''operator''],
     p_Fields = [(''operator'', operatorField)],
     p_ExistenceCheck = Some (checkFor OperatorIdField pathOperatorExistenceCheck),
     p_Operations = [handler ReadOperation call_pathOperatorNkeyRead [(200, [(''public_key'', (field TypeString)\<lparr>fs_Required := True\<rparr>),
         (''private_key'', (field TypeString)\<lparr>fs_Required := True\<rparr>),
         (''seed'', (field TypeString)\<lparr>fs_Required := True\<rparr>)])]]\<rparr>"

definition operatorSigningKeys_route :: Path where [route_defs]:
  "operatorSigningKeys_route = \<lparr>
     p_Pattern = listPattern operatorSigningKeysPathPrefix [''operator''],
     p_Fields = [(''operator'', operatorField), (''after'', afterField), (''limit'', limitField)],
     p_ExistenceCheck = None,
     p_Operations = [handler ListOperation call_pathOperatorSigningNkeyList responseList]\<rparr>"

definition accountSigningKeys_route :: Path where [route_defs]:
  "accountSigningKeys_route = \<lparr>
     p_Pattern = listPattern accountSigningKeysPathPrefix [''operator'', ''account''],
     p_Fields = [(''operator'', operatorField),
       (''account'', accountField),
       (''after'', afterField),
       (''limit'', limitField)],
     p_ExistenceCheck = None,
     p_Operations = [handler ListOperation call_pathAccountSigningNkeyList responseList]\<rparr>"

definition userKeys_route :: Path where [route_defs]:
  "userKeys_route = \<lparr>
     p_Pattern = listPattern userKeysPathPrefix [''operator'', ''account''],
     p_Fields = [(''operator'', operatorField),
       (''account'', accountField),
       (''after'', afterField),
       (''limit'', limitField)],
     p_ExistenceCheck = None,
     p_Operations = [handler ListOperation call_pathUserList responseList]\<rparr>"

definition accountKeys_route :: Path where [route_defs]:
  "accountKeys_route = \<lparr>
     p_Pattern = listPattern accountKeysPathPrefix [''operator''],
     p_Fields = [(''operator'', operatorField), (''after'', afterField), (''limit'', limitField)],
     p_ExistenceCheck = None,
     p_Operations = [handler ListOperation call_pathAccountList responseList]\<rparr>"

definition operatorKeys_route :: Path where [route_defs]:
  "operatorKeys_route = \<lparr>
     p_Pattern = rootPattern operatorKeysPathPrefix,
     p_Fields = [(''after'', afterField), (''limit'', limitField)],
     p_ExistenceCheck = None,
     p_Operations = [handler ListOperation call_pathOperatorList responseList]\<rparr>"

definition listOperator_route :: "string \<Rightarrow> Path" where [route_defs]:
  "listOperator_route pfx = \<lparr>
     p_Pattern = rootPattern pfx,
     p_Fields = [(''after'', afterField), (''limit'', limitField)],
     p_ExistenceCheck = None,
     p_Operations = [handler ListOperation call_pathOperatorList responseList]\<rparr>"

definition operator_route :: Path where [route_defs]:
  "operator_route = \<lparr>
     p_Pattern = pattern operatorsPathPrefix [''operator''],
     p_Fields = [(''operator'', operatorField),
       (''create_system_account'', (field TypeBool)\<lparr>fs_Default := Some (FBool True)\<rparr>),
       (''system_account_name'', (field TypeString)\<lparr>fs_Default := Some (FString DefaultSysAccountName)\<rparr>),
       (''default_signing_key'', field TypeString),
       (''claims'', field TypeMap)],
     p_ExistenceCheck = Some (checkFor OperatorIdField pathOperatorExistenceCheck),
     p_Operations = [handler CreateOperation call_pathOperatorCreateUpdate responseOK,
       handler UpdateOperation call_pathOperatorCreateUpdate responseOK,
       handler ReadOperation call_pathOperatorRead [(200, [(''create_system_account'', (field TypeBool)\<lparr>fs_Required := True, fs_Default := Some (FBool True)\<rparr>),
         (''system_account_name'', (field TypeString)\<lparr>fs_Required := True, fs_Default := Some (FString DefaultSysAccountName)\<rparr>),
         (''default_signing_key'', field TypeString),
         (''claims'', field TypeMap)])],
       handler DeleteOperation call_pathOperatorDelete responseNoContent]\<rparr>"

definition accountRevocation_route :: Path where [route_defs]:
  "accountRevocation_route = \<lparr>
     p_Pattern = pattern revocationsPathPrefix [''operator'', ''account'', ''subject''],
     p_Fields = [(''operator'', operatorField),
       (''account'', accountField),
       (''subject'', (field TypeNameString)\<lparr>fs_Required := True\<rparr>),
       (''ttl'', field TypeDurationSecond)],
     p_ExistenceCheck = Some (checkFor AccountRevocationIdField pathAccountRevocationExistenceCheck),
     p_Operations = [handler CreateOperation call_pathAccountRevocationCreateUpdate responseOK,
       handler UpdateOperation call_pathAccountRevocationCreateUpdate responseOK,
       handler ReadOperation call_pathAccountRevocationRead [(200, [(''ttl'', (field TypeInt)\<lparr>fs_Required := True\<rparr>),
         (''creation_time'', (field TypeTime)\<lparr>fs_Required := True\<rparr>)])],
       handler DeleteOperation call_pathAccountRevocationDelete responseNoContent]\<rparr>"

definition accountRevocations_route :: Path where [route_defs]:
  "accountRevocations_route = \<lparr>
     p_Pattern = listPattern revocationsPathPrefix [''operator'', ''account''],
     p_Fields = [(''operator'', operatorField),
       (''account'', accountField),
       (''after'', afterField),
       (''limit'', limitField)],
     p_ExistenceCheck = None,
     p_Operations = [handler ListOperation call_pathAccountRevocationList responseList]\<rparr>"

definition rotateAccount_route :: Path where [route_defs]:
  "rotateAccount_route = \<lparr>
     p_Pattern = pattern rotateAccountPathPrefix [''operator'', ''account''],
     p_Fields = [(''operator'', operatorField), (''account'', accountField)],
     p_ExistenceCheck = None,
     p_Operations = [handler UpdateOperation call_pathRotateAccount responseOK]\<rparr>"

definition rotateAccountSigningKey_route :: Path where [route_defs]:
  "rotateAccountSigningKey_route = \<lparr>
     p_Pattern = pattern rotateAccountSigningKeyPathPrefix [''operator'', ''account'', ''name''],
     p_Fields = [(''operator'', operatorField),
       (''account'', accountField),
       (''name'', (field TypeString)\<lparr>fs_Required := True\<rparr>)],
     p_ExistenceCheck = None,
     p_Operations = [handler UpdateOperation call_pathRotateAccountSigningKey responseOK]\<rparr>"

definition rotateOperator_route :: Path where [route_defs]:
  "rotateOperator_route = \<lparr>
     p_Pattern = pattern rotateOperatorPathPrefix [''operator''],
     p_Fields = [(''operator'', operatorField)],
     p_ExistenceCheck = None,
     p_Operations = [handler UpdateOperation call_pathRotateOperator responseOK]\<rparr>"

definition rotateOperatorSigningKey_route :: Path where [route_defs]:
  "rotateOperatorSigningKey_route = \<lparr>
     p_Pattern = pattern rotateOperatorSigningKeyPathPrefix [''operator'', ''name''],
     p_Fields = [(''operator'', operatorField), (''name'', (field TypeString)\<lparr>fs_Required := True\<rparr>)],
     p_ExistenceCheck = None,
     p_Operations = [handler UpdateOperation call_pathRotateOperatorSigningKey responseOK]\<rparr>"

definition rotateUser_route :: Path where [route_defs]:
  "rotateUser_route = \<lparr>
     p_Pattern = pattern rotateUserPathPrefix [''operator'', ''account'', ''user''],
     p_Fields = [(''operator'', operatorField),
       (''account'', accountField),
       (''user'', userField),
       (''revoke'', (field TypeBool)\<lparr>fs_Default := Some (FBool True)\<rparr>)],
     p_ExistenceCheck = None,
     p_Operations = [handler UpdateOperation call_pathUserKeyRotate responseOK]\<rparr>"

definition listUser_route :: "string \<Rightarrow> Path" where [route_defs]:
  "listUser_route pfx = \<lparr>
     p_Pattern = listPattern pfx [''operator'', ''account''],
     p_Fields = [(''operator'', operatorField),
       (''account'', accountField),
       (''after'', afterField),
       (''limit'', limitField)],
     p_ExistenceCheck = None,
     p_Operations = [handler ListOperation call_pathUserList responseList]\<rparr>"

definition user_route :: Path where [route_defs]:
  "user_route = \<lparr>
     p_Pattern = pattern usersPathPrefix [''operator'', ''account'', ''user''],
     p_Fields = [(''operator'', operatorField),
       (''account'', accountField),
       (''user'', userField),
       (''claims'', field TypeMap),
       (''creds_default_ttl'', (field TypeDurationSecond)\<lparr>fs_Default := Some (FInt 0)\<rparr>),
       (''creds_max_ttl'', (field TypeDurationSecond)\<lparr>fs_Default := Some (FInt 0)\<rparr>),
       (''revoke_on_delete'', (field TypeBool)\<lparr>fs_Default := Some (FBool False)\<rparr>),
       (''default_signing_key'', field TypeString)],
     p_ExistenceCheck = Some (checkFor UserIdField pathUserExistenceCheck),
     p_Operations = [handler CreateOperation call_pathUserCreateUpdate responseOK,
       handler UpdateOperation call_pathUserCreateUpdate responseOK,
       handler ReadOperation call_pathUserRead [(200, [(''claims'', field TypeMap),
         (''creds_default_ttl'', field TypeInt),
         (''creds_max_ttl'', field TypeInt),
         (''revoke_on_delete'', field TypeBool),
         (''default_signing_key'', field TypeString)])],
       handler DeleteOperation call_pathDeleteUserIssue responseNoContent]\<rparr>"

definition serverConfig_route :: Path where [route_defs]:
  "serverConfig_route = \<lparr>
     p_Pattern = pattern operatorGenerateServerConfigPathPrefix [''operator''],
     p_Fields = [(''operator'', operatorField),
       (''include_resolver_preload'', field TypeBool),
       (''format'', (field TypeString)\<lparr>fs_Default := Some (FString ''json''), fs_AllowedValues := [''nats'', ''json'']\<rparr>)],
     p_ExistenceCheck = None,
     p_Operations = [handler ReadOperation call_pathGenerateServerConfig [(200, [(''config'', (field TypeString)\<lparr>fs_Required := True\<rparr>)])]]\<rparr>"

section \<open>The table\<close>

named_theorems table_defs \<open>the functions that return routes\<close>

definition pathConfigAccountImport :: "Path list" where [table_defs]:
  "pathConfigAccountImport = [accountImport_route, accountImports_route]"

definition pathConfigAccountServer :: "Path list" where [table_defs]:
  "pathConfigAccountServer = [accountServer_route, accountServers_route]"

definition pathListAccount :: "string list \<Rightarrow> Path list" where [table_defs]:
  "pathListAccount pfxs = map listAccount_route pfxs"

definition pathConfigAccount :: "Path list" where [table_defs]:
  "pathConfigAccount = [account_route]"

definition pathConfigBackend :: "Path list" where [table_defs]:
  "pathConfigBackend = [config_route]"

definition pathUserCreds :: "Path list" where [table_defs]:
  "pathUserCreds = [userCreds_route]"

definition pathEphemeralUserCreds :: "Path list" where [table_defs]:
  "pathEphemeralUserCreds = [ephemeralCreds_route]"

definition pathListEphemeralUser :: "string list \<Rightarrow> Path list" where [table_defs]:
  "pathListEphemeralUser pfxs = map listEphemeralUser_route pfxs"

definition pathConfigEphemeralUser :: "Path list" where [table_defs]:
  "pathConfigEphemeralUser = [ephemeralUser_route]"

definition pathJWT :: "Path list" where [table_defs]:
  "pathJWT = [accountJwt_route, accountJwts_route, operatorJwt_route, operatorJwts_route]"

definition pathNkey :: "Path list" where [table_defs]:
  "pathNkey = [userKey_route, accountSigningKey_route, accountKey_route, operatorSigningKey_route,
     operatorKey_route, operatorSigningKeys_route, accountSigningKeys_route, userKeys_route,
     accountKeys_route, operatorKeys_route]"

definition pathListOperator :: "string list \<Rightarrow> Path list" where [table_defs]:
  "pathListOperator pfxs = map listOperator_route pfxs"

definition pathConfigOperator :: "Path list" where [table_defs]:
  "pathConfigOperator = [operator_route]"

definition pathConfigAccountRevocation :: "Path list" where [table_defs]:
  "pathConfigAccountRevocation = [accountRevocation_route, accountRevocations_route]"

definition pathRotate :: "Path list" where [table_defs]:
  "pathRotate = [rotateAccount_route, rotateAccountSigningKey_route, rotateOperator_route, rotateOperatorSigningKey_route,
     rotateUser_route]"

definition pathListUser :: "string list \<Rightarrow> Path list" where [table_defs]:
  "pathListUser pfxs = map listUser_route pfxs"

definition pathConfigUser :: "Path list" where [table_defs]:
  "pathConfigUser = [user_route]"

definition pathUtilities :: "Path list" where [table_defs]:
  "pathUtilities = [serverConfig_route]"

definition Backend_paths :: "Path list" where
  "Backend_paths = pathConfigBackend @ pathUserCreds @ pathEphemeralUserCreds @ pathJWT @ pathNkey
     @ pathConfigOperator @ pathConfigAccount @ pathConfigUser @ pathConfigEphemeralUser
     @ pathConfigAccountServer @ pathConfigAccountImport @ pathConfigAccountRevocation @ pathRotate @ pathUtilities
     @ pathListOperator [backendConfigPath, operatorsPathPrefix, operatorSigningKeysPathPrefix,
         operatorGenerateServerConfigPathPrefix, accountsPathPrefix, accountImportsPathPrefix, accountKeysPathPrefix,
         accountSigningKeysPathPrefix, accountJwtsPathPrefix, revocationsPathPrefix, usersPathPrefix, userKeysPathPrefix,
         credsPathPrefix, ephemeralUsersPathPrefix, ephemeralCredsPathPrefix]
     @ pathListAccount [accountsPathPrefix, accountImportsPathPrefix, accountSigningKeysPathPrefix, revocationsPathPrefix,
         usersPathPrefix, userKeysPathPrefix, credsPathPrefix, ephemeralUsersPathPrefix, ephemeralCredsPathPrefix]
     @ pathListUser [usersPathPrefix, credsPathPrefix]
     @ pathListEphemeralUser [ephemeralUsersPathPrefix, ephemeralCredsPathPrefix]"

end
