(* ===== verification/RouteFacts.thy ===== *)
theory RouteFacts
  imports Routes
begin

text \<open>
  Routing: a path of the request is split at its slashes into the kind, the operator and further
  names, and each pattern of the table matches paths of one kind with one number of names. So
  the routes do not overlap, and the captured operator is the operator of the path.
\<close>

section \<open>Matching\<close>

lemma matches_Lit: "caps \<in> set (matches (Lit l # as) s) \<Longrightarrow> \<exists>t. s = l @ t \<and> caps \<in> set (matches as t)"
  by (auto split: if_splits) (metis append_take_drop_id)

lemma matches_OptChar:
  "caps \<in> set (matches (OptChar c # as) s) \<Longrightarrow> (\<exists>t. s = c # t \<and> caps \<in> set (matches as t)) \<or> caps \<in> set (matches as s)"
  by (cases s) (auto split: if_splits)

lemma matches_NameRegex:
  "caps \<in> set (matches (NameRegex n # as) s) \<Longrightarrow>
   \<exists>v t c. s = v @ t \<and> generic_name v \<and> c \<in> set (matches as t) \<and> caps = (n, v) # c"
  by (auto simp del: upt_Suc) (metis append_take_drop_id)

lemma matches_nameAtoms:
  assumes "caps \<in> set (matches (nameAtoms ns @ rest) s)" and "ns \<noteq> []"
  shows "\<exists>vs t c. length vs = length ns \<and> list_all generic_name vs \<and> s = join ''/'' vs @ t
      \<and> c \<in> set (matches rest t) \<and> caps = zip ns vs @ c"
  using assms
proof (induction ns arbitrary: s caps rule: nameAtoms.induct)
  case (2 n)
  then obtain v t c where "s = v @ t" "generic_name v" "c \<in> set (matches rest t)" "caps = (n, v) # c"
    by (auto simp del: matches.simps dest!: matches_NameRegex)
  then show ?case by (intro exI [of _ "[v]"] exI [of _ t] exI [of _ c]) simp
next
  case (3 n m ns)
  then obtain v t c where v: "s = v @ ''/'' @ t" "generic_name v" "c \<in> set (matches (nameAtoms (m # ns) @ rest) t)" "caps = (n, v) # c"
    by (auto simp del: matches.simps nameAtoms.simps(2,3) simp: nameAtoms.simps(3) dest!: matches_NameRegex matches_Lit)
  from 3(1) [OF this(3)] obtain vs t' c' where "length vs = length (m # ns)" "list_all generic_name vs"
    "t = join ''/'' vs @ t'" "c' \<in> set (matches rest t')" "c = zip (m # ns) vs @ c'" by blast
  then show ?case using v by (intro exI [of _ "v # vs"] exI [of _ t'] exI [of _ c']) (auto simp: length_Suc_conv)
qed simp

section \<open>The segments of a path\<close>

abbreviation segments :: "string \<Rightarrow> string list" where
  "segments path \<equiv> splitOn (CHR ''/'') path"

lemma splitOn_ne: "splitOn c s \<noteq> []"
  by (induction s) (auto split: list.splits)

lemma splitOn_no_sep: "c \<notin> set s \<Longrightarrow> splitOn c s = [s]"
  by (induction s) auto

lemma splitOn_append: "c \<notin> set s \<Longrightarrow> splitOn c (s @ c # t) = s # splitOn c t"
  by (induction s) auto

lemma segments_join:
  "vs \<noteq> [] \<Longrightarrow> list_all no_slash vs \<Longrightarrow> segments (join ''/'' vs) = vs"
  "vs \<noteq> [] \<Longrightarrow> list_all no_slash vs \<Longrightarrow> segments (join ''/'' vs @ ''/'' @ t) = vs @ segments t"
  by (induction "''/''" vs rule: join.induct) (simp_all add: splitOn_no_sep splitOn_append)

definition path_key :: "string \<Rightarrow> string \<times> nat" where
  "path_key path = (hd (segments path), length (filter (\<lambda>v. v \<noteq> []) (tl (segments path))))"

fun captureNames :: "atom list \<Rightarrow> string list" where
  "captureNames [] = []"
| "captureNames (NameRegex n # as) = n # captureNames as"
| "captureNames (_ # as) = captureNames as"

definition patternKey :: "atom list \<Rightarrow> string \<times> nat" where
  "patternKey as = (case as of Lit l # _ \<Rightarrow> takeWhile (\<lambda>c. c \<noteq> CHR ''/'') l | _ \<Rightarrow> [], length (captureNames as))"

text \<open>The patterns of the table: a kind, then names between slashes.\<close>

inductive kind_pattern :: "atom list \<Rightarrow> bool" where
  "no_slash (butlast pfx) \<Longrightarrow> last pfx = CHR ''/'' \<Longrightarrow> pfx \<noteq> [] \<Longrightarrow> ns \<noteq> [] \<Longrightarrow> kind_pattern (pattern pfx ns)"
| "no_slash (butlast pfx) \<Longrightarrow> last pfx = CHR ''/'' \<Longrightarrow> pfx \<noteq> [] \<Longrightarrow> ns \<noteq> [] \<Longrightarrow> kind_pattern (listPattern pfx ns)"
| "no_slash (butlast pfx) \<Longrightarrow> last pfx = CHR ''/'' \<Longrightarrow> pfx \<noteq> [] \<Longrightarrow> kind_pattern (rootPattern pfx)"
| "no_slash p \<Longrightarrow> kind_pattern (exactPattern p)"

lemma kind_prefix:
  "no_slash (butlast pfx) \<Longrightarrow> last pfx = CHR ''/'' \<Longrightarrow> pfx \<noteq> [] \<Longrightarrow> \<exists>p. pfx = p @ ''/'' \<and> no_slash p"
  by (metis append_butlast_last_id)

lemma takeWhile_kind: "no_slash p \<Longrightarrow> takeWhile (\<lambda>c. c \<noteq> CHR ''/'') (p @ CHR ''/'' # q) = p"
  "no_slash p \<Longrightarrow> takeWhile (\<lambda>c. c \<noteq> CHR ''/'') p = p"
  by (induction p) auto

lemma captureNames_nameAtoms [simp]: "captureNames (nameAtoms ns) = ns" "captureNames (nameAtoms ns @ [OptChar c]) = ns"
  by (induction ns rule: nameAtoms.induct) simp_all

lemma generic_names: "list_all generic_name vs \<Longrightarrow> list_all no_slash vs \<and> filter (\<lambda>v. v \<noteq> []) vs = vs"
  by (induction vs) (auto simp: generic_name_no_slash generic_name_nonempty)

text \<open>
  What a match says of the path: the values are generic names, the segments are the kind and the
  values, with an empty one at the end where the path ends in a slash.
\<close>

lemma matches_kind:
  assumes "kind_pattern as" and "caps \<in> set (matches as path)"
  shows "\<exists>vs. caps = zip (captureNames as) vs \<and> length vs = length (captureNames as) \<and> list_all generic_name vs
    \<and> segments path \<in> {fst (patternKey as) # vs, fst (patternKey as) # vs @ [[]]}"
  using assms(1)
proof cases
  case (1 pfx ns)
  then obtain p where p: "pfx = p @ ''/''" "no_slash p" using kind_prefix by blast
  obtain t where "path = pfx @ t" "caps \<in> set (matches (nameAtoms ns @ []) t)"
    using assms(2) 1(1) by (auto simp del: matches.simps simp: pattern_def dest!: matches_Lit)
  from this(1) matches_nameAtoms [OF this(2) 1(5)]
  obtain vs where vs: "length vs = length ns" "list_all generic_name vs" "path = p @ CHR ''/'' # join ''/'' vs" "caps = zip ns vs"
    by (auto simp: p split: if_splits)
  then have "segments path = p # vs"
    using p(2) 1(5) generic_names [OF vs(2)] segments_join(1) [of vs] by (cases vs) (auto simp: vs(3) splitOn_append)
  moreover have "fst (patternKey as) = p" "captureNames as = ns"
    by (simp_all add: 1(1) patternKey_def pattern_def p takeWhile_kind)
  ultimately show ?thesis using vs by (intro exI [of _ vs]) auto
next
  case (2 pfx ns)
  then obtain p where p: "pfx = p @ ''/''" "no_slash p" using kind_prefix by blast
  obtain t where "path = pfx @ t" "caps \<in> set (matches (nameAtoms ns @ [OptChar (CHR ''/'')]) t)"
    using assms(2) 2(1) by (auto simp del: matches.simps simp: listPattern_def dest!: matches_Lit)
  from this(1) matches_nameAtoms [OF this(2) 2(5)]
  obtain vs e where vs: "length vs = length ns" "list_all generic_name vs" "path = p @ CHR ''/'' # join ''/'' vs @ e" "caps = zip ns vs"
    and e: "e = [] \<or> e = ''/''"
    by (auto simp: p split: if_splits) (metis list.collapse)+
  have ne: "vs \<noteq> []" using vs(1) 2(5) by auto
  have "segments path = p # segments (join ''/'' vs @ e)" using p(2) by (simp add: vs(3) splitOn_append)
  moreover have "segments (join ''/'' vs @ e) \<in> {vs, vs @ [[]]}"
    using e segments_join(1) [OF ne] segments_join(2) [OF ne, of "[]"] generic_names [OF vs(2)] by auto
  moreover have "fst (patternKey as) = p" "captureNames as = ns"
    by (simp_all add: 2(1) patternKey_def listPattern_def p takeWhile_kind)
  ultimately show ?thesis using vs by (intro exI [of _ vs]) auto
next
  case (3 pfx)
  then obtain p where p: "pfx = p @ ''/''" "no_slash p" using kind_prefix by blast
  have "caps \<in> set (matches [Lit p, OptChar (CHR ''/'')] path)" using assms(2) by (simp add: 3(1) rootPattern_def p)
  then have "path = p @ ''/'' \<or> path = p" "caps = []"
    by (auto simp del: matches.simps dest!: matches_Lit matches_OptChar) (auto split: if_splits)
  then have "segments path \<in> {[p], [p, []]}" using p(2) by (auto simp: splitOn_no_sep splitOn_append)
  moreover have "fst (patternKey as) = p" "captureNames as = []"
    by (simp_all add: 3(1) patternKey_def rootPattern_def p takeWhile_kind)
  ultimately show ?thesis using \<open>caps = []\<close> by (intro exI [of _ "[]"]) auto
next
  case (4 p)
  then have "path = p" "caps = []" using assms(2) by (auto simp: exactPattern_def split: if_splits)
  then have "segments path = [p]" using 4(2) by (simp add: splitOn_no_sep)
  moreover have "fst (patternKey as) = p" "captureNames as = []" using 4 by (simp_all add: patternKey_def exactPattern_def takeWhile_kind)
  ultimately show ?thesis using \<open>caps = []\<close> by (intro exI [of _ "[]"]) auto
qed

lemma matches_key:
  assumes "kind_pattern as" and "caps \<in> set (matches as path)"
  shows "path_key path = patternKey as"
proof -
  obtain vs where m: "length vs = length (captureNames as)" "list_all generic_name vs"
    "segments path \<in> {fst (patternKey as) # vs, fst (patternKey as) # vs @ [[]]}"
    using matches_kind [OF assms] by blast
  then show ?thesis using generic_names [OF m(2)] by (auto simp: path_key_def patternKey_def)
qed

section \<open>A table of routes\<close>

text \<open>Routes that each serve the paths of one key are served in any order.\<close>

locale route_table =
  fixes paths :: "Path list"
  assumes kinds: "\<And>r. r \<in> set paths \<Longrightarrow> kind_pattern (p_Pattern r)"
    and keys: "distinct (map (\<lambda>r. patternKey (p_Pattern r)) paths)"
begin

lemma one_route:
  assumes "r \<in> set paths" "r' \<in> set paths" "matches (p_Pattern r) path \<noteq> []" "matches (p_Pattern r') path \<noteq> []"
  shows "r = r'"
proof -
  have "patternKey (p_Pattern r) = patternKey (p_Pattern r')"
    using assms kinds matches_key by (metis hd_in_set)
  then show ?thesis using keys assms(1,2) by (metis distinct_map inj_onD)
qed

end

lemma route_Some:
  "route rs path = Some (r, caps) \<Longrightarrow> r \<in> set rs \<and> caps \<in> set (matches (p_Pattern r) path)"
  by (induction rs) (auto split: list.splits)

section \<open>The backend's table\<close>

lemmas pattern_defs = rootPattern_def exactPattern_def pattern_def listPattern_def

lemma backend_patterns:
  "list_all (\<lambda>as. as = rootPattern backendConfigPath \<or> kind_pattern as) (map p_Pattern Backend_paths)"
  by (simp add: Backend_paths_def table_defs route_defs prefix_defs path_defs backendConfigPath_def kind_pattern.intros)

lemma backend_keys:
  "distinct (filter (\<lambda>k. k \<noteq> (''confi'', 0)) (map (\<lambda>r. patternKey (p_Pattern r)) Backend_paths))"
  by (simp add: Backend_paths_def table_defs route_defs prefix_defs path_defs backendConfigPath_def pattern_defs patternKey_def)

definition named_paths :: "Path list" where
  "named_paths = filter (\<lambda>r. patternKey (p_Pattern r) \<noteq> (''confi'', 0)) Backend_paths"

lemma confi_pattern: "patternKey (rootPattern backendConfigPath) = (''confi'', 0)"
  by (simp add: patternKey_def rootPattern_def backendConfigPath_def)

interpretation backend_routes: route_table named_paths
proof
  show "kind_pattern (p_Pattern r)" if "r \<in> set named_paths" for r
    using that backend_patterns confi_pattern by (auto simp: named_paths_def list_all_iff)
  show "distinct (map (\<lambda>r. patternKey (p_Pattern r)) named_paths)"
    using backend_keys by (simp add: named_paths_def filter_map comp_def)
qed

lemma matches_confi:
  assumes "caps \<in> set (matches (rootPattern backendConfigPath) path)"
  shows "caps = [] \<and> path \<in> {''config'', ''confi''}"
  using assms unfolding rootPattern_def backendConfigPath_def
  by (auto simp del: matches.simps(2-) dest!: matches_Lit matches_OptChar split: if_splits)

section \<open>The operator of a path\<close>

lemma path_op_segments: "path_op path = (case segments path of _ # v # _ \<Rightarrow> v | _ \<Rightarrow> [])"
proof -
  have hd: "takeWhile (\<lambda>c. c \<noteq> CHR ''/'') s = hd (segments s)" for s
    by (induction s) (auto split: list.splits simp: splitOn_ne)
  have tl: "segments (drop (Suc (length (takeWhile (\<lambda>c. c \<noteq> CHR ''/'') s))) s) =
      (case tl (segments s) of [] \<Rightarrow> [[]] | ts \<Rightarrow> ts)" for s
    by (induction s) (auto split: list.splits simp: splitOn_ne)
  have "path_op path = hd (case tl (segments path) of [] \<Rightarrow> [[]] | ts \<Rightarrow> ts)"
    unfolding path_op_def path_kind_def by (subst hd, subst tl, rule refl)
  then show ?thesis using splitOn_ne [of "CHR ''/''" path] by (cases "segments path") (auto split: list.splits)
qed

lemma operator_first:
  "list_all (\<lambda>r. case captureNames (p_Pattern r) of
       [] \<Rightarrow> map_of (p_Fields r) ''operator'' = None
     | n # _ \<Rightarrow> n = ''operator'' \<and> map_of (p_Fields r) ''operator'' = Some operatorField) Backend_paths"
  by (simp add: Backend_paths_def table_defs route_defs pattern_defs)

section \<open>Decoding\<close>

text \<open>
  What the routing relies on of the framework's decoding: a decoded value has the type of its
  field, and a string of the URL is decoded as itself.
\<close>

fun has_type :: "fieldType \<Rightarrow> fieldValue \<Rightarrow> bool" where
  "has_type TypeBool v = (case v of FBool _ \<Rightarrow> True | _ \<Rightarrow> False)"
| "has_type TypeInt v = (case v of FInt _ \<Rightarrow> True | _ \<Rightarrow> False)"
| "has_type TypeDurationSecond v = (case v of FInt _ \<Rightarrow> True | _ \<Rightarrow> False)"
| "has_type TypeMap v = (case v of FMap _ \<Rightarrow> True | _ \<Rightarrow> False)"
| "has_type TypeString v = (case v of FString _ \<Rightarrow> True | _ \<Rightarrow> False)"
| "has_type TypeNameString v = (case v of FString _ \<Rightarrow> True | _ \<Rightarrow> False)"
| "has_type TypeSlice v = (case v of FSlice _ \<Rightarrow> True | _ \<Rightarrow> False)"
| "has_type TypeStringSlice v = (case v of FStrings _ \<Rightarrow> True | _ \<Rightarrow> False)"
| "has_type TypeTime v = (case v of FTime _ \<Rightarrow> True | _ \<Rightarrow> False)"

definition decodes :: "(fieldType \<Rightarrow> json \<Rightarrow> string + fieldValue option) \<Rightarrow> bool" where
  "decodes cv \<longleftrightarrow> (\<forall>t raw v. cv t raw = Inr (Some v) \<longrightarrow> has_type t v)
     \<and> (\<forall>s. cv TypeString (JStr s) = Inr (Some (FString s)))
     \<and> (\<forall>s. generic_name s \<longrightarrow> cv TypeNameString (JStr s) = Inr (Some (FString s)))"

lemma route_operator:
  assumes "route Backend_paths path = Some (r, caps)" and "decodes cv"
  shows "case Get (requestData cv r caps data) ''operator'' of Inr (FString v) \<Rightarrow> v = path_op path \<and> no_slash v
    | _ \<Rightarrow> path_op path = []"
proof -
  have r: "r \<in> set Backend_paths" "caps \<in> set (matches (p_Pattern r) path)" using route_Some [OF assms(1)] by auto
  have first: "case captureNames (p_Pattern r) of [] \<Rightarrow> map_of (p_Fields r) ''operator'' = None
     | n # _ \<Rightarrow> n = ''operator'' \<and> map_of (p_Fields r) ''operator'' = Some operatorField"
    using operator_first r(1) by (auto simp: list_all_iff)
  consider "p_Pattern r = rootPattern backendConfigPath" | "kind_pattern (p_Pattern r)"
    using backend_patterns r(1) by (auto simp: list_all_iff)
  then show ?thesis
  proof cases
    case 1
    then have "path \<in> {''config'', ''confi''}" using r(2) matches_confi by auto
    then have "path_op path = []" by (auto simp: path_op_segments)
    moreover have "map_of (p_Fields r) ''operator'' = None" using first by (simp add: 1 rootPattern_def)
    ultimately show ?thesis by (simp add: Get_def requestData_def)
  next
    case 2
    from matches_kind [OF this r(2)] obtain vs where vs: "caps = zip (captureNames (p_Pattern r)) vs"
      "length vs = length (captureNames (p_Pattern r))" "list_all generic_name vs"
      "segments path \<in> {fst (patternKey (p_Pattern r)) # vs, fst (patternKey (p_Pattern r)) # vs @ [[]]}" by blast
    show ?thesis
    proof (cases "captureNames (p_Pattern r)")
      case Nil
      then show ?thesis using first vs by (auto simp: Get_def requestData_def path_op_segments)
    next
      case (Cons n ns)
      then obtain v vs' where v: "vs = v # vs'" using vs(2) by (cases vs) auto
      then have "path_op path = v" "generic_name v" using vs by (auto simp: path_op_segments)
      moreover have "Get (requestData cv r caps data) ''operator'' = Inr (FString v)"
        using first Cons v vs(1) \<open>generic_name v\<close> assms(2)
        by (simp add: Get_def GetOk_def getPrimitive_def requestData_def decodes_def operatorField_def field_def)
      ultimately show ?thesis by (simp add: generic_name_no_slash)
    qed
  qed
qed

section \<open>The operator of a request\<close>

text \<open>\<open>about d req\<close>: the request writes for no operator but the one the field data name.\<close>

definition about :: "fieldData \<Rightarrow> err + request \<Rightarrow> bool" where
  "about d m \<longleftrightarrow> (\<forall>req. m = Inr req \<longrightarrow>
     request_ops req \<subseteq> (case Get d ''operator'' of Inr (FString v) \<Rightarrow> {v} | _ \<Rightarrow> {[]}))"

lemma andThen_Inr_iff: "andThen m f = Inr x \<longleftrightarrow> (\<exists>y. m = Inr y \<and> f y = Inr x)"
  by (cases m) auto

lemma theString_Inr: "theString v = Inr x \<longleftrightarrow> v = FString x"
  by (cases v) auto

lemma getString_Inr: "getField theString d k = Inr v \<longleftrightarrow> Get d k = Inr (FString v)"
  by (auto simp: getField_def andThen_Inr_iff theString_Inr)

lemmas request_defs = requestFor_def requestWith_def andThen_Inr_iff about_def

lemma about_identified:
  "(\<And>i. idField d = Inr i \<Longrightarrow> Get d ''operator'' = Inr (FString (opOf i))) \<Longrightarrow> (\<And>i. request_ops (req i) \<subseteq> {opOf i}) \<Longrightarrow>
   about d (requestFor idField req d)"
  "(\<And>i. idField d = Inr i \<Longrightarrow> Get d ''operator'' = Inr (FString (opOf i))) \<Longrightarrow> (\<And>i f. request_ops (req' i f) \<subseteq> {opOf i}) \<Longrightarrow>
   about d (requestWith idField others req' d)"
  by (auto simp: about_def requestFor_def requestWith_def andThen_Inr_iff; force)+

lemma idField_operator:
  "OperatorIdField d = Inr i1 \<Longrightarrow> Get d ''operator'' = Inr (FString (oi_op i1))"
  "AccountServerIdField d = Inr i2 \<Longrightarrow> Get d ''operator'' = Inr (FString (asi_op i2))"
  "OperatorSigningKeyIdField d = Inr i3 \<Longrightarrow> Get d ''operator'' = Inr (FString (oski_op i3))"
  "AccountIdField d = Inr i4 \<Longrightarrow> Get d ''operator'' = Inr (FString (ai_op i4))"
  "AccountSigningKeyIdField d = Inr i5 \<Longrightarrow> Get d ''operator'' = Inr (FString (aski_op i5))"
  "UserIdField d = Inr i6 \<Longrightarrow> Get d ''operator'' = Inr (FString (ui_op i6))"
  "EphemeralUserIdField d = Inr i7 \<Longrightarrow> Get d ''operator'' = Inr (FString (eui_op i7))"
  "AccountRevocationIdField d = Inr i8 \<Longrightarrow> Get d ''operator'' = Inr (FString (ari_op i8))"
  "AccountImportIdField d = Inr i9 \<Longrightarrow> Get d ''operator'' = Inr (FString (aii_op i9))"
  by (auto simp: idField_defs andThen_Inr_iff getString_Inr)

lemmas about_rules = about_identified [where idField = OperatorIdField and opOf = oi_op, OF idField_operator(1)]
  about_identified [where idField = AccountServerIdField and opOf = asi_op, OF idField_operator(2)]
  about_identified [where idField = OperatorSigningKeyIdField and opOf = oski_op, OF idField_operator(3)]
  about_identified [where idField = AccountIdField and opOf = ai_op, OF idField_operator(4)]
  about_identified [where idField = AccountSigningKeyIdField and opOf = aski_op, OF idField_operator(5)]
  about_identified [where idField = UserIdField and opOf = ui_op, OF idField_operator(6)]
  about_identified [where idField = EphemeralUserIdField and opOf = eui_op, OF idField_operator(7)]
  about_identified [where idField = AccountRevocationIdField and opOf = ari_op, OF idField_operator(8)]
  about_identified [where idField = AccountImportIdField and opOf = aii_op, OF idField_operator(9)]

lemma about_andThen: "(\<And>x. about d (f x)) \<Longrightarrow> about d (andThen m f)"
  by (cases m) (auto simp: about_def)

lemma about_others:
  "about d (call_pathOperatorList d)" "about d (call_pathAccountServerList d)" "about d (call_pathConfigRead d)"
  "map_of (fd_Schema d) ''operator'' = None \<Longrightarrow> about d (call_pathConfigWrite d)"
  "map_of (fd_Schema d) ''operator'' = None \<Longrightarrow> about d (call_pathConfigDelete d)"
  by (auto simp: callback_defs requestFor_def about_def andThen_Inr_iff request_ops_defs Get_def)

lemma about_backend:
  "list_all (\<lambda>r. \<forall>(opn, h) \<in> set (p_Operations r). \<forall>d. fd_Schema d = p_Fields r \<longrightarrow> about d (oh_Callback h d)) Backend_paths"
  apply (simp add: Backend_paths_def table_defs route_defs handler_def about_others)
  by (simp add: callback_defs about_rules about_andThen request_ops_defs split: prod.split)

section \<open>Reading fields\<close>

text \<open>
  \<open>reads d m\<close>: the callback produces a value, no panic, for valid field data \<open>d\<close>. Its rules ask
  that each field is in the schema, with a type its assertion is for.
\<close>

definition valid :: "fieldData \<Rightarrow> bool" where
  "valid d \<longleftrightarrow> Validate d = None \<and> decodes (fd_convert d)"

definition reads :: "err + 'a \<Rightarrow> bool" where
  "reads m \<longleftrightarrow> (\<exists>x. m = Inr x)"

fun typed_field :: "fieldSchema option \<Rightarrow> fieldType set \<Rightarrow> bool" where
  "typed_field None ts = False"
| "typed_field (Some s) ts = (fs_Type s \<in> ts \<and> has_type (fs_Type s) (DefaultOrZero s))"

lemma Validate_fields_None:
  "Validate_fields d ks = None \<Longrightarrow> k \<in> set ks \<Longrightarrow> map_of (fd_Schema d) k = Some s \<Longrightarrow> \<exists>v. getPrimitive d k s = Inr v"
  by (induction ks) (auto split: option.splits sum.splits)

lemma valid_primitive:
  assumes "valid d" and "map_of (fd_Schema d) k = Some s"
  shows "\<exists>v. getPrimitive d k s = Inr v \<and> (\<forall>x. v = Some x \<longrightarrow> has_type (fs_Type s) x)"
proof (cases "map_of (fd_Raw d) k")
  case None
  then show ?thesis by (simp add: getPrimitive_def)
next
  case (Some raw)
  then have "k \<in> set (map fst (fd_Raw d))" by (metis domI dom_map_of_conv_image_fst set_map)
  from Validate_fields_None [OF _ this assms(2)] assms(1) obtain v where v: "getPrimitive d k s = Inr v"
    by (auto simp: valid_def Validate_def)
  moreover have "has_type (fs_Type s) x" if "v = Some x" for x
    using v that Some assms(1) by (simp add: getPrimitive_def valid_def decodes_def)
  ultimately show ?thesis by blast
qed

lemma GetOk_valid:
  assumes "valid d" and "typed_field (map_of (fd_Schema d) k) ts"
  shows "\<exists>v t. GetOk d k = Inr v \<and> t \<in> ts \<and> (\<forall>x. v = Some x \<longrightarrow> has_type t x)"
    and "\<exists>x t. Get d k = Inr x \<and> t \<in> ts \<and> has_type t x"
proof -
  obtain s where s: "map_of (fd_Schema d) k = Some s" "fs_Type s \<in> ts" "has_type (fs_Type s) (DefaultOrZero s)"
    using assms(2) by (cases "map_of (fd_Schema d) k") auto
  obtain v where v: "getPrimitive d k s = Inr v" "\<forall>x. v = Some x \<longrightarrow> has_type (fs_Type s) x"
    using valid_primitive [OF assms(1) s(1)] by blast
  show "\<exists>v t. GetOk d k = Inr v \<and> t \<in> ts \<and> (\<forall>x. v = Some x \<longrightarrow> has_type t x)"
    using s v by (auto simp: GetOk_def)
  show "\<exists>x t. Get d k = Inr x \<and> t \<in> ts \<and> has_type t x"
    using s v by (cases v) (auto simp: Get_def GetOk_def)
qed

lemma reads_field:
  assumes "valid d" and "typed_field (map_of (fd_Schema d) k) ts" and "\<And>t v. t \<in> ts \<Longrightarrow> has_type t v \<Longrightarrow> reads (typed v)"
  shows "reads (getField typed d k)" "reads (optField typed d k)"
proof -
  show "reads (getField typed d k)"
    using GetOk_valid(2) [OF assms(1,2)] assms(3) by (auto simp: getField_def)
  obtain v t where v: "GetOk d k = Inr v" "t \<in> ts" "\<forall>x. v = Some x \<longrightarrow> has_type t x"
    using GetOk_valid(1) [OF assms(1,2)] by blast
  show "reads (optField typed d k)"
  proof (cases v)
    case None
    then show ?thesis using v by (simp add: optField_def reads_def)
  next
    case (Some x)
    then show ?thesis using v assms(3) [OF v(2), of x] by (auto simp: optField_def reads_def)
  qed
qed

lemma reads_assertions:
  "t \<in> {TypeString, TypeNameString} \<Longrightarrow> has_type t v \<Longrightarrow> reads (theString v)"
  "t \<in> {TypeInt, TypeDurationSecond} \<Longrightarrow> has_type t v \<Longrightarrow> reads (theInt v)"
  "t \<in> {TypeBool} \<Longrightarrow> has_type t v \<Longrightarrow> reads (theBool v)"
  "t \<in> {TypeMap} \<Longrightarrow> has_type t v \<Longrightarrow> reads (theMap v)"
  "t \<in> {TypeSlice} \<Longrightarrow> has_type t v \<Longrightarrow> reads (theSlice v)"
  "t \<in> {TypeStringSlice} \<Longrightarrow> has_type t v \<Longrightarrow> reads (theStrings v)"
  "t \<in> {TypeTime} \<Longrightarrow> has_type t v \<Longrightarrow> reads (theTime v)"
  by (auto simp: reads_def split: fieldValue.splits)

lemma reads_fields:
  assumes "valid d"
  shows "typed_field (map_of (fd_Schema d) k) {TypeString, TypeNameString} \<Longrightarrow> reads (getField theString d k) \<and> reads (optField theString d k)"
    "typed_field (map_of (fd_Schema d) k) {TypeInt, TypeDurationSecond} \<Longrightarrow> reads (getField theInt d k) \<and> reads (optField theInt d k)"
    "typed_field (map_of (fd_Schema d) k) {TypeBool} \<Longrightarrow> reads (getField theBool d k) \<and> reads (optField theBool d k)"
    "typed_field (map_of (fd_Schema d) k) {TypeMap} \<Longrightarrow> reads (getField theMap d k) \<and> reads (optField theMap d k)"
    "typed_field (map_of (fd_Schema d) k) {TypeSlice} \<Longrightarrow> reads (getField theSlice d k) \<and> reads (optField theSlice d k)"
    "typed_field (map_of (fd_Schema d) k) {TypeStringSlice} \<Longrightarrow> reads (getField theStrings d k) \<and> reads (optField theStrings d k)"
    "typed_field (map_of (fd_Schema d) k) {TypeTime} \<Longrightarrow> reads (getField theTime d k) \<and> reads (optField theTime d k)"
  by (intro conjI reads_field [OF assms] reads_assertions; assumption)+

lemma reads_Inr: "reads (Inr x)" by (simp add: reads_def)

lemma reads_andThen: "reads m \<Longrightarrow> (\<And>x. reads (f x)) \<Longrightarrow> reads (andThen m f)"
  by (auto simp: reads_def)

lemma reads_backend:
  "list_all (\<lambda>r. \<forall>(opn, h) \<in> set (p_Operations r). \<forall>d. valid d \<longrightarrow> fd_Schema d = p_Fields r \<longrightarrow> reads (oh_Callback h d)) Backend_paths"
  apply (simp add: Backend_paths_def table_defs route_defs handler_def)
  by (simp add: callback_defs requestFor_def requestWith_def idField_defs readFields_defs reads_Inr reads_andThen reads_fields shared_field_defs
      field_def DefaultOrZero_def split: prod.split)

lemma confi_route:
  "filter (\<lambda>r. patternKey (p_Pattern r) = (''confi'', 0)) Backend_paths = [listOperator_route backendConfigPath]"
  by (simp add: Backend_paths_def table_defs route_defs prefix_defs path_defs backendConfigPath_def pattern_defs patternKey_def)

lemma matches_unique:
  assumes "kind_pattern as" and "caps \<in> set (matches as path)" and "caps' \<in> set (matches as path)"
  shows "caps = caps'"
proof -
  have "caps = zip (captureNames as) (filter (\<lambda>v. v \<noteq> []) (tl (segments path)))" if c: "caps \<in> set (matches as path)" for caps
  proof -
    obtain vs where "caps = zip (captureNames as) vs" "list_all generic_name vs"
      "segments path \<in> {fst (patternKey as) # vs, fst (patternKey as) # vs @ [[]]}"
      using matches_kind [OF assms(1) c] by blast
    then show ?thesis using generic_names [of vs] by auto
  qed
  then show ?thesis using assms(2,3) by metis
qed

lemma backend_one_route:
  assumes r: "r \<in> set Backend_paths" "caps \<in> set (matches (p_Pattern r) path)"
    and r': "r' \<in> set Backend_paths" "caps' \<in> set (matches (p_Pattern r') path)" and "path \<noteq> ''config''"
  shows "r = r' \<and> caps = caps'"
proof -
  have conf: "q = listOperator_route backendConfigPath \<and> path = ''confi''"
    if "q \<in> set Backend_paths" "q \<notin> set named_paths" "c \<in> set (matches (p_Pattern q) path)" for q c
  proof -
    have "q = listOperator_route backendConfigPath"
      using that(1,2) arg_cong [OF confi_route, of "\<lambda>l. q \<in> set l"] by (simp add: named_paths_def)
    then show ?thesis using that(3) assms(5) matches_confi by (auto simp: listOperator_route_def)
  qed
  have named: "path \<noteq> ''confi'' \<and> kind_pattern (p_Pattern q)" if "q \<in> set named_paths" "c \<in> set (matches (p_Pattern q) path)" for q c
  proof -
    have k: "kind_pattern (p_Pattern q)" "patternKey (p_Pattern q) \<noteq> (''confi'', 0)"
      using that(1) backend_routes.kinds by (auto simp: named_paths_def)
    moreover have "path_key ''confi'' = (''confi'', 0)" by code_simp
    ultimately show ?thesis using matches_key [OF k(1) that(2)] by metis
  qed
  show ?thesis
  proof (cases "r \<in> set named_paths")
    case True
    then have "r' \<in> set named_paths" using named [OF True r(2)] conf [OF r'(1) _ r'(2)] by blast
    then have "r = r'" using backend_routes.one_route [OF True _ , of r' path] r(2) r'(2) by force
    then show ?thesis using matches_unique named [OF True r(2)] r(2) r'(2) by blast
  next
    case False
    then have p: "r = listOperator_route backendConfigPath" "path = ''confi''" using conf r by auto
    then have "r' \<notin> set named_paths" using named r'(2) by blast
    then have "r' = r" using conf r' p by auto
    then show ?thesis using p r(2) r'(2) matches_confi by (auto simp: listOperator_route_def)
  qed
qed

lemma route_None: "route rs path = None \<Longrightarrow> r \<in> set rs \<Longrightarrow> matches (p_Pattern r) path = []"
  by (induction rs) (auto split: list.splits)

lemma backend_route:
  assumes "r \<in> set Backend_paths" and "caps \<in> set (matches (p_Pattern r) path)" and "path \<noteq> ''config''"
  shows "route Backend_paths path = Some (r, caps)"
proof (cases "route Backend_paths path")
  case None
  then show ?thesis using route_None [OF None assms(1)] assms(2) by simp
next
  case (Some z)
  then obtain r' caps' where z: "route Backend_paths path = Some (r', caps')" by (cases z) simp
  with route_Some [OF z] backend_one_route [OF assms(1,2) _ _ assms(3)] show ?thesis by metis
qed

text \<open>A request changes no path of an operator it is not about.\<close>

lemma run_request_isolated:
  assumes "\<And>op. op \<in> request_ops r \<Longrightarrow> no_slash op" and "path_op k \<notin> request_ops r"
  shows "store_get (w_disk (snd (run_request E r w))) k = store_get (w_disk w) k"
proof -
  have "preserves (writes (allowed (request_ops r)) d) (handle E r)" for d
    by (rule writes_handle) (use assms(1) in \<open>simp_all add: owns_def\<close>)
  from writes_isolated [OF this _ assms(2), of "w\<lparr>w_tx := None\<rparr>"] show ?thesis
    by (cases "handle E r (w\<lparr>w_tx := None\<rparr>)") (simp add: run_request_def)
qed

lemma callback_about:
  assumes "decodes cv" and "route Backend_paths path = Some (r, caps)" and "map_of (p_Operations r) opn = Some h"
    and "oh_Callback h (requestData cv r caps data) = Inr req"
  shows "request_ops req \<subseteq> {path_op path} \<and> no_slash (path_op path)"
proof -
  let ?d = "requestData cv r caps data"
  have "about ?d (oh_Callback h ?d)"
    using about_backend route_Some [OF assms(2)] map_of_SomeD [OF assms(3)]
    by (fastforce simp: list_all_iff requestData_def)
  then have "request_ops req \<subseteq> (case Get ?d ''operator'' of Inr (FString v) \<Rightarrow> {v} | _ \<Rightarrow> {[]})"
    using assms(4) by (simp add: about_def)
  with route_operator [OF assms(2,1), of data] show ?thesis
    by (auto split: sum.splits fieldValue.splits)
qed

lemma callback_reads:
  assumes "decodes cv" and "route Backend_paths path = Some (r, caps)" and "map_of (p_Operations r) opn = Some h"
    and "Validate (requestData cv r caps data) = None"
  shows "\<exists>req. oh_Callback h (requestData cv r caps data) = Inr req"
proof -
  have "reads (oh_Callback h (requestData cv r caps data))"
    using reads_backend route_Some [OF assms(2)] map_of_SomeD [OF assms(3)] assms(1,4)
    by (fastforce simp: list_all_iff valid_def requestData_def)
  then show ?thesis by (simp add: reads_def)
qed

end
