(* ===== verification/RouteClaims.thy ===== *)
theory RouteClaims
  imports RouteFacts Samples
begin

text \<open>
  The properties of the route table: no path has two routes, no callback panics on its fields, a
  request only touches the operator its path names, and the one route that is never reached.
\<close>

section \<open>Samples\<close>

definition sample_convert :: "fieldType \<Rightarrow> json \<Rightarrow> string + fieldValue option" where
  "sample_convert t raw = (case (t, raw) of
     (TypeString, JStr s) \<Rightarrow> Inr (Some (FString s))
   | (TypeNameString, JStr s) \<Rightarrow>
       if generic_name s then Inr (Some (FString s)) else Inl ''field does not match the formatting rules''
   | (TypeBool, JBool b) \<Rightarrow> Inr (Some (FBool b))
   | (TypeInt, JNum n) \<Rightarrow> Inr (Some (FInt n))
   | (TypeDurationSecond, JNum n) \<Rightarrow> if n < 0 then Inl ''cannot provide negative value'' else Inr (Some (FInt n))
   | (TypeMap, JObj kvs) \<Rightarrow> Inr (Some (FMap (Some kvs)))
   | (TypeMap, JNull) \<Rightarrow> Inr (Some (FMap None))
   | (TypeSlice, JList vs) \<Rightarrow> Inr (Some (FSlice vs))
   | (TypeStringSlice, JStr s) \<Rightarrow> Inr (Some (FStrings (if s = [] then [] else [s])))
   | (TypeTime, JNum n) \<Rightarrow> Inr (Some (FTime (n * Second)))
   | (_, JNull) \<Rightarrow> Inr None
   | _ \<Rightarrow> Inl ''unconvertible type'')"

lemma sample_decodes: "decodes sample_convert"
proof -
  have "has_type t v" if "sample_convert t raw = Inr (Some v)" for t raw v
    using that by (cases t; cases raw) (auto simp: sample_convert_def split: if_splits)
  then show ?thesis unfolding decodes_def by (simp add: sample_convert_def)
qed

section \<open>Routing\<close>

text \<open>
  C20. No path is served by two routes. Among all routes of the backend, at most one matches a path,
  in only one way, so the order of the table does not matter; the exception is the path
  \<^verbatim>\<open>config\<close>, which the configuration and a listing of operators share.
\<close>

theorem routes_unambiguous:
  assumes "r \<in> set Backend_paths" and "r' \<in> set Backend_paths" and "path \<noteq> ''config''"
    and "caps \<in> set (matches (p_Pattern r) path)" and "caps' \<in> set (matches (p_Pattern r') path)"
  shows "r = r' \<and> caps = caps'"
  by (rule backend_one_route [OF assms(1,4,2,5,3)])

lemma routes_unambiguous_witness:
  "set (matches (p_Pattern user_route) ''users/op/acc/u.1'') = {[(''operator'', ''op''), (''account'', ''acc''), (''user'', ''u.1'')]}"
proof -
  have r: "user_route \<in> set Backend_paths" by (simp add: Backend_paths_def table_defs)
  have m: "[(''operator'', ''op''), (''account'', ''acc''), (''user'', ''u.1'')]
      \<in> set (matches (p_Pattern user_route) ''users/op/acc/u.1'')" by code_simp
  have "''users/op/acc/u.1'' \<noteq> ''config''" by simp
  from routes_unambiguous [OF r r this m] m show ?thesis by blast
qed

text \<open>
  C19. Every handler can read its fields. For a routed request whose data pass the validation, no
  callback reads a field its route does not declare or asserts another type than the declared
  one, which would be a panic; and the request it handles writes for no operator but the one the
  path names.
\<close>

theorem callbacks_read_declared_fields:
  assumes cv: "decodes cv" and r: "route Backend_paths path = Some (r, caps)"
    and h: "map_of (p_Operations r) opn = Some h" and v: "Validate (requestData cv r caps data) = None"
  shows "\<exists>req. oh_Callback h (requestData cv r caps data) = Inr req \<and> request_ops req \<subseteq> {path_op path}"
proof -
  obtain req where "oh_Callback h (requestData cv r caps data) = Inr req" using callback_reads [OF cv r h v] by blast
  with callback_about [OF cv r h this] show ?thesis by blast
qed

lemma callbacks_read_declared_fields_witness:
  "\<exists>req. call_pathUserKeyRotate (requestData sample_convert rotateUser_route
      [(''operator'', ''op''), (''account'', ''acc''), (''user'', ''u'')] [(''revoke'', JBool False)]) = Inr req
    \<and> request_ops req \<subseteq> {''op''}"
proof -
  let ?caps = "[(''operator'', ''op''), (''account'', ''acc''), (''user'', ''u'')]"
  have r: "route Backend_paths ''rotate-user/op/acc/u'' = Some (rotateUser_route, ?caps)"
  proof (rule backend_route)
    show "rotateUser_route \<in> set Backend_paths" by (simp add: Backend_paths_def table_defs)
    show "?caps \<in> set (matches (p_Pattern rotateUser_route) ''rotate-user/op/acc/u'')" by code_simp
  qed simp
  have h: "map_of (p_Operations rotateUser_route) UpdateOperation = Some \<lparr>oh_Callback = call_pathUserKeyRotate, oh_Responses = responseOK\<rparr>"
    by (simp add: rotateUser_route_def handler_def)
  have v: "Validate (requestData sample_convert rotateUser_route ?caps [(''revoke'', JBool False)]) = None" by code_simp
  have "path_op ''rotate-user/op/acc/u'' = ''op''" by code_simp
  with callbacks_read_declared_fields [OF sample_decodes r h v] show ?thesis by simp
qed

text \<open>
  C3. Operators are isolated from the path on. A request to any path, with any operation and any
  body, changes no storage path of another operator than the one named by the second part of its
  path, whether it is routed or not, succeeds or fails.
\<close>

theorem routed_request_isolated:
  assumes "decodes cv" and "path_op k \<noteq> path_op path"
  shows "store_get (w_disk (snd (HandleRequest E cv Backend_paths opn path data w))) k = store_get (w_disk w) k"
proof -
  have "store_get (w_disk (snd (run_request E req w))) k = store_get (w_disk w) k"
    if "route Backend_paths path = Some (r, caps)" "map_of (p_Operations r) opn = Some h"
      "oh_Callback h (requestData cv r caps data) = Inr req" for r caps h req
  proof -
    have "request_ops req \<subseteq> {path_op path}" "no_slash (path_op path)"
      using callback_about [OF assms(1) that] by auto
    then show ?thesis using assms(2) by (intro run_request_isolated) auto
  qed
  then show ?thesis
    by (auto simp: HandleRequest_def Let_def split: option.splits sum.splits prod.splits) (metis snd_conv)+
qed

lemma routed_request_isolated_witness:
  "store_get (w_disk (snd (HandleRequest sample_env sample_convert Backend_paths DeleteOperation ''operators/other'' [] sample_world)))
     ''operators/op'' = store_get (w_disk sample_world) ''operators/op''"
proof -
  have "path_op ''operators/op'' \<noteq> path_op ''operators/other''" by code_simp
  from routed_request_isolated [OF sample_decodes this] show ?thesis .
qed

text \<open>
  The listing of operators at \<^verbatim>\<open>config\<close> is never reached: the configuration's route, which has
  no list operation, comes first. As the optional last character of its pattern is the last letter
  of the name and no slash, the listing is served at \<^verbatim>\<open>confi\<close> instead.
\<close>

lemma config_listing_misplaced:
  "HandleRequest E cv Backend_paths ListOperation ''config'' data w = (Inl (Fail ''unsupported operation''), w)
   \<and> route Backend_paths ''confi'' = Some (listOperator_route backendConfigPath, [])"
proof
  have "route Backend_paths ''config'' = Some (config_route, [])"
    by (simp add: Backend_paths_def pathConfigBackend_def config_route_def exactPattern_def backendConfigPath_def)
  then show "HandleRequest E cv Backend_paths ListOperation ''config'' data w = (Inl (Fail ''unsupported operation''), w)"
    by (simp add: HandleRequest_def config_route_def handler_def)
  show "route Backend_paths ''confi'' = Some (listOperator_route backendConfigPath, [])"
  proof (rule backend_route)
    show "listOperator_route backendConfigPath \<in> set Backend_paths" by (simp add: Backend_paths_def table_defs)
    show "[] \<in> set (matches (p_Pattern (listOperator_route backendConfigPath)) ''confi'')"
      by (simp add: listOperator_route_def rootPattern_def backendConfigPath_def)
  qed simp
qed

end
