(* ===== verification/Progress.thy ===== *)
theory Progress
  imports Listing Typing
begin

text \<open>
  Every loop over a prefix ends. The loops go page by page, and each page is asked for with the
  last name of the one before, so a loop moves on as long as that name is not empty: an entry
  whose key is the prefix itself would be listed as the empty name for ever. \<open>tidyKey\<close> is what the
  keys of the backend look like, none of which is a prefix of a listing; \<open>orderly\<close> says of a method
  that it keeps it so, that it writes no key outside a given set, and that it ends. Its rules follow
  the syntax of a method; that of the loop shows that the pages the model allows are enough, over
  both kinds of transactions, whatever the body changes at other keys.
\<close>

section \<open>The keys a listing can show\<close>

definition stored :: "world \<Rightarrow> string set" where
  "stored w = fst ` set (w_disk w) \<union>
     (case w_tx w of None \<Rightarrow> {} | Some as \<Rightarrow> action_key ` set (filter action_is_put as))"

definition names :: "string \<Rightarrow> string set \<Rightarrow> string set" where
  "names p K = {direct_child r |r. p @ r \<in> K}"

lemma apply_actions_keys: "fst ` set (apply_actions as d) \<subseteq> fst ` set d \<union> action_key ` set (filter action_is_put as)"
proof (induction as arbitrary: d)
  case (Cons a as)
  have "fst ` set (apply_action a d) \<subseteq> fst ` set d \<union> action_key ` set (filter action_is_put [a])"
    by (cases a) (auto simp: store_put_def store_delete_def AList.delete_eq dom_update)
  then have "fst ` set (apply_action a d) \<union> action_key ` set (filter action_is_put as)
      \<subseteq> fst ` set d \<union> action_key ` set (filter action_is_put (a # as))" by auto
  with Cons [of "apply_action a d"] show ?case
    unfolding apply_actions_simps by (rule order_trans)
qed simp

lemma stored_bound: "finite (stored w)" "card (stored w) < paging_fuel w"
proof -
  show "finite (stored w)" by (simp add: stored_def split: option.split)
  let ?P = "case w_tx w of None \<Rightarrow> [] | Some as \<Rightarrow> filter action_is_put as"
  have "stored w = fst ` set (w_disk w) \<union> action_key ` set ?P"
    by (simp add: stored_def split: option.split)
  also have "card \<dots> \<le> card (fst ` set (w_disk w)) + card (action_key ` set ?P)"
    by (rule card_Un_le)
  also have "\<dots> \<le> length (w_disk w) + length ?P"
    by (intro add_mono) (metis card_length length_map set_map)+
  also have "\<dots> < paging_fuel w"
    by (simp add: paging_fuel_def less_Suc_eq_le split: option.split)
  finally show "card (stored w) < paging_fuel w" .
qed

lemma names_bound: "finite (names p (stored w))" "card (names p (stored w)) < paging_fuel w"
proof -
  have eq: "names p (stored w) = (\<lambda>k. direct_child (drop (length p) k)) ` {k \<in> stored w. prefix p k}"
    by (force simp: names_def prefix_def image_iff)
  show "finite (names p (stored w))" unfolding eq using stored_bound(1) by simp
  have "card (names p (stored w)) \<le> card {k \<in> stored w. prefix p k}"
    unfolding eq by (rule card_image_le) (simp add: stored_bound)
  also have "\<dots> \<le> card (stored w)" by (rule card_mono) (auto simp: stored_bound)
  finally show "card (names p (stored w)) < paging_fuel w" using stored_bound(2) [of w] by simp
qed

lemma names_mono: "K \<subseteq> L \<Longrightarrow> names p K \<subseteq> names p L"
  by (auto simp: names_def)

lemma store_list_names: "fst ` set d \<subseteq> K \<Longrightarrow> set (store_list d p) \<subseteq> names p K"
  unfolding names_def by (force simp: store_list_child store_get_key simp del: not_None_eq)

lemma page_of_subset: "set (page_of cs after limit) \<subseteq> {c \<in> set cs. after = [] \<or> after < c}"
  by (auto simp: page_of_def Let_def dest: in_set_takeD)

lemma page_of_empty: "page_of cs after limit \<noteq> [] \<Longrightarrow> \<exists>c \<in> set cs. after = [] \<or> after < c"
  by (auto simp: page_of_def Let_def filter_empty_conv split: if_splits)

section \<open>The emulated transaction\<close>

lemma take_new_page_set:
  "take_new_page e t ns = (em, rest) \<Longrightarrow> set em \<union> set rest \<subseteq> set ns"
proof (induction e t ns arbitrary: em rest rule: take_new_page.induct)
  case (2 e t new ns)
  then show ?case by (force split: if_splits prod.splits)
qed simp

lemma scan_page_set:
  "scan_page mods es (result, ns, dc) = (result', ns', dc') \<Longrightarrow>
   set result' \<union> set ns' \<subseteq> set result \<union> set ns \<union> set es"
proof (induction es arbitrary: result ns dc)
  case (Cons e es)
  obtain em rest where t: "take_new_page e e ns = (em, rest)" by fastforce
  note s = take_new_page_set [OF t]
  show ?case
  proof (cases "map_of mods e = Some True")
    case True
    then have "scan_page mods es (result @ em, rest, dc - 1) = (result', ns', dc')" using Cons.prems t by simp
    from Cons.IH [OF this] s show ?thesis by auto
  next
    case False
    then have "scan_page mods es (result @ em @ [e], rest, dc) = (result', ns', dc')" using Cons.prems t by simp
    from Cons.IH [OF this] s show ?thesis by auto
  qed
qed simp

lemma filter_shrinks:
  fixes l :: "'a :: linorder"
  assumes "l \<in> set (filter P cs)" and "\<And>c. l < c \<Longrightarrow> P c"
  shows "length (filter (\<lambda>c. l < c) cs) < length (filter P cs)"
proof -
  have "filter (\<lambda>c. l < c) cs = filter (\<lambda>c. l < c) (filter P cs)"
    using assms(2) by (auto intro!: filter_cong)
  also have "length \<dots> < length (filter P cs)"
    using assms(1) by (intro length_filter_less) auto
  finally show ?thesis .
qed

lemma page_loop_ends:
  assumes "[] \<notin> set cs"
  shows "length (filter (\<lambda>c. after = [] \<or> after < c) cs) < n \<Longrightarrow>
    \<exists>result' ns'. page_loop n (page_of cs) mods limit after (result, ns, dc) = Some (result', ns') \<and>
      set result' \<union> set ns' \<subseteq> set result \<union> set ns \<union> {c \<in> set cs. after = [] \<or> after < c}"
proof (induction n arbitrary: after result ns dc)
  case (Suc n)
  let ?rem = "if 0 < limit then limit - int (length result) + dc else limit"
  let ?page = "page_of cs after ?rem"
  have sub: "set ?page \<subseteq> {c \<in> set cs. after = [] \<or> after < c}" by (rule page_of_subset)
  obtain result' ns' dc' where s: "scan_page mods ?page (result, ns, dc) = (result', ns', dc')"
    by (metis prod_cases3)
  note set = scan_page_set [OF s]
  show ?case
  proof (cases "?page = [] \<or> ns = [] \<and> dc \<le> 0 \<or> 0 < limit \<and> limit \<le> int (length result')")
    case True
    have "set result' \<union> set ns' \<subseteq> set result \<union> set ns \<union> {c \<in> set cs. after = [] \<or> after < c}"
      using set sub by blast
    then show ?thesis using True s sub by (auto simp: Let_def)
  next
    case False
    then have ne: "?page \<noteq> []" by blast
    let ?l = "last ?page"
    have l: "?l \<in> set cs" "after = [] \<or> after < ?l" using sub last_in_set [OF ne] by auto
    then have "?l \<noteq> []" using assms by metis
    then have eq: "(\<lambda>c. ?l = [] \<or> ?l < c) = (\<lambda>c. ?l < c)" by (simp only: simp_thms)
    have "length (filter (\<lambda>c. ?l = [] \<or> ?l < c) cs) < length (filter (\<lambda>c. after = [] \<or> after < c) cs)"
      unfolding eq using l by (intro filter_shrinks) (auto dest: order.strict_trans)
    then have "length (filter (\<lambda>c. ?l = [] \<or> ?l < c) cs) < n" using Suc.prems by simp
    from Suc.IH [OF this, of result' ns' dc'] obtain r2 n2 where
      loop: "page_loop n (page_of cs) mods limit ?l (result', ns', dc') = Some (r2, n2)"
      and sub2: "set r2 \<union> set n2 \<subseteq> set result' \<union> set ns' \<union> {c \<in> set cs. ?l = [] \<or> ?l < c}" by blast
    have "{c \<in> set cs. ?l = [] \<or> ?l < c} \<subseteq> {c \<in> set cs. after = [] \<or> after < c}"
      using l(2) \<open>?l \<noteq> []\<close> by (auto dest: order.strict_trans)
    then have "set r2 \<union> set n2 \<subseteq> set result \<union> set ns \<union> {c \<in> set cs. after = [] \<or> after < c}"
      using sub2 set sub by blast
    moreover have "page_loop (Suc n) (page_of cs) mods limit after (result, ns, dc) =
        page_loop n (page_of cs) mods limit ?l (result', ns', dc')"
      using False s by (auto simp: Let_def)
    ultimately show ?thesis using loop by (intro exI [of _ r2] exI [of _ n2]) (simp del: page_loop.simps)
  qed
qed simp

lemma buildActionMap_put:
  "map_of (buildActionMap p as after) c = Some False \<Longrightarrow> c \<in> names p (action_key ` set (filter action_is_put as))"
proof (induction as rule: rev_induct)
  case (snoc a as)
  have more: "names p (action_key ` set (filter action_is_put as)) \<subseteq> names p (action_key ` set (filter action_is_put (as @ [a])))"
    by (rule names_mono) auto
  show ?case
  proof (cases "map_of (buildActionMap p as after) c = Some False")
    case True
    then show ?thesis using snoc.IH more by blast
  next
    case False
    then have "prefix p (action_key a)" "action_is_put a" "c = direct_child (drop (length p) (action_key a))"
      using snoc.prems by (auto simp: buildActionMap_snoc action_map_step_def Let_def split: if_splits)
    then show ?thesis by (auto simp: names_def prefix_def)
  qed
qed (simp add: buildActionMap_def)

lemma tx_list_page_ends:
  assumes "fst ` set d \<union> action_key ` set (filter action_is_put as) \<subseteq> K" and "[] \<notin> names p K"
  shows "tx_list_page \<lparr>tx_s = d, tx_actions = as\<rparr> p after limit \<noteq> Inl OutOfFuel"
    and "tx_list_page \<lparr>tx_s = d, tx_actions = as\<rparr> p after limit = Inr ps \<Longrightarrow>
      set ps \<subseteq> {c \<in> names p K. after = [] \<or> after < c}"
proof -
  let ?cs = "store_list d p" and ?m = "buildActionMap p as after" and ?t = "\<lparr>tx_s = d, tx_actions = as\<rparr>"
  have lp: "store_list_page d p = page_of ?cs" by (intro ext) (simp add: store_list_page_def)
  have cs: "set ?cs \<subseteq> names p K" using assms(1) by (intro store_list_names) simp
  have plain: "set (page_of ?cs after limit) \<subseteq> {c \<in> names p K. after = [] \<or> after < c}"
    using page_of_subset [of ?cs after limit] cs by blast
  have new: "set (new_entries ?m) \<subseteq> {c \<in> names p K. after < c}"
  proof
    fix c assume "c \<in> set (new_entries ?m)"
    then have m: "map_of ?m c = Some False" by (simp add: new_entries_set buildActionMap_distinct)
    have "names p (action_key ` set (filter action_is_put as)) \<subseteq> names p K"
      using assms(1) by (intro names_mono) simp
    then show "c \<in> {c \<in> names p K. after < c}"
      using buildActionMap_put [OF m] buildActionMap_after [OF m] by auto
  qed
  obtain result ns where loop: "page_loop (Suc (length ?cs)) (page_of ?cs) ?m limit after ([], new_entries ?m, del_count ?m) = Some (result, ns)"
    and sub: "set result \<union> set ns \<subseteq> set [] \<union> set (new_entries ?m) \<union> {c \<in> set ?cs. after = [] \<or> after < c}"
    using page_loop_ends [of ?cs after "Suc (length ?cs)" ?m limit "[]" "new_entries ?m" "del_count ?m"] cs assms(2)
    by (auto simp: less_Suc_eq_le simp del: page_loop.simps)
  have all: "set (result @ ns) \<subseteq> {c \<in> names p K. after = [] \<or> after < c}"
    using sub new cs by auto
  show "tx_list_page ?t p after limit \<noteq> Inl OutOfFuel"
    using loop by (simp add: tx_list_page_def Let_def lp del: page_loop.simps)
  show "set ps \<subseteq> {c \<in> names p K. after = [] \<or> after < c}" if "tx_list_page ?t p after limit = Inr ps"
  proof -
    have "set (take j (result @ ns)) \<subseteq> {c \<in> names p K. after = [] \<or> after < c}" for j
      using all set_take_subset by (rule order_trans [rotated])
    moreover have "ps = page_of ?cs after limit \<or> (\<exists>j. ps = take j (result @ ns))"
      using that loop
      by (auto simp: tx_list_page_def Let_def lp simp del: page_loop.simps take_append split: if_splits
          intro: exI [of _ "length (result @ ns)"])
    ultimately show ?thesis using plain by blast
  qed
qed

section \<open>Orderly methods\<close>

definition inOrder :: "string set \<Rightarrow> world \<Rightarrow> bool" where
  "inOrder C w \<longleftrightarrow> (\<forall>k \<in> stored w. tidyKey k \<and> k \<in> C)"

definition orderly :: "string set \<Rightarrow> 'a m \<Rightarrow> bool" where
  "orderly C m \<longleftrightarrow> (\<forall>w. inOrder C w \<longrightarrow> inOrder C (snd (m w)) \<and> fst (m w) \<noteq> Inl Diverge)"

named_theorems orderly_rules \<open>introduction rules for \<open>orderly\<close>\<close>

lemma orderlyD: "orderly C m \<Longrightarrow> inOrder C w \<Longrightarrow> m w = (r, w') \<Longrightarrow> inOrder C w' \<and> r \<noteq> Inl Diverge"
  by (metis orderly_def fst_conv snd_conv)

lemma orderlyI: "(\<And>w r w'. inOrder C w \<Longrightarrow> m w = (r, w') \<Longrightarrow> inOrder C w' \<and> r \<noteq> Inl Diverge) \<Longrightarrow> orderly C m"
  unfolding orderly_def by (metis prod.collapse)

lemma orderly_pure:
  "(\<And>w. stored (snd (m w)) = stored w \<and> fst (m w) \<noteq> Inl Diverge) \<Longrightarrow> orderly C m"
  by (simp add: orderly_def inOrder_def)

lemma orderly_bind_result:
  assumes "orderly C m" and "\<And>x w w'. m w = (Inr x, w') \<Longrightarrow> orderly C (f x)"
  shows "orderly C (bindM m f)"
proof (rule orderlyI)
  fix w r w' assume w: "inOrder C w" and eq: "bindM m f w = (r, w')"
  obtain q v where m: "m w = (q, v)" by fastforce
  note v = orderlyD [OF assms(1) w m]
  show "inOrder C w' \<and> r \<noteq> Inl Diverge"
  proof (cases q)
    case (Inl e)
    then show ?thesis using eq m v by (auto simp: bindM_def)
  next
    case (Inr x)
    then have "f x v = (r, w')" "orderly C (f x)" using eq m assms(2) by (auto simp: bindM_def)
    then show ?thesis using v by (auto dest: orderlyD)
  qed
qed

lemma orderly_bind [orderly_rules]: "orderly C m \<Longrightarrow> (\<And>x. orderly C (f x)) \<Longrightarrow> orderly C (bindM m f)"
  by (rule orderly_bind_result)

lemma orderly_then [orderly_rules]: "orderly C a \<Longrightarrow> orderly C b \<Longrightarrow> orderly C (thenM a b)"
  unfolding thenM_def by (intro orderly_rules)

lemma orderly_basic [orderly_rules]:
  "orderly C (returnM x)" "orderly C (throwM (Fail msg))" "orderly C (throwM NilPointer)"
  "orderly C (throwM RuntimePanic)" "orderly C (throwM (EarlyReturn r))"
  "orderly C (throwM Deadlock)" "orderly C (returnError msg)" "orderly C returnNil"
  "orderly C (liftOption msg z)" "orderly C (deref z)" "orderly C (getsM g)" "orderly C (sGet E s k)"
  by (auto intro!: orderly_pure simp: run_simps returnError_def returnNil_def liftOption_def deref_def
      sGet_def split: option.splits)

lemma orderly_modify:
  "(\<And>w. w_disk (f w) = w_disk w \<and> w_tx (f w) = w_tx w) \<Longrightarrow> orderly C (modifyM f)"
  by (auto intro!: orderly_pure simp: run_simps stored_def)

lemma orderly_cases [orderly_rules]:
  "(c \<Longrightarrow> orderly C a) \<Longrightarrow> (\<not> c \<Longrightarrow> orderly C b) \<Longrightarrow> orderly C (if c then a else b)"
  "(z = None \<Longrightarrow> orderly C a) \<Longrightarrow> (\<And>y. z = Some y \<Longrightarrow> orderly C (g y)) \<Longrightarrow> orderly C (case z of None \<Rightarrow> a | Some y \<Rightarrow> g y)"
  "(\<And>y. y = x \<Longrightarrow> orderly C (h y)) \<Longrightarrow> orderly C (let y = x in h y)"
  "(\<And>y z. q = (y, z) \<Longrightarrow> orderly C (k y z)) \<Longrightarrow> orderly C (case q of (y, z) \<Rightarrow> k y z)"
  "(\<And>y. v = Inl y \<Longrightarrow> orderly C (e y)) \<Longrightarrow> (\<And>y. v = Inr y \<Longrightarrow> orderly C (f y)) \<Longrightarrow>
   orderly C (case v of Inl y \<Rightarrow> e y | Inr y \<Rightarrow> f y)"
  by (auto split: option.split prod.split sum.split simp: Let_def)

lemma orderly_catchFail [orderly_rules]: "orderly C m \<Longrightarrow> orderly C (catchFail m)"
  unfolding orderly_def catchFail_def by (auto split: prod.splits sum.splits err.splits)

lemma orderly_handler [orderly_rules]: "orderly C m \<Longrightarrow> orderly C (handler m)"
  unfolding orderly_def handler_def by (auto split: prod.splits sum.splits err.splits)

lemma orderly_wrappers [orderly_rules]: "orderly C m \<Longrightarrow> orderly C (wrapErr msg m)" "orderly C m \<Longrightarrow> orderly C (respondErr msg m)"
  unfolding wrapErr_def respondErr_def by (intro orderly_rules; assumption)+

lemma orderly_get [orderly_rules]: "orderly C (get E s k decode)"
  unfolding get_def by (intro orderly_rules)

lemma orderly_fold [orderly_rules]: "(\<And>x a. x \<in> set xs \<Longrightarrow> orderly C (body x a)) \<Longrightarrow> orderly C (foldM body xs a)"
proof (induction xs arbitrary: a)
  case Nil
  show ?case unfolding foldM.simps by (rule orderly_basic)
next
  case (Cons x xs)
  then show ?case unfolding foldM.simps by (intro orderly_bind) auto
qed

section \<open>Writes\<close>

lemma orderly_sWrite:
  assumes "action_is_put a \<Longrightarrow> tidyKey (action_key a) \<and> action_key a \<in> C"
  shows "orderly C (sWrite E s opn a)"
proof (rule orderlyI)
  fix w r w' assume w: "inOrder C w" and eq: "sWrite E s opn a w = (r, w')"
  have "stored (written s a w) \<subseteq> stored w \<union> action_key ` set (filter action_is_put [a])"
    using apply_actions_keys [of "[a]" "w_disk w"]
    by (auto simp: written_def pending_def stored_def split: option.splits sref.splits)
  then have "inOrder C (written s a w)"
    using w assms unfolding inOrder_def by (auto split: if_splits)
  then show "inOrder C w' \<and> r \<noteq> Inl Diverge"
    using sWrite_result [of E s opn a w] eq w by auto
qed

lemma orderly_store [orderly_rules]: "tidyKey k \<Longrightarrow> k \<in> C \<Longrightarrow> orderly C (storeInStorage E s k v)"
  unfolding storeInStorage_def by (rule orderly_sWrite) simp

lemma orderly_delete [orderly_rules]: "orderly C (sDelete E s k)"
  unfolding sDelete_def by (rule orderly_sWrite) simp

lemma commit_keys: "fst ` set (snd (commit_actions fails as d)) \<subseteq> fst ` set d \<union> action_key ` set (filter action_is_put as)"
proof -
  obtain bs cs where "as = bs @ cs" and "snd (commit_actions fails as d) = apply_actions bs d"
    using commit_actions_prefix by blast
  then show ?thesis using apply_actions_keys [of bs d] by auto
qed

lemma orderly_EndTx [orderly_rules]: "orderly C (EndTxStorage E)"
proof (rule orderlyI)
  fix w r w' assume w: "inOrder C w" and eq: "EndTxStorage E w = (r, w')"
  have "stored w' \<subseteq> stored w \<and> r \<noteq> Inl Diverge"
  proof (cases "w_tx w")
    case None
    then show ?thesis using eq by (auto simp: EndTxStorage_def)
  next
    case (Some as)
    obtain f d where d: "commit_actions (actionFails E) as (w_disk w) = (f, d)" by fastforce
    have "w' = w \<or> w' = w\<lparr>w_disk := apply_actions as (w_disk w), w_tx := None\<rparr> \<or>
        w' = w\<lparr>w_disk := d\<rparr> \<or> w' = w\<lparr>w_disk := d, w_tx := None\<rparr>" and "r \<noteq> Inl Diverge"
      using eq Some d by (auto simp: EndTxStorage_def split: if_splits option.splits)
    moreover have "fst ` set (apply_actions as (w_disk w)) \<subseteq> stored w" "fst ` set d \<subseteq> stored w"
      using apply_actions_keys [of as "w_disk w"] commit_keys [of "actionFails E" as "w_disk w"] Some d
      by (simp_all add: stored_def)
    ultimately show ?thesis using Some by (elim disjE) (auto simp: stored_def)
  qed
  then show "inOrder C w' \<and> r \<noteq> Inl Diverge" using w by (auto simp: inOrder_def)
qed

lemma inOrder_no_tx: "inOrder C w \<Longrightarrow> inOrder C (w\<lparr>w_tx := None\<rparr>)"
  by (simp add: inOrder_def stored_def)

lemma orderly_withTx [orderly_rules]: "orderly C body \<Longrightarrow> orderly C (withTx E body)"
  unfolding withTx_def
proof (rule orderly_handler, rule orderlyI)
  fix w r w' assume body: "orderly C body" and w: "inOrder C w"
    and eq: "(case StartTxStorageWithShim E w of (Inl e, w1) \<Rightarrow> (Inl e, w1)
      | (Inr _, w1) \<Rightarrow> (case body w1 of (r, w2) \<Rightarrow> (r, w2\<lparr>w_tx := None\<rparr>))) = (r, w')"
  have start: "inOrder C (w\<lparr>w_tx := Some []\<rparr>)" using w by (auto simp: inOrder_def stored_def)
  obtain q v where q: "body (w\<lparr>w_tx := Some []\<rparr>) = (q, v)" by fastforce
  have "(r, w') = (q, v\<lparr>w_tx := None\<rparr>) \<or> (\<exists>e. (r, w') = (Inl (Fail e), w))"
    using eq q by (auto simp: StartTxStorageWithShim_def split: option.splits)
  then show "inOrder C w' \<and> r \<noteq> Inl Diverge"
    using orderlyD [OF body start q] w by (auto intro: inOrder_no_tx)
qed

section \<open>Loops\<close>

lemma sListPage_orderly:
  assumes "inOrder C w" and "\<not> tidyKey p" and "sListPage E s p after limit w = (r, w')"
  shows "w' = w" and "r \<noteq> Inl Diverge"
    and "r = Inr ps \<Longrightarrow> set ps \<subseteq> {c \<in> names p (stored w). after = [] \<or> after < c}"
proof -
  have "p \<notin> stored w" using assms(1,2) by (auto simp: inOrder_def)
  then have ne: "[] \<notin> names p (stored w)" by (auto simp: names_def dest!: direct_child_empty [THEN iffD1, OF sym])
  show "w' = w" using assms(3) by (auto simp: sListPage_def split: option.splits if_splits sum.splits)
  have page: "set (store_list_page d p after limit) \<subseteq> {c \<in> names p (stored w). after = [] \<or> after < c}"
    if "fst ` set d \<subseteq> stored w" for d
    using page_of_subset [of "store_list d p" after limit] store_list_names [OF that, of p]
    unfolding store_list_page_def by blast
  have disk: "fst ` set (w_disk w) \<subseteq> stored w" by (auto simp: stored_def)
  have tx: "fst ` set (w_disk w) \<union> action_key ` set (filter action_is_put as) \<subseteq> stored w"
    and app: "fst ` set (apply_actions as (w_disk w)) \<subseteq> stored w" if "w_tx w = Some as" for as
    using that apply_actions_keys [of as "w_disk w"] by (auto simp: stored_def)
  note shim = tx_list_page_ends [OF tx ne]
  show "r \<noteq> Inl Diverge"
    using assms(3) shim(1)
    by (auto simp: sListPage_def pending_def listFailure_def split: option.splits if_splits sum.splits sref.splits list_fault.splits)
  assume "r = Inr ps"
  then consider "ps = store_list_page (w_disk w) p after limit"
    | as where "w_tx w = Some as" "ps = store_list_page (apply_actions as (w_disk w)) p after limit"
    | as where "w_tx w = Some as" "tx_list_page \<lparr>tx_s = w_disk w, tx_actions = as\<rparr> p after limit = Inr ps"
    using assms(3) by (auto simp: sListPage_def pending_def split: option.splits if_splits sum.splits sref.splits)
  then show "set ps \<subseteq> {c \<in> names p (stored w). after = [] \<or> after < c}"
  proof cases
    case 1
    then show ?thesis using page [OF disk] by simp
  next
    case (2 as)
    then show ?thesis using page [OF app] by simp
  next
    case (3 as)
    then show ?thesis using shim(2) by blast
  qed
qed

text \<open>\<open>freeze p N C\<close>: below \<open>p\<close>, only the names \<open>N\<close>; \<open>listedAs p n\<close>: a tidy key can be listed so.\<close>

definition freeze :: "string \<Rightarrow> string set \<Rightarrow> string set \<Rightarrow> string set" where
  "freeze p N C = {k \<in> C. \<forall>r. k = p @ r \<longrightarrow> direct_child r \<in> N}"

definition listedAs :: "string \<Rightarrow> string \<Rightarrow> bool" where
  "listedAs p n \<longleftrightarrow> (\<exists>r. tidyKey (p @ r) \<and> n = direct_child r)"

lemma inOrder_freeze:
  "inOrder C w \<Longrightarrow> inOrder (freeze p (names p (stored w)) C) w"
  "inOrder (freeze p N C) w \<Longrightarrow> inOrder C w"
  "inOrder (freeze p N C) w \<Longrightarrow> names p (stored w) \<subseteq> N"
  by (auto simp: inOrder_def freeze_def names_def)

lemma orderly_pages:
  assumes p: "\<not> tidyKey p" and N: "finite N"
    and body: "\<And>n a. n \<in> N \<Longrightarrow> n \<noteq> [] \<Longrightarrow> listedAs p n \<Longrightarrow> orderly (freeze p N C) (body n a)"
  shows "inOrder (freeze p N C) w \<Longrightarrow> card {c \<in> N. after = [] \<or> after < c} < n \<Longrightarrow>
    for_pages n E s p body after a w = (r, w') \<Longrightarrow> inOrder (freeze p N C) w' \<and> r \<noteq> Inl Diverge"
proof (induction n arbitrary: after a w)
  case (Suc n)
  let ?D = "freeze p N C"
  obtain q v where q: "sListPage E s p after DefaultPagingSize w = (q, v)" by fastforce
  note page = sListPage_orderly [OF Suc.prems(1) p q]
  show ?case
  proof (cases q)
    case (Inl e)
    then show ?thesis using q page(1,2) Suc.prems(1,3) by auto
  next
    case (Inr ps)
    note ps = page(3) [OF Inr]
    show ?thesis
    proof (cases "ps = []")
      case True
      then show ?thesis using q page(1) Inr Suc.prems(1,3) by (auto simp: returnM_apply)
    next
      case False
      let ?l = "last ps"
      have listed: "c \<in> N" "c \<noteq> []" "listedAs p c" "after = [] \<or> after < c" if "c \<in> set ps" for c
      proof -
        have c: "c \<in> names p (stored w)" and "after = [] \<or> after < c" using ps that by auto
        then show "c \<in> N" "after = [] \<or> after < c" using inOrder_freeze(3) [OF Suc.prems(1)] by auto
        obtain x where "p @ x \<in> stored w" "c = direct_child x" using c by (auto simp: names_def)
        moreover have "tidyKey (p @ x)" using calculation(1) Suc.prems(1) by (simp add: inOrder_def)
        ultimately show "c \<noteq> []" "listedAs p c"
          using p by (auto simp: listedAs_def direct_child_empty)
      qed
      have l: "?l \<in> N" "?l \<noteq> []" "after = [] \<or> after < ?l" using listed last_in_set [OF False] by blast+
      have "{c \<in> N. ?l = [] \<or> ?l < c} \<subset> {c \<in> N. after = [] \<or> after < c}"
        using l by (auto dest: order.strict_trans)
      then have "card {c \<in> N. ?l = [] \<or> ?l < c} < card {c \<in> N. after = [] \<or> after < c}"
        using N by (intro psubset_card_mono) auto
      then have less: "card {c \<in> N. ?l = [] \<or> ?l < c} < n" using Suc.prems(2) by simp
      have run: "bindM (foldM body ps a) (for_pages n E s p body ?l) w = (r, w')"
        using Suc.prems(3) q page(1) Inr False by simp
      have "orderly ?D (foldM body ps a)" using listed body by (intro orderly_fold) blast
      then show ?thesis
        using run Suc.prems(1) Suc.IH [OF _ less]
        by (auto simp: bindM_apply split: prod.splits sum.splits dest: orderlyD)
    qed
  qed
qed simp

lemma orderly_listPaged:
  assumes "\<not> tidyKey p"
    and "\<And>N n a. n \<in> N \<Longrightarrow> n \<noteq> [] \<Longrightarrow> listedAs p n \<Longrightarrow> orderly (freeze p N C) (body n a)"
  shows "orderly C (for_listPaged E s p body a)"
proof (rule orderlyI)
  fix w r w' assume w: "inOrder C w" and eq: "for_listPaged E s p body a w = (r, w')"
  let ?N = "names p (stored w)"
  have "card {c \<in> ?N. [] = [] \<or> [] < c} < paging_fuel w" using names_bound(2) by simp
  from orderly_pages [OF assms(1) names_bound(1) assms(2) inOrder_freeze(1) [OF w] this eq [unfolded for_listPaged_def]]
  show "inOrder C w' \<and> r \<noteq> Inl Diverge" using inOrder_freeze(2) by blast
qed

end
