(* ===== verification/Orderly.thy ===== *)
theory Orderly
  imports Progress Requests
begin

text \<open>
  The methods of the backend are orderly: the paths they write are tidy, and their loops end. The
  hypotheses are about names: that of the operator has no slash, and there is one. \<open>named\<close> says so
  of a request; the routes give it to every request that comes in.
\<close>

section \<open>Frozen prefixes\<close>

lemma freeze_other:
  assumes "path_kind k \<noteq> path_kind p" and "CHR ''/'' \<in> set p"
  shows "k \<in> freeze p N C \<longleftrightarrow> k \<in> C"
proof -
  have "path_kind (p @ r) = path_kind p" for r
    using assms(2) by (auto simp: path_kind_def takeWhile_append)
  then show ?thesis using assms(1) by (auto simp: freeze_def)
qed

lemma direct_child_idem: "direct_child (direct_child r) = direct_child r"
proof (cases "no_slash r")
  case True
  then show ?thesis by (simp add: direct_child_plain)
next
  case False
  then obtain a b where "r = a @ CHR ''/'' # b" and "no_slash a" by (meson split_list_first)
  then show ?thesis by (simp add: direct_child_def)
qed

lemma freeze_listed: "n \<in> N \<Longrightarrow> listedAs p n \<Longrightarrow> p @ n \<in> freeze p N C \<longleftrightarrow> p @ n \<in> C"
  by (auto simp: freeze_def listedAs_def direct_child_idem)

lemma prefix_kinds [tidy_simps]:
  "path_kind operatorsPathPrefix = ''operators''" "path_kind (operator_accountsConfigPrefix oi) = ''accounts''"
  "path_kind (operator_accountsJwtPrefix oi) = ''account-jwts''"
  "CHR ''/'' \<in> set operatorsPathPrefix" "CHR ''/'' \<in> set (operator_accountsConfigPrefix oi)"
  "CHR ''/'' \<in> set (operator_accountsJwtPrefix oi)"
  by (simp_all add: path_kind_def path_defs)

lemma account_jwtPath_listed: "account_jwtPath (operatorId_accountId i n) = operator_accountsJwtPrefix i @ n"
  by (simp add: path_defs)

lemma listed_operator: "listedAs operatorsPathPrefix n \<Longrightarrow> word n"
proof -
  assume "listedAs operatorsPathPrefix n"
  then obtain r where r: "tidyKey (operatorsPathPrefix @ r)" "n = direct_child r" by (auto simp: listedAs_def)
  have "tidyKey (operatorsPathPrefix @ r) = word r"
    by (auto simp: tidyKey_def path_kind_def path_defs word_def simp del: word_simps)
  then show "word n" using r by (simp add: direct_child_plain)
qed

section \<open>Reading and listing\<close>

text \<open>What is read is stored, so its path is tidy and may be written again.\<close>

lemma view_stored: "view s w k \<noteq> None \<Longrightarrow> k \<in> stored w"
proof -
  assume "view s w k \<noteq> None"
  then have k: "k \<in> fst ` set (effective s w)"
    using store_get_key [of "effective s w" k] by (simp add: view_effective)
  have "fst ` set (effective s w) \<subseteq> stored w"
    using apply_actions_keys [of _ "w_disk w"]
    by (auto simp: effective_def stored_def pending_def split: option.split sref.split)
  then show "k \<in> stored w" using k by blast
qed

lemma orderly_present:
  assumes "\<And>a. (a \<noteq> None \<Longrightarrow> tidyKey k \<and> k \<in> C) \<Longrightarrow> orderly C (f a)"
  shows "orderly C (bindM (get E s k decode) f)"
proof (rule orderlyI)
  fix w r w' assume w: "inOrder C w" and eq: "bindM (get E s k decode) f w = (r, w')"
  obtain q u where g: "get E s k decode w = (q, u)" by fastforce
  have u: "u = w" and q: "q \<noteq> Inl Diverge" and some: "\<And>x. q = Inr (Some x) \<Longrightarrow> view s w k \<noteq> None"
    using g by (auto simp: get_def bindM_apply sGet_def run_simps split: option.splits)
  show "inOrder C w' \<and> r \<noteq> Inl Diverge"
  proof (cases q)
    case (Inl e)
    then show ?thesis using eq g u q w by (auto simp: bindM_apply)
  next
    case (Inr a)
    have "tidyKey k \<and> k \<in> C" if "a \<noteq> None"
      using that some Inr view_stored [of s w k] w by (auto simp: inOrder_def)
    then have "orderly C (f a)" by (rule assms)
    moreover have "f a w = (r, w')" using eq g u Inr by (simp add: bindM_apply)
    ultimately show ?thesis using w by (auto dest: orderlyD)
  qed
qed

lemma orderly_readers [orderly_rules]:
  "orderly C (Operator E s oid)" "orderly C (Account E s aid)" "orderly C (Nkey E s p)"
  "orderly C (Jwt E s p)" "orderly C (User E s uid)" "orderly C (EphemeralUser E s eid)"
  "orderly C (AccountRevocation E s rid)" "orderly C (AccountImport E s iid)" "orderly C (AccountServer E s sid)"
  "orderly C (operatorExists E s oid)" "orderly C (accountExists E s aid)" "orderly C (Config E s)"
  unfolding reader_defs operatorExists_def accountExists_def Config_def by (intro orderly_rules)+

lemma orderly_createSeed [orderly_rules]: "orderly C (createSeed E px)"
  by (rule orderly_pure) (auto simp: createSeed_def stored_def split: option.split)

lemma orderly_keys [orderly_rules]:
  "orderly C (keyPair E nk)" "orderly C (PublicKey E kp)" "orderly C (PrivateKey E kp)" "orderly C (publicKey E nk)"
  "orderly C (validateSeed E seed px)" "orderly C (createNkeyResponse E nk)"
  "orderly C (NewOperatorNKey E)" "orderly C (NewAccountNKey E)" "orderly C (NewUserNKey E)"
  unfolding keyPair_def PublicKey_def PrivateKey_def publicKey_def validateSeed_def createNkeyResponse_def
    NewOperatorNKey_def NewAccountNKey_def NewUserNKey_def
  by (intro orderly_rules)+

lemma orderly_orNil [orderly_rules]: "orderly C m \<Longrightarrow> orderly C (orNilNkey m)" "orderly C x \<Longrightarrow> orderly C (ignoreErr x)"
  unfolding orNilNkey_def ignoreErr_def by (intro orderly_rules; assumption)+

lemma orderly_reads [orderly_rules]: "orderly C (readNkey E p)" "orderly C (readJwt E p)"
  unfolding readNkey_def readJwt_def by (intro orderly_rules)+

lemma orderly_listPath [orderly_rules]:
  assumes "\<not> tidyKey p"
  shows "orderly C (listPath E p after limit)"
proof -
  have "orderly C (sListPage E s p after l)" for s l
    by (rule orderlyI) (metis assms sListPage_orderly(1,2))
  then show ?thesis unfolding listPath_def by (intro orderly_rules)
qed

lemma orderly_entries:
  assumes "\<not> tidyKey p" and "\<And>D n. orderly D (read n)"
    and "\<And>N n x a. n \<in> N \<Longrightarrow> n \<noteq> [] \<Longrightarrow> listedAs p n \<Longrightarrow> orderly (freeze p N C) (body n x a)"
  shows "orderly C (for_entries E s p read body a)"
  unfolding for_entries_def
  by (rule orderly_listPaged [OF assms(1)]) (intro orderly_rules assms)

text \<open>Loops whose bodies write nothing new below any prefix.\<close>

lemma orderly_generators [orderly_rules]:
  "no_slash (oi_op oid) \<Longrightarrow> (\<And>D n x a. orderly D (accBody n x a)) \<Longrightarrow> orderly C (for_Accounts E s oid accBody a0)"
  "(\<And>D n x a. orderly D (opKeyBody n x a)) \<Longrightarrow> orderly C (for_OperatorSigningKeys E s oid opKeyBody a0)"
  "no_slash (oi_op oid) \<Longrightarrow> (\<And>D n x a. orderly D (idKeyBody n x a)) \<Longrightarrow> orderly C (for_AccountIdentityKeys E s oid idKeyBody a0)"
  "(\<And>D n x a. orderly D (keyBody n x a)) \<Longrightarrow> orderly C (for_AccountSigningKeys E s aid keyBody a0)"
  "(\<And>D n x a. orderly D (revBody n x a)) \<Longrightarrow> orderly C (for_AccountRevocations E s aid revBody a0)"
  "(\<And>D n x a. orderly D (impBody n x a)) \<Longrightarrow> orderly C (for_AccountImports E s aid impBody a0)"
  unfolding for_Accounts_def for_OperatorSigningKeys_def for_AccountIdentityKeys_def for_AccountSigningKeys_def
    for_AccountRevocations_def for_AccountImports_def
  by (rule orderly_entries; simp add: tidy_simps orderly_readers)+

section \<open>JWTs\<close>

lemma orderly_claims [orderly_rules]:
  "orderly C (innerClaims raw)" "orderly C (readLimitFlags raw)" "orderly C (userClaims E rawOpt sub)"
  "orderly C (credsSigningKey E ai req dflt)" "orderly C (enrichUserClaims E s eup)" "orderly C (claimsData rawOpt)"
  "orderly C (validateUserClaims E rawOpt)"
  unfolding innerClaims_def readLimitFlags_def userClaims_def credsSigningKey_def enrichUserClaims_def claimsData_def
    validateUserClaims_def
  by (intro orderly_rules)+

lemma orderly_reader [orderly_rules]: "orderly C (reader_Account E s rd)"
  by (cases rd) (simp_all add: reader_Account_def orderly_readers orderly_basic)

lemma orderly_issueOperator [orderly_rules]:
  "word (oi_op oid) \<Longrightarrow> operator_jwtPath oid \<in> C \<Longrightarrow> orderly C (issueAndSaveOperatorJWT E s oid)"
  unfolding issueAndSaveOperatorJWT_def operatorClaims_def enrichOperatorClaims_def
  by (intro orderly_rules; simp add: tidy_simps)

lemma orderly_issueAccount [orderly_rules]:
  assumes "no_slash (ai_op (reader_AccountId rd))" and "ai_acc (reader_AccountId rd) \<noteq> []"
    and "account_jwtPath (reader_AccountId rd) \<in> C"
  shows "orderly C (issueAndSaveAccountJWT E s rd)"
  unfolding issueAndSaveAccountJWT_def storeAccountJWT_def selectSigningKey_def namedKey_def operatorKey_def
    keyPairAt_def accountClaims_def enrichAccountClaims_def addAccountSigningKey_def
  by (intro orderly_rules; simp add: tidy_simps assms)

section \<open>Account servers\<close>

lemma orderly_caches [orderly_rules]:
  "orderly C accCacheRLock" "orderly C accCacheRUnlock" "orderly C accCacheLock" "orderly C (popAccountServer n)"
  "orderly C (putAccountServer n srv)" "orderly C clearAccountServers"
  by (rule orderly_pure; simp add: accCacheRLock_def accCacheRUnlock_def accCacheLock_def
      popAccountServer_def putAccountServer_def clearAccountServers_def modifyM_apply stored_def split: if_split)+

lemma orderly_natsConn [orderly_rules]:
  "orderly C (natsConn_Drain c)" "orderly C (natsConn_SubscribeSync E c subj)" "orderly C (natsConn_Subscribe E c subj)"
  "orderly C (natsConn_Publish E c subj payload)" "orderly C (natsConn_PublishRequest E c subj reply payload)"
  "orderly C (Msg_Respond E msg payload)" "orderly C (CloseConnection srv)"
  unfolding natsConn_Drain_def natsConn_SubscribeSync_def natsConn_Subscribe_def natsConn_PublishRequest_def
    Msg_Respond_def natsConn_Publish_def CloseConnection_def
  by (intro orderly_rules orderly_modify; simp)+

lemma orderly_awaitReplies [orderly_rules]: "orderly C (awaitReplies E rs)"
  by (induction rs) (auto intro!: orderly_rules split: sum.split option.split)

lemma orderly_claimUpdate [orderly_rules]:
  "orderly C (claimUpdateRequest E r subject payload)" "orderly C (DeleteAccount E r k1 k2)"
  "orderly C (UpdateAccount E r token)"
  unfolding DeleteAccount_def UpdateAccount_def claimUpdateRequest_def
  by (intro orderly_rules orderly_modify; simp)+

lemma orderly_lookup [orderly_rules]:
  assumes "no_slash (oi_op i)"
  shows "orderly C (accountJwtLookupFunc E i key)"
proof -
  have cache: "orderly D (writeAccountToCache ai key)" for D ai key
    unfolding writeAccountToCache_def by (intro orderly_rules orderly_modify) (simp add: Let_def)
  show ?thesis
    unfolding accountJwtLookupFunc_def accountNameFromNkey_def refreshNkeyCache_def
    by (intro orderly_rules cache assms)
qed

lemma orderly_lookupRequest [orderly_rules]:
  "no_slash (as_Operator r) \<Longrightarrow> orderly C (accountLookupRequest E r msg)"
  unfolding accountLookupRequest_def by (intro orderly_rules) simp

lemma orderly_connect [orderly_rules]: "orderly C (connectAccountServer E i entry srv)"
proof -
  have "orderly C (\<lambda>w. NewNatsConnection E servers creds (sign w) w)" for servers creds sign
    by (rule orderly_pure) (simp add: NewNatsConnection_def stored_def split: option.split)
  then show ?thesis
    unfolding connectAccountServer_def natsConnect_def authUserJwt_def createAuthKey_def NewAccountServer_def
    by (intro orderly_rules)
qed

text \<open>These write entries they have read.\<close>

lemma orderly_start [orderly_rules]: "orderly C (startAccountServer E i reconnect)" "orderly C (suspendAccountServer E s i)"
  unfolding startAccountServer_def suspendAccountServer_def AccountServer_def
  by (rule orderly_present; intro orderly_rules; blast)+

lemma orderly_events [orderly_rules]: "orderly C (onConnectionClosed E i)" "orderly C clean"
  unfolding onConnectionClosed_def clean_def by (intro orderly_rules)+

section \<open>Pushing\<close>

lemma orderly_WithTransaction:
  assumes "orderly C callback"
  shows "orderly C (WithTransaction E s callback)"
proof -
  have commit: "orderly C (\<lambda>w. case e_storageFails E OpCommit [] of Some e \<Rightarrow> (Inl (Fail e), w) | None \<Rightarrow> (Inr (), w))"
    by (rule orderly_pure) (simp split: option.split)
  show ?thesis
    using assms orderly_then [OF assms commit]
    by (simp add: orderly_def WithTransaction_def split: option.split)
qed

lemma orderly_syncStatus [orderly_rules]: "orderly C (updateAccountSyncStatus E s i syncErr)"
proof -
  have "orderly C (bindM (deref a) g)" if "\<And>x. a = Some x \<Longrightarrow> orderly C (g x)" for a and g :: "accountEntry \<Rightarrow> unit m"
    using that by (cases a) (auto simp: deref_def intro: orderly_rules)
  note deref = this
  show ?thesis
    unfolding updateAccountSyncStatus_def Account_def
    by (intro orderly_WithTransaction orderly_present deref orderly_cases orderly_store; simp)
qed

lemma orderly_sync [orderly_rules]:
  "orderly C (syncAccountUpdate E i)" "orderly C (syncAccountDelete E i)" "orderly C (syncAccountRotate E old i)"
  "orderly C (syncOrWarn E i resp)"
  unfolding syncOrWarn_def syncAccountUpdate_def syncAccountDelete_def syncAccountRotate_def finishUpdate_def
  by (intro orderly_rules)+

lemma orderly_syncAccounts [orderly_rules]: "no_slash (oi_op i) \<Longrightarrow> orderly C (syncOperatorAccounts E s i)"
  unfolding syncOperatorAccounts_def
  by (rule orderly_listPaged) (simp add: tidy_simps, intro orderly_rules)

lemma orderly_accountServers [orderly_rules]:
  "word (asi_op i) \<Longrightarrow> orderly UNIV (pathAccountServerCreateUpdate E i f)"
  "orderly UNIV (pathAccountServerDelete E i)" "orderly UNIV (pathAccountServerRead E i)"
  "orderly UNIV (pathAccountServerList E after limit)"
  unfolding pathAccountServerCreateUpdate_def accountServerStore_def pathAccountServerDelete_def
    pathAccountServerRead_def pathAccountServerList_def
  by (intro orderly_rules; simp add: tidy_simps)+

section \<open>Users\<close>

text \<open>A public key is the base-32 text of a key: not empty, and without a slash.\<close>

definition textKeys :: "env \<Rightarrow> bool" where
  "textKeys E \<longleftrightarrow> (\<forall>kp pub. e_PublicKey E kp = Some pub \<longrightarrow> word pub)"

lemma publicKey_word: "textKeys E \<Longrightarrow> publicKey E nk w = (Inr pub, w') \<Longrightarrow> word pub"
  by (auto simp: textKeys_def publicKey_def keyPair_def PublicKey_def bindM_apply run_simps liftOption_def
      split: if_splits option.splits)

lemma orderly_revokeUser [orderly_rules]:
  assumes "textKeys E"
  shows "orderly UNIV (addUserToRevocationList E s ai ui ttl)"
proof -
  have "orderly UNIV (bindM (publicKey E nk) (\<lambda>pub. storeInStorage E s
      (accountRevocation_configPath (accountId_revocationId ai pub)) (v pub)))" for nk v
  proof (rule orderly_bind_result)
    fix pub w w' assume "publicKey E nk w = (Inr pub, w')"
    then have "word pub" by (rule publicKey_word [OF assms])
    then show "orderly UNIV (storeInStorage E s (accountRevocation_configPath (accountId_revocationId ai pub)) (v pub))"
      by (intro orderly_rules) (simp_all add: tidy_simps accountId_revocationId_def)
  qed (intro orderly_rules)
  note revoke = this
  show ?thesis unfolding addUserToRevocationList_def by (rule orderly_bind, rule orderly_readers, rule orderly_cases)
    (intro orderly_rules revoke)+
qed

lemma orderly_deleteUser [orderly_rules]:
  "textKeys E \<Longrightarrow> orderly UNIV (deleteUser E s ui revoke ttl)"
  unfolding deleteUser_def by (intro orderly_rules)

lemma orderly_deleteUser_only: "orderly C (deleteUser E s ui False ttl)"
  unfolding deleteUser_def by (simp, intro orderly_rules)

lemma orderly_users [orderly_rules]:
  "word (ui_user ui) \<Longrightarrow> orderly UNIV (pathUserCreateUpdate E ui f)" "orderly UNIV (pathUserRead E ui)"
  "orderly UNIV (pathUserList E ai after limit)"
  "word (eui_user ei) \<Longrightarrow> orderly UNIV (pathEphemeralUserCreateUpdate E ei g)" "orderly UNIV (pathEphemeralUserRead E ei)"
  "orderly UNIV (pathEphemeralUserList E ai after limit)" "orderly UNIV (pathEphemeralUserDelete E ei)"
  unfolding pathUserCreateUpdate_def pathUserRead_def pathUserList_def pathEphemeralUserCreateUpdate_def
    pathEphemeralUserRead_def pathEphemeralUserList_def pathEphemeralUserDelete_def
  by (intro orderly_rules; simp add: tidy_simps)+

lemma orderly_deleteUserIssue [orderly_rules]:
  "textKeys E \<Longrightarrow> no_slash (ui_op ui) \<Longrightarrow> word (ui_acc ui) \<Longrightarrow> orderly UNIV (pathDeleteUserIssue E ui)"
  unfolding pathDeleteUserIssue_def by (intro orderly_rules; simp)

section \<open>Accounts\<close>

lemma orderly_deleteAccount [orderly_rules]: "orderly C (deleteAccount E s i)"
  unfolding deleteAccount_def deleteListed_def
  by (intro orderly_rules orderly_listPaged orderly_deleteUser_only; simp add: tidy_simps)

lemma orderly_createAccount [orderly_rules]:
  "no_slash (ai_op i) \<Longrightarrow> ai_acc i \<noteq> [] \<Longrightarrow> orderly UNIV (createAccountNkeyAndJwt E s i)"
  unfolding createAccountNkeyAndJwt_def by (intro orderly_rules; simp add: tidy_simps)

lemma orderly_accounts [orderly_rules]:
  "word (ai_op i) \<Longrightarrow> word (ai_acc i) \<Longrightarrow> orderly UNIV (pathAccountCreateUpdate E i f)"
  "orderly UNIV (pathAccountRead E i)" "word (ai_op i) \<Longrightarrow> orderly UNIV (pathAccountDelete E i)"
  "no_slash (oi_op oi) \<Longrightarrow> orderly UNIV (pathAccountList E oi after limit)"
  unfolding pathAccountCreateUpdate_def accountStore_def setupNewAccount_def pathAccountRead_def pathAccountDelete_def
    pathAccountList_def
  by (intro orderly_rules; simp add: tidy_simps)+

lemma orderly_accountSigningKeys [orderly_rules]:
  "no_slash (aski_op i) \<Longrightarrow> word (aski_acc i) \<Longrightarrow> word (aski_name i) \<Longrightarrow> orderly UNIV (pathAccountSigningNkeyCreateUpdate E i f)"
  "orderly UNIV (pathAccountSigningNkeyRead E i)"
  "no_slash (aski_op i) \<Longrightarrow> word (aski_acc i) \<Longrightarrow> orderly UNIV (pathAccountSigningNkeyDelete E i)"
  "orderly UNIV (pathAccountSigningNkeyList E ai after limit)"
  unfolding pathAccountSigningNkeyCreateUpdate_def pathAccountSigningNkeyRead_def pathAccountSigningNkeyDelete_def
    pathAccountSigningNkeyList_def
  by (intro orderly_rules; simp add: tidy_simps)+

section \<open>Operators\<close>

text \<open>The loops over accounts issue JWTs, which are not below the prefix they walk over.\<close>

lemma orderly_accountsLoop:
  assumes "no_slash (oi_op oi)"
    and "\<And>D n x a. n \<noteq> [] \<Longrightarrow> account_jwtPath (operatorId_accountId oi n) \<in> D \<Longrightarrow> orderly D (body n x a)"
  shows "orderly UNIV (for_Accounts E s oi body a)"
  unfolding for_Accounts_def
  by (rule orderly_entries) (simp_all add: tidy_simps assms orderly_readers freeze_other path_simps)

lemma orderly_reissueLoops [orderly_rules]:
  "no_slash (oi_op oi) \<Longrightarrow> orderly UNIV (reissueDefaultSigned E oi resp)"
  "no_slash (oi_op oi) \<Longrightarrow> orderly UNIV (reissueSignedWith E oi key operator)"
  unfolding reissueDefaultSigned_def reissueSignedWith_def
  by (rule orderly_accountsLoop; (intro orderly_rules)?; simp add: reader_AccountId_def)+

text \<open>The rotations walk over the JWTs themselves and write those they have seen.\<close>

lemma orderly_reissueIssuedBy [orderly_rules]:
  assumes "no_slash (oi_op oi)"
  shows "orderly UNIV (reissueIssuedBy E oi old resp)"
  unfolding reissueIssuedBy_def
proof (rule orderly_listPaged)
  show "\<not> tidyKey (operator_accountsJwtPrefix oi)" using assms by (simp add: tidy_simps)
  fix N n a
  assume n: "n \<in> N" "n \<noteq> []" "listedAs (operator_accountsJwtPrefix oi) n"
  then have "account_jwtPath (operatorId_accountId oi n) \<in> freeze (operator_accountsJwtPrefix oi) N UNIV"
    by (simp add: account_jwtPath_listed freeze_listed)
  then show "orderly (freeze (operator_accountsJwtPrefix oi) N UNIV)
     (bindM (Jwt E Req (account_jwtPath (operatorId_accountId oi n))) (\<lambda>j. bindM (deref j) (\<lambda>accJwt.
     bindM (liftOption ''failed to decode jwt'' (e_DecodeIssuer E (jwt_Token accJwt))) (\<lambda>issuer.
     if issuer \<noteq> old then returnM a
     else bindM (issueAndSaveAccountJWT E Req (ReadAccount (operatorId_accountId oi n))) (\<lambda>warnings.
       returnM (AddWarnings (reissueWarnings n warnings) a))))))"
    using n(2) assms by (intro orderly_rules; simp add: reader_AccountId_def)
qed

lemma orderly_operatorSteps [orderly_rules]:
  "no_slash (ai_op ai) \<Longrightarrow> orderly UNIV (cleanupSystemAccount E ai)"
  "word (oi_op oi) \<Longrightarrow> op_SysAccountName operator \<noteq> [] \<Longrightarrow> orderly UNIV (setupSystemAccount E oi operator resp)"
  "word (oi_op oi) \<Longrightarrow> orderly UNIV (reissueOperator E oi newOperator resp)"
  unfolding cleanupSystemAccount_def setupSystemAccount_def reissueOperator_def Account_def
  by ((rule orderly_present)?, intro orderly_rules; simp add: tidy_simps)+

lemma sysAccountName_nonempty: "op_SysAccountName (setOperatorFields f op) \<noteq> []"
  by (simp add: setOperatorFields_def DefaultSysAccountName_def Let_def)

lemma orderly_operators [orderly_rules]:
  "word (oi_op oi) \<Longrightarrow> orderly UNIV (pathOperatorCreateUpdate E oi f)" "orderly UNIV (pathOperatorRead E oi)"
  "no_slash (oi_op oi) \<Longrightarrow> orderly UNIV (pathOperatorDelete E oi)" "orderly UNIV (pathOperatorList E after limit)"
  unfolding pathOperatorCreateUpdate_def operatorStore_def pathOperatorRead_def pathOperatorDelete_def pathOperatorList_def
  by (intro orderly_rules orderly_listPaged; simp add: tidy_simps sysAccountName_nonempty)+

lemma orderly_operatorSigningKeys [orderly_rules]:
  "word (oski_op i) \<Longrightarrow> word (oski_name i) \<Longrightarrow> orderly UNIV (pathOperatorSigningNkeyCreateUpdate E i)"
  "word (oski_op i) \<Longrightarrow> orderly UNIV (pathOperatorSigningNkeyDelete E i)"
  "orderly UNIV (pathOperatorSigningNkeyList E oi after limit)"
  unfolding pathOperatorSigningNkeyCreateUpdate_def pathOperatorSigningNkeyDelete_def pathOperatorSigningNkeyList_def Let_def
  by (intro orderly_rules orderly_accountsLoop; (simp add: tidy_simps reader_AccountId_def)?)+

section \<open>Imports, revocations, credentials and rotations\<close>

lemma orderly_revocations [orderly_rules]:
  "no_slash (ari_op i) \<Longrightarrow> word (ari_acc i) \<Longrightarrow> word (ari_sub i) \<Longrightarrow> orderly UNIV (pathAccountRevocationCreateUpdate E i ttl)"
  "orderly UNIV (pathAccountRevocationRead E i)" "orderly UNIV (pathAccountRevocationList E ai after limit)"
  "no_slash (ari_op i) \<Longrightarrow> word (ari_acc i) \<Longrightarrow> orderly UNIV (pathAccountRevocationDelete E i)"
  unfolding pathAccountRevocationCreateUpdate_def pathAccountRevocationRead_def pathAccountRevocationList_def
    pathAccountRevocationDelete_def
  by (intro orderly_rules; simp add: tidy_simps reader_AccountId_def)+

lemma orderly_imports [orderly_rules]:
  "no_slash (aii_op i) \<Longrightarrow> word (aii_acc i) \<Longrightarrow> word (aii_name i) \<Longrightarrow> orderly UNIV (pathAccountImportCreateUpdate E i raw imps)"
  "orderly UNIV (pathAccountImportRead E i)" "orderly UNIV (pathAccountImportList E ai after limit)"
  "no_slash (aii_op i) \<Longrightarrow> word (aii_acc i) \<Longrightarrow> orderly UNIV (pathAccountImportDelete E i)"
  unfolding pathAccountImportCreateUpdate_def pathAccountImportRead_def pathAccountImportList_def pathAccountImportDelete_def
  by (intro orderly_rules; simp add: tidy_simps reader_AccountId_def)+

lemma orderly_config [orderly_rules]:
  "orderly UNIV (pathConfigWrite E v)" "orderly UNIV (pathConfigRead E)" "orderly UNIV (pathConfigDelete E)"
  unfolding pathConfigWrite_def pathConfigRead_def pathConfigDelete_def
  by (intro orderly_rules; simp add: tidy_simps)+

lemma orderly_creds [orderly_rules]:
  "orderly UNIV (pathUserCredsRead E ui f)" "orderly UNIV (pathEphemeralUserCredsRead E ei session f)"
  unfolding pathUserCredsRead_def userCredsBody_def pathEphemeralUserCredsRead_def ephemeralUserCredsBody_def
  by (intro orderly_rules; simp add: tidy_simps)+

lemma orderly_assert [orderly_rules]: "orderly C (assertString v)" "orderly C (assertFloat64 v)"
  unfolding assertString_def assertFloat64_def by (auto intro: orderly_rules split: option.split json.split)

lemma orderly_userCredsRevoke:
  assumes "\<And>sub. map_of internal ''sub'' = Some (JStr sub) \<Longrightarrow> word sub"
  shows "orderly UNIV (userCredsRevoke E internal)"
proof (cases "\<exists>sub. map_of internal ''sub'' = Some (JStr sub)")
  case True
  then obtain sub where sub: "map_of internal ''sub'' = Some (JStr sub)" "word sub" using assms by blast
  show ?thesis
    unfolding userCredsRevoke_def Let_def sub(1) assert_simps returnM_bind
    by (intro orderly_rules; simp add: tidy_simps sub)
next
  case False
  then have "assertString (map_of internal ''sub'') = throwM RuntimePanic"
    by (auto simp: assertString_def split: option.split json.split)
  then show ?thesis unfolding userCredsRevoke_def Let_def by (simp only: throwM_bind) (intro orderly_rules)
qed

lemma orderly_handleRevokeRenew [orderly_rules]:
  assumes "list_all word (lease_names lease ''sub'')"
  shows "orderly UNIV (handleRevokeRenew Backend_Secrets E opn lease)"
  using assms unfolding list_all_iff Ball_def lease_names_iff
  by (auto simp: handleRevokeRenew_def Backend_Secrets_def Backend_Secret_def userCredsSecretType_def
      Secret_HandleRenew_def Secret_HandleRevoke_def intro!: orderly_rules orderly_userCredsRevoke
      split: option.split json.split leaseOperation.split)

lemma orderly_rotations [orderly_rules]:
  "word (oi_op oi) \<Longrightarrow> orderly UNIV (pathRotateOperator E oi)"
  "word (oski_op oki) \<Longrightarrow> word (oski_name oki) \<Longrightarrow> orderly UNIV (pathRotateOperatorSigningKey E oki)"
  "no_slash (ai_op ai) \<Longrightarrow> word (ai_acc ai) \<Longrightarrow> orderly UNIV (pathRotateAccount E ai)"
  "no_slash (aski_op aki) \<Longrightarrow> word (aski_acc aki) \<Longrightarrow> word (aski_name aki) \<Longrightarrow> orderly UNIV (pathRotateAccountSigningKey E aki)"
  "textKeys E \<Longrightarrow> no_slash (ui_op ui) \<Longrightarrow> word (ui_acc ui) \<Longrightarrow> word (ui_user ui) \<Longrightarrow> orderly UNIV (pathUserKeyRotate E ui revoke)"
  unfolding pathRotateOperator_def pathRotateOperatorSigningKey_def pathRotateAccount_def pathRotateAccountSigningKey_def
    pathUserKeyRotate_def
  by (intro orderly_rules; simp add: tidy_simps reader_AccountId_def)+

section \<open>Server configuration and upkeep\<close>

lemma orderly_serverConfig [orderly_rules]:
  assumes "no_slash (oi_op i)"
  shows "orderly UNIV (pathGenerateServerConfig E i preload fmt)"
  unfolding pathGenerateServerConfig_def readFormat_def preloadEntry_def withNativeTx_def
  by (intro orderly_rules orderly_listPaged; simp add: tidy_simps assms)

lemma orderly_initialize [orderly_rules]: "orderly UNIV (initialize E)"
  unfolding initialize_def by (intro orderly_rules orderly_listPaged; simp add: tidy_simps)

lemma orderly_refreshAccount:
  "no_slash (ai_op i) \<Longrightarrow> ai_acc i \<noteq> [] \<Longrightarrow> account_jwtPath i \<in> C \<Longrightarrow> orderly C (periodicRefreshAccount E s i)"
  unfolding periodicRefreshAccount_def periodicPruneAccountRevocations_def
  by (intro orderly_rules; simp add: reader_AccountId_def)

text \<open>The two loops of the periodic function: the accounts of an operator, within the operators.\<close>

lemma orderly_refreshAccounts:
  assumes "no_slash (oi_op i)" and "\<And>n. account_jwtPath (operatorId_accountId i n) \<in> C"
  shows "orderly C (periodicRefreshAccounts E s i)"
  unfolding periodicRefreshAccounts_def
  by (rule orderly_listPaged, simp add: tidy_simps assms, rule orderly_refreshAccount)
     (simp_all add: assms freeze_other tidy_simps path_simps)

lemma orderly_periodic [orderly_rules]: "orderly UNIV (periodicFunc E)"
proof -
  have "orderly (freeze operatorsPathPrefix N UNIV) (periodicRefreshAccounts E s (OperatorId n))"
    if "listedAs operatorsPathPrefix n" for N n s
    by (rule orderly_refreshAccounts)
       (use listed_operator [OF that] in \<open>simp_all add: freeze_other tidy_simps path_simps\<close>)
  then show ?thesis
    unfolding periodicFunc_def withNativeTx_def Let_def
    by (intro orderly_rules orderly_listPaged; simp add: tidy_simps)
qed

section \<open>Requests\<close>

text \<open>The names a request carries in its identifiers.\<close>

primrec operatorRequest_names :: "operatorRequest \<Rightarrow> string list" where
  "operatorRequest_names (OperatorWrite i f) = [oi_op i]"
| "operatorRequest_names (OperatorRead i) = [oi_op i]"
| "operatorRequest_names (OperatorList after limit) = []"
| "operatorRequest_names (OperatorDelete i) = [oi_op i]"
| "operatorRequest_names (OperatorNkeyRead i) = [oi_op i]"
| "operatorRequest_names (OperatorJwtRead i) = [oi_op i]"
| "operatorRequest_names (OperatorSigningKeyWrite i) = [oski_op i, oski_name i]"
| "operatorRequest_names (OperatorSigningKeyRead i) = [oski_op i, oski_name i]"
| "operatorRequest_names (OperatorSigningKeyList i after limit) = [oi_op i]"
| "operatorRequest_names (OperatorSigningKeyDelete i) = [oski_op i, oski_name i]"

primrec accountRequest_names :: "accountRequest \<Rightarrow> string list" where
  "accountRequest_names (AccountWrite i f) = [ai_op i, ai_acc i]"
| "accountRequest_names (AccountRead i) = [ai_op i, ai_acc i]"
| "accountRequest_names (AccountList i after limit) = [oi_op i]"
| "accountRequest_names (AccountDelete i) = [ai_op i, ai_acc i]"
| "accountRequest_names (AccountNkeyRead i) = [ai_op i, ai_acc i]"
| "accountRequest_names (AccountJwtRead i) = [ai_op i, ai_acc i]"
| "accountRequest_names (AccountSigningKeyWrite i f) = [aski_op i, aski_acc i, aski_name i]"
| "accountRequest_names (AccountSigningKeyRead i) = [aski_op i, aski_acc i, aski_name i]"
| "accountRequest_names (AccountSigningKeyList i after limit) = [ai_op i, ai_acc i]"
| "accountRequest_names (AccountSigningKeyDelete i) = [aski_op i, aski_acc i, aski_name i]"

primrec grantRequest_names :: "grantRequest \<Rightarrow> string list" where
  "grantRequest_names (AccountImportWrite i raw imports) = [aii_op i, aii_acc i, aii_name i]"
| "grantRequest_names (AccountImportRead i) = [aii_op i, aii_acc i, aii_name i]"
| "grantRequest_names (AccountImportList i after limit) = [ai_op i, ai_acc i]"
| "grantRequest_names (AccountImportDelete i) = [aii_op i, aii_acc i, aii_name i]"
| "grantRequest_names (RevocationWrite i ttl) = [ari_op i, ari_acc i, ari_sub i]"
| "grantRequest_names (RevocationRead i) = [ari_op i, ari_acc i, ari_sub i]"
| "grantRequest_names (RevocationList i after limit) = [ai_op i, ai_acc i]"
| "grantRequest_names (RevocationDelete i) = [ari_op i, ari_acc i, ari_sub i]"

primrec userRequest_names :: "userRequest \<Rightarrow> string list" where
  "userRequest_names (UserWrite i f) = [ui_op i, ui_acc i, ui_user i]"
| "userRequest_names (UserRead i) = [ui_op i, ui_acc i, ui_user i]"
| "userRequest_names (UserList i after limit) = [ai_op i, ai_acc i]"
| "userRequest_names (UserDelete i) = [ui_op i, ui_acc i, ui_user i]"
| "userRequest_names (UserNkeyRead i) = [ui_op i, ui_acc i, ui_user i]"
| "userRequest_names (EphemeralUserWrite i f) = [eui_op i, eui_acc i, eui_user i]"
| "userRequest_names (EphemeralUserRead i) = [eui_op i, eui_acc i, eui_user i]"
| "userRequest_names (EphemeralUserList i after limit) = [ai_op i, ai_acc i]"
| "userRequest_names (EphemeralUserDelete i) = [eui_op i, eui_acc i, eui_user i]"
| "userRequest_names (UserCredsRead i f) = [ui_op i, ui_acc i, ui_user i]"
| "userRequest_names (EphemeralCredsRead i session f) = [eui_op i, eui_acc i, eui_user i]"
| "userRequest_names (LeaseRequest opn lease) =
    lease_names lease ''op'' @ lease_names lease ''acc'' @ lease_names lease ''sub''"

primrec serverRequest_names :: "serverRequest \<Rightarrow> string list" where
  "serverRequest_names (AccountServerWrite i f) = [asi_op i]"
| "serverRequest_names (AccountServerRead i) = [asi_op i]"
| "serverRequest_names (AccountServerList after limit) = []"
| "serverRequest_names (AccountServerDelete i) = [asi_op i]"
| "serverRequest_names (GenerateServerConfig i pre fmt) = [oi_op i]"
| "serverRequest_names (ConfigWrite v) = []"
| "serverRequest_names ConfigRead = []"
| "serverRequest_names ConfigDelete = []"
| "serverRequest_names Periodic = []"

primrec rotateRequest_names :: "rotateRequest \<Rightarrow> string list" where
  "rotateRequest_names (RotateOperator i) = [oi_op i]"
| "rotateRequest_names (RotateOperatorSigningKey i) = [oski_op i, oski_name i]"
| "rotateRequest_names (RotateAccount i) = [ai_op i, ai_acc i]"
| "rotateRequest_names (RotateAccountSigningKey i) = [aski_op i, aski_acc i, aski_name i]"
| "rotateRequest_names (RotateUser i revoke) = [ui_op i, ui_acc i, ui_user i]"

primrec request_names :: "request \<Rightarrow> string list" where
  "request_names (OperatorRequest r) = operatorRequest_names r"
| "request_names (AccountRequest r) = accountRequest_names r"
| "request_names (GrantRequest r) = grantRequest_names r"
| "request_names (UserRequest r) = userRequest_names r"
| "request_names (ServerRequest r) = serverRequest_names r"
| "request_names (RotateRequest r) = rotateRequest_names r"

definition named :: "request \<Rightarrow> bool" where
  "named r \<longleftrightarrow> list_all word (request_names r)"

lemma orderly_simpleReads [orderly_rules]:
  "orderly C (pathOperatorNkeyRead E oi)" "orderly C (pathOperatorJwtRead E oi)" "orderly C (pathOperatorSigningNkeyRead E oki)"
  "orderly C (pathAccountNkeyRead E ai)" "orderly C (pathReadAccountJWT E ai)" "orderly C (pathUserNkeyRead E ui)"
  unfolding list_path_defs by (intro orderly_rules)+

lemma orderly_handle:
  assumes "textKeys E" and "named r"
  shows "orderly UNIV (handle E r)"
proof -
  have 1: "list_all word (operatorRequest_names r) \<Longrightarrow> orderly UNIV (handle_operatorRequest E r)" for r
    by (cases r; simp; intro orderly_rules; simp)
  have 2: "list_all word (accountRequest_names r) \<Longrightarrow> orderly UNIV (handle_accountRequest E r)" for r
    by (cases r; simp; intro orderly_rules; simp)
  have 3: "list_all word (grantRequest_names r) \<Longrightarrow> orderly UNIV (handle_grantRequest E r)" for r
    by (cases r; simp; intro orderly_rules; simp)
  have 4: "list_all word (userRequest_names r) \<Longrightarrow> orderly UNIV (handle_userRequest E r)" for r
    by (cases r; simp; intro orderly_rules; simp add: assms(1))
  have 5: "list_all word (serverRequest_names r) \<Longrightarrow> orderly UNIV (handle_serverRequest E r)" for r
    by (cases r; simp; intro orderly_rules; simp)
  have 6: "list_all word (rotateRequest_names r) \<Longrightarrow> orderly UNIV (handle_rotateRequest E r)" for r
    by (cases r; simp; intro orderly_rules; simp add: assms(1))
  show ?thesis using assms(2) unfolding named_def by (cases r) (simp_all add: 1 2 3 4 5 6)
qed

text \<open>A request that starts with a tidy storage ends, and leaves it tidy.\<close>

lemma orderly_run_request:
  assumes "textKeys E" and "named r" and "inOrder UNIV w" and "run_request E r w = (x, w')"
  shows "inOrder UNIV w' \<and> x \<noteq> Inl Diverge"
proof -
  obtain v where h: "handle E r (w\<lparr>w_tx := None\<rparr>) = (x, v)" and w': "w' = v\<lparr>w_tx := None\<rparr>"
    using assms(4) by (auto simp: run_request_def split: prod.splits)
  show ?thesis
    using orderlyD [OF orderly_handle [OF assms(1,2)] inOrder_no_tx [OF assms(3)] h] w' by (auto intro: inOrder_no_tx)
qed

end
