(* ===== verification/Endings.thy ===== *)
theory Endings
  imports RouteClaims Orderly
begin

text \<open>
  From the routes to the loops: the identifiers of a routed request are the captures of its path, so
  its names are words, and every request ends. \<open>served\<close> is the life of the plugin: requests by
  their path, the periodic function, leases that run out, and the events of the connections.
\<close>

section \<open>The names of a routed request\<close>

lemma captured_strings:
  "list_all (\<lambda>r. list_all (\<lambda>k. case map_of (p_Fields r) k of None \<Rightarrow> True
     | Some s \<Rightarrow> fs_Type s \<in> {TypeString, TypeNameString}) (captureNames (p_Pattern r))) Backend_paths"
  by (simp add: Backend_paths_def table_defs route_defs pattern_defs shared_field_defs field_def)

text \<open>
  \<open>wordIds ks d\<close>: the fields \<open>ks\<close> that hold a string hold a word. \<open>namesRequest\<close>: then the request
  the callback makes is named; its identifiers come from the captures of its route.
\<close>

definition wordIds :: "string set \<Rightarrow> fieldData \<Rightarrow> bool" where
  "wordIds ks d \<longleftrightarrow> (\<forall>k \<in> ks. \<forall>v. Get d k = Inr (FString v) \<longrightarrow> word v)"

definition namesRequest :: "string set \<Rightarrow> fieldData \<Rightarrow> err + request \<Rightarrow> bool" where
  "namesRequest ks d m \<longleftrightarrow> (wordIds ks d \<longrightarrow> (\<forall>req. m = Inr req \<longrightarrow> named req))"

lemma names_identified:
  "(\<And>i. idField d = Inr i \<Longrightarrow> wordIds ks d \<Longrightarrow> named (req i)) \<Longrightarrow> namesRequest ks d (requestFor idField req d)"
  "(\<And>i f. idField d = Inr i \<Longrightarrow> wordIds ks d \<Longrightarrow> named (req' i f)) \<Longrightarrow> namesRequest ks d (requestWith idField others req' d)"
  by (auto simp: namesRequest_def requestFor_def requestWith_def andThen_Inr_iff)

lemma names_others:
  "(\<And>x. namesRequest ks d (f x)) \<Longrightarrow> namesRequest ks d (andThen m f)"
  "named req \<Longrightarrow> namesRequest ks d (Inr req)"
  by (cases m; auto simp: namesRequest_def)+

lemma wordIds_field: "wordIds ks d \<Longrightarrow> k \<in> ks \<Longrightarrow> getField theString d k = Inr v \<Longrightarrow> word v"
  by (auto simp: wordIds_def getString_Inr)

lemma wordIds_operator:
  assumes "wordIds ks d" and "''operator'' \<in> ks"
  shows "OperatorIdField d = Inr i1 \<Longrightarrow> word (oi_op i1)" "AccountServerIdField d = Inr i2 \<Longrightarrow> word (asi_op i2)"
    "OperatorSigningKeyIdField d = Inr i3 \<Longrightarrow> word (oski_op i3)"
    "AccountIdField d = Inr i4 \<Longrightarrow> word (ai_op i4)" "AccountSigningKeyIdField d = Inr i5 \<Longrightarrow> word (aski_op i5)"
    "UserIdField d = Inr i6 \<Longrightarrow> word (ui_op i6)" "EphemeralUserIdField d = Inr i7 \<Longrightarrow> word (eui_op i7)"
    "AccountRevocationIdField d = Inr i8 \<Longrightarrow> word (ari_op i8)" "AccountImportIdField d = Inr i9 \<Longrightarrow> word (aii_op i9)"
  using wordIds_field [OF assms] by (auto simp: idField_defs andThen_Inr_iff simp del: word_simps)

lemma wordIds_account:
  assumes "wordIds ks d" and "''account'' \<in> ks"
  shows "AccountIdField d = Inr i4 \<Longrightarrow> word (ai_acc i4)" "AccountSigningKeyIdField d = Inr i5 \<Longrightarrow> word (aski_acc i5)"
    "UserIdField d = Inr i6 \<Longrightarrow> word (ui_acc i6)" "EphemeralUserIdField d = Inr i7 \<Longrightarrow> word (eui_acc i7)"
    "AccountRevocationIdField d = Inr i8 \<Longrightarrow> word (ari_acc i8)"
  using wordIds_field [OF assms] by (auto simp: idField_defs andThen_Inr_iff simp del: word_simps)

lemma wordIds_names:
  assumes "wordIds ks d"
  shows "''name'' \<in> ks \<Longrightarrow> OperatorSigningKeyIdField d = Inr i3 \<Longrightarrow> word (oski_name i3)"
    "''name'' \<in> ks \<Longrightarrow> AccountSigningKeyIdField d = Inr i5 \<Longrightarrow> word (aski_name i5)"
    "''user'' \<in> ks \<Longrightarrow> UserIdField d = Inr i6 \<Longrightarrow> word (ui_user i6)"
    "''user'' \<in> ks \<Longrightarrow> EphemeralUserIdField d = Inr i7 \<Longrightarrow> word (eui_user i7)"
    "''subject'' \<in> ks \<Longrightarrow> AccountRevocationIdField d = Inr i8 \<Longrightarrow> word (ari_sub i8)"
    "''import_account'' \<in> ks \<Longrightarrow> AccountImportIdField d = Inr i9 \<Longrightarrow> word (aii_acc i9)"
    "''import_name'' \<in> ks \<Longrightarrow> AccountImportIdField d = Inr i9 \<Longrightarrow> word (aii_name i9)"
  using wordIds_field [OF assms] by (auto simp: idField_defs andThen_Inr_iff simp del: word_simps)

lemma names_backend:
  "list_all (\<lambda>r. \<forall>(opn, h) \<in> set (p_Operations r). \<forall>d.
     namesRequest (set (captureNames (p_Pattern r))) d (oh_Callback h d)) Backend_paths"
  apply (simp add: Backend_paths_def table_defs route_defs handler_def pattern_defs)
  by (simp add: callback_defs names_identified names_others named_def wordIds_operator wordIds_account wordIds_names
      del: word_simps split: prod.split)

lemma captured_field:
  assumes cv: "decodes cv" and r: "route Backend_paths path = Some (r, caps)"
    and k: "k \<in> set (captureNames (p_Pattern r))" and v: "Get (requestData cv r caps data) k = Inr (FString v)"
  shows "word v"
proof -
  have rs: "r \<in> set Backend_paths" "caps \<in> set (matches (p_Pattern r) path)" using route_Some [OF r] by auto
  obtain s where s: "map_of (p_Fields r) k = Some s"
    using v by (cases "map_of (p_Fields r) k") (auto simp: Get_def requestData_def)
  then have c: "fs_Type s \<in> {TypeString, TypeNameString}"
    using captured_strings rs(1) k by (fastforce simp: list_all_iff)
  consider "p_Pattern r = rootPattern backendConfigPath" | "kind_pattern (p_Pattern r)"
    using backend_patterns rs(1) by (auto simp: list_all_iff)
  then show ?thesis
  proof cases
    case 1
    then show ?thesis using k by (simp add: rootPattern_def)
  next
    case 2
    from matches_kind [OF this rs(2)] obtain vs where vs: "caps = zip (captureNames (p_Pattern r)) vs"
      "length vs = length (captureNames (p_Pattern r))" "list_all generic_name vs" by blast
    then obtain x where x: "map_of caps k = Some x" using k by (metis map_of_zip_is_Some)
    then have "x \<in> set vs" using vs(1) map_of_SomeD set_zip_rightD by metis
    then have g: "generic_name x" using vs(3) by (simp add: list_all_iff)
    have "map_of (fd_Raw (requestData cv r caps data)) k = Some (JStr x)"
      using x by (simp add: requestData_def map_of_map map_add_def)
    then have "Get (requestData cv r caps data) k = Inr (FString x)"
      using s c g cv by (auto simp: Get_def GetOk_def getPrimitive_def requestData_def decodes_def)
    then have "v = x" using v by simp
    then show ?thesis using generic_name_no_slash [OF g] generic_name_nonempty [OF g] unfolding word_def by blast
  qed
qed

lemma routed_named:
  assumes "decodes cv" and "route Backend_paths path = Some (r, caps)" and "map_of (p_Operations r) opn = Some h"
    and "oh_Callback h (requestData cv r caps data) = Inr req"
  shows "named req"
proof -
  have "wordIds (set (captureNames (p_Pattern r))) (requestData cv r caps data)"
    using captured_field [OF assms(1,2)] unfolding wordIds_def by blast
  moreover have "namesRequest (set (captureNames (p_Pattern r))) (requestData cv r caps data) (oh_Callback h (requestData cv r caps data))"
    using names_backend route_Some [OF assms(2)] map_of_SomeD [OF assms(3)] by (fastforce simp: list_all_iff)
  ultimately show ?thesis using assms(4) unfolding namesRequest_def by blast
qed

lemma HandleRequest_run:
  assumes "decodes cv" and "HandleRequest E cv Backend_paths opn path data w = (x, w')"
  obtains "w' = w" "x \<noteq> Inl Diverge"
    | req y where "named req" "run_request E req w = (y, w')" "x = Inl Diverge \<Longrightarrow> y = Inl Diverge"
proof (cases "route Backend_paths path")
  case None
  then show ?thesis using assms(2) that(1) by (auto simp: HandleRequest_def)
next
  case (Some z)
  then obtain r caps where r: "route Backend_paths path = Some (r, caps)" by (cases z) simp
  let ?d = "requestData cv r caps data"
  show ?thesis
  proof (cases "map_of (p_Operations r) opn")
    case None
    then show ?thesis using assms(2) that(1) r by (auto simp: HandleRequest_def)
  next
    case (Some h)
    note h = this
    show ?thesis
    proof (cases "Validate ?d")
      case None
      from callback_reads [OF assms(1) r h this] obtain req where req: "oh_Callback h ?d = Inr req" by blast
      obtain y v where y: "run_request E req w = (y, v)" by fastforce
      have "w' = v" "x = Inl Diverge \<Longrightarrow> y = Inl Diverge"
        using assms(2) r h None req y by (auto simp: HandleRequest_def Let_def split: sum.splits option.splits)
      then show ?thesis using that(2) [of req y] routed_named [OF assms(1) r h req] y by blast
    next
      case (Some msg)
      then show ?thesis using assms(2) that(1) r h by (auto simp: HandleRequest_def Let_def)
    qed
  qed
qed

lemma HandleRequest_orderly:
  assumes "decodes cv" and "textKeys E" and "inOrder UNIV w"
    and "HandleRequest E cv Backend_paths opn path data w = (x, w')"
  shows "inOrder UNIV w' \<and> x \<noteq> Inl Diverge"
  using assms(1,4) by (rule HandleRequest_run) (use assms(3) orderly_run_request [OF assms(2) _ assms(3)] in blast)+

section \<open>The life of the plugin\<close>

text \<open>
  Requests come in by their path; the periodic function and the revocation of a lease are requests
  of the SDK, whose names are those of earlier requests. The plugin may be restarted at any time
  between them. Each step may meet its own environment.
\<close>

inductive served :: "world \<Rightarrow> world \<Rightarrow> bool" where
  served_request: "decodes cv \<Longrightarrow> textKeys E \<Longrightarrow> HandleRequest E cv Backend_paths opn path data w = (x, w') \<Longrightarrow> served w w'"
| served_internal: "textKeys E \<Longrightarrow> named r \<Longrightarrow> run_request E r w = (x, w') \<Longrightarrow> served w w'"
| served_initialize: "initialize E w = (x, w') \<Longrightarrow> served w (w'\<lparr>w_tx := None\<rparr>)"
| served_lookup: "no_slash (as_Operator srv) \<Longrightarrow> accountLookupRequest E srv msg w = (x, w') \<Longrightarrow> served w (w'\<lparr>w_tx := None\<rparr>)"
| served_closed: "onConnectionClosed E i w = (x, w') \<Longrightarrow> served w (w'\<lparr>w_tx := None\<rparr>)"
| served_clean: "clean w = (x, w') \<Longrightarrow> served w (w'\<lparr>w_tx := None\<rparr>)"
| served_restart: "served w (restarted w)"

lemma served_inOrder: "served w w' \<Longrightarrow> inOrder UNIV w \<Longrightarrow> inOrder UNIV w'"
proof (induction rule: served.induct)
  case (served_request cv E opn path data w x w')
  then show ?case using HandleRequest_orderly by blast
next
  case (served_internal E r w x w')
  then show ?case using orderly_run_request by blast
next
  case (served_initialize E w x w')
  then show ?case using orderlyD [OF orderly_initialize] inOrder_no_tx by blast
next
  case (served_lookup srv E msg w x w')
  then show ?case using orderlyD [OF orderly_lookupRequest] inOrder_no_tx by blast
next
  case (served_closed E i w x w')
  then show ?case using orderlyD [OF orderly_events(1)] inOrder_no_tx by blast
next
  case (served_clean w x w')
  then show ?case using orderlyD [OF orderly_events(2)] inOrder_no_tx by blast
next
  case (served_restart w)
  have "inOrder UNIV (restarted w) = inOrder UNIV (w\<lparr>w_tx := None\<rparr>)"
    by (simp add: inOrder_def stored_def restarted_def)
  then show ?case using served_restart inOrder_no_tx by blast
qed

lemma served_tidy: "served\<^sup>*\<^sup>* empty_world w \<Longrightarrow> inOrder UNIV w"
proof (induction rule: rtranclp_induct)
  case base
  show ?case by (simp add: inOrder_def stored_def empty_world_def)
next
  case (step v w)
  then show ?case by (blast intro: served_inOrder)
qed

text \<open>So the storage is \<open>tidy\<close>, as the properties of deletions, issued JWTs and pruning ask for.\<close>

lemma served_view_tidy: "served\<^sup>*\<^sup>* empty_world w \<Longrightarrow> tidy s w"
  using served_tidy [of w] view_stored [of s w] by (simp add: tidy_def inOrder_def)

section \<open>Properties\<close>

text \<open>
  C5. Every request ends. In whatever state the plugin has come to, a request to any path, with any
  operation and body, is answered or refused: no loop over a listing goes on for ever, whatever its
  body writes and deletes, over transactions of the backend and over emulated ones, and with a storage
  that fails where it likes. Nor do the loops of the periodic function and of the initialisation.
\<close>

theorem every_request_ends:
  assumes "served\<^sup>*\<^sup>* empty_world w" and "decodes cv" and "textKeys E"
  shows "fst (HandleRequest E cv Backend_paths opn path data w) \<noteq> Inl Diverge
    \<and> fst (run_request E (ServerRequest Periodic) w) \<noteq> Inl Diverge \<and> fst (initialize E w) \<noteq> Inl Diverge"
proof (intro conjI)
  note tidy = served_tidy [OF assms(1)]
  show "fst (HandleRequest E cv Backend_paths opn path data w) \<noteq> Inl Diverge"
    using HandleRequest_orderly [OF assms(2,3) tidy prod.collapse [symmetric]] by blast
  show "fst (run_request E (ServerRequest Periodic) w) \<noteq> Inl Diverge"
    using orderly_run_request [OF assms(3) _ tidy prod.collapse [symmetric]] by (simp add: named_def)
  show "fst (initialize E w) \<noteq> Inl Diverge"
    using orderly_initialize tidy by (simp add: orderly_def)
qed

definition base32_env :: env where
  "base32_env = sample_env\<lparr>e_PublicKey := (\<lambda>kp. Some (''P'' @ filter (\<lambda>c. c \<noteq> CHR ''/'') kp))\<rparr>"

lemma base32_textKeys: "textKeys base32_env"
  by (simp add: textKeys_def base32_env_def word_def del: word_simps)

definition plain_operator :: request where
  "plain_operator = OperatorRequest (OperatorWrite (OperatorId ''op'') \<lparr>of_create_system_account = None,
     of_system_account_name = Some ''a/b'', of_default_signing_key = None, of_claims = None\<rparr>)"

lemma plain_operator_served: "served\<^sup>*\<^sup>* empty_world (snd (run_request base32_env plain_operator empty_world))"
proof -
  have "named plain_operator" by (simp add: plain_operator_def named_def word_def del: word_simps)
  from served_internal [OF base32_textKeys this prod.collapse [symmetric]] show ?thesis by blast
qed

lemma every_request_ends_witness:
  "fst (HandleRequest base32_env sample_convert Backend_paths DeleteOperation ''operators/op'' []
     (snd (run_request base32_env plain_operator empty_world))) \<noteq> Inl Diverge"
  using every_request_ends [OF plain_operator_served sample_decodes base32_textKeys] by (rule conjunct1)

text \<open>
  C6. No key is a prefix of a listing. Every key the plugin stores ends in a name below its kind, and
  below its operator and account where it belongs to one, also if a system account was given a name
  with a slash or an empty one; so no listing of the backend shows an empty name, which would send its
  paging back to the start.
\<close>

theorem stored_keys_tidy:
  assumes "served\<^sup>*\<^sup>* empty_world w" and "store_get (w_disk w) k \<noteq> None" and "no_slash (ai_op i)"
  shows "tidyKey k \<and> k \<notin> {operatorsPathPrefix, operator_accountsConfigPrefix (accountId_operatorId i),
    operator_accountsJwtPrefix (accountId_operatorId i), operator_signingKeyPrefix (accountId_operatorId i),
    account_signingKeyPrefix i, account_importPrefix i, account_revocationPrefix i, account_userConfigPrefix i,
    account_ephemeralUserConfigPrefix i}"
proof -
  have "k \<in> stored w" using assms(2) unfolding store_get_key by (simp add: stored_def)
  then have k: "tidyKey k" using served_tidy [OF assms(1)] by (simp add: inOrder_def)
  then show ?thesis using assms(3) by (auto simp: tidy_simps)
qed

lemma stored_keys_tidy_witness:
  "tidyKey ''accounts/op/a/b'' \<and> ''accounts/op/a/b'' \<notin> {operatorsPathPrefix, ''accounts/op/''}"
proof -
  have k: "store_get (w_disk (snd (run_request base32_env plain_operator empty_world))) ''accounts/op/a/b'' \<noteq> None"
    by code_simp
  have "operator_accountsConfigPrefix (accountId_operatorId (AccountId ''op'' ''acc'')) = ''accounts/op/''" by code_simp
  moreover have "no_slash (ai_op (AccountId ''op'' ''acc''))" by simp
  ultimately show ?thesis using stored_keys_tidy [OF plain_operator_served k, of "AccountId ''op'' ''acc''"] by simp
qed

end
