(* ===== verification/OperatorJwts.thy ===== *)
theory OperatorJwts
  imports AccountClaims
begin

text \<open>
  What the JWT of an operator says: who signs it, which system account it names and which signing
  keys it lists.
\<close>

section \<open>The signing keys of an operator\<close>

text \<open>The public keys a JWT can list: those of the stored signing keys.\<close>

definition operator_publics :: "env \<Rightarrow> sref \<Rightarrow> world \<Rightarrow> operatorId \<Rightarrow> string set" where
  "operator_publics E s w i = {pub. pub \<noteq> [] \<and> (\<exists>n nk. no_slash n \<and>
     nkeyAt s w (operatorSigningKey_nkeyPath (operatorId_signingKeyId i n)) = Some nk \<and> e_PublicKey E (nk_Seed nk) = Some pub)}"

lemma operatorSigningKey_path: "operatorSigningKey_nkeyPath (operatorId_signingKeyId i n) = operator_signingKeyPrefix i @ n"
  by (simp add: path_defs)

lemma operatorKey_child:
  assumes "tidy s w" and "nkeyAt s w (operatorSigningKey_nkeyPath (operatorId_signingKeyId i n)) \<noteq> None"
  shows "n \<in> set (children s w (operator_signingKeyPrefix i)) \<longleftrightarrow> no_slash n"
proof -
  have "view s w (operator_signingKeyPrefix i @ n) \<noteq> None"
    using assms(2) by (cases "view s w (operator_signingKeyPrefix i @ n)") (simp_all add: nkeyAt_def operatorSigningKey_path)
  moreover have "\<And>x. \<not> tidyKey (operator_signingKeyPrefix i @ x @ ''/'')"
    by (auto simp: tidyKey_def path_kind_def path_op_def path_defs)
  ultimately show ?thesis
    using child_plain [OF assms(1)] children_key by metis
qed

definition addPublic :: "env \<Rightarrow> nkeyEntry \<Rightarrow> string list \<Rightarrow> string list m" where
  "addPublic E nk keys = bindM (publicKey E nk) (\<lambda>pub. returnM (stringListAdd pub keys))"

lemma readPublics_Inr:
  assumes "foldM (\<lambda>n a. bindM (Nkey E s (operatorSigningKey_nkeyPath (operatorId_signingKeyId i n))) (\<lambda>e. case e of
      None \<Rightarrow> returnM a | Some x \<Rightarrow> addPublic E x a)) ns a w = (Inr b, w')"
    and "distinct a"
  shows "w' = w \<and> distinct b \<and> set b = set a \<union> {pub. pub \<noteq> [] \<and> (\<exists>n nk. n \<in> set ns \<and>
     nkeyAt s w (operatorSigningKey_nkeyPath (operatorId_signingKeyId i n)) = Some nk \<and> e_PublicKey E (nk_Seed nk) = Some pub)}"
  using assms
proof (induction ns arbitrary: a w)
  case Nil
  then show ?case by (simp add: returnM_apply)
next
  case (Cons n ns)
  let ?key = "\<lambda>n. nkeyAt s w (operatorSigningKey_nkeyPath (operatorId_signingKeyId i n))"
  let ?new = "\<lambda>n. {pub. pub \<noteq> [] \<and> (\<exists>nk. ?key n = Some nk \<and> e_PublicKey E (nk_Seed nk) = Some pub)}"
  from Cons.prems obtain c v where
    step: "bindM (Nkey E s (operatorSigningKey_nkeyPath (operatorId_signingKeyId i n))) (\<lambda>e. case e of
      None \<Rightarrow> returnM a | Some x \<Rightarrow> addPublic E x a) w = (Inr c, v)"
    and rest: "foldM (\<lambda>n a. bindM (Nkey E s (operatorSigningKey_nkeyPath (operatorId_signingKeyId i n))) (\<lambda>e. case e of
      None \<Rightarrow> returnM a | Some x \<Rightarrow> addPublic E x a)) ns c v = (Inr b, w')"
    by (auto elim!: bindM_InrE)
  have "v = w \<and> distinct c \<and> set c = set a \<union> ?new n"
    using step Cons.prems(2)
    by (auto elim!: bindM_InrE dest!: reader_Inr(1)
        simp: addPublic_def publicKey_Inr stringListAdd_def returnM_apply split: option.splits if_splits)
  then show ?case using Cons.IH [OF rest] by auto
qed

lemma for_OperatorSigningKeys_Inr:
  assumes "storage_ok E" and "plain E s w" and "tidy s w"
    and run: "for_OperatorSigningKeys E s i (\<lambda>n. addPublic E) [] w = (Inr keys, w')"
  shows "w' = w \<and> distinct keys \<and> set keys = operator_publics E s w i"
proof -
  note none = tidy_prefixes(4) [OF assms(3), of i]
  have "foldM (\<lambda>n a. bindM (Nkey E s (operatorSigningKey_nkeyPath (operatorId_signingKeyId i n))) (\<lambda>e. case e of
      None \<Rightarrow> returnM a | Some x \<Rightarrow> addPublic E x a))
      (children s w (operator_signingKeyPrefix i)) [] w = (Inr keys, w')"
    using run unfolding for_OperatorSigningKeys_def
    using for_entries_read_only [OF assms(1,2) none, of "\<lambda>n. Nkey E s (operatorSigningKey_nkeyPath (operatorId_signingKeyId i n))"
        "\<lambda>n. addPublic E" "[]"]
    by (simp add: preserves_readers addPublic_def preserves_rules)
  moreover have "(\<exists>nk. n \<in> set (children s w (operator_signingKeyPrefix i)) \<and>
      nkeyAt s w (operatorSigningKey_nkeyPath (operatorId_signingKeyId i n)) = Some nk \<and> P nk) \<longleftrightarrow>
    (\<exists>nk. no_slash n \<and> nkeyAt s w (operatorSigningKey_nkeyPath (operatorId_signingKeyId i n)) = Some nk \<and> P nk)" for n P
    using operatorKey_child [OF assms(3), of i n] by fastforce
  ultimately show ?thesis
    unfolding operator_publics_def by (simp add: readPublics_Inr)
qed

section \<open>The claims of an operator\<close>

lemma operatorClaims_Inr:
  "operatorClaims E op sub w = (Inr c, w') \<Longrightarrow> w' = w \<and> oc_Subject c = sub"
  unfolding operatorClaims_def NewOperatorClaims_def
  by (auto elim!: bindM_InrE simp: returnM_apply innerClaims_def liftOption_def throwM_apply split: option.splits)

definition system_key :: "sref \<Rightarrow> world \<Rightarrow> operatorId \<Rightarrow> string \<Rightarrow> nkeyEntry option" where
  "system_key s w i n = (if n = [] then None else nkeyAt s w (account_nkeyPath (operatorId_accountId i n)))"

lemma enrichOperatorClaims_Inr:
  assumes "storage_ok E" and "plain E s w" and "tidy s w"
    and run: "enrichOperatorClaims E s i sys claims w = (Inr (claims', ws), w')"
  shows "w' = w \<and> oc_Subject claims' = oc_Subject claims \<and> oc_Name claims' = oi_op i
    \<and> oc_Expires claims' = 0 \<and> oc_NotBefore claims' = 0
    \<and> (case system_key s w i sys of None \<Rightarrow> jo_SystemAccount (oc_Operator claims') = jo_SystemAccount (oc_Operator claims)
        | Some nk \<Rightarrow> e_PublicKey E (nk_Seed nk) = Some (jo_SystemAccount (oc_Operator claims')))
    \<and> (if operator_publics E s w i = {} then jo_SigningKeys (oc_Operator claims') = jo_SigningKeys (oc_Operator claims)
       else \<exists>keys. jo_SigningKeys (oc_Operator claims') = Some keys \<and> distinct keys \<and> set keys = operator_publics E s w i)"
proof -
  let ?c = "claims\<lparr>oc_Name := oi_op i, oc_Expires := 0, oc_NotBefore := 0\<rparr>"
  from run obtain c1 ws1 keys v1 v2 where
    sys: "(if sys = [] then returnM (?c, [])
            else bindM (Nkey E s (account_nkeyPath (operatorId_accountId i sys))) (\<lambda>n. case n of
              Some nk \<Rightarrow> bindM (publicKey E nk) (\<lambda>sub.
                returnM (?c\<lparr>oc_Operator := (oc_Operator ?c)\<lparr>jo_SystemAccount := sub\<rparr>\<rparr>, []))
            | None \<Rightarrow> returnM (?c, [''system account '' @ quoted sys
                @ '' does not exist, so it was not added to the claims'']))) w = (Inr (c1, ws1), v1)"
    and keys: "for_OperatorSigningKeys E s i (\<lambda>n. addPublic E) [] v1 = (Inr keys, v2)"
    and out: "w' = v2" "claims' = (if keys \<noteq> [] then c1\<lparr>oc_Operator := (oc_Operator c1)\<lparr>jo_SigningKeys := Some keys\<rparr>\<rparr> else c1)"
    unfolding enrichOperatorClaims_def Let_def addPublic_def [symmetric]
    by (auto elim!: bindM_InrE simp: returnM_apply go_copy_def split: option.splits)
  have c1: "v1 = w \<and> oc_Subject c1 = oc_Subject claims \<and> oc_Name c1 = oi_op i \<and> oc_Expires c1 = 0 \<and> oc_NotBefore c1 = 0
    \<and> jo_SigningKeys (oc_Operator c1) = jo_SigningKeys (oc_Operator claims)
    \<and> (case system_key s w i sys of None \<Rightarrow> jo_SystemAccount (oc_Operator c1) = jo_SystemAccount (oc_Operator claims)
        | Some nk \<Rightarrow> e_PublicKey E (nk_Seed nk) = Some (jo_SystemAccount (oc_Operator c1)))"
    using sys by (auto elim!: bindM_InrE dest!: reader_Inr(1) simp: system_key_def publicKey_Inr returnM_apply split: option.splits if_splits)
  then have v1: "v1 = w" by (rule conjunct1)
  from for_OperatorSigningKeys_Inr [OF assms(1-3) keys [unfolded v1]]
  have k: "v2 = w" "distinct keys" "set keys = operator_publics E s w i" by simp_all
  then have "operator_publics E s w i = {} \<longleftrightarrow> keys = []" by auto
  with c1 k show ?thesis unfolding out by (auto split: option.splits)
qed

text \<open>
  C10. What the operator's JWT says. When \<^verbatim>\<open>issueAndSaveOperatorJWT\<close> succeeds it has stored, at the
  path of the operator's JWT and nowhere else, a valid JWT of that name that never expires, issued
  and signed by the operator's identity key. It names the stored system account, if there is one, in
  place of that of the custom claims. If the storage holds signing keys of the operator, the JWT
  lists exactly their public keys, each once, and those of the custom claims are dropped; only
  without stored signing keys are those of the custom claims kept.
\<close>

theorem operator_jwt_as_configured:
  assumes "storage_ok E" and "plain E s w" and "tidy s w"
    and "issueAndSaveOperatorJWT E s i w = (Inr ws, w')"
  shows "\<exists>op nk claims custom token. operatorAt s w i = Some op \<and> nkeyAt s w (operator_nkeyPath i) = Some nk
    \<and> w' = written s (ActPut (operator_jwtPath i) (EJwt (NewJwt token []))) w
    \<and> e_EncodeOperator E (nk_Seed nk) claims = Some token \<and> snd (e_ValidateOperator E claims) = []
    \<and> e_PublicKey E (nk_Seed nk) = Some (oc_Subject claims) \<and> oc_Name claims = oi_op i
    \<and> oc_Expires claims = 0 \<and> oc_NotBefore claims = 0
    \<and> operatorClaims E op (oc_Subject claims) w = (Inr custom, w)
    \<and> (case system_key s w i (op_SysAccountName op) of
         None \<Rightarrow> jo_SystemAccount (oc_Operator claims) = jo_SystemAccount (oc_Operator custom)
       | Some k \<Rightarrow> e_PublicKey E (nk_Seed k) = Some (jo_SystemAccount (oc_Operator claims)))
    \<and> (if operator_publics E s w i = {} then jo_SigningKeys (oc_Operator claims) = jo_SigningKeys (oc_Operator custom)
       else \<exists>keys. jo_SigningKeys (oc_Operator claims) = Some keys \<and> distinct keys \<and> set keys = operator_publics E s w i)"
proof -
  from assms(4) obtain nk op sub custom claims ws1 v1 v2 where
    nk: "nkeyAt s w (operator_nkeyPath i) = Some nk" and op: "operatorAt s w i = Some op"
    and sub: "e_PublicKey E (nk_Seed nk) = Some sub"
    and custom: "operatorClaims E op sub w = (Inr custom, v1)"
    and enrich: "enrichOperatorClaims E s i (op_SysAccountName op) custom v1 = (Inr (claims, ws1), v2)"
    and enc: "jr_errors (encodeOperatorJwt E (nk_Seed nk) claims) = []"
    and w': "w' = written s (ActPut (operator_jwtPath i) (EJwt (NewJwt (jr_jwt (encodeOperatorJwt E (nk_Seed nk) claims))
        (jr_issuer (encodeOperatorJwt E (nk_Seed nk) claims))))) v2"
    unfolding issueAndSaveOperatorJWT_def Let_def
    by (auto elim!: bindM_InrE thenM_InrE dest!: reader_Inr(1,3) storeInStorage_Inr
        simp: keyPair_Inr PublicKey_Inr wrapErr_Inr throwM_apply returnM_apply split: option.splits if_splits)
  have v1: "v1 = w" "oc_Subject custom = sub" using operatorClaims_Inr [OF custom] by simp_all
  note en = enrichOperatorClaims_Inr [OF assms(1-3) enrich [unfolded v1]]
  have v2: "v2 = w" and subject: "oc_Subject claims = sub" using en v1(2) by blast+
  obtain token where token: "e_EncodeOperator E (nk_Seed nk) claims = Some token" "snd (e_ValidateOperator E claims) = []"
      "w' = written s (ActPut (operator_jwtPath i) (EJwt (NewJwt token []))) w"
    using encodeJwt_ok [OF enc [unfolded encodeOperatorJwt_def]] w' v2 by (auto simp: encodeOperatorJwt_def)
  show ?thesis
    using en nk op sub custom token subject v1(1)
    by (intro exI [of _ op] exI [of _ nk] exI [of _ claims] exI [of _ custom] exI [of _ token]) simp
qed

text \<open>The operator of the sample, with a signing key among its custom claims.\<close>

definition custom_world :: world where
  "custom_world = sample_world\<lparr>w_disk := store_put sample_disk ''operators/op''
     (EOperator (newOperatorEntry\<lparr>op_SysAccountName := ''acc'', op_RawClaims := Some (JObj [])\<rparr>))\<rparr>"

lemma operator_jwt_as_configured_witness:
  "\<exists>w' claims keys. e_EncodeOperator sample_env ''O'' claims = Some ''O.op''
     \<and> issueAndSaveOperatorJWT sample_env Base (OperatorId ''op'') custom_world = (Inr [], w')
     \<and> store_get (w_disk w') ''operator-jwts/op'' = Some (EJwt (NewJwt ''O.op'' []))
     \<and> jo_SystemAccount (oc_Operator claims) = ''PA''
     \<and> jo_SigningKeys (oc_Operator claims) = Some keys \<and> set keys = {''POk''}"
proof -
  let ?i = "OperatorId ''op''"
  have "case issueAndSaveOperatorJWT sample_env Base ?i custom_world of (Inr ws, w') \<Rightarrow> ws = [] | _ \<Rightarrow> False"
    by code_simp
  then obtain w' where r: "issueAndSaveOperatorJWT sample_env Base ?i custom_world = (Inr [], w')"
    by (auto split: prod.splits sum.splits)
  have plain: "plain sample_env Base custom_world" by (simp add: plain_def sample_env_def)
  have "tidyKey ''operators/op''" by code_simp
  then have tidy: "tidy Base custom_world"
    using sample_tidy [of Base] by (simp add: tidy_def view_Base custom_world_def sample_world_def store_get_put)
  have opr: "map_option op_SysAccountName (operatorAt Base custom_world ?i) = Some ''acc''"
    and nk: "nkeyAt Base custom_world (operator_nkeyPath ?i) = Some (nkeyOfSeed ''O'')"
    and sys: "system_key Base custom_world ?i ''acc'' = Some (nkeyOfSeed ''A'')" by code_simp+
  have "store_get sample_disk (''operator-signing-keys/op/'' @ n) = (if n = ''sk'' then Some (ENkey (nkeyOfSeed ''Ok'')) else None)" for n
    by (simp add: store_get_def sample_disk_def)
  then have "nkeyAt Base custom_world (operatorSigningKey_nkeyPath (operatorId_signingKeyId ?i n))
      = (if n = ''sk'' then Some (nkeyOfSeed ''Ok'') else None)" for n
    by (simp add: nkeyAt_def view_Base custom_world_def sample_world_def store_get_put path_defs)
  then have publics: "operator_publics sample_env Base custom_world ?i = {''POk''}"
    by (auto simp: operator_publics_def sample_env_def nkeyOfSeed_def split: if_splits)
  from operator_jwt_as_configured [OF sample_env_ok(1) plain tidy r]
  obtain op nk token and claims custom :: operator_claims where op: "operatorAt Base custom_world ?i = Some op"
    and key: "nkeyAt Base custom_world (operator_nkeyPath ?i) = Some nk"
    and w': "w' = written Base (ActPut (operator_jwtPath ?i) (EJwt (NewJwt token []))) custom_world"
    and token: "e_EncodeOperator sample_env (nk_Seed nk) claims = Some token" "oc_Name claims = oi_op ?i"
    and account: "case system_key Base custom_world ?i (op_SysAccountName op) of
         None \<Rightarrow> jo_SystemAccount (oc_Operator claims) = jo_SystemAccount (oc_Operator custom)
       | Some k \<Rightarrow> e_PublicKey sample_env (nk_Seed k) = Some (jo_SystemAccount (oc_Operator claims))"
    and keys: "if operator_publics sample_env Base custom_world ?i = {}
       then jo_SigningKeys (oc_Operator claims) = jo_SigningKeys (oc_Operator custom)
       else \<exists>keys. jo_SigningKeys (oc_Operator claims) = Some keys \<and> distinct keys
         \<and> set keys = operator_publics sample_env Base custom_world ?i"
    by (elim exE conjE) (rule that, assumption+)
  have "op_SysAccountName op = ''acc''" and "nk = nkeyOfSeed ''O''" using op opr key nk by simp_all
  have t: "e_EncodeOperator sample_env ''O'' claims = Some ''O.op''" "token = ''O.op''"
    using token \<open>nk = _\<close> by (simp_all add: sample_env_def nkeyOfSeed_def)
  have "store_get (w_disk w') ''operator-jwts/op'' = Some (EJwt (NewJwt ''O.op'' []))"
    by (simp add: w' t written_def pending_def store_get_put path_defs)
  moreover have "jo_SystemAccount (oc_Operator claims) = ''PA''"
    using account sys \<open>op_SysAccountName op = _\<close> by (simp add: sample_env_def nkeyOfSeed_def)
  moreover obtain keys where "jo_SigningKeys (oc_Operator claims) = Some keys" "set keys = {''POk''}"
    using keys publics by auto
  ultimately show ?thesis using r t(1) by (intro exI conjI)
qed

end
