(* ===== verification/OperatorDeletion.thy ===== *)
theory OperatorDeletion
  imports AccountClaims
begin

text \<open>
  Deleting an operator deletes its entries, its account server and its accounts with everything that
  hangs on them, and nothing else; its signing keys stay.
\<close>

section \<open>Deleting several accounts\<close>

lemma last_slash:
  assumes "no_slash u" and "no_slash v" and "x @ ''/'' @ u = y @ ''/'' @ v"
  shows "x = y"
proof -
  have cut: "takeWhile (\<lambda>c. c \<noteq> CHR ''/'') (rev (z @ ''/'' @ t)) = rev t" if "no_slash t" for z t
    using that by (simp add: takeWhile_tail)
  have "rev u = rev v"
    using cut [OF assms(1), of x] cut [OF assms(2), of y] unfolding assms(3) by simp
  then show ?thesis using assms(3) by simp
qed

lemma account_part_users:
  assumes "no_slash u" and "account_part s w (operatorId_accountId i n) (user_configPath (accountId_userId (operatorId_accountId i m) u))"
  shows "n = m"
  using assms(2) last_slash [OF assms(1)]
  by (auto simp: account_part_def below_def user_part_def path_defs)

lemma account_part_erased:
  assumes "erases s (account_part s w (operatorId_accountId i n)) w w'" and "m \<noteq> n"
  shows "account_part s w' (operatorId_accountId i m) = account_part s w (operatorId_accountId i m)"
proof -
  have "view s w' (user_configPath (accountId_userId (operatorId_accountId i m) u)) =
      view s w (user_configPath (accountId_userId (operatorId_accountId i m) u))" if "no_slash u" for u
    using account_part_users [OF that, of s w i n m] assms(2) erasesD [OF assms(1)] by auto
  then have "user_part s w' (operatorId_accountId i m) = user_part s w (operatorId_accountId i m)"
    by (intro ext) (auto simp: user_part_def)
  then show ?thesis by (intro ext) (simp add: account_part_def)
qed

lemma account_part_config:
  "account_part s w (operatorId_accountId i n) (operator_accountsConfigPrefix i @ r) \<longleftrightarrow> r = n"
  by (auto simp: account_part_def below_def user_part_def path_defs)

lemma foldM_deleteAccount:
  assumes "storage_ok E" and "plain E s w" and "tidy s w" and "distinct ns"
  shows "\<exists>w'. foldM (\<lambda>n _. deleteAccount E s (operatorId_accountId i n)) ns () w = (Inr (), w')
    \<and> plain E s w' \<and> erases s (\<lambda>k. \<exists>n \<in> set ns. account_part s w (operatorId_accountId i n) k) w w'"
  using assms(2-)
proof (induction ns arbitrary: w)
  case (Cons n ns)
  obtain v where v: "deleteAccount E s (operatorId_accountId i n) w = (Inr (), v)" "plain E s v"
    and e: "erases s (account_part s w (operatorId_accountId i n)) w v"
    using deleteAccount_erases [OF assms(1) Cons.prems(1,2)] by blast
  have "distinct ns" using Cons.prems(3) by simp
  then obtain w' where w': "foldM (\<lambda>n _. deleteAccount E s (operatorId_accountId i n)) ns () v = (Inr (), w')" "plain E s w'"
    and e': "erases s (\<lambda>k. \<exists>n \<in> set ns. account_part s v (operatorId_accountId i n) k) v w'"
    using Cons.IH [OF v(2) erases_tidy [OF e Cons.prems(2)]] by blast
  have "\<forall>m \<in> set ns. account_part s v (operatorId_accountId i m) = account_part s w (operatorId_accountId i m)"
    using account_part_erased [OF e] Cons.prems(3) by (metis distinct.simps(2))
  then have "erases s (\<lambda>k. \<exists>m \<in> set (n # ns). account_part s w (operatorId_accountId i m) k) w w'"
    using erases_trans [OF e e'] by (simp add: erases_def)
  then show ?case using v w' by (intro exI [of _ w']) simp
qed (simp add: returnM_apply erases_def)

lemma deleteAccount_stable:
  assumes "storage_ok E"
  shows "tail_stable s (operator_accountsConfigPrefix i) (\<lambda>w. plain E s w \<and> tidy s w) (\<lambda>n _. deleteAccount E s (operatorId_accountId i n))"
  unfolding tail_stable_def
proof (intro allI impI)
  fix x :: string and a :: unit and w r w'
  assume I: "plain E s w \<and> tidy s w" and d: "deleteAccount E s (operatorId_accountId i x) w = (r, w')"
  then have w': "plain E s w'" "erases s (account_part s w (operatorId_accountId i x)) w w'"
    using deleteAccount_erases [OF assms, of s w "operatorId_accountId i x"] by auto
  have "c \<in> set (children s w' (operator_accountsConfigPrefix i)) \<longleftrightarrow> c \<in> set (children s w (operator_accountsConfigPrefix i))"
    if "x < c" for c
    using that direct_child_le [of x] erasesD [OF w'(2)] unfolding children_child
    by (simp add: account_part_config) (metis leD)
  then show "(plain E s w' \<and> tidy s w') \<and> (\<forall>c. x < c \<longrightarrow> (c \<in> set (children s w' (operator_accountsConfigPrefix i))
      \<longleftrightarrow> c \<in> set (children s w (operator_accountsConfigPrefix i))))"
    using w' erases_tidy [OF w'(2)] I by simp
qed

lemma deleteAccounts_erases:
  assumes "storage_ok E" and "plain E s w" and "tidy s w" and "no_slash (oi_op i)"
  shows "\<exists>w'. for_listPaged E s (operator_accountsConfigPrefix i) (\<lambda>n _. deleteAccount E s (operatorId_accountId i n)) () w = (Inr (), w')
    \<and> plain E s w' \<and> erases s (\<lambda>k. \<exists>n \<in> set (children s w (operator_accountsConfigPrefix i)). account_part s w (operatorId_accountId i n) k) w w'"
proof -
  have "view s w (operator_accountsConfigPrefix i) = None"
    using assms(3) untidy_prefixes(4) [OF assms(4)] unfolding tidy_def by blast
  then have "for_listPaged E s (operator_accountsConfigPrefix i) (\<lambda>n _. deleteAccount E s (operatorId_accountId i n)) () w
      = foldM (\<lambda>n _. deleteAccount E s (operatorId_accountId i n)) (children s w (operator_accountsConfigPrefix i)) () w"
    using for_listPaged_all [OF assms(1) deleteAccount_stable [OF assms(1)]] assms(2,3) by simp
  then show ?thesis
    using foldM_deleteAccount [OF assms(1-3), of "children s w (operator_accountsConfigPrefix i)" i] children_sorted [of s w "operator_accountsConfigPrefix i"]
    by (simp add: strict_sorted_iff)
qed

section \<open>Deleting an operator\<close>

text \<open>
  The accounts the loop finds: the names listed below the operator, the system account apart if it was
  deleted before.
\<close>

definition deleted_account :: "entry store \<Rightarrow> operatorId \<Rightarrow> operatorEntry \<Rightarrow> string \<Rightarrow> bool" where
  "deleted_account d i op n \<longleftrightarrow> op_CreateSystemAccount op \<and> n = op_SysAccountName op
     \<or> (\<exists>r. store_get d (operator_accountsConfigPrefix i @ r) \<noteq> None \<and> direct_child r = n
          \<and> \<not> (op_CreateSystemAccount op \<and> r = op_SysAccountName op))"

definition operator_keys :: "operatorId \<Rightarrow> string set" where
  "operator_keys i = {operator_configPath i, operator_nkeyPath i, operator_jwtPath i, accountServer_configPath (operatorId_accountServerId i)}"

lemma operator_keys_no_account: "k \<in> operator_keys j \<Longrightarrow> \<not> account_part s w (operatorId_accountId i n) k"
  by (auto simp: operator_keys_def account_part_def below_def user_part_def path_defs)

lemma operator_keys_no_config: "operator_accountsConfigPrefix i @ r \<notin> operator_keys j"
  by (simp add: operator_keys_def path_defs)

lemma account_part_mono:
  "(\<And>k. view s w' k \<noteq> None \<Longrightarrow> view s w k \<noteq> None) \<Longrightarrow> account_part s w' a k \<Longrightarrow> account_part s w a k"
  unfolding account_part_def user_part_def by blast

text \<open>Erasing other keys than users' does not change what belongs to an account.\<close>

lemma account_part_other:
  assumes "erases s D w w'" and "\<And>u. no_slash u \<Longrightarrow> \<not> D (user_configPath (accountId_userId a u))"
  shows "account_part s w' a = account_part s w a"
proof -
  have "user_part s w' a = user_part s w a"
    using assms(2) erasesD [OF assms(1)] by (intro ext) (auto simp: user_part_def)
  then show ?thesis by (intro ext) (simp add: account_part_def)
qed

lemma operator_keys_no_user: "user_configPath u \<notin> operator_keys j"
  by (simp add: operator_keys_def path_defs)

definition delete_system_account :: "env \<Rightarrow> sref \<Rightarrow> operatorId \<Rightarrow> operatorEntry \<Rightarrow> unit m" where
  "delete_system_account E s i op = (if op_CreateSystemAccount op
     then deleteAccount E s (operatorId_accountId i (op_SysAccountName op)) else returnM ())"

lemma delete_system_account_erases:
  assumes "storage_ok E" and "plain E s w" and "tidy s w"
  shows "\<exists>w'. delete_system_account E s i op w = (Inr (), w') \<and> plain E s w'
    \<and> erases s (\<lambda>k. op_CreateSystemAccount op \<and> account_part s w (operatorId_accountId i (op_SysAccountName op)) k) w w'"
  using deleteAccount_erases [OF assms, of "operatorId_accountId i (op_SysAccountName op)"] assms(2)
  by (auto simp: delete_system_account_def returnM_apply erases_def)

lemma merge_deleted:
  assumes "\<And>n. del n \<longleftrightarrow> c \<and> n = m \<or> listed n" and "\<And>n. \<not> (c \<and> n = m) \<Longrightarrow> part' n = part n" and "\<And>n. part' n \<Longrightarrow> part n"
  shows "c \<and> part m \<or> (\<exists>n. listed n \<and> part' n) \<longleftrightarrow> (\<exists>n. del n \<and> part n)"
proof
  assume "\<exists>n. del n \<and> part n"
  then obtain n where n: "del n" "part n" by blast
  then show "c \<and> part m \<or> (\<exists>n. listed n \<and> part' n)"
    using assms(1,2) by (cases "c \<and> n = m") auto
qed (use assms(1,3) in auto)

text \<open>The state after the operator's keys and its system account are gone.\<close>

lemma deleted_accounts:
  assumes e: "erases s (\<lambda>k. k \<in> operator_keys i \<or>
      op_CreateSystemAccount op \<and> account_part s w (operatorId_accountId i (op_SysAccountName op)) k) w v"
    and e': "erases s (\<lambda>k. \<exists>n \<in> set (children s v (operator_accountsConfigPrefix i)). account_part s v (operatorId_accountId i n) k) v w'"
    and d: "\<And>k. view s w k = store_get d k"
  shows "view s w' k = (if k \<in> operator_keys i \<or> (\<exists>n. deleted_account d i op n \<and> account_part s w (operatorId_accountId i n) k)
    then None else store_get d k)"
proof -
  let ?A = "\<lambda>w n. account_part s w (operatorId_accountId i n)"
  let ?sys = "\<lambda>n. op_CreateSystemAccount op \<and> n = op_SysAccountName op"
  have same: "?A v n = ?A w n" if "\<not> ?sys n" for n
    using that account_part_users [of _ s w i "op_SysAccountName op" n] operator_keys_no_user
    by (intro account_part_other [OF e]) blast
  have less: "?A v n k \<Longrightarrow> ?A w n k" for n
    by (rule account_part_mono [of s v w]) (simp add: erasesD [OF e] split: if_splits)
  have listed: "n \<in> set (children s v (operator_accountsConfigPrefix i)) \<longleftrightarrow>
      (\<exists>r. store_get d (operator_accountsConfigPrefix i @ r) \<noteq> None \<and> direct_child r = n \<and> \<not> ?sys r)" for n
    by (auto simp: children_child erasesD [OF e] operator_keys_no_config account_part_config d)
  have "op_CreateSystemAccount op \<and> ?A w (op_SysAccountName op) k \<or>
      (\<exists>n. n \<in> set (children s v (operator_accountsConfigPrefix i)) \<and> ?A v n k) \<longleftrightarrow> (\<exists>n. deleted_account d i op n \<and> ?A w n k)"
    by (rule merge_deleted) (simp only: deleted_account_def listed, drule same, simp only:, rule less)
  then show ?thesis unfolding erasesD [OF e'] erasesD [OF e] d by auto
qed

text \<open>
  C8. Deleting an operator is complete up to its signing keys: when the storage does not fail, the
  request for an operator that exists succeeds, and afterwards its entry, key, JWT and account server
  and everything that belongs to one of its accounts, listed ones and the system account it manages,
  are gone; every other path reads as before. So the operator's signing keys are left behind, and an
  operator of the same name that is made later finds them.
\<close>

theorem operator_delete_complete:
  assumes E: "storage_ok E" "e_native E" and w: "w_tx w = None" "tidy Base w"
    and i: "no_slash (oi_op i)" and op: "operatorAt Base w i = Some op"
  shows "\<exists>w'. pathOperatorDelete E i w = (Inr None, w') \<and> w_tx w' = None
    \<and> (\<forall>k. store_get (w_disk w') k =
        (if k \<in> {operator_configPath i, operator_nkeyPath i, operator_jwtPath i, accountServer_configPath (operatorId_accountServerId i)}
          \<or> (\<exists>n. deleted_account (w_disk w) i op n \<and> account_part Base w (operatorId_accountId i n) k)
         then None else store_get (w_disk w) k))
    \<and> (\<forall>n. store_get (w_disk w') (operatorSigningKey_nkeyPath (operatorId_signingKeyId i n)) =
        store_get (w_disk w) (operatorSigningKey_nkeyPath (operatorId_signingKeyId i n)))"
proof -
  let ?w0 = "w\<lparr>w_tx := Some []\<rparr>"
  have v0: "view Req ?w0 k = store_get (w_disk w) k" for k by (simp add: view_tx [of _ "[]"])
  have p0: "plain E Req ?w0" "tidy Req ?w0" using E(2) w by (simp_all add: plain_def tidy_def v0 view_Base)
  have r0: "Operator E Req i ?w0 = (Inr (Some op), ?w0)"
    using op by (cases "store_get (w_disk w) (operator_configPath i)")
      (auto simp: Operator_def get_ok [OF E(1)] v0 operatorAt_def view_Base split: entry.splits)
  obtain w1 where 1: "sDelete E Req (operator_configPath i) ?w0 = (Inr (), w1)" "plain E Req w1"
    and e1: "erases Req (\<lambda>k. k = operator_configPath i) ?w0 w1" using sDelete_erases [OF E(1) p0(1)] by blast
  obtain w2 where 2: "delete_system_account E Req i op w1 = (Inr (), w2)" "plain E Req w2"
    and e2: "erases Req (\<lambda>k. op_CreateSystemAccount op \<and> account_part Req w1 (operatorId_accountId i (op_SysAccountName op)) k) w1 w2"
    using delete_system_account_erases [OF E(1) 1(2) erases_tidy [OF e1 p0(2)]] by blast
  obtain w3 where 3: "sDelete E Req (accountServer_configPath (operatorId_accountServerId i)) w2 = (Inr (), w3)" "plain E Req w3"
    and e3: "erases Req (\<lambda>k. k = accountServer_configPath (operatorId_accountServerId i)) w2 w3" using sDelete_erases [OF E(1) 2(2)] by blast
  obtain w4 where 4: "sDelete E Req (operator_nkeyPath i) w3 = (Inr (), w4)" "plain E Req w4"
    and e4: "erases Req (\<lambda>k. k = operator_nkeyPath i) w3 w4" using sDelete_erases [OF E(1) 3(2)] by blast
  obtain w5 where 5: "sDelete E Req (operator_jwtPath i) w4 = (Inr (), w5)" "plain E Req w5"
    and e5: "erases Req (\<lambda>k. k = operator_jwtPath i) w4 w5" using sDelete_erases [OF E(1) 4(2)] by blast
  have part: "account_part Req w1 a = account_part Base w a" for a
    using account_part_other [OF e1, of a] by (simp add: path_defs account_part_def user_part_def v0 view_Base fun_eq_iff)
  note all = erases_trans [OF erases_trans [OF erases_trans [OF erases_trans [OF e1 e2] e3] e4] e5]
  have e: "erases Req (\<lambda>k. k \<in> operator_keys i \<or>
      op_CreateSystemAccount op \<and> account_part Req ?w0 (operatorId_accountId i (op_SysAccountName op)) k) ?w0 w5"
    using all unfolding erases_def operator_keys_def
    by (simp add: part account_part_def user_part_def v0 view_Base disj_ac)
  obtain w6 where 6: "for_listPaged E Req (operator_accountsConfigPrefix i) (\<lambda>n _. deleteAccount E Req (operatorId_accountId i n)) () w5 = (Inr (), w6)"
    and e6: "erases Req (\<lambda>k. \<exists>n \<in> set (children Req w5 (operator_accountsConfigPrefix i)). account_part Req w5 (operatorId_accountId i n) k) w5 w6"
    using deleteAccounts_erases [OF E(1) 5(2) erases_tidy [OF e p0(2)] i] by blast
  have view: "view Req w6 k = (if k \<in> operator_keys i \<or> (\<exists>n. deleted_account (w_disk w) i op n \<and> account_part Base w (operatorId_accountId i n) k)
      then None else store_get (w_disk w) k)" for k
    using deleted_accounts [OF e e6 v0, of k] by (simp add: account_part_def user_part_def v0 view_Base)
  have "pathOperatorDelete E i w = (Inr None, (committed w6)\<lparr>w_tx := None\<rparr>)"
    using 1(1) 2(1) 3(1) 4(1) 5(1) 6
    by (simp add: pathOperatorDelete_def withTx_def handler_def StartTx_ok [OF E(1)] r0 delete_system_account_def [symmetric]
        EndTx_ok [OF E(1)] returnM_apply thenM_def bindM_apply)
  moreover have "w_tx (committed w6) = None" by (simp add: committed_def split: option.split)
  moreover have "store_get (w_disk (committed w6)) k = view Req w6 k" for k
    by (simp only: view_Base [symmetric] view_committed)
  moreover have "\<not> account_part Base w (operatorId_accountId i n) (operatorSigningKey_nkeyPath x)" for n x
    by (auto simp: account_part_def below_def user_part_def path_defs)
  ultimately show ?thesis
    by (intro exI [of _ "(committed w6)\<lparr>w_tx := None\<rparr>"]) (simp add: view operator_keys_def, simp add: path_defs)
qed

lemma operator_delete_complete_witness:
  "\<exists>w'. pathOperatorDelete sample_env (OperatorId ''op'') sample_world = (Inr None, w')
     \<and> store_get (w_disk w') ''operators/op'' = None \<and> store_get (w_disk w') ''users/op/acc/usr'' = None
     \<and> store_get (w_disk w') ''operator-signing-keys/op/sk'' \<noteq> None"
proof -
  let ?i = "OperatorId ''op''" and ?u = "accountId_userId (operatorId_accountId (OperatorId ''op'') ''acc'') ''usr''"
  have native: "e_native sample_env" and tx: "w_tx sample_world = None" and op: "no_slash (oi_op ?i)"
    by (simp_all add: sample_env_def sample_world_def empty_world_def)
  have "operatorAt Base sample_world ?i \<noteq> None" by code_simp
  then obtain e where e: "operatorAt Base sample_world ?i = Some e" by blast
  have "store_get (w_disk sample_world) (operator_accountsConfigPrefix ?i @ ''acc'') \<noteq> None" "direct_child ''acc'' = ''acc''"
    "op_SysAccountName (the (operatorAt Base sample_world ?i)) = ''SYS''" by code_simp+
  then have "deleted_account (w_disk sample_world) ?i e ''acc''"
    using e unfolding deleted_account_def by (intro disjI2 exI [of _ "''acc''"]) simp
  moreover have "account_part Base sample_world (operatorId_accountId ?i ''acc'') (user_configPath ?u)"
    unfolding account_part_def user_part_def by (intro disjI2 disjI1 exI [of _ "''usr''"]) simp
  moreover obtain w' where r: "pathOperatorDelete sample_env ?i sample_world = (Inr None, w')"
    and gone: "\<And>k. store_get (w_disk w') k =
        (if k \<in> {operator_configPath ?i, operator_nkeyPath ?i, operator_jwtPath ?i, accountServer_configPath (operatorId_accountServerId ?i)}
          \<or> (\<exists>n. deleted_account (w_disk sample_world) ?i e n \<and> account_part Base sample_world (operatorId_accountId ?i n) k)
         then None else store_get (w_disk sample_world) k)"
    and keys: "\<And>n. store_get (w_disk w') (operatorSigningKey_nkeyPath (operatorId_signingKeyId ?i n)) =
        store_get (w_disk sample_world) (operatorSigningKey_nkeyPath (operatorId_signingKeyId ?i n))"
    using operator_delete_complete [OF sample_env_ok(1) native tx sample_tidy op e] by blast
  ultimately have "store_get (w_disk w') (operator_configPath ?i) = None" "store_get (w_disk w') (user_configPath ?u) = None"
    by auto
  moreover have "store_get (w_disk sample_world) (operatorSigningKey_nkeyPath (operatorId_signingKeyId ?i ''sk'')) \<noteq> None" by code_simp
  ultimately show ?thesis using r keys [of "''sk''"] by (intro exI [of _ w']) (simp add: path_defs)
qed

end
