(* ===== verification/UserWrites.thy ===== *)
theory UserWrites
  imports AccountClaims
begin

text \<open>What a write of a user leaves in the storage, and what a read then shows.\<close>

section \<open>The steps of a write\<close>

lemma validateUserClaims_cases:
  "(\<exists>resp. validateUserClaims E c w = (Inr resp, w) \<and> (\<forall>v. claimsData c v = (Inr (case c of None \<Rightarrow> [] | Some r \<Rightarrow> [(''claims'', r)]), v)))
   \<or> (\<exists>e. validateUserClaims E c w = (Inl (Fail e), w))"
  by (cases c) (auto simp: validateUserClaims_def claimsData_def innerClaims_def liftOption_def Let_def bindM_apply returnM_apply throwM_apply
      split: option.splits)

lemma NewUserNKey_cases:
  "(\<exists>nk n. NewUserNKey E w = (Inr nk, w\<lparr>w_entropy := n\<rparr>) \<and> e_DecodeSeed E (nk_Seed nk) = Some PrefixUser)
   \<or> (\<exists>e v. NewUserNKey E w = (Inl (Fail e), v))"
  by (auto simp: NewUserNKey_def createSeed_def validateSeed_def nkeyOfSeed_def liftOption_def thenM_def bindM_apply returnM_apply throwM_apply
      split: option.splits)

lemma User_cases:
  "storage_ok E \<Longrightarrow> User E s i w = (Inr (userAt s w i), w) \<or> (\<exists>e. User E s i w = (Inl (Fail e), w))"
  by (auto simp: User_def userAt_def get_ok split: option.splits entry.splits)

definition user_written :: "userId \<Rightarrow> userFields \<Rightarrow> userEntry option \<Rightarrow> nkeyEntry \<Rightarrow> entry store \<Rightarrow> entry store" where
  "user_written i f old nk d = (let d = store_put d (user_configPath i) (EUser (setUserFields f (case old of None \<Rightarrow> NewUser | Some u \<Rightarrow> u)))
     in if old = None then store_put d (user_nkeyPath i) (ENkey nk) else d)"

lemma pathUserCreateUpdate_Inr:
  assumes E: "storage_ok E" and w: "w_tx w = None" and acc: "store_get (w_disk w) (account_configPath (userId_accountId i)) \<noteq> None"
    and run: "pathUserCreateUpdate E i f w = (Inr r, w')"
  obtains nk where "w_disk w' = user_written i f (userAt Base w i) nk (w_disk w)" and "w_tx w' = None"
    and "userAt Base w i = None \<Longrightarrow> e_DecodeSeed E (nk_Seed nk) = Some PrefixUser"
    and "\<And>v. claimsData (us_RawClaims (setUserFields f (case userAt Base w i of None \<Rightarrow> NewUser | Some u \<Rightarrow> u))) v
      = (Inr (case us_RawClaims (setUserFields f (case userAt Base w i of None \<Rightarrow> NewUser | Some u \<Rightarrow> u)) of
          None \<Rightarrow> [] | Some r \<Rightarrow> [(''claims'', r)]), v)"
proof -
  let ?w0 = "w\<lparr>w_tx := Some []\<rparr>"
  let ?u = "setUserFields f (case userAt Base w i of None \<Rightarrow> NewUser | Some u \<Rightarrow> u)"
  have exists: "accountExists E Req (userId_accountId i) ?w0 = (Inr True, ?w0)"
    using acc by (simp add: accountExists_def sGet_ok [OF E] view_tx [of _ "[]"] returnM_apply)
  have old: "userAt Req ?w0 i = userAt Base w i"
    by (simp add: userAt_def view_tx [of _ "[]"] view_Base)
  note steps = exists sGet_ok [OF E] storeInStorage_ok [OF E] StartTx_ok [OF E] EndTx_ok [OF E]
    Let_def bindM_apply thenM_def returnM_apply ignoreErr_def catchFail_def committed_def written_def pending_def
  consider (fails) e where "User E Req i ?w0 = (Inl (Fail e), ?w0)"
    | (rejected) e where "User E Req i ?w0 = (Inr (userAt Base w i), ?w0)" "validateUserClaims E (us_RawClaims ?u) ?w0 = (Inl (Fail e), ?w0)"
    | (go) resp where "User E Req i ?w0 = (Inr (userAt Base w i), ?w0)" "validateUserClaims E (us_RawClaims ?u) ?w0 = (Inr resp, ?w0)"
      "\<And>v. claimsData (us_RawClaims ?u) v = (Inr (case us_RawClaims ?u of None \<Rightarrow> [] | Some r \<Rightarrow> [(''claims'', r)]), v)"
    using User_cases [OF E, of Req i ?w0] validateUserClaims_cases [of E "us_RawClaims ?u" ?w0] unfolding old by blast
  then show thesis
  proof cases
    case fails
    then show thesis using run by (simp add: pathUserCreateUpdate_def withTx_def handler_def steps)
  next
    case rejected
    then show thesis using run by (simp add: pathUserCreateUpdate_def withTx_def handler_def steps)
  next
    case go
    let ?w1 = "written Req (ActPut (user_configPath i) (EUser ?u)) ?w0"
    show thesis
    proof (cases "userAt Base w i")
      case None
      consider (seed) nk n where "NewUserNKey E ?w1 = (Inr nk, ?w1\<lparr>w_entropy := n\<rparr>)" "e_DecodeSeed E (nk_Seed nk) = Some PrefixUser"
        | (none) e v where "NewUserNKey E ?w1 = (Inl (Fail e), v)"
        using NewUserNKey_cases [of E ?w1] by blast
      then show thesis
      proof cases
        case seed
        then show thesis using run go None
          by (intro that [of nk]) (auto simp: pathUserCreateUpdate_def withTx_def handler_def steps user_written_def apply_actions_def)
      next
        case none
        then show thesis using run go None by (simp add: pathUserCreateUpdate_def withTx_def handler_def steps)
      qed
    next
      case (Some u)
      then show thesis using run go
        by (intro that) (auto simp: pathUserCreateUpdate_def withTx_def handler_def steps user_written_def apply_actions_def)
    qed
  qed
qed

section \<open>Writing and reading\<close>

text \<open>What a response says of a user.\<close>

definition shows_user :: "(string \<times> json) list \<Rightarrow> userEntry \<Rightarrow> bool" where
  "shows_user data u \<longleftrightarrow> map_of data ''revoke_on_delete'' = (if us_RevokeOnDelete u then Some (JBool True) else None)
    \<and> map_of data ''creds_default_ttl'' = (if 0 < us_CredsDefaultTtl u then Some (JSeconds (us_CredsDefaultTtl u)) else None)
    \<and> map_of data ''creds_max_ttl'' = (if 0 < us_CredsMaxTtl u then Some (JSeconds (us_CredsMaxTtl u)) else None)
    \<and> map_of data ''default_signing_key'' = (if us_DefaultSigningKey u \<noteq> [] then Some (JStr (us_DefaultSigningKey u)) else None)
    \<and> map_of data ''claims'' = us_RawClaims u"

lemma pathUserRead_shows:
  assumes "User E Req i w = (Inr (Some u), w)"
    and "claimsData (us_RawClaims u) w = (Inr (case us_RawClaims u of None \<Rightarrow> [] | Some r \<Rightarrow> [(''claims'', r)]), w)"
  obtains data where "pathUserRead E i w = (Inr (Some (dataResponse data)), w)" and "shows_user data u"
  using assms by (cases "us_RawClaims u") (simp_all add: pathUserRead_def returnM_apply shows_user_def)

text \<open>
  C11. A user is read as it was written. When the storage does not fail and the account exists, a write
  of a user that returns a response, even the error response for claims that are not valid, has
  stored the user and, for a user that is new, a key pair of a user, and changed no other path: the
  key of a user that exists stays. A read afterwards shows each field the write gave and, for the
  others, what the user had before; a field that is zero, or negative, is not shown.
\<close>

theorem user_write_then_read:
  assumes "storage_ok E" and "w_tx w = None" and "store_get (w_disk w) (account_configPath (userId_accountId i)) \<noteq> None"
    and "pathUserCreateUpdate E i f w = (Inr r, w')"
  shows "\<exists>u nk data. u = (case userAt Base w i of None \<Rightarrow> NewUser | Some u \<Rightarrow> u)
    \<and> (\<forall>k. k \<noteq> user_configPath i \<longrightarrow> store_get (w_disk w') k =
         (if k = user_nkeyPath i \<and> userAt Base w i = None then Some (ENkey nk) else store_get (w_disk w) k))
    \<and> (userAt Base w i = None \<longrightarrow> e_DecodeSeed E (nk_Seed nk) = Some PrefixUser)
    \<and> pathUserRead E i w' = (Inr (Some (dataResponse data)), w')
    \<and> map_of data ''revoke_on_delete'' = (if given (uf_revoke_on_delete f) (us_RevokeOnDelete u) then Some (JBool True) else None)
    \<and> map_of data ''creds_default_ttl'' = (let ttl = given (map_option seconds (uf_creds_default_ttl f)) (us_CredsDefaultTtl u)
         in if 0 < ttl then Some (JSeconds ttl) else None)
    \<and> map_of data ''creds_max_ttl'' = (let ttl = given (map_option seconds (uf_creds_max_ttl f)) (us_CredsMaxTtl u)
         in if 0 < ttl then Some (JSeconds ttl) else None)
    \<and> map_of data ''default_signing_key'' = (let key = given (uf_default_signing_key f) (us_DefaultSigningKey u)
         in if key \<noteq> [] then Some (JStr key) else None)
    \<and> map_of data ''claims'' = given (rawField (uf_claims f)) (us_RawClaims u)"
proof -
  define u where "u = (case userAt Base w i of None \<Rightarrow> NewUser | Some u \<Rightarrow> u)"
  obtain nk where d: "w_disk w' = user_written i f (userAt Base w i) nk (w_disk w)" "w_tx w' = None"
    and nk: "userAt Base w i = None \<Longrightarrow> e_DecodeSeed E (nk_Seed nk) = Some PrefixUser"
    and claims: "\<And>v. claimsData (us_RawClaims (setUserFields f u)) v
      = (Inr (case us_RawClaims (setUserFields f u) of None \<Rightarrow> [] | Some r \<Rightarrow> [(''claims'', r)]), v)"
    using pathUserCreateUpdate_Inr [OF assms] unfolding u_def by metis
  have other: "user_nkeyPath i \<noteq> user_configPath i" by (simp add: path_defs)
  have frame: "store_get (w_disk w') k = (if k = user_configPath i then Some (EUser (setUserFields f u))
      else if k = user_nkeyPath i \<and> userAt Base w i = None then Some (ENkey nk) else store_get (w_disk w) k)" for k
    using other by (simp add: d user_written_def Let_def store_get_put u_def)
  have "User E Req i w' = (Inr (Some (setUserFields f u)), w')"
    by (simp add: User_def get_ok [OF assms(1)] view_no_tx [OF d(2)] frame)
  then obtain data where read: "pathUserRead E i w' = (Inr (Some (dataResponse data)), w')" "shows_user data (setUserFields f u)"
    using claims by (rule pathUserRead_shows)
  show ?thesis
    using read(2) by (intro exI [of _ u] exI [of _ nk] exI [of _ data])
       (simp add: read(1) frame nk Let_def, simp add: shows_user_def setUserFields_def u_def)
qed

lemma user_write_then_read_witness:
  "let i = UserId ''op'' ''acc'' ''usr'';
       f = \<lparr>uf_default_signing_key = None, uf_creds_default_ttl = Some 60, uf_creds_max_ttl = Some 0, uf_revoke_on_delete = None, uf_claims = None\<rparr>
   in \<exists>w' data. pathUserCreateUpdate sample_env i f sample_world = (Inr (Some emptyResponse), w')
     \<and> store_get (w_disk w') ''user-keys/op/acc/usr'' = store_get sample_disk ''user-keys/op/acc/usr''
     \<and> pathUserRead sample_env i w' = (Inr (Some (dataResponse data)), w')
     \<and> map_of data ''creds_default_ttl'' = Some (JSeconds (60 * Second)) \<and> map_of data ''creds_max_ttl'' = None"
proof -
  let ?i = "UserId ''op'' ''acc'' ''usr''"
  let ?f = "\<lparr>uf_default_signing_key = None, uf_creds_default_ttl = Some 60, uf_creds_max_ttl = Some 0, uf_revoke_on_delete = None, uf_claims = None\<rparr>"
  have "fst (pathUserCreateUpdate sample_env ?i ?f sample_world) = Inr (Some emptyResponse)" by code_simp
  then obtain w' where r: "pathUserCreateUpdate sample_env ?i ?f sample_world = (Inr (Some emptyResponse), w')"
    by (metis prod.collapse)
  have tx: "w_tx sample_world = None" by (simp add: sample_world_def empty_world_def)
  have acc: "store_get (w_disk sample_world) (account_configPath (userId_accountId ?i)) \<noteq> None" by code_simp
  have old: "userAt Base sample_world ?i = Some NewUser" by code_simp
  obtain data where read: "pathUserRead sample_env ?i w' = (Inr (Some (dataResponse data)), w')"
    and data: "map_of data ''creds_default_ttl'' = Some (JSeconds (60 * Second))" "map_of data ''creds_max_ttl'' = None"
    and frame: "\<forall>k. k \<noteq> user_configPath ?i \<longrightarrow> store_get (w_disk w') k = store_get (w_disk sample_world) k"
    using user_write_then_read [OF sample_env_ok(1) tx acc r]
    by (elim exE conjE) (simp add: old given_def seconds_def Second_def NewUser_def Let_def)
  have "store_get (w_disk w') ''user-keys/op/acc/usr'' = store_get sample_disk ''user-keys/op/acc/usr''"
    using frame by (simp add: path_defs sample_world_def)
  then show ?thesis using r read data unfolding Let_def by (intro exI conjI)
qed

end
