(* ===== verification/Spec2Isabelle.thy ===== *)
theory Spec2Isabelle
  imports CredsClaims UpkeepClaims ServerClaims FieldClaims Endings OperatorJwts OperatorDeletion UserWrites
begin

text \<open>
  The OpenBao secrets engine for NATS: a model of the plugin and the theorems about it.

  The program. The plugin keeps NATS operators, accounts and users, their key pairs (nkeys) and
  the JWTs it signs with them, in the storage OpenBao mounts for it. Requests create, change,
  delete and rotate these entries; a change of an account's entry, keys, imports or revocations
  issues its JWT anew and pushes it over a NATS connection to the account server of its
  operator. Credentials for users are signed on demand and revoked when their lease ends. A
  request runs in a transaction of the storage, or in one that \<^verbatim>\<open>pkg/shimtx\<close> emulates.

  The model. A method of the backend is a function on the state (\<open>world\<close>: stored entries, pending
  transaction, caches with their locks, connections, messages sent) that returns an error or a
  value with the new state (\<open>sem\<close> in \<open>Prelude\<close>). Errors are values: Go errors, nil dereferences,
  runtime panics, a lock that is never released, a loop that does not end. What is not in the
  repository is the environment \<open>env\<close>, an argument: the failures of the storage and whether it
  has transactions, the clock, the lease limits, key generation, decoding and signing (\<^verbatim>\<open>nkeys\<close>),
  validation and encoding of claims (\<^verbatim>\<open>jwt\<close>), and the client of NATS (\<^verbatim>\<open>nats.go\<close>): whether it connects,
  subscribes and publishes, what arrives in an inbox, what the JSON of a reply decodes to. The
  only assumptions about it are named in the theorems: \<open>storage_ok\<close> (no storage call fails),
  \<open>e_native\<close> (the storage has transactions), \<open>decodes\<close> (a decoded field has its declared type and a
  name of the URL is decoded as itself), \<open>textKeys\<close> (a public key is a text without a slash). That the
  storage is \<open>tidy\<close>, which some theorems ask for, is an invariant of the plugin
  (\<open>served_view_tidy\<close>). \<open>Samples\<close> has an environment and states that satisfy them.

  The theories, in the order of their imports:
  \<^item> \<open>Prelude\<close>: the monad, the predicates \<open>preserves\<close> and \<open>ensures\<close> with their rules, shared lemmas.
  \<^item> \<open>Storage\<close>: \<^verbatim>\<open>logical.Storage\<close> as a store with Get, Put, Delete, List, ListPage, with the locales
    \<open>kv_storage\<close>, \<open>kv_listing\<close> and \<open>page_source\<close> for what a user of it relies on.
  \<^item> \<open>Shim\<close>: \<^verbatim>\<open>pkg/shimtx\<close>; the emulated transaction interprets the same locales.
  \<^item> \<open>Paths\<close>: identifiers and their paths (\<^verbatim>\<open>configPath\<close>, \<^verbatim>\<open>nkeyPath\<close>, ...), names of the framework; the
    locale \<open>keyed_store\<close>, interpreted for every kind of path.
  \<^item> \<open>Events\<close>, \<open>NatsConn\<close>: \<^verbatim>\<open>pkg/accountserver/events.go\<close>, the replies of the cluster; \<^verbatim>\<open>pkg/abstractnats\<close>,
    the connections, subscriptions and messages of the plugin around those of the client library.
  \<^item> \<open>Model\<close>, \<open>Txn\<close>, \<open>Typing\<close>, \<open>Entities\<close>: the stored structs and the state; \<^verbatim>\<open>get\<close>, \<^verbatim>\<open>storeInStorage\<close>,
    \<^verbatim>\<open>listPaged\<close> and the transaction around a handler; which entry belongs under which path; the
    readers and typed generators.
  \<^item> \<open>Nkeys\<close>, \<open>Jwts\<close>: \<^verbatim>\<open>path_keys.go\<close>, \<^verbatim>\<open>path_jwts.go\<close>.
  \<^item> \<open>AccountServers\<close>, \<open>Sync\<close>: \<^verbatim>\<open>pkg/accountserver\<close>, the server cache, the lookup cache, pushes to the
    cluster, \<^verbatim>\<open>path_account_servers.go\<close>.
  \<^item> \<open>Secrets\<close>: leases as the SDK makes them of a response and hands them back to be renewed or revoked.
  \<^item> \<open>Users\<close>, \<open>Accounts\<close>, \<open>Operators\<close>, \<open>Grants\<close>, \<open>Creds\<close>, \<open>Rotate\<close>: \<^verbatim>\<open>path_users.go\<close> and
    \<^verbatim>\<open>path_ephemeral_users.go\<close>; \<^verbatim>\<open>path_accounts.go\<close>; \<^verbatim>\<open>path_operators.go\<close>; \<^verbatim>\<open>path_revocations.go\<close>,
    \<^verbatim>\<open>path_account_imports.go\<close> and \<^verbatim>\<open>path_config.go\<close>; \<^verbatim>\<open>path_creds.go\<close> and \<^verbatim>\<open>path_ephemeral_creds.go\<close>;
    \<^verbatim>\<open>path_rotate.go\<close>.
  \<^item> \<open>Backend\<close>: initialisation, the periodic function, \<^verbatim>\<open>path_utilities.go\<close>.
  \<^item> \<open>Requests\<close>: all requests and their handlers, leases included, the events beside them (lookups,
    closed connections, clean-up, restarts), and the reachable states (\<open>step\<close>, \<open>reachable\<close>).
  \<^item> \<open>Framework\<close>, \<open>Callbacks\<close>, \<open>Routes\<close>: the field data and the routing of the SDK, how each handler
    reads its fields, and the route table of \<^verbatim>\<open>Backend()\<close>.
  \<^item> \<open>Listing\<close>, \<open>Views\<close>, \<open>JwtFacts\<close>, \<open>Deletion\<close>, \<open>Frames\<close>, \<open>Refusals\<close>, \<open>CredsFacts\<close>, \<open>RouteFacts\<close>: what
    loops, readers, issued JWTs, deletions, writes, early returns, credentials and routes do, for
    the proofs of the properties.
  \<^item> \<open>Progress\<close>, \<open>Orderly\<close>, \<open>Endings\<close>: why every loop and every request ends, and the keys stay tidy;
    \<open>served\<close> is the life of the plugin seen from its routes.
  \<^item> \<open>CredsClaims\<close>, \<open>AccountClaims\<close>, \<open>UpkeepClaims\<close>, \<open>ServerClaims\<close>, \<open>FieldClaims\<close>, \<open>RouteClaims\<close>, \<open>Endings\<close>,
    \<open>OperatorJwts\<close>, \<open>OperatorDeletion\<close>, \<open>UserWrites\<close>, \<open>Shim\<close> and this theory: the properties, C1 to the last, each with an application to a concrete state.

  Fuel. \<open>for_pages\<close> stops after as many pages as the storage and the transaction have entries, with
  the error \<open>Diverge\<close>; \<open>page_loop\<close> of the emulated ListPage has as much fuel as the storage has names.
  That is enough: \<open>Progress\<close> shows that a loop over a prefix that is no key itself ends within it,
  over both kinds of transactions, as long as its body adds no name below the prefix; \<open>Orderly\<close> that
  all methods loop so and keep the keys tidy; \<open>every_request_ends\<close> that no request that comes in by a
  path can meet \<open>Diverge\<close>. What the loops compute, outside emulated transactions, is \<open>paged_loop_is_fold\<close>,
  for bodies that leave the names still to come alone; a page of an emulated transaction is
  \<open>tx_list_page_deletions\<close> if nothing is put below the prefix.

  Integers. Times and durations are in nanoseconds, as unbounded integers; Go's 64 bits hold them
  for 292 years. The flags of mentioned limits are the 8-bit word of the source.

  Not modelled. \<^verbatim>\<open>cmd/main.go\<close> (process start; of \<^verbatim>\<open>Factory\<close> only the state it starts with, \<open>restarted\<close>),
  \<^verbatim>\<open>pkg/abstractnats/mocks.go\<close> (a double of the connection for the tests of the plugin), \<^verbatim>\<open>Close\<close>,
  \<^verbatim>\<open>Unsubscribe\<close> and \<^verbatim>\<open>Servers\<close> of a connection (they forward to the client, and nothing the model keeps
  depends on them), help texts and log messages; of the SDK, the help operation, the write-ahead
  log and the decoding of raw values. Requests run one after the other, so that the locks matter only
  where one is not released. A panic ends the step it happens in; that it also ends the process,
  when the client library called the plugin, is a clean start away (\<open>step_restart\<close>).
\<close>

section \<open>Every reachable state\<close>

text \<open>
  C1. Storage is typed. In every state that requests, leases, lookups, connection events,
  initialisation, clean-up and restarts can reach, each path of the storage holds an entry of the kind its prefix names
  (an operator under \<^verbatim>\<open>operators/\<close>, a key under \<^verbatim>\<open>account-keys/\<close>, ...), and no transaction is
  left open. So \<^verbatim>\<open>get\<close> never decodes the JSON of one struct into another.
\<close>

theorem reachable_well_typed:
  assumes "reachable w"
  shows "well_typed w \<and> w_tx w = None"
  using assms
proof induction
  case reachable_init
  show ?case by (simp add: well_typed_def empty_world_def)
next
  case (reachable_step w w')
  then show ?case by (metis typed_step)
qed

lemma reachable_well_typed_witness:
  "let w = snd (run_request sample_env (ServerRequest (ConfigWrite (Some True))) empty_world)
   in well_typed w \<and> w_disk w \<noteq> []"
proof -
  let ?w = "snd (run_request sample_env (ServerRequest (ConfigWrite (Some True))) empty_world)"
  have "reachable ?w"
    by (rule reachable_step [OF reachable_init], rule step_request, rule prod.collapse [symmetric])
  from reachable_well_typed [OF this] have "well_typed ?w" by simp
  moreover have "w_disk ?w \<noteq> []" by code_simp
  ultimately show ?thesis unfolding Let_def by simp
qed

text \<open>
  C2. Operators are isolated. A request changes no path of an operator it is not about, whatever
  it does, however it ends and in whatever state it starts: the operators are those of
  \<open>request_ops\<close>, at most one for every request but the periodic function.
\<close>

theorem request_isolated:
  assumes "\<And>op. op \<in> request_ops r \<Longrightarrow> no_slash op" and "path_op k \<notin> request_ops r"
  shows "store_get (w_disk (snd (run_request E r w))) k = store_get (w_disk w) k"
  using assms by (rule run_request_isolated)

lemma request_isolated_witness:
  "store_get (w_disk (snd (run_request sample_env (OperatorRequest (OperatorDelete (OperatorId ''other''))) sample_world)))
     ''operators/op'' = store_get sample_disk ''operators/op''"
  using request_isolated [of "OperatorRequest (OperatorDelete (OperatorId ''other''))" "''operators/op''" sample_env sample_world]
  by (simp add: operatorRequest_ops_def path_op_def path_kind_def sample_world_def)

text \<open>
  C4. All or nothing. On a storage with transactions, a request all of whose writes are in its
  transaction (\<open>transactional\<close>) and that ends in an error has changed nothing that is stored,
  wherever it failed: in a read, a write, a key, the encoding of a JWT or the commit.
\<close>

theorem failed_request_changes_nothing:
  assumes "e_native E" and "transactional r" and "run_request E r w = (Inl e, w')"
  shows "w_disk w' = w_disk w"
proof -
  obtain v where "handle E r (w\<lparr>w_tx := None\<rparr>) = (Inl e, v)" and "w' = v\<lparr>w_tx := None\<rparr>"
    using assms(3) by (auto simp: run_request_def split: prod.splits)
  moreover have "contained (handle E r)" by (rule contained_transactional [OF assms(1,2)])
  ultimately show ?thesis by (force simp: contained_def)
qed

lemma failed_request_changes_nothing_witness:
  "let E = sample_env\<lparr>e_EncodeOperator := (\<lambda>kp c. None)\<rparr>;
       r = run_request E (RotateRequest (RotateOperator (OperatorId ''op''))) sample_world
   in (\<exists>e. fst r = Inl e) \<and> w_entropy (snd r) = 6 \<and> w_disk (snd r) = sample_disk"
proof -
  let ?E = "sample_env\<lparr>e_EncodeOperator := (\<lambda>kp c. None)\<rparr>"
  let ?q = "RotateRequest (RotateOperator (OperatorId ''op''))"
  have run: "case run_request ?E ?q sample_world of (Inl e, v) \<Rightarrow> w_entropy v = 6 | _ \<Rightarrow> False"
    by code_simp
  then obtain e v where r: "run_request ?E ?q sample_world = (Inl e, v)" "w_entropy v = 6"
    by (auto split: prod.splits sum.splits)
  have "e_native ?E" by (simp add: sample_env_def)
  from failed_request_changes_nothing [OF this _ r(1)] show ?thesis
    unfolding Let_def r using r(2) by (simp add: sample_world_def)
qed

end
